(* ===== verification/Prelude.thy ===== *)
theory Prelude
  imports Main "HOL-Library.State_Monad" "HOL-Library.Code_Target_Nat"
begin

text \<open>
  Shared ground of the development: Go errors as values, the state monad in which the stateful
  code is written, a weakest-precondition calculus for it, and the generic list facts the
  components share.

  Errors.  A Go error value is a tree: a sentinel (\<open>errors.New\<close> at package level), a text made on
  the spot, a sentinel wrapped by \<open>fmt.Errorf("... %w", e)\<close>, the list that \<open>errors.Join\<close> makes, or
  one of the program's own error structs.  \<open>nil\<close> is \<^term>\<open>None\<close>.  Values formatted into a message
  text are not kept: no code reads them back.
\<close>

named_theorems wp_simps "weakest-precondition equations"
named_theorems err_simps "equations for errors.Is and errors.Join"

section \<open>Go errors\<close>

datatype sentinel =
    ErrNotFound | ErrCapacity | ErrConflict | ErrOutcomeAmbiguous | ErrInvalidManifest
  | ErrCleanupPending | ErrReadOnly | ErrStaleInspection | ErrInvalidReceipt | ErrExpiredReceipt
  | ErrImportBusy | ErrPolicyRejected | ErrProtocolAmbiguous | ErrInvalidMetadata
  | ErrTransitionInProgress | ErrManagedStateConflict | ErrActiveProfile | ErrTransitionFailed
  | ErrUnavailable | ErrIdentityConflict | ErrObservationFailed | ErrOutputLimit
  | ErrCleanupUnproved | ErrLocked | ErrNotExist
  | ErrUnsupportedMediaType | ErrRequestTooLarge | ErrInvalidMultipart | ErrImportStaging
  | ErrMalformedMetadataPatch | HttpMaxBytesError | HttpErrServerClosed
  | ENOENT | EEXIST | EMFILE | EWOULDBLOCK | EAGAIN | ESRCH | EPERM | FsErrNotExist

datatype goerr =
    Sentinel sentinel
  | ErrText string
  | Wrapf string goerr
  | Joined "goerr list"
  | MetadataErr string string
  | ImportMetadataErr nat goerr
  | PolicyErr nat string string

type_synonym err = "goerr option"

text \<open>\<open>errors.Is\<close>: \<^const>\<open>MetadataErr\<close> is a \<open>*MetadataValidationError\<close>, whose \<open>Unwrap\<close> gives
  \<^const>\<open>ErrInvalidMetadata\<close>; \<open>unix.ENOENT\<close> also answers to \<open>fs.ErrNotExist\<close>.\<close>

fun errorsIs :: "goerr \<Rightarrow> sentinel \<Rightarrow> bool" where
  "errorsIs (Sentinel a) s = (a = s \<or> a = ENOENT \<and> s = FsErrNotExist)"
| "errorsIs (ErrText _) s = False"
| "errorsIs (Wrapf _ e) s = errorsIs e s"
| "errorsIs (Joined es) s = list_ex (\<lambda>e. errorsIs e s) es"
| "errorsIs (MetadataErr _ _) s = (s = ErrInvalidMetadata)"
| "errorsIs (ImportMetadataErr _ e) s = errorsIs e s"
| "errorsIs (PolicyErr _ _ _) s = False"

definition errIs :: "err \<Rightarrow> sentinel \<Rightarrow> bool" where
  "errIs e s = (case e of None \<Rightarrow> False | Some x \<Rightarrow> errorsIs x s)"

definition errorsJoin :: "err list \<Rightarrow> err" where
  "errorsJoin es =
     (let present = List.map_filter (\<lambda>e. e) es
      in if present = [] then None else Some (Joined present))"

lemma errIs_None [simp]: "\<not> errIs None s"
  by (simp add: errIs_def)

lemma errIs_Some [simp]: "errIs (Some e) s = errorsIs e s"
  by (simp add: errIs_def)

lemma map_filter_id_Nil [simp]: "List.map_filter (\<lambda>e. e) es = [] \<longleftrightarrow> (\<forall>e\<in>set es. e = None)"
  by (induction es) (auto simp: map_filter_simps split: option.splits)

lemma errorsJoin_None [err_simps]: "errorsJoin es = None \<longleftrightarrow> (\<forall>e\<in>set es. e = None)"
  by (simp add: errorsJoin_def Let_def)

lemma list_ex_map_filter_errIs:
  "list_ex (\<lambda>e. errorsIs e s) (List.map_filter (\<lambda>e. e) es) \<longleftrightarrow> (\<exists>e\<in>set es. errIs e s)"
  by (induction es) (auto simp: map_filter_simps split: option.splits)

lemma errIs_errorsJoin [err_simps]: "errIs (errorsJoin es) s \<longleftrightarrow> (\<exists>e\<in>set es. errIs e s)"
proof -
  have "errIs (errorsJoin es) s \<longleftrightarrow> list_ex (\<lambda>e. errorsIs e s) (List.map_filter (\<lambda>e. e) es)"
    by (simp add: errorsJoin_def Let_def del: map_filter_id_Nil)
  then show ?thesis by (simp only: list_ex_map_filter_errIs)
qed

section \<open>The state monad and its weakest preconditions\<close>

abbreviation return :: "'a \<Rightarrow> ('s, 'a) state" where
  "return \<equiv> State_Monad.return"

definition gets :: "('s \<Rightarrow> 'a) \<Rightarrow> ('s, 'a) state" where
  "gets f = State (\<lambda>s. (f s, s))"

definition modify :: "('s \<Rightarrow> 's) \<Rightarrow> ('s, unit) state" where
  "modify f = State (\<lambda>s. ((), f s))"

lemma run_state_gets [simp]: "run_state (gets f) s = (f s, s)"
  by (simp add: gets_def)

lemma run_state_modify [simp]: "run_state (modify f) s = ((), f s)"
  by (simp add: modify_def)

definition wp :: "('s, 'a) state \<Rightarrow> ('a \<Rightarrow> 's \<Rightarrow> bool) \<Rightarrow> 's \<Rightarrow> bool" where
  "wp m Q s = (case run_state m s of (a, s') \<Rightarrow> Q a s')"

text \<open>The equations leave the state argument out, so that they also rewrite a postcondition that the
  simplifier has eta-contracted.\<close>

lemma wp_return [wp_simps]: "wp (return a) Q = Q a"
  by (rule ext) (simp add: wp_def)

lemma wp_bind [wp_simps]: "wp (State_Monad.bind m f) Q = wp m (\<lambda>a. wp (f a) Q)"
  by (rule ext) (simp add: wp_def split: prod.splits)

lemma wp_gets [wp_simps]: "wp (gets f) Q = (\<lambda>s. Q (f s) s)"
  by (rule ext) (simp add: wp_def)

lemma wp_modify [wp_simps]: "wp (modify f) Q = (\<lambda>s. Q () (f s))"
  by (rule ext) (simp add: wp_def)

lemma wp_if [wp_simps]: "wp (if b then m else n) Q = (if b then wp m Q else wp n Q)"
  by simp

lemma wp_case_option [wp_simps]:
  "wp (case x of None \<Rightarrow> m | Some y \<Rightarrow> f y) Q = (case x of None \<Rightarrow> wp m Q | Some y \<Rightarrow> wp (f y) Q)"
  by (cases x) auto

lemma wp_case_sum [wp_simps]:
  "wp (case x of Inl y \<Rightarrow> f y | Inr z \<Rightarrow> g z) Q = (case x of Inl y \<Rightarrow> wp (f y) Q | Inr z \<Rightarrow> wp (g z) Q)"
  by (cases x) auto

lemma wp_case_prod [wp_simps]:
  "wp (case x of (y, z) \<Rightarrow> f y z) Q = (case x of (y, z) \<Rightarrow> wp (f y z) Q)"
  by (cases x) auto

lemma wp_case_list [wp_simps]:
  "wp (case x of [] \<Rightarrow> m | y # ys \<Rightarrow> f y ys) Q = (case x of [] \<Rightarrow> wp m Q | y # ys \<Rightarrow> wp (f y ys) Q)"
  by (cases x) auto

lemma wp_let [wp_simps]: "wp (let x = e in f x) Q = wp (f e) Q"
  by simp

lemma wp_mono: "wp m Q s \<Longrightarrow> (\<And>a s'. Q a s' \<Longrightarrow> R a s') \<Longrightarrow> wp m R s"
  by (auto simp: wp_def split: prod.splits)

lemma wp_conj: "wp m Q s \<Longrightarrow> wp m R s \<Longrightarrow> wp m (\<lambda>a s'. Q a s' \<and> R a s') s"
  by (auto simp: wp_def split: prod.splits)

lemma wp_runI: "(\<And>a s'. run_state m s = (a, s') \<Longrightarrow> Q a s') \<Longrightarrow> wp m Q s"
  by (auto simp: wp_def split: prod.splits)

lemma wp_runD: "wp m Q s \<Longrightarrow> run_state m s = (a, s') \<Longrightarrow> Q a s'"
  by (auto simp: wp_def)

text \<open>A postcondition that does not look at the outcome.\<close>

lemma wp_triv [simp]: "wp m (\<lambda>_ _. P) = (\<lambda>_. P)"
  by (rule ext) (simp add: wp_def split: prod.splits)

section \<open>Lists\<close>

lemma list_ex_set: "list_ex P xs \<longleftrightarrow> (\<exists>x\<in>set xs. P x)"
  by (simp add: list_ex_iff)

lemma find_Some_set: "List.find P xs = Some x \<Longrightarrow> x \<in> set xs \<and> P x"
  by (induction xs) (auto split: if_splits)

lemma find_None_set: "List.find P xs = None \<longleftrightarrow> (\<forall>x\<in>set xs. \<not> P x)"
  by (induction xs) auto

lemma find_distinct_key:
  assumes "distinct (map f xs)" and "x \<in> set xs"
  shows "List.find (\<lambda>y. f y = f x) xs = Some x"
  using assms by (induction xs) (auto simp: image_iff)

lemma distinct_map_filter: "distinct (map f xs) \<Longrightarrow> distinct (map f (filter P xs))"
  by (induction xs) auto

end
