(* ===== verification/Effects.thy ===== *)
theory Effects
  imports Prelude
begin

text \<open>
  Go's control flow over effects.  A call that returns a value and an error is a computation of type
  \<open>('s, goerr + 'a) state\<close>, one that returns an error alone \<open>('s, err) state\<close>.  \<open>tryE\<close>, \<open>checkE\<close> and
  \<open>runSteps\<close> are the early returns \<open>if err != nil { return ..., err }\<close>, \<open>zoom\<close> runs a computation on
  a part of the state, and every construct comes with its weakest-precondition equation.
\<close>

text \<open>\<open>x, err := m; if err != nil { return err }; f(x)\<close>\<close>

definition tryE :: "('s, goerr + 'a) state \<Rightarrow> ('a \<Rightarrow> ('s, goerr + 'b) state) \<Rightarrow> ('s, goerr + 'b) state" where
  "tryE m f = State_Monad.bind m (\<lambda>r. case r of Inl e \<Rightarrow> return (Inl e) | Inr x \<Rightarrow> f x)"

text \<open>\<open>if err := m; err != nil { return err }; n\<close>\<close>

definition checkE :: "('s, err) state \<Rightarrow> ('s, goerr + 'b) state \<Rightarrow> ('s, goerr + 'b) state" where
  "checkE m n = State_Monad.bind m (\<lambda>r. case r of Some e \<Rightarrow> return (Inl e) | None \<Rightarrow> n)"

text \<open>The same two where the enclosing function returns an error only.\<close>

definition openE :: "('s, goerr + 'a) state \<Rightarrow> ('a \<Rightarrow> ('s, err) state) \<Rightarrow> ('s, err) state" where
  "openE m f = State_Monad.bind m (\<lambda>r. case r of Inl e \<Rightarrow> return (Some e) | Inr x \<Rightarrow> f x)"

definition thenE :: "('s, err) state \<Rightarrow> ('s, err) state \<Rightarrow> ('s, err) state" where
  "thenE m n = State_Monad.bind m (\<lambda>r. case r of Some e \<Rightarrow> return (Some e) | None \<Rightarrow> n)"

fun runSteps :: "('s, err) state list \<Rightarrow> ('s, err) state" where
  "runSteps [] = return None"
| "runSteps (m # ms) = thenE m (runSteps ms)"

text \<open>\<open>fmt.Errorf("... %w", err)\<close> around the error of a call, and \<open>defer d\<close> after a body.\<close>

definition wrapErr :: "string \<Rightarrow> ('s, err) state \<Rightarrow> ('s, err) state" where
  "wrapErr msg m = State_Monad.bind m (\<lambda>r. return (map_option (Wrapf msg) r))"

definition wrapE :: "string \<Rightarrow> ('s, goerr + 'a) state \<Rightarrow> ('s, goerr + 'a) state" where
  "wrapE msg m = State_Monad.bind m (\<lambda>r. return (map_sum (Wrapf msg) id r))"

definition deferE :: "('s, 'b) state \<Rightarrow> ('s, 'a) state \<Rightarrow> ('s, 'a) state" where
  "deferE d body = State_Monad.bind body (\<lambda>r. State_Monad.bind d (\<lambda>_. return r))"

definition zoom :: "('s \<Rightarrow> 't) \<Rightarrow> ('t \<Rightarrow> 's \<Rightarrow> 's) \<Rightarrow> ('t, 'a) state \<Rightarrow> ('s, 'a) state" where
  "zoom get put m = State (\<lambda>s. case run_state m (get s) of (a, t) \<Rightarrow> (a, put t s))"

definition resultErr :: "goerr + 'a \<Rightarrow> err" where
  "resultErr r = (case r of Inl e \<Rightarrow> Some e | Inr _ \<Rightarrow> None)"

lemma resultErr_simps [simp]: "resultErr (Inl e) = Some e" "resultErr (Inr x) = None"
  by (simp_all add: resultErr_def)

text \<open>The simplifier leaves the branches of a case distinction alone unless it is told otherwise.\<close>

lemmas wp_congs = option.case_cong sum.case_cong prod.case_cong if_cong

lemma case_same [simp]:
  "(case x of None \<Rightarrow> c | Some _ \<Rightarrow> c) = c" "(case y of Inl _ \<Rightarrow> c | Inr _ \<Rightarrow> c) = c"
  by (auto split: option.split sum.split)

lemma wp_tryE [wp_simps]:
  "wp (tryE m f) Q = wp m (\<lambda>r. case r of Inl e \<Rightarrow> Q (Inl e) | Inr x \<Rightarrow> wp (f x) Q)"
  by (simp add: tryE_def wp_simps cong: wp_congs)

lemma wp_checkE [wp_simps]:
  "wp (checkE m n) Q = wp m (\<lambda>r. case r of Some e \<Rightarrow> Q (Inl e) | None \<Rightarrow> wp n Q)"
  by (simp add: checkE_def wp_simps cong: wp_congs)

lemma wp_openE [wp_simps]:
  "wp (openE m f) Q = wp m (\<lambda>r. case r of Inl e \<Rightarrow> Q (Some e) | Inr x \<Rightarrow> wp (f x) Q)"
  by (simp add: openE_def wp_simps cong: wp_congs)

lemma wp_thenE [wp_simps]:
  "wp (thenE m n) Q = wp m (\<lambda>r. case r of Some e \<Rightarrow> Q (Some e) | None \<Rightarrow> wp n Q)"
  by (simp add: thenE_def wp_simps cong: wp_congs)

lemma wp_wrapErr [wp_simps]: "wp (wrapErr msg m) Q = wp m (\<lambda>r. Q (map_option (Wrapf msg) r))"
  by (simp add: wrapErr_def wp_simps)

lemma wp_wrapE [wp_simps]: "wp (wrapE msg m) Q = wp m (\<lambda>r. Q (map_sum (Wrapf msg) id r))"
  by (simp add: wrapE_def wp_simps)

lemma wp_deferE [wp_simps]: "wp (deferE d body) Q = wp body (\<lambda>r. wp d (\<lambda>_. Q r))"
  by (simp add: deferE_def wp_simps)

lemma wp_zoom [wp_simps]: "wp (zoom get put m) Q = (\<lambda>s. wp m (\<lambda>a t. Q a (put t s)) (get s))"
  by (rule ext) (simp add: zoom_def wp_def split: prod.splits)

section \<open>Computations that keep a property of the state\<close>

definition keeps :: "('s \<Rightarrow> bool) \<Rightarrow> ('s, 'a) state \<Rightarrow> bool" where
  "keeps I m \<longleftrightarrow> (\<forall>s. I s \<longrightarrow> wp m (\<lambda>_. I) s)"

named_theorems keeps_intros "introduction rules for keeps"

lemma keepsI: "(\<And>s. I s \<Longrightarrow> wp m (\<lambda>_. I) s) \<Longrightarrow> keeps I m"
  by (simp add: keeps_def)

lemma keepsD: "keeps I m \<Longrightarrow> I s \<Longrightarrow> wp m (\<lambda>_. I) s"
  by (simp add: keeps_def)

lemma keeps_wp: "keeps I m \<Longrightarrow> I s \<Longrightarrow> (\<And>a s'. I s' \<Longrightarrow> Q a s') \<Longrightarrow> wp m Q s"
  by (blast intro: wp_mono keepsD)

lemma keeps_return [keeps_intros]: "keeps I (return a)"
  by (simp add: keeps_def wp_simps)

lemma keeps_gets [keeps_intros]: "keeps I (gets f)"
  by (simp add: keeps_def wp_simps)

lemma keeps_modify: "(\<And>s. I s \<Longrightarrow> I (f s)) \<Longrightarrow> keeps I (modify f)"
  by (simp add: keeps_def wp_simps)

lemma keeps_bind [keeps_intros]: "keeps I m \<Longrightarrow> (\<And>a. keeps I (f a)) \<Longrightarrow> keeps I (State_Monad.bind m f)"
  by (auto simp: keeps_def wp_simps intro: wp_mono)

lemma keeps_if [keeps_intros]: "(b \<Longrightarrow> keeps I m) \<Longrightarrow> (\<not> b \<Longrightarrow> keeps I n) \<Longrightarrow> keeps I (if b then m else n)"
  by simp

lemma keeps_option [keeps_intros]:
  "(x = None \<Longrightarrow> keeps I m) \<Longrightarrow> (\<And>y. x = Some y \<Longrightarrow> keeps I (f y)) \<Longrightarrow>
     keeps I (case x of None \<Rightarrow> m | Some y \<Rightarrow> f y)"
  by (cases x) auto

lemma keeps_sum [keeps_intros]:
  "(\<And>y. x = Inl y \<Longrightarrow> keeps I (f y)) \<Longrightarrow> (\<And>z. x = Inr z \<Longrightarrow> keeps I (g z)) \<Longrightarrow>
     keeps I (case x of Inl y \<Rightarrow> f y | Inr z \<Rightarrow> g z)"
  by (cases x) auto

lemma keeps_prod [keeps_intros]:
  "(\<And>y z. x = (y, z) \<Longrightarrow> keeps I (f y z)) \<Longrightarrow> keeps I (case x of (y, z) \<Rightarrow> f y z)"
  by (cases x) auto

lemma keeps_let [keeps_intros]: "keeps I (f e) \<Longrightarrow> keeps I (let x = e in f x)"
  by simp

lemma keeps_tryE [keeps_intros]: "keeps I m \<Longrightarrow> (\<And>a. keeps I (f a)) \<Longrightarrow> keeps I (tryE m f)"
  unfolding tryE_def by (intro keeps_intros)

lemma keeps_checkE [keeps_intros]: "keeps I m \<Longrightarrow> keeps I n \<Longrightarrow> keeps I (checkE m n)"
  unfolding checkE_def by (intro keeps_intros)

lemma keeps_openE [keeps_intros]: "keeps I m \<Longrightarrow> (\<And>a. keeps I (f a)) \<Longrightarrow> keeps I (openE m f)"
  unfolding openE_def by (intro keeps_intros)

lemma keeps_thenE [keeps_intros]: "keeps I m \<Longrightarrow> keeps I n \<Longrightarrow> keeps I (thenE m n)"
  unfolding thenE_def by (intro keeps_intros)

lemma keeps_runSteps_Nil [keeps_intros]: "keeps I (runSteps [])"
  by (simp add: keeps_return)

lemma keeps_runSteps_Cons [keeps_intros]:
  "keeps I m \<Longrightarrow> keeps I (runSteps ms) \<Longrightarrow> keeps I (runSteps (m # ms))"
  by (simp add: keeps_thenE)

lemma wp_runSteps_append:
  "wp (runSteps (ms @ ns)) Q =
     wp (runSteps ms) (\<lambda>r. case r of Some e \<Rightarrow> Q (Some e) | None \<Rightarrow> wp (runSteps ns) Q)"
  by (induction ms) (simp_all add: wp_simps cong: wp_congs)

lemma keeps_runSteps_append [keeps_intros]:
  "keeps I (runSteps ms) \<Longrightarrow> keeps I (runSteps ns) \<Longrightarrow> keeps I (runSteps (ms @ ns))"
  by (auto simp: keeps_def wp_runSteps_append elim!: wp_mono split: option.splits)

lemma keeps_runSteps_map [keeps_intros]:
  "(\<And>x. x \<in> set xs \<Longrightarrow> keeps I (f x)) \<Longrightarrow> keeps I (runSteps (map f xs))"
  by (induction xs) (auto intro: keeps_runSteps_Nil keeps_thenE simp: keeps_return)

lemma keeps_wrapErr [keeps_intros]: "keeps I m \<Longrightarrow> keeps I (wrapErr msg m)"
  unfolding wrapErr_def by (intro keeps_intros)

lemma keeps_wrapE [keeps_intros]: "keeps I m \<Longrightarrow> keeps I (wrapE msg m)"
  unfolding wrapE_def by (intro keeps_intros)

lemma keeps_deferE [keeps_intros]: "keeps I d \<Longrightarrow> keeps I m \<Longrightarrow> keeps I (deferE d m)"
  unfolding deferE_def by (intro keeps_intros)

lemma keeps_zoom: "(\<And>s t. I s \<Longrightarrow> I (put t s)) \<Longrightarrow> keeps I (zoom get put m)"
  by (auto simp: keeps_def wp_simps intro!: wp_runI)

end
