(* ===== verification/GoText.thy ===== *)
theory GoText
  imports Prelude
begin

text \<open>
  The part of Go's standard library that the program's text handling rests on.  A Go string is a
  sequence of bytes, here a \<^typ>\<open>string\<close> whose characters are the bytes; a rune is a \<^typ>\<open>nat\<close>.
  Ranging over a string decodes UTF-8 exactly as \<open>utf8.DecodeRune\<close> does, the replacement rune with
  width 1 standing for an invalid byte.  The Unicode case tables above ASCII are data of the library
  and stay a parameter (\<open>utab\<close>); everything else is written out.
\<close>

section \<open>UTF-8\<close>

abbreviation byteOf :: "char \<Rightarrow> nat" where
  "byteOf c \<equiv> of_char c"

definition runeError :: nat where
  "runeError = 65533"

definition contByte :: "nat \<Rightarrow> bool" where
  "contByte b \<longleftrightarrow> 128 \<le> b \<and> b \<le> 191"

definition decodeRune :: "string \<Rightarrow> nat \<times> nat" where
  "decodeRune s = (case map byteOf (take 4 s) of
     [] \<Rightarrow> (runeError, 0)
   | b0 # bs \<Rightarrow>
       if b0 < 128 then (b0, 1)
       else if 194 \<le> b0 \<and> b0 \<le> 223 then
         (case bs of
            b1 # _ \<Rightarrow> if contByte b1 then ((b0 - 192) * 64 + (b1 - 128), 2) else (runeError, 1)
          | _ \<Rightarrow> (runeError, 1))
       else if 224 \<le> b0 \<and> b0 \<le> 239 then
         (case bs of
            b1 # b2 # _ \<Rightarrow>
              if (if b0 = 224 then 160 else 128) \<le> b1 \<and> b1 \<le> (if b0 = 237 then 159 else 191)
                 \<and> contByte b2
              then ((b0 - 224) * 4096 + (b1 - 128) * 64 + (b2 - 128), 3) else (runeError, 1)
          | _ \<Rightarrow> (runeError, 1))
       else if 240 \<le> b0 \<and> b0 \<le> 244 then
         (case bs of
            b1 # b2 # b3 # _ \<Rightarrow>
              if (if b0 = 240 then 144 else 128) \<le> b1 \<and> b1 \<le> (if b0 = 244 then 143 else 191)
                 \<and> contByte b2 \<and> contByte b3
              then ((b0 - 240) * 262144 + (b1 - 128) * 4096 + (b2 - 128) * 64 + (b3 - 128), 4)
              else (runeError, 1)
          | _ \<Rightarrow> (runeError, 1))
       else (runeError, 1))"

lemma decodeRune_size: "s \<noteq> [] \<Longrightarrow> 1 \<le> snd (decodeRune s) \<and> snd (decodeRune s) \<le> length s"
  by (cases s; cases "tl s"; cases "tl (tl s)"; cases "tl (tl (tl s))")
     (auto simp: decodeRune_def)

lemma decodeRune_pos [simp]: "s \<noteq> [] \<Longrightarrow> 0 < snd (decodeRune s)"
  using decodeRune_size [of s] by simp

lemma decodeRune_ascii [simp]: "byteOf c < 128 \<Longrightarrow> decodeRune (c # s) = (byteOf c, 1)"
  by (simp add: decodeRune_def)

text \<open>For evaluation: the ASCII case is looked at first, and the index is left out where it is not
  needed.\<close>

definition decodeRuneMulti :: "string \<Rightarrow> nat \<times> nat" where
  "decodeRuneMulti = decodeRune"

lemmas decodeRuneMulti_code [code] = decodeRune_def [folded decodeRuneMulti_def]

lemma decodeRune_code [code]:
  "decodeRune [] = (runeError, 0)"
  "decodeRune (c # cs) = (let b = byteOf c in if b < 128 then (b, 1) else decodeRuneMulti (c # cs))"
  by (simp_all add: decodeRuneMulti_def decodeRune_def Let_def)

lemma decodeRune_width: "(r, n) = decodeRune (c # cs) \<Longrightarrow> 0 < n"
  using decodeRune_pos [of "c # cs"] by (metis list.distinct(1) snd_conv)

text \<open>\<open>for index, char := range s\<close>: the index of each rune, the rune, and its width.\<close>

function runesFrom :: "nat \<Rightarrow> string \<Rightarrow> (nat \<times> nat \<times> nat) list" where
  "runesFrom i [] = []"
| "runesFrom i (c # cs) =
     (case decodeRune (c # cs) of (r, n) \<Rightarrow> (i, r, n) # runesFrom (i + n) (drop n (c # cs)))"
  by pat_completeness auto
termination
  by (relation "measure (\<lambda>(i, s). length s)") (auto dest: decodeRune_width)

definition runes :: "string \<Rightarrow> nat list" where
  "runes s = map (\<lambda>(i, r, n). r) (runesFrom 0 s)"

definition validUTF8 :: "string \<Rightarrow> bool" where
  "validUTF8 s = list_all (\<lambda>(i, r, n). \<not> (r = runeError \<and> n = 1)) (runesFrom 0 s)"

lemma runesFrom_index: "map snd (runesFrom i s) = map snd (runesFrom j s)"
proof (induction i s arbitrary: j rule: runesFrom.induct)
  case (2 i c cs)
  obtain r n where d: "decodeRune (c # cs) = (r, n)" by force
  have "map snd (runesFrom (i + n) (drop n (c # cs))) = map snd (runesFrom (j + n) (drop n (c # cs)))"
    by (rule "2.IH") (simp_all add: d)
  then show ?case by (simp only: runesFrom.simps d prod.case list.map snd_conv)
qed simp

lemma runes_index: "map (\<lambda>(i, r, n). r) (runesFrom k s) = runes s"
  using arg_cong [OF runesFrom_index [of k s 0], of "map fst"]
  by (simp add: runes_def comp_def split_def)

lemma validUTF8_index:
  "list_all (\<lambda>(i, r, n). \<not> (r = runeError \<and> n = 1)) (runesFrom k s) = validUTF8 s"
  using arg_cong [OF runesFrom_index [of k s 0], of "list_all (\<lambda>(r, n). \<not> (r = runeError \<and> n = 1))"]
  by (simp add: validUTF8_def list.pred_map comp_def split_def)

lemma runes_code [code]:
  "runes [] = []"
  "runes (c # cs) =
     (let b = byteOf c
      in if b < 128 then b # runes cs
         else case decodeRuneMulti (c # cs) of (r, n) \<Rightarrow> r # runes (drop n (c # cs)))"
proof -
  obtain r n where d: "decodeRune (c # cs) = (r, n)" by force
  have "runes (c # cs) = r # runes (drop n (c # cs))"
    by (simp only: runes_def [of "c # cs"] runesFrom.simps d prod.case list.map runes_index)
  with d show "runes (c # cs) =
     (let b = byteOf c
      in if b < 128 then b # runes cs
         else case decodeRuneMulti (c # cs) of (r, n) \<Rightarrow> r # runes (drop n (c # cs)))"
    by (auto simp: decodeRuneMulti_def Let_def)
qed (simp add: runes_def)

lemma validUTF8_code [code]:
  "validUTF8 [] = True"
  "validUTF8 (c # cs) =
     (let b = byteOf c
      in if b < 128 then validUTF8 cs
         else case decodeRuneMulti (c # cs) of (r, n) \<Rightarrow>
           if r = runeError \<and> n = 1 then False else validUTF8 (drop n (c # cs)))"
proof -
  obtain r n where d: "decodeRune (c # cs) = (r, n)" by force
  have "validUTF8 (c # cs) = (\<not> (r = runeError \<and> n = 1) \<and> validUTF8 (drop n (c # cs)))"
    by (simp only: validUTF8_def [of "c # cs"] runesFrom.simps d prod.case list.pred_inject validUTF8_index)
  with d show "validUTF8 (c # cs) =
     (let b = byteOf c
      in if b < 128 then validUTF8 cs
         else case decodeRuneMulti (c # cs) of (r, n) \<Rightarrow>
           if r = runeError \<and> n = 1 then False else validUTF8 (drop n (c # cs)))"
    by (auto simp: decodeRuneMulti_def runeError_def Let_def)
qed (simp add: validUTF8_def)

definition runeCount :: "string \<Rightarrow> nat" where
  "runeCount s = length (runesFrom 0 s)"

definition encodeRune :: "nat \<Rightarrow> string" where
  "encodeRune r =
     (if r < 128 then [char_of r]
      else if r < 2048 then [char_of (192 + r div 64), char_of (128 + r mod 64)]
      else if 1114111 < r \<or> (55296 \<le> r \<and> r \<le> 57343)
      then [char_of (239::nat), char_of (191::nat), char_of (189::nat)]
      else if r < 65536 then
        [char_of (224 + r div 4096), char_of (128 + r div 64 mod 64), char_of (128 + r mod 64)]
      else [char_of (240 + r div 262144), char_of (128 + r div 4096 mod 64),
            char_of (128 + r div 64 mod 64), char_of (128 + r mod 64)])"

text \<open>\<open>utf8.DecodeLastRuneInString\<close>: walk back at most four bytes to a byte that can start a rune.\<close>

definition runeStart :: "char \<Rightarrow> bool" where
  "runeStart c \<longleftrightarrow> \<not> contByte (byteOf c)"

fun lastRuneStart :: "nat \<Rightarrow> string \<Rightarrow> nat \<Rightarrow> nat" where
  "lastRuneStart 0 s i = i"
| "lastRuneStart (Suc k) s i =
     (if i = 0 then 0 else if runeStart (s ! (i - 1)) then i - 1 else lastRuneStart k s (i - 1))"

definition decodeLastRune :: "string \<Rightarrow> nat \<times> nat" where
  "decodeLastRune s =
     (if s = [] then (runeError, 0)
      else if byteOf (last s) < 128 then (byteOf (last s), 1)
      else let start = lastRuneStart 3 s (length s - 1);
               (r, n) = decodeRune (drop start s)
           in if start + n = length s then (r, n) else (runeError, 1))"

lemma runesFrom_Nil_iff [simp]: "runesFrom i s = [] \<longleftrightarrow> s = []"
  by (cases s) (auto split: prod.splits)

lemma runeCount_Nil_iff [simp]: "runeCount s = 0 \<longleftrightarrow> s = []"
  by (simp add: runeCount_def)

lemma runesFrom_length: "length (runesFrom i s) \<le> length s"
proof (induction i s rule: runesFrom.induct)
  case (1 i)
  then show ?case by simp
next
  case (2 i c cs)
  obtain r n where d: "decodeRune (c # cs) = (r, n)" by force
  then have "1 \<le> n" and "n \<le> length (c # cs)"
    using decodeRune_size [of "c # cs"] by auto
  moreover have "length (runesFrom (i + n) (drop n (c # cs))) \<le> length (drop n (c # cs))"
    using "2.IH" [OF d [symmetric]] by simp
  ultimately show ?case using d by simp
qed

section \<open>Characters\<close>

definition isControl :: "nat \<Rightarrow> bool" where
  "isControl r \<longleftrightarrow> r < 32 \<or> (127 \<le> r \<and> r < 160)"

definition isSpace :: "nat \<Rightarrow> bool" where
  "isSpace r \<longleftrightarrow> r \<in> {9, 10, 11, 12, 13, 32, 133, 160, 5760, 8232, 8233, 8239, 8287, 12288}
     \<or> (8192 \<le> r \<and> r \<le> 8202)"

text \<open>The Unicode case tables: lower case, upper case and simple folding above ASCII.\<close>

record utab =
  uLower :: "nat \<Rightarrow> nat"
  uUpper :: "nat \<Rightarrow> nat"
  uFold :: "nat \<Rightarrow> nat"

definition lowerRune :: "utab \<Rightarrow> nat \<Rightarrow> nat" where
  "lowerRune U r =
     (if r < 128 then (if 65 \<le> r \<and> r \<le> 90 then r + 32 else r) else uLower U r)"

definition upperRune :: "utab \<Rightarrow> nat \<Rightarrow> nat" where
  "upperRune U r =
     (if r < 128 then (if 97 \<le> r \<and> r \<le> 122 then r - 32 else r) else uUpper U r)"

definition foldRune :: "utab \<Rightarrow> nat \<Rightarrow> nat" where
  "foldRune U r =
     (if r < 128 then (if 65 \<le> r \<and> r \<le> 90 then r + 32 else r) else uFold U r)"

definition toLower :: "utab \<Rightarrow> string \<Rightarrow> string" where
  "toLower U s = concat (map (\<lambda>r. encodeRune (lowerRune U r)) (runes s))"

definition equalFold :: "utab \<Rightarrow> string \<Rightarrow> string \<Rightarrow> bool" where
  "equalFold U a b \<longleftrightarrow> map (foldRune U) (runes a) = map (foldRune U) (runes b)"

section \<open>Package strings\<close>

function trimLeftFunc :: "(nat \<Rightarrow> bool) \<Rightarrow> string \<Rightarrow> string" where
  "trimLeftFunc f [] = []"
| "trimLeftFunc f (c # cs) =
     (case decodeRune (c # cs) of (r, n) \<Rightarrow>
        if f r then trimLeftFunc f (drop n (c # cs)) else c # cs)"
  by pat_completeness auto
termination
  by (relation "measure (\<lambda>(f, s). length s)") (auto dest: decodeRune_width)

fun trimRightFuel :: "nat \<Rightarrow> (nat \<Rightarrow> bool) \<Rightarrow> string \<Rightarrow> string" where
  "trimRightFuel 0 f s = s"
| "trimRightFuel (Suc k) f s =
     (if s = [] then []
      else case decodeLastRune s of (r, n) \<Rightarrow>
        if f r then trimRightFuel k f (take (length s - n) s) else s)"

text \<open>Every round drops at least one byte, so as many rounds as there are bytes are enough.\<close>

definition trimRightFunc :: "(nat \<Rightarrow> bool) \<Rightarrow> string \<Rightarrow> string" where
  "trimRightFunc f s = trimRightFuel (length s) f s"

definition trimSpace :: "string \<Rightarrow> string" where
  "trimSpace s = trimRightFunc isSpace (trimLeftFunc isSpace s)"

text \<open>\<open>strings.TrimLeft\<close> and \<open>TrimRight\<close> with a cutset of ASCII characters work on bytes.\<close>

definition trimLeftSet :: "string \<Rightarrow> string \<Rightarrow> string" where
  "trimLeftSet cutset s = dropWhile (\<lambda>c. c \<in> set cutset) s"

definition trimRightSet :: "string \<Rightarrow> string \<Rightarrow> string" where
  "trimRightSet cutset s = rev (dropWhile (\<lambda>c. c \<in> set cutset) (rev s))"

fun hasPrefix :: "string \<Rightarrow> string \<Rightarrow> bool" where
  "hasPrefix s [] = True"
| "hasPrefix [] (p # ps) = False"
| "hasPrefix (c # cs) (p # ps) = (c = p \<and> hasPrefix cs ps)"

definition hasSuffix :: "string \<Rightarrow> string \<Rightarrow> bool" where
  "hasSuffix s p = hasPrefix (rev s) (rev p)"

definition trimPrefix :: "string \<Rightarrow> string \<Rightarrow> string" where
  "trimPrefix s p = (if hasPrefix s p then drop (length p) s else s)"

definition trimSuffix :: "string \<Rightarrow> string \<Rightarrow> string" where
  "trimSuffix s p = (if hasSuffix s p then take (length s - length p) s else s)"

fun contains :: "string \<Rightarrow> string \<Rightarrow> bool" where
  "contains [] p = (p = [])"
| "contains (c # cs) p = (hasPrefix (c # cs) p \<or> contains cs p)"

text \<open>\<open>strings.Split\<close> on a one-byte separator, and \<open>strings.Cut\<close> on one.\<close>

fun splitOn :: "char \<Rightarrow> string \<Rightarrow> string list" where
  "splitOn x [] = [[]]"
| "splitOn x (c # cs) =
     (if c = x then [] # splitOn x cs
      else case splitOn x cs of [] \<Rightarrow> [[c]] | w # ws \<Rightarrow> (c # w) # ws)"

definition cutAt :: "char \<Rightarrow> string \<Rightarrow> string \<times> string \<times> bool" where
  "cutAt x s =
     (if x \<in> set s
      then (takeWhile (\<lambda>c. c \<noteq> x) s, tl (dropWhile (\<lambda>c. c \<noteq> x) s), True) else (s, [], False))"

text \<open>\<open>strings.Fields\<close>: the maximal runs of runes that are not white space.\<close>

fun stringFieldsAux :: "string \<Rightarrow> string \<Rightarrow> (nat \<times> nat \<times> nat) list \<Rightarrow> string list" where
  "stringFieldsAux s cur [] = (if cur = [] then [] else [cur])"
| "stringFieldsAux s cur ((i, r, n) # rs) =
     (if isSpace r then (if cur = [] then stringFieldsAux s [] rs else cur # stringFieldsAux s [] rs)
      else stringFieldsAux s (cur @ take n (drop i s)) rs)"

definition stringFields :: "string \<Rightarrow> string list" where
  "stringFields s = stringFieldsAux s [] (runesFrom 0 s)"

lemma hasPrefix_iff: "hasPrefix s p \<longleftrightarrow> take (length p) s = p"
  by (induction s p rule: hasPrefix.induct) auto

lemma hasPrefix_append [simp]: "hasPrefix (p @ s) p"
  by (simp add: hasPrefix_iff)

lemma splitOn_not_Nil [simp]: "splitOn x s \<noteq> []"
  by (induction s) (auto split: list.splits)

section \<open>Package strconv\<close>

definition digitVal :: "char \<Rightarrow> nat" where
  "digitVal c = byteOf c - 48"

definition isDigit :: "char \<Rightarrow> bool" where
  "isDigit c \<longleftrightarrow> 48 \<le> byteOf c \<and> byteOf c \<le> 57"

definition decimal :: "string \<Rightarrow> nat" where
  "decimal s = foldl (\<lambda>n c. 10 * n + digitVal c) 0 s"

text \<open>\<open>strconv.ParseUint(s, 10, 64)\<close>: decimal digits only, and within 64 bits.\<close>

definition parseUint64 :: "string \<Rightarrow> nat option" where
  "parseUint64 s =
     (if s \<noteq> [] \<and> list_all isDigit s \<and> decimal s < 2 ^ 64 then Some (decimal s) else None)"

text \<open>\<open>strconv.ParseInt(s, 10, 64)\<close> and, where \<open>int\<close> has 64 bits, \<open>strconv.Atoi\<close>.\<close>

definition parseInt64 :: "string \<Rightarrow> int option" where
  "parseInt64 s =
     (case s of
        CHR ''-'' # ds \<Rightarrow>
          if ds \<noteq> [] \<and> list_all isDigit ds \<and> decimal ds \<le> 2 ^ 63 then Some (- int (decimal ds))
          else None
      | CHR ''+'' # ds \<Rightarrow>
          if ds \<noteq> [] \<and> list_all isDigit ds \<and> decimal ds < 2 ^ 63 then Some (int (decimal ds))
          else None
      | _ \<Rightarrow>
          if s \<noteq> [] \<and> list_all isDigit s \<and> decimal s < 2 ^ 63 then Some (int (decimal s)) else None)"

fun itoaNat :: "nat \<Rightarrow> string" where
  "itoaNat n = (if n < 10 then [char_of (48 + n)] else itoaNat (n div 10) @ [char_of (48 + n mod 10)])"

declare itoaNat.simps [simp del]

definition itoa :: "int \<Rightarrow> string" where
  "itoa i = (if i < 0 then CHR ''-'' # itoaNat (nat (- i)) else itoaNat (nat i))"

lemma decimal_snoc: "decimal (s @ [c]) = 10 * decimal s + digitVal c"
  by (simp add: decimal_def)

lemma isDigit_char_of: "n < 10 \<Longrightarrow> isDigit (char_of (48 + n)) \<and> digitVal (char_of (48 + n)) = n"
  by (simp add: isDigit_def digitVal_def)

lemma itoaNat_digits: "itoaNat n \<noteq> [] \<and> list_all isDigit (itoaNat n) \<and> decimal (itoaNat n) = n"
proof (induction n rule: itoaNat.induct)
  case (1 n)
  show ?case
  proof (cases "n < 10")
    case True
    then show ?thesis
      using isDigit_char_of [of n] by (simp add: itoaNat.simps [of n] decimal_def)
  next
    case False
    with 1 have ih: "list_all isDigit (itoaNat (n div 10)) \<and> decimal (itoaNat (n div 10)) = n div 10"
      by simp
    have "isDigit (char_of (48 + n mod 10)) \<and> digitVal (char_of (48 + n mod 10)) = n mod 10"
      using isDigit_char_of [of "n mod 10"] by simp
    with False ih show ?thesis
      by (simp add: itoaNat.simps [of n] decimal_snoc)
  qed
qed

lemma parseUint64_itoaNat: "n < 2 ^ 64 \<Longrightarrow> parseUint64 (itoaNat n) = Some n"
  using itoaNat_digits [of n] by (simp add: parseUint64_def)

lemma parseUint64_bound: "parseUint64 s = Some n \<Longrightarrow> n < 2 ^ 64"
  by (auto simp: parseUint64_def split: if_splits)

end
