(* ===== verification/GoPath.thy ===== *)
theory GoPath
  imports GoText
begin

text \<open>
  Package \<open>path/filepath\<close> on Linux, as the program uses it: \<open>Clean\<close>, \<open>Join\<close>, \<open>Dir\<close>, \<open>Base\<close>, \<open>IsAbs\<close>.
  \<open>cleanSegments\<close> is the stack of kept segments of the lexical rules in the package's documentation.
\<close>

fun cleanSegments :: "bool \<Rightarrow> string list \<Rightarrow> string list \<Rightarrow> string list" where
  "cleanSegments rooted stack [] = rev stack"
| "cleanSegments rooted stack (x # xs) =
     (if x = [] \<or> x = ''.'' then cleanSegments rooted stack xs
      else if x = ''..'' then
        (case stack of
           [] \<Rightarrow> if rooted then cleanSegments rooted [] xs else cleanSegments rooted [x] xs
         | y # ys \<Rightarrow> if y = ''..'' then cleanSegments rooted (x # stack) xs
                    else cleanSegments rooted ys xs)
      else cleanSegments rooted (x # stack) xs)"

fun joinWith :: "string \<Rightarrow> string list \<Rightarrow> string" where
  "joinWith sep [] = []"
| "joinWith sep [x] = x"
| "joinWith sep (x # y # ys) = x @ sep @ joinWith sep (y # ys)"

definition isAbs :: "string \<Rightarrow> bool" where
  "isAbs p = hasPrefix p ''/''"

definition cleanPath :: "string \<Rightarrow> string" where
  "cleanPath p =
     (if p = [] then ''.''
      else let segs = cleanSegments (isAbs p) [] (splitOn CHR ''/'' p); body = joinWith ''/'' segs
           in if isAbs p then ''/'' @ body else if body = [] then ''.'' else body)"

definition pathJoin :: "string list \<Rightarrow> string" where
  "pathJoin elems =
     (case dropWhile (\<lambda>e. e = []) elems of
        [] \<Rightarrow> []
      | es \<Rightarrow> cleanPath (joinWith ''/'' es))"

definition pathDir :: "string \<Rightarrow> string" where
  "pathDir p = cleanPath (rev (dropWhile (\<lambda>c. c \<noteq> CHR ''/'') (rev p)))"

definition pathBase :: "string \<Rightarrow> string" where
  "pathBase p =
     (if p = [] then ''.''
      else let q = rev (dropWhile (\<lambda>c. c = CHR ''/'') (rev p));
               b = rev (takeWhile (\<lambda>c. c \<noteq> CHR ''/'') (rev q))
           in if b = [] then ''/'' else b)"

section \<open>Lemmas\<close>

lemma splitOn_no_sep: "x \<in> set (splitOn c s) \<Longrightarrow> c \<notin> set x"
  by (induction c s arbitrary: x rule: splitOn.induct) (auto split: list.splits if_splits)

lemma splitOn_append_sep: "c \<notin> set x \<Longrightarrow> splitOn c (x @ c # s) = x # splitOn c s"
  by (induction x) auto

lemma splitOn_self: "c \<notin> set x \<Longrightarrow> splitOn c x = [x]"
  by (induction x) auto

lemma splitOn_joinWith:
  "xs \<noteq> [] \<Longrightarrow> \<forall>x\<in>set xs. c \<notin> set x \<Longrightarrow> splitOn c (joinWith [c] xs) = xs"
  by (induction "[c]" xs rule: joinWith.induct) (auto simp: splitOn_self splitOn_append_sep)

definition properSegment :: "string \<Rightarrow> bool" where
  "properSegment x \<longleftrightarrow> x \<noteq> [] \<and> x \<noteq> ''.'' \<and> x \<noteq> ''..'' \<and> CHR ''/'' \<notin> set x"

lemma cleanSegments_rooted:
  assumes "\<forall>x\<in>set stack. properSegment x" and "\<forall>x\<in>set xs. CHR ''/'' \<notin> set x"
  shows "\<forall>x\<in>set (cleanSegments True stack xs). properSegment x"
  using assms
proof (induction xs arbitrary: stack)
  case (Cons x xs)
  have IH: "\<forall>y\<in>set st. properSegment y \<Longrightarrow> \<forall>y\<in>set (cleanSegments True st xs). properSegment y" for st
    using Cons.IH [of st] Cons.prems(2) by simp
  show ?case
  proof (cases "x = [] \<or> x = ''.''")
    case True
    then show ?thesis using IH [of stack] Cons.prems(1) by simp
  next
    case nonempty: False
    show ?thesis
    proof (cases "x = ''..''")
      case True
      with Cons.prems(1) have "cleanSegments True stack (x # xs) = cleanSegments True (tl stack) xs"
        by (cases stack) (simp_all add: properSegment_def)
      moreover have "\<forall>y\<in>set (tl stack). properSegment y"
        using Cons.prems(1) by (cases stack) simp_all
      ultimately show ?thesis using IH [of "tl stack"] by presburger
    next
      case False
      with nonempty have "cleanSegments True stack (x # xs) = cleanSegments True (x # stack) xs" by simp
      moreover have "properSegment x"
        unfolding properSegment_def using nonempty False Cons.prems(2) by auto
      then have "\<forall>y\<in>set (x # stack). properSegment y" using Cons.prems(1) by simp
      ultimately show ?thesis using IH [of "x # stack"] by presburger
    qed
  qed
qed simp

text \<open>An absolute clean path that is not the root splits into proper segments only.\<close>

lemma cleanPath_segments:
  assumes "isAbs p" and "cleanPath p \<noteq> ''/''"
  shows "list_all properSegment (splitOn CHR ''/'' (trimPrefix (cleanPath p) ''/''))"
proof -
  let ?segs = "cleanSegments True [] (splitOn CHR ''/'' p)"
  have p: "cleanPath p = ''/'' @ joinWith ''/'' ?segs"
    using assms by (auto simp: cleanPath_def isAbs_def Let_def)
  have segs: "\<forall>x\<in>set ?segs. properSegment x"
    by (rule cleanSegments_rooted) (auto dest: splitOn_no_sep)
  have ne: "?segs \<noteq> []"
    using p assms(2) by auto
  have "trimPrefix (cleanPath p) ''/'' = joinWith ''/'' ?segs"
    by (simp add: p trimPrefix_def)
  moreover have "splitOn CHR ''/'' (joinWith ''/'' ?segs) = ?segs"
    using segs ne by (intro splitOn_joinWith) (auto simp: properSegment_def)
  ultimately show ?thesis using segs by (simp add: list_all_iff)
qed

end
