(* ===== verification/Encoding.thy ===== *)
theory Encoding
  imports GoText
begin

text \<open>
  The byte encodings of Go's \<open>encoding\<close> packages that the program uses: hexadecimal, base32 without
  padding, base64 in its padded standard form and in its raw URL form, and big-endian 64-bit
  integers.  Base32 and base64 are written over the bit sequence of the data, most significant bit
  first, which gives one round-trip argument for all of them.
\<close>

type_synonym bytes = string

section \<open>Bits\<close>

fun bitsOf :: "nat \<Rightarrow> nat \<Rightarrow> bool list" where
  "bitsOf 0 n = []"
| "bitsOf (Suc k) n = odd (n div 2 ^ k) # bitsOf k n"

fun valOf :: "bool list \<Rightarrow> nat" where
  "valOf [] = 0"
| "valOf (b # bs) = (if b then 2 ^ length bs else 0) + valOf bs"

definition byteBits :: "bytes \<Rightarrow> bool list" where
  "byteBits s = concat (map (\<lambda>c. bitsOf 8 (byteOf c)) s)"

lemma length_bitsOf [simp]: "length (bitsOf k n) = k"
  by (induction k) auto

lemma valOf_bitsOf: "valOf (bitsOf k n) = n mod 2 ^ k"
proof (induction k)
  case 0
  then show ?case by simp
next
  case (Suc k)
  have "n mod 2 ^ Suc k = 2 ^ k * (n div 2 ^ k mod 2) + n mod 2 ^ k"
    unfolding power_Suc2 by (rule mod_mult2_eq)
  with Suc show ?case by (auto simp: mod_2_eq_odd)
qed

lemma valOf_bound: "valOf bs < 2 ^ length bs"
  by (induction bs) auto

lemma bitsOf_mod: "bitsOf k (n mod 2 ^ k) = bitsOf k n"
proof -
  have gen: "bitsOf j (n mod 2 ^ k) = bitsOf j n" if "j \<le> k" for j
    using that
  proof (induction j)
    case 0
    then show ?case by simp
  next
    case (Suc j)
    then have "2 * 2 ^ j dvd (2 ^ k :: nat)"
      using le_imp_power_dvd [of "Suc j" k "2::nat"] by simp
    then have "odd (n mod 2 ^ k div 2 ^ j) = odd (n div 2 ^ j)"
      by (metis bit_iff_odd bit_take_bit_iff Suc.prems Suc_le_lessD take_bit_eq_mod)
    with Suc show ?case by simp
  qed
  then show ?thesis by simp
qed

lemma bitsOf_valOf: "bitsOf (length bs) (valOf bs) = bs"
proof (induction bs)
  case Nil
  then show ?case by simp
next
  case (Cons b bs)
  let ?k = "length bs"
  let ?v = "(if b then 2 ^ ?k else 0) + valOf bs"
  have "?v div 2 ^ ?k = (if b then 1 else 0)"
    using valOf_bound [of bs] by (simp add: div_add_self1)
  moreover have "?v mod 2 ^ ?k = valOf bs"
    using valOf_bound [of bs] by simp
  then have "bitsOf ?k ?v = bitsOf ?k (valOf bs)"
    by (metis bitsOf_mod)
  ultimately show ?case using Cons.IH by simp
qed

lemma length_byteBits [simp]: "length (byteBits s) = 8 * length s"
  by (induction s) (auto simp: byteBits_def)

section \<open>Groups of bits\<close>

text \<open>The bits cut into groups of \<open>k\<close>, the last one filled with zeros.\<close>

function chunks :: "nat \<Rightarrow> bool list \<Rightarrow> bool list list" where
  "chunks k bs =
     (if bs = [] \<or> k = 0 then []
      else if length bs \<le> k then [bs @ replicate (k - length bs) False]
      else take k bs # chunks k (drop k bs))"
  by pat_completeness auto
termination
  by (relation "measure (\<lambda>(k, bs). length bs)") auto

declare chunks.simps [simp del]

lemma chunks_Nil [simp]: "chunks k [] = []"
  by (simp add: chunks.simps)

text \<open>For evaluation: no group looks at the length of the rest.\<close>

lemma chunks_code [code]:
  "chunks k bs =
     (if bs = [] \<or> k = 0 then []
      else let g = take k bs; r = drop k bs
           in if r = [] then [g @ replicate (k - length g) False] else g # chunks k r)"
  by (subst chunks.simps) (auto simp: Let_def)

lemma valOf_code: "foldl (\<lambda>n b. 2 * n + (if b then 1 else 0)) a bs = a * 2 ^ length bs + valOf bs"
  by (induction bs arbitrary: a) (auto simp: algebra_simps)

lemma valOf_foldl [code]: "valOf bs = foldl (\<lambda>n b. 2 * n + (if b then 1 else 0)) 0 bs"
  by (simp add: valOf_code)

lemma chunks_length: "0 < k \<Longrightarrow> length (chunks k bs) = (length bs + k - 1) div k"
proof (induction k bs rule: chunks.induct)
  case (1 k bs)
  consider "bs = []" | "bs \<noteq> []" "length bs \<le> k" | "k < length bs" by fastforce
  then show ?case
  proof cases
    case 1
    with "1.prems" show ?thesis by simp
  next
    case 2
    then have "0 < length bs" by simp
    then have "length bs + k - 1 = k + (length bs - 1)" by linarith
    moreover have "(length bs - 1) div k = 0"
      by (rule div_less) (use \<open>0 < length bs\<close> 2 in linarith)
    ultimately have "(length bs + k - 1) div k = 1"
      using "1.prems" by (simp only: div_add_self1)
    with 2 "1.prems" show ?thesis by (simp add: chunks.simps [of k bs])
  next
    case 3
    then have "\<not> (bs = [] \<or> k = 0)" and "\<not> length bs \<le> k"
      using "1.prems" by auto
    with "1.IH" "1.prems" have "length (chunks k (drop k bs)) = (length bs - k + k - 1) div k"
      by simp
    moreover have "length bs + k - 1 = k + (length bs - 1)"
      using 3 by linarith
    then have "(length bs + k - 1) div k = Suc ((length bs - 1) div k)"
      using "1.prems" by (simp only: div_add_self1)
    ultimately show ?thesis
      using 3 "1.prems" by (auto simp: chunks.simps [of k bs])
  qed
qed

lemma chunks_groups: "g \<in> set (chunks k bs) \<Longrightarrow> length g = k"
proof (induction k bs rule: chunks.induct)
  case (1 k bs)
  then show ?case
    by (subst (asm) chunks.simps) (auto split: if_splits)
qed

lemma chunks_concat: "0 < k \<Longrightarrow> \<exists>m. concat (chunks k bs) = bs @ replicate m False \<and> m < k"
proof (induction k bs rule: chunks.induct)
  case (1 k bs)
  consider "bs = []" | "bs \<noteq> []" "length bs \<le> k" | "k < length bs" by fastforce
  then show ?case
  proof cases
    case 1
    with "1.prems" show ?thesis by auto
  next
    case 2
    with "1.prems" show ?thesis
      by (auto simp: chunks.simps [of k bs] intro!: exI [of _ "k - length bs"])
  next
    case 3
    then have "\<not> (bs = [] \<or> k = 0)" and "\<not> length bs \<le> k"
      using "1.prems" by auto
    with "1.IH" "1.prems" obtain m
      where "concat (chunks k (drop k bs)) = drop k bs @ replicate m False" and "m < k"
      by blast
    then show ?thesis
      using 3 "1.prems" by (auto simp: chunks.simps [of k bs] intro!: exI [of _ m])
  qed
qed

definition groupVals :: "nat \<Rightarrow> bytes \<Rightarrow> nat list" where
  "groupVals k s = map valOf (chunks k (byteBits s))"

text \<open>Whole bytes read back from groups; bits left over at the end are dropped.\<close>

fun takeBytes :: "nat \<Rightarrow> bool list \<Rightarrow> bytes" where
  "takeBytes 0 bs = []"
| "takeBytes (Suc n) bs = char_of (valOf (take 8 bs)) # takeBytes n (drop 8 bs)"

definition fromGroups :: "nat \<Rightarrow> nat list \<Rightarrow> bytes" where
  "fromGroups k vs = takeBytes (k * length vs div 8) (concat (map (bitsOf k) vs))"

lemma takeBytes_byteBits: "takeBytes (length s) (byteBits s @ bs) = s"
proof (induction s)
  case Nil
  then show ?case by simp
next
  case (Cons c cs)
  have "valOf (bitsOf 8 (byteOf c)) = byteOf c"
    using of_char_mod_256 [of c, where 'a = nat] by (simp add: valOf_bitsOf)
  with Cons show ?case by (simp add: byteBits_def)
qed

lemma map_bitsOf_valOf: "(\<And>g. g \<in> set gs \<Longrightarrow> length g = k) \<Longrightarrow> map (bitsOf k) (map valOf gs) = gs"
  by (induction gs) (auto, metis bitsOf_valOf)

lemma length_concat_groups: "(\<And>g. g \<in> set gs \<Longrightarrow> length g = k) \<Longrightarrow> length (concat gs) = k * length gs"
  by (induction gs) auto

lemma groupVals_bound: "v \<in> set (groupVals k s) \<Longrightarrow> v < 2 ^ k"
  by (auto simp: groupVals_def dest!: chunks_groups) (metis valOf_bound)

lemma length_groupVals: "0 < k \<Longrightarrow> length (groupVals k s) = (8 * length s + k - 1) div k"
  by (simp add: groupVals_def chunks_length)

text \<open>Groups of at most eight bits lose nothing.\<close>

lemma fromGroups_groupVals:
  assumes "0 < k" and "k \<le> 8"
  shows "fromGroups k (groupVals k s) = s"
proof -
  let ?gs = "chunks k (byteBits s)"
  obtain m where m: "concat ?gs = byteBits s @ replicate m False" "m < k"
    using chunks_concat [OF assms(1)] by blast
  have "length (concat ?gs) = k * length ?gs"
    by (rule length_concat_groups) (rule chunks_groups)
  with m have "k * length ?gs = 8 * length s + m" by simp
  then have "k * length ?gs div 8 = length s"
    using m(2) assms(2) by simp
  moreover have "concat (map (bitsOf k) (groupVals k s)) = byteBits s @ replicate m False"
    unfolding groupVals_def using map_bitsOf_valOf [of ?gs k] chunks_groups m(1) by metis
  ultimately show ?thesis
    by (simp add: fromGroups_def groupVals_def takeBytes_byteBits)
qed


section \<open>Alphabets\<close>

definition encodeWith :: "string \<Rightarrow> nat \<Rightarrow> bytes \<Rightarrow> string" where
  "encodeWith alphabet k s = map (\<lambda>v. alphabet ! v) (groupVals k s)"

fun indexOf :: "string \<Rightarrow> char \<Rightarrow> nat option" where
  "indexOf [] c = None"
| "indexOf (a # as) c = (if a = c then Some 0 else map_option Suc (indexOf as c))"

fun decodeVals :: "string \<Rightarrow> string \<Rightarrow> nat list option" where
  "decodeVals alphabet [] = Some []"
| "decodeVals alphabet (c # cs) =
     (case indexOf alphabet c of
        None \<Rightarrow> None
      | Some v \<Rightarrow> map_option (\<lambda>vs. v # vs) (decodeVals alphabet cs))"

lemma indexOf_nth: "distinct as \<Longrightarrow> v < length as \<Longrightarrow> indexOf as (as ! v) = Some v"
proof (induction as arbitrary: v)
  case Nil
  then show ?case by simp
next
  case (Cons a as)
  then show ?case by (cases v) auto
qed

lemma decodeVals_map:
  "distinct as \<Longrightarrow> (\<And>v. v \<in> set vs \<Longrightarrow> v < length as) \<Longrightarrow>
     decodeVals as (map (\<lambda>v. as ! v) vs) = Some vs"
  by (induction vs) (auto simp: indexOf_nth)

lemma length_encodeWith: "0 < k \<Longrightarrow> length (encodeWith as k s) = (8 * length s + k - 1) div k"
  by (simp add: encodeWith_def length_groupVals)

lemma set_encodeWith: "length as = 2 ^ k \<Longrightarrow> set (encodeWith as k s) \<subseteq> set as"
  by (auto simp: encodeWith_def dest!: groupVals_bound)

lemma decodeVals_encodeWith:
  "distinct as \<Longrightarrow> length as = 2 ^ k \<Longrightarrow> decodeVals as (encodeWith as k s) = Some (groupVals k s)"
  unfolding encodeWith_def by (rule decodeVals_map) (auto dest: groupVals_bound)

section \<open>Hexadecimal, base32, base64\<close>

definition hexAlphabet :: string where
  "hexAlphabet = ''0123456789abcdef''"

definition hexEncode :: "bytes \<Rightarrow> string" where
  "hexEncode s = encodeWith hexAlphabet 4 s"

definition base32Alphabet :: string where
  "base32Alphabet = ''ABCDEFGHIJKLMNOPQRSTUVWXYZ234567''"

definition base32NoPadding :: "bytes \<Rightarrow> string" where
  "base32NoPadding s = encodeWith base32Alphabet 5 s"

definition base64Alphabet :: string where
  "base64Alphabet = ''ABCDEFGHIJKLMNOPQRSTUVWXYZabcdefghijklmnopqrstuvwxyz0123456789+/''"

definition base64URLAlphabet :: string where
  "base64URLAlphabet = ''ABCDEFGHIJKLMNOPQRSTUVWXYZabcdefghijklmnopqrstuvwxyz0123456789-_''"

definition base64StdEncode :: "bytes \<Rightarrow> string" where
  "base64StdEncode s =
     (let e = encodeWith base64Alphabet 6 s in e @ replicate ((4 - length e mod 4) mod 4) CHR ''='')"

definition base64RawURLEncode :: "bytes \<Rightarrow> string" where
  "base64RawURLEncode s = encodeWith base64URLAlphabet 6 s"

text \<open>Go's decoders skip carriage returns and line feeds anywhere in the input, and do not look at
  the bits left over in the last group.\<close>

definition stripCRLF :: "string \<Rightarrow> string" where
  "stripCRLF s = filter (\<lambda>c. byteOf c \<noteq> 10 \<and> byteOf c \<noteq> 13) s"

definition base64StdDecode :: "string \<Rightarrow> bytes option" where
  "base64StdDecode s =
     (let t = stripCRLF s;
          body = takeWhile (\<lambda>c. c \<noteq> CHR ''='') t;
          pad = dropWhile (\<lambda>c. c \<noteq> CHR ''='') t
      in if length body mod 4 = 0 \<and> pad = [] \<or> length body mod 4 = 2 \<and> pad = ''==''
            \<or> length body mod 4 = 3 \<and> pad = ''=''
         then map_option (fromGroups 6) (decodeVals base64Alphabet body) else None)"

definition base64RawURLDecode :: "string \<Rightarrow> bytes option" where
  "base64RawURLDecode s =
     (let t = stripCRLF s
      in if length t mod 4 = 1 then None
         else map_option (fromGroups 6) (decodeVals base64URLAlphabet t))"

lemma alphabets:
  "distinct hexAlphabet" "length hexAlphabet = 2 ^ 4"
  "distinct base32Alphabet" "length base32Alphabet = 2 ^ 5"
  "distinct base64Alphabet" "length base64Alphabet = 2 ^ 6"
  "distinct base64URLAlphabet" "length base64URLAlphabet = 2 ^ 6"
  by (simp_all add: hexAlphabet_def base32Alphabet_def base64Alphabet_def base64URLAlphabet_def)

lemma stripCRLF_id: "(\<And>c. c \<in> set s \<Longrightarrow> byteOf c \<noteq> 10 \<and> byteOf c \<noteq> 13) \<Longrightarrow> stripCRLF s = s"
  by (simp add: stripCRLF_def filter_id_conv)

lemma base64Alphabet_chars:
  "c \<in> set base64Alphabet \<Longrightarrow> byteOf c \<noteq> 10 \<and> byteOf c \<noteq> 13 \<and> c \<noteq> CHR ''=''"
  "c \<in> set base64URLAlphabet \<Longrightarrow> byteOf c \<noteq> 10 \<and> byteOf c \<noteq> 13"
  by (auto simp: base64Alphabet_def base64URLAlphabet_def)

lemma base64_groups_mod: "(8 * n + 5) div 6 mod 4 \<noteq> Suc 0"
  by presburger

lemma base64RawURL_roundtrip: "base64RawURLDecode (base64RawURLEncode s) = Some s"
proof -
  let ?e = "base64RawURLEncode s"
  have sub: "set ?e \<subseteq> set base64URLAlphabet"
    unfolding base64RawURLEncode_def by (rule set_encodeWith) (rule alphabets)
  have strip: "stripCRLF ?e = ?e"
    by (rule stripCRLF_id) (use sub base64Alphabet_chars(2) in blast)
  have "length ?e mod 4 \<noteq> 1"
    using base64_groups_mod [of "length s"] by (simp add: base64RawURLEncode_def length_encodeWith add.commute)
  moreover have "decodeVals base64URLAlphabet ?e = Some (groupVals 6 s)"
    unfolding base64RawURLEncode_def by (rule decodeVals_encodeWith) (rule alphabets)+
  ultimately show ?thesis
    by (simp add: base64RawURLDecode_def strip fromGroups_groupVals)
qed

lemma takeWhile_dropWhile_pad:
  assumes "\<And>c. c \<in> set e \<Longrightarrow> c \<noteq> x"
  shows "takeWhile (\<lambda>c. c \<noteq> x) (e @ replicate n x) = e"
    and "dropWhile (\<lambda>c. c \<noteq> x) (e @ replicate n x) = replicate n x"
  using assms by (induction e; cases n; auto)+

lemma base64Std_roundtrip: "base64StdDecode (base64StdEncode s) = Some s"
proof -
  let ?e = "encodeWith base64Alphabet 6 s"
  let ?n = "(4 - length ?e mod 4) mod 4"
  have enc: "base64StdEncode s = ?e @ replicate ?n CHR ''=''"
    by (simp add: base64StdEncode_def Let_def)
  have sub: "set ?e \<subseteq> set base64Alphabet"
    by (rule set_encodeWith) (rule alphabets)
  then have ne: "\<And>c. c \<in> set ?e \<Longrightarrow> c \<noteq> CHR ''=''"
    using base64Alphabet_chars(1) by blast
  have strip: "stripCRLF (base64StdEncode s) = base64StdEncode s"
    by (rule stripCRLF_id) (use sub base64Alphabet_chars(1) in \<open>auto simp: enc\<close>)
  have "length ?e mod 4 \<noteq> 1"
    using base64_groups_mod [of "length s"] by (simp add: length_encodeWith add.commute)
  then consider "length ?e mod 4 = 0" | "length ?e mod 4 = 2" | "length ?e mod 4 = 3"
    by linarith
  then have pad: "length ?e mod 4 = 0 \<and> replicate ?n CHR ''='' = []
      \<or> length ?e mod 4 = 2 \<and> replicate ?n CHR ''='' = ''==''
      \<or> length ?e mod 4 = 3 \<and> replicate ?n CHR ''='' = ''=''"
    by cases (simp_all add: numeral_2_eq_2)
  have "decodeVals base64Alphabet ?e = Some (groupVals 6 s)"
    by (rule decodeVals_encodeWith) (rule alphabets)+
  moreover have "takeWhile (\<lambda>c. c \<noteq> CHR ''='') (base64StdEncode s) = ?e"
    and "dropWhile (\<lambda>c. c \<noteq> CHR ''='') (base64StdEncode s) = replicate ?n CHR ''=''"
    unfolding enc by (rule takeWhile_dropWhile_pad, rule ne, assumption)+
  ultimately show ?thesis
    using pad unfolding base64StdDecode_def Let_def strip
    by (simp only: if_True option.map(2) fromGroups_groupVals [of 6, simplified])
qed

lemma length_base64RawURLEncode: "length (base64RawURLEncode s) = (8 * length s + 5) div 6"
  by (simp add: base64RawURLEncode_def length_encodeWith)

section \<open>Big-endian 64-bit integers\<close>

definition putUint64 :: "nat \<Rightarrow> bytes" where
  "putUint64 n = takeBytes 8 (bitsOf 64 n)"

definition getUint64 :: "bytes \<Rightarrow> nat" where
  "getUint64 s = valOf (byteBits s)"

lemma length_takeBytes [simp]: "length (takeBytes n bs) = n"
  by (induction n arbitrary: bs) auto

lemma byteBits_takeBytes: "8 * n \<le> length bs \<Longrightarrow> byteBits (takeBytes n bs) = take (8 * n) bs"
proof (induction n arbitrary: bs)
  case 0
  then show ?case by (simp add: byteBits_def)
next
  case (Suc n)
  let ?h = "take 8 bs"
  have len: "length ?h = 8" using Suc.prems by simp
  have "byteOf (char_of (valOf ?h)) = valOf ?h"
    using valOf_bound [of ?h] unfolding len by simp
  then have "bitsOf 8 (byteOf (char_of (valOf ?h))) = ?h"
    using bitsOf_valOf [of ?h] unfolding len by simp
  moreover have "byteBits (takeBytes n (drop 8 bs)) = take (8 * n) (drop 8 bs)"
    using Suc by simp
  ultimately have "byteBits (takeBytes (Suc n) bs) = ?h @ take (8 * n) (drop 8 bs)"
    by (simp add: byteBits_def)
  then show ?case by (simp flip: take_add)
qed

lemma length_putUint64 [simp]: "length (putUint64 n) = 8"
  by (simp add: putUint64_def)

lemma getUint64_putUint64: "getUint64 (putUint64 n) = n mod 2 ^ 64"
proof -
  have "byteBits (putUint64 n) = take (8 * 8) (bitsOf 64 n)"
    unfolding putUint64_def by (rule byteBits_takeBytes) simp
  also have "\<dots> = bitsOf 64 n"
    by (rule take_all) simp
  finally show ?thesis
    by (simp only: getUint64_def valOf_bitsOf)
qed

lemma putUint64_inj: "putUint64 m = putUint64 n \<Longrightarrow> m < 2 ^ 64 \<Longrightarrow> n < 2 ^ 64 \<Longrightarrow> m = n"
  by (metis getUint64_putUint64 mod_less)

section \<open>ASCII case\<close>

definition lowerChar :: "char \<Rightarrow> char" where
  "lowerChar c = (if 65 \<le> byteOf c \<and> byteOf c \<le> 90 then char_of (byteOf c + 32) else c)"

lemma runesFrom_ascii:
  "(\<And>c. c \<in> set s \<Longrightarrow> byteOf c < 128) \<Longrightarrow> map (\<lambda>(i, r, n). r) (runesFrom i s) = map byteOf s"
  by (induction s arbitrary: i) auto

lemma encodeRune_lower_ascii: "byteOf c < 128 \<Longrightarrow> encodeRune (lowerRune U (byteOf c)) = [lowerChar c]"
  by (auto simp: encodeRune_def lowerRune_def lowerChar_def)

text \<open>On ASCII text \<open>strings.ToLower\<close> is a map over the bytes and does not look at the tables.\<close>

lemma toLower_ascii:
  assumes "\<And>c. c \<in> set s \<Longrightarrow> byteOf c < 128"
  shows "toLower U s = map lowerChar s"
proof -
  have "runes s = map byteOf s"
    unfolding runes_def by (rule runesFrom_ascii) (rule assms)
  then have "toLower U s = concat (map (\<lambda>c. encodeRune (lowerRune U (byteOf c))) s)"
    by (simp add: toLower_def comp_def)
  also have "\<dots> = concat (map (\<lambda>c. [lowerChar c]) s)"
    using assms encodeRune_lower_ascii by (simp cong: map_cong)
  finally show ?thesis by simp
qed

end
