(* ===== verification/Model.thy ===== *)
theory Model
  imports Encoding "HOL-Library.Word" "HOL-Library.List_Lexorder" "HOL-Library.Char_ord"
    "HOL-Library.Product_Lexorder"
begin

text \<open>
  The data model of the profile library, \<open>internal/profiles/model.go\<close>: profiles, the manifest, the
  metadata patch, and the validation every manifest passes before it is published.  The validation
  loops are written as the code has them, with their sets of values seen so far; the declarative
  \<open>wellFormed\<close> is what they decide.
\<close>

section \<open>Constants and records\<close>

abbreviation ProtocolOpenVPN :: string where "ProtocolOpenVPN \<equiv> ''openvpn''"
abbreviation ProtocolWireGuard :: string where "ProtocolWireGuard \<equiv> ''wireguard''"
abbreviation StartupManual :: string where "StartupManual \<equiv> ''manual''"
abbreviation StartupRestore :: string where "StartupRestore \<equiv> ''restore''"

definition ManifestVersion :: int where "ManifestVersion = 1"
definition MaxProfiles :: nat where "MaxProfiles = 100"
definition MaxRecents :: nat where "MaxRecents = 5"
definition MaxProfileBytes :: nat where "MaxProfileBytes = 2 ^ 20"
definition MaxDisplayNameRunes :: nat where "MaxDisplayNameRunes = 120"
definition MaxDisplayNameBytes :: nat where "MaxDisplayNameBytes = 512"
definition MaxGroupRunes :: nat where "MaxGroupRunes = 64"
definition MaxGroupBytes :: nat where "MaxGroupBytes = 256"
definition MaxLocationRunes :: nat where "MaxLocationRunes = 80"
definition MaxLocationBytes :: nat where "MaxLocationBytes = 320"
definition MaxEmojiRunes :: nat where "MaxEmojiRunes = 16"
definition MaxEmojiBytes :: nat where "MaxEmojiBytes = 64"

text \<open>A \<open>time.Time\<close>: the instant as Unix seconds and nanoseconds, and whether its location is the
  \<open>time.UTC\<close> pointer.  The zero time is the first second of year 1.\<close>

record goTime =
  tSeconds :: int
  tNanos :: nat
  tUTC :: bool

definition timeIsZero :: "goTime \<Rightarrow> bool" where
  "timeIsZero t \<longleftrightarrow> tSeconds t = - 62135596800 \<and> tNanos t = 0"

record profile =
  pID :: string
  pProtocol :: string
  pDisplayName :: string
  pGroup :: string
  pLocation :: string
  pEmoji :: string
  pIdentifier :: string
  pOriginalFilename :: string
  pImportedAt :: goTime
  pContentSHA256 :: string
  pWireGuardPublicKeySHA256 :: string

record manifest =
  mVersion :: int
  mLibraryRevision :: "64 word"
  mProfiles :: "profile list"
  mFavorites :: "string list"
  mRecents :: "string list"
  mStartupMode :: string
  mDesiredProfile :: string
  mConnectedAt :: int

record metadata =
  mdDisplayName :: string
  mdGroup :: string
  mdLocation :: string
  mdEmoji :: string

record metadataPatch =
  mpDisplayName :: "string option"
  mpGroup :: "string option"
  mpLocation :: "string option"
  mpClearLocation :: bool
  mpEmoji :: "string option"
  mpClearEmoji :: bool

definition InitialManifest :: manifest where
  "InitialManifest = \<lparr>mVersion = ManifestVersion, mLibraryRevision = 0, mProfiles = [],
     mFavorites = [], mRecents = [], mStartupMode = StartupManual, mDesiredProfile = [],
     mConnectedAt = 0\<rparr>"

definition manifestProfile :: "manifest \<Rightarrow> string \<Rightarrow> profile option" where
  "manifestProfile m i = List.find (\<lambda>p. pID p = i) (mProfiles m)"

definition profileMetadata :: "profile \<Rightarrow> metadata" where
  "profileMetadata p = \<lparr>mdDisplayName = pDisplayName p, mdGroup = pGroup p,
     mdLocation = pLocation p, mdEmoji = pEmoji p\<rparr>"

section \<open>Validation\<close>

definition base32Digit :: "char \<Rightarrow> bool" where
  "base32Digit c \<longleftrightarrow> 97 \<le> byteOf c \<and> byteOf c \<le> 122 \<or> 50 \<le> byteOf c \<and> byteOf c \<le> 55"

text \<open>The two patterns, \<open>^tf_[a-z2-7]{26}$\<close> and \<open>^tf[a-z2-7]{12}$\<close>.\<close>

definition idPattern :: "string \<Rightarrow> bool" where
  "idPattern s \<longleftrightarrow> hasPrefix s ''tf_'' \<and> length s = 29 \<and> list_all base32Digit (drop 3 s)"

definition identifierPattern :: "string \<Rightarrow> bool" where
  "identifierPattern s \<longleftrightarrow> hasPrefix s ''tf'' \<and> length s = 14 \<and> list_all base32Digit (drop 2 s)"

text \<open>The answer is the code of the first check that fails, empty if none does.\<close>

definition validateText :: "string \<Rightarrow> nat \<Rightarrow> nat \<Rightarrow> nat \<Rightarrow> string" where
  "validateText value minRunes maxRunes maxBytes =
     (if \<not> validUTF8 value then ''invalid_utf8''
      else if trimSpace value \<noteq> value then ''surrounding_whitespace''
      else let n = runeCount value
           in if n < minRunes then ''required''
              else if n > maxRunes \<or> length value > maxBytes then ''length_limit''
              else if list_ex isControl (runes value) then ''control_character''
              else [])"

definition ValidateMetadata :: "metadata \<Rightarrow> err" where
  "ValidateMetadata md =
     (let c = validateText (mdDisplayName md) 1 MaxDisplayNameRunes MaxDisplayNameBytes
      in if c \<noteq> [] then Some (MetadataErr ''display_name'' c)
         else let c = validateText (mdGroup md) 1 MaxGroupRunes MaxGroupBytes
         in if c \<noteq> [] then Some (MetadataErr ''group'' c)
         else let c = (if mdLocation md \<noteq> []
                       then validateText (mdLocation md) 1 MaxLocationRunes MaxLocationBytes else [])
         in if c \<noteq> [] then Some (MetadataErr ''location'' c)
         else let c = (if mdEmoji md \<noteq> []
                       then validateText (mdEmoji md) 1 MaxEmojiRunes MaxEmojiBytes else [])
         in if c \<noteq> [] then Some (MetadataErr ''emoji'' c)
         else None)"

definition ValidateOriginalFilename :: "string \<Rightarrow> err" where
  "ValidateOriginalFilename name =
     (if name = [] \<or> length name > 255 \<or> list_ex (\<lambda>c. c \<in> set [CHR ''/'', CHR 0x5C]) name
         \<or> name = ''.'' \<or> name = ''..''
      then Some (ErrText ''invalid original filename'')
      else if \<not> validUTF8 name then Some (ErrText ''original filename is not valid UTF-8'')
      else if list_ex isControl (runes name)
      then Some (ErrText ''original filename contains a control character'')
      else None)"

definition ValidProtocol :: "string \<Rightarrow> bool" where
  "ValidProtocol protocol \<longleftrightarrow> protocol = ProtocolOpenVPN \<or> protocol = ProtocolWireGuard"

definition validSHA256 :: "string \<Rightarrow> bool" where
  "validSHA256 value \<longleftrightarrow> length value = 64 \<and>
     list_all (\<lambda>r. \<not> (r < 48 \<or> r > 57 \<and> r < 97 \<or> r > 102)) (runes value)"

definition ValidateProfile :: "profile \<Rightarrow> err" where
  "ValidateProfile p =
     (if \<not> idPattern (pID p) then Some (ErrText ''invalid profile ID'')
      else if \<not> ValidProtocol (pProtocol p) then Some (ErrText ''invalid protocol'')
      else case ValidateMetadata (profileMetadata p) of Some e \<Rightarrow> Some e
      | None \<Rightarrow>
        if \<not> identifierPattern (pIdentifier p) then Some (ErrText ''invalid runtime identifier'')
        else case ValidateOriginalFilename (pOriginalFilename p) of Some e \<Rightarrow> Some e
        | None \<Rightarrow>
          if timeIsZero (pImportedAt p) \<or> \<not> tUTC (pImportedAt p)
          then Some (ErrText ''invalid import time'')
          else if \<not> validSHA256 (pContentSHA256 p) then Some (ErrText ''invalid content fingerprint'')
          else if pProtocol p = ProtocolWireGuard then
            (if \<not> validSHA256 (pWireGuardPublicKeySHA256 p)
             then Some (ErrText ''invalid WireGuard identity fingerprint'') else None)
          else if pWireGuardPublicKeySHA256 p \<noteq> []
          then Some (ErrText ''OpenVPN profile has WireGuard identity'')
          else None)"

fun validateIDLoop :: "string list \<Rightarrow> string list \<Rightarrow> string list \<Rightarrow> err" where
  "validateIDLoop ids seen [] = None"
| "validateIDLoop ids seen (v # vs) =
     (if v \<notin> set ids then Some (ErrText ''unknown profile ID'')
      else if v \<in> set seen then Some (ErrText ''duplicate profile ID'')
      else validateIDLoop ids (v # seen) vs)"

definition validateIDList :: "string list \<Rightarrow> nat \<Rightarrow> string list \<Rightarrow> err" where
  "validateIDList values limit ids =
     (if length values > limit then Some (ErrText ''more values than the limit'')
      else validateIDLoop ids [] values)"

text \<open>The loop over the profiles: the identifiers, runtime names and contents seen so far; its
  result on success is the set of profile identifiers the rest of the validation looks at.\<close>

fun validateProfiles ::
    "string list \<Rightarrow> string list \<Rightarrow> string list \<Rightarrow> profile list \<Rightarrow> goerr + string list" where
  "validateProfiles ids identifiers contents [] = Inr ids"
| "validateProfiles ids identifiers contents (p # ps) =
     (if ValidateProfile p \<noteq> None then Inl (Wrapf ''profile'' (Sentinel ErrInvalidManifest))
      else if pID p \<in> set ids
      then Inl (Wrapf ''duplicate profile ID'' (Sentinel ErrInvalidManifest))
      else if pIdentifier p \<in> set identifiers
      then Inl (Wrapf ''duplicate runtime identifier'' (Sentinel ErrInvalidManifest))
      else if pContentSHA256 p \<in> set contents
      then Inl (Wrapf ''duplicate profile content'' (Sentinel ErrInvalidManifest))
      else validateProfiles (pID p # ids) (pIdentifier p # identifiers) (pContentSHA256 p # contents) ps)"

definition ValidateManifest :: "manifest \<Rightarrow> err" where
  "ValidateManifest m =
     (if mVersion m \<noteq> ManifestVersion
      then Some (Wrapf ''unsupported version'' (Sentinel ErrInvalidManifest))
      else if length (mProfiles m) > MaxProfiles
      then Some (Wrapf ''too many profiles'' (Sentinel ErrInvalidManifest))
      else if mStartupMode m \<noteq> StartupManual \<and> mStartupMode m \<noteq> StartupRestore
      then Some (Wrapf ''invalid startup mode'' (Sentinel ErrInvalidManifest))
      else if mConnectedAt m < 0
      then Some (Wrapf ''invalid connected time'' (Sentinel ErrInvalidManifest))
      else case validateProfiles [] [] [] (mProfiles m) of
        Inl e \<Rightarrow> Some e
      | Inr ids \<Rightarrow>
        if validateIDList (mFavorites m) MaxProfiles ids \<noteq> None
        then Some (Wrapf ''favorites'' (Sentinel ErrInvalidManifest))
        else if validateIDList (mRecents m) MaxRecents ids \<noteq> None
        then Some (Wrapf ''recents'' (Sentinel ErrInvalidManifest))
        else if mDesiredProfile m \<noteq> [] \<and> mDesiredProfile m \<notin> set ids
        then Some (Wrapf ''desired profile does not exist'' (Sentinel ErrInvalidManifest))
        else None)"

section \<open>What validation decides\<close>

definition wellFormed :: "manifest \<Rightarrow> bool" where
  "wellFormed m \<longleftrightarrow>
     mVersion m = 1 \<and> length (mProfiles m) \<le> 100 \<and>
     mStartupMode m \<in> {StartupManual, StartupRestore} \<and> 0 \<le> mConnectedAt m \<and>
     (\<forall>p\<in>set (mProfiles m). ValidateProfile p = None) \<and>
     distinct (map pID (mProfiles m)) \<and>
     distinct (map pIdentifier (mProfiles m)) \<and>
     distinct (map pContentSHA256 (mProfiles m)) \<and>
     length (mFavorites m) \<le> 100 \<and> distinct (mFavorites m) \<and>
     set (mFavorites m) \<subseteq> pID ` set (mProfiles m) \<and>
     length (mRecents m) \<le> 5 \<and> distinct (mRecents m) \<and>
     set (mRecents m) \<subseteq> pID ` set (mProfiles m) \<and>
     (mDesiredProfile m = [] \<or> mDesiredProfile m \<in> pID ` set (mProfiles m))"

lemma validateIDLoop_None:
  "validateIDLoop ids seen vs = None \<longleftrightarrow> set vs \<subseteq> set ids \<and> distinct vs \<and> set vs \<inter> set seen = {}"
  by (induction vs arbitrary: seen) auto

lemma validateIDList_None:
  "validateIDList vs n ids = None \<longleftrightarrow> length vs \<le> n \<and> set vs \<subseteq> set ids \<and> distinct vs"
  by (auto simp: validateIDList_def validateIDLoop_None)

lemma validateProfiles_Inr:
  "validateProfiles ids names contents ps = Inr out \<longleftrightarrow>
     (\<forall>p\<in>set ps. ValidateProfile p = None) \<and>
     distinct (map pID ps) \<and> pID ` set ps \<inter> set ids = {} \<and>
     distinct (map pIdentifier ps) \<and> pIdentifier ` set ps \<inter> set names = {} \<and>
     distinct (map pContentSHA256 ps) \<and> pContentSHA256 ` set ps \<inter> set contents = {} \<and>
     out = rev (map pID ps) @ ids"
  by (induction ps arbitrary: ids names contents) auto

lemma validateProfiles_error:
  "validateProfiles ids names contents ps = Inl e \<Longrightarrow> errorsIs e ErrInvalidManifest"
  by (induction ps arbitrary: ids names contents) (auto split: if_splits)

lemmas manifest_bounds = ManifestVersion_def MaxProfiles_def MaxRecents_def

lemma validateProfiles_total:
  "\<nexists>out. validateProfiles ids names contents ps = Inr out \<Longrightarrow>
     \<exists>e. validateProfiles ids names contents ps = Inl e"
  by (cases "validateProfiles ids names contents ps") auto

lemma ValidateManifest_None: "ValidateManifest m = None \<longleftrightarrow> wellFormed m"
proof (cases "validateProfiles [] [] [] (mProfiles m)")
  case (Inl e)
  then have "\<not> wellFormed m"
    using validateProfiles_Inr [of "[]" "[]" "[]" "mProfiles m" "rev (map pID (mProfiles m))"]
    by (auto simp: wellFormed_def)
  with Inl show ?thesis by (simp add: ValidateManifest_def)
next
  case (Inr ids)
  then have ps: "\<forall>p\<in>set (mProfiles m). ValidateProfile p = None"
      "distinct (map pID (mProfiles m))" "distinct (map pIdentifier (mProfiles m))"
      "distinct (map pContentSHA256 (mProfiles m))"
    and ids: "set ids = pID ` set (mProfiles m)"
    by (simp_all add: validateProfiles_Inr)
  show ?thesis
    unfolding ValidateManifest_def Inr sum.case wellFormed_def
    using ps by (auto simp: ids validateIDList_None manifest_bounds)
qed

lemma ValidateManifest_error: "ValidateManifest m = Some e \<Longrightarrow> errorsIs e ErrInvalidManifest"
  by (auto simp: ValidateManifest_def split: if_splits sum.splits dest: validateProfiles_error)

lemma InitialManifest_wellFormed: "wellFormed InitialManifest"
  by (simp add: wellFormed_def InitialManifest_def manifest_bounds)

lemma manifestProfile_Some:
  "manifestProfile m i = Some p \<Longrightarrow> p \<in> set (mProfiles m) \<and> pID p = i"
  unfolding manifestProfile_def by (drule find_Some_set) simp

lemma manifestProfile_None: "manifestProfile m i = None \<longleftrightarrow> i \<notin> pID ` set (mProfiles m)"
  by (auto simp: manifestProfile_def find_None_set)

lemma manifestProfile_member:
  "wellFormed m \<Longrightarrow> p \<in> set (mProfiles m) \<Longrightarrow> manifestProfile m (pID p) = Some p"
  by (simp add: wellFormed_def manifestProfile_def find_distinct_key)

section \<open>Identity\<close>

text \<open>\<open>GenerateID\<close> on the sixteen bytes it read; \<open>sha256\<close> is the hash of the standard library.\<close>

definition GenerateID :: "bytes \<Rightarrow> string" where
  "GenerateID raw = ''tf_'' @ map lowerChar (base32NoPadding raw)"

definition RuntimeIdentifier :: "(bytes \<Rightarrow> bytes) \<Rightarrow> string \<Rightarrow> string" where
  "RuntimeIdentifier sha256 i = ''tf'' @ take 12 (map lowerChar (base32NoPadding (sha256 i)))"

lemma base32_lower_digits: "c \<in> set base32Alphabet \<Longrightarrow> base32Digit (lowerChar c)"
  by (auto simp: base32Alphabet_def base32Digit_def lowerChar_def)

lemma base32_digits: "list_all base32Digit (map lowerChar (base32NoPadding raw))"
proof -
  have "set (base32NoPadding raw) \<subseteq> set base32Alphabet"
    unfolding base32NoPadding_def by (rule set_encodeWith) (rule alphabets)
  then show ?thesis by (auto simp: list_all_iff intro: base32_lower_digits)
qed

lemma length_base32: "length (base32NoPadding raw) = (8 * length raw + 4) div 5"
  by (simp add: base32NoPadding_def length_encodeWith)

section \<open>Listing order\<close>

text \<open>\<open>sort.Slice\<close> under the order on lower-cased display name, then identifier; the second
  component makes the order total on the profiles of a manifest, so the result does not depend on
  the sorting algorithm.\<close>

definition SortedProfiles :: "utab \<Rightarrow> profile list \<Rightarrow> profile list" where
  "SortedProfiles U values = sort_key (\<lambda>p. (toLower U (pDisplayName p), pID p)) values"

section \<open>Lists of identifiers\<close>

fun prependLoop :: "string \<Rightarrow> nat \<Rightarrow> string list \<Rightarrow> string list \<Rightarrow> string list" where
  "prependLoop value limit result [] = result"
| "prependLoop value limit result (c # cs) =
     (let result = (if c \<noteq> value then result @ [c] else result)
      in if length result = limit then result else prependLoop value limit result cs)"

definition prependUnique :: "string list \<Rightarrow> string \<Rightarrow> nat \<Rightarrow> string list" where
  "prependUnique values value limit = prependLoop value limit [value] values"

definition removeProfile :: "profile list \<Rightarrow> string \<Rightarrow> profile list" where
  "removeProfile values i = filter (\<lambda>p. pID p \<noteq> i) values"

definition removeID :: "string list \<Rightarrow> string \<Rightarrow> string list" where
  "removeID values i = filter (\<lambda>v. v \<noteq> i) values"

lemma prependLoop_spec:
  "length result < limit \<Longrightarrow>
     prependLoop value limit result vs = take limit (result @ filter (\<lambda>v. v \<noteq> value) vs)"
  by (induction vs arbitrary: result) (auto simp: Let_def take_Cons')

lemma prependUnique_spec:
  "1 < limit \<Longrightarrow> prependUnique vs v limit = take limit (v # filter (\<lambda>w. w \<noteq> v) vs)"
  by (simp add: prependUnique_def prependLoop_spec)

lemma prependUnique_props:
  assumes "1 < limit" and "distinct vs"
  shows "distinct (prependUnique vs v limit)" and "length (prependUnique vs v limit) \<le> limit"
    and "set (prependUnique vs v limit) \<subseteq> insert v (set vs)"
    and "hd (prependUnique vs v limit) = v"
proof -
  have "set (take limit (v # filter (\<lambda>w. w \<noteq> v) vs)) \<subseteq> insert v (set vs)"
    using set_take_subset [of limit "v # filter (\<lambda>w. w \<noteq> v) vs"] by auto
  then show "set (prependUnique vs v limit) \<subseteq> insert v (set vs)"
    using assms by (simp add: prependUnique_spec)
  show "distinct (prependUnique vs v limit)"
    using assms by (simp add: prependUnique_spec distinct_take)
  show "length (prependUnique vs v limit) \<le> limit" and "hd (prependUnique vs v limit) = v"
    using assms by (simp_all add: prependUnique_spec)
qed

section \<open>Properties\<close>

text \<open>C27: manifest validation accepts exactly the well-formed manifests, and every rejection answers to
  \<open>ErrInvalidManifest\<close>.\<close>

theorem manifest_validation_decides:
  "(ValidateManifest m = None \<longleftrightarrow> wellFormed m) \<and>
   errIs (ValidateManifest m) ErrInvalidManifest = (\<not> wellFormed m)"
  using ValidateManifest_None [of m] ValidateManifest_error [of m]
  by (cases "ValidateManifest m") auto

text \<open>C28: a generated profile identifier matches \<open>idPattern\<close>, and the runtime name derived from it
  matches \<open>identifierPattern\<close>, so it fits the 15 bytes Linux leaves for an interface name.\<close>

theorem generated_identity_valid:
  assumes "length raw = 16" and "\<And>s. length (h s) = 32"
  shows "idPattern (GenerateID raw) \<and> identifierPattern (RuntimeIdentifier h (GenerateID raw)) \<and>
     length (RuntimeIdentifier h (GenerateID raw)) \<le> 15"
proof -
  have "list_all base32Digit (take 12 (map lowerChar (base32NoPadding x)))" for x
    using base32_digits [of x] by (auto simp: list_all_iff take_map dest: in_set_takeD)
  then show ?thesis
    using assms base32_digits [of raw]
    by (simp add: idPattern_def identifierPattern_def GenerateID_def RuntimeIdentifier_def length_base32
        hasPrefix_iff)
qed

theorem generated_identity_valid_witness:
  "idPattern (GenerateID (replicate 16 CHR 0x41)) \<and>
   identifierPattern (RuntimeIdentifier (\<lambda>s. take 32 (s @ replicate 32 CHR 0x42)) (GenerateID (replicate 16 CHR 0x41))) \<and>
   length (RuntimeIdentifier (\<lambda>s. take 32 (s @ replicate 32 CHR 0x42)) (GenerateID (replicate 16 CHR 0x41))) \<le> 15"
  by (rule generated_identity_valid) simp_all

text \<open>The recents list after a connection starts with the profile, holds it once, keeps the order of
  the others and never has more than five entries.\<close>

lemma recents_after_connection:
  assumes "distinct vs"
  shows "prependUnique vs v MaxRecents = take 5 (v # removeID vs v) \<and>
     distinct (prependUnique vs v MaxRecents) \<and> length (prependUnique vs v MaxRecents) \<le> 5 \<and>
     hd (prependUnique vs v MaxRecents) = v"
  using prependUnique_props [of MaxRecents vs v] prependUnique_spec [of MaxRecents vs v] assms
  by (simp add: MaxRecents_def removeID_def)

end
