(* ===== verification/OpenVPNPolicy.thy ===== *)
theory OpenVPNPolicy
  imports Model
begin

text \<open>
  The import policy for OpenVPN profiles, \<open>internal/profiles/openvpn_policy.go\<close>: the tokenizer with
  its quotes, escapes and comments, the continuation of logical lines, the inline blocks, and the
  closed lists of directives.  The scanners walk the runes of a line as \<open>for index, char := range
  line\<close> does.  The theorems say that a directive gets through only if it is on the allowed list or
  is an inline block, that a denied directive anywhere outside a block rejects the whole file, and
  what an accepted file must contain.
\<close>

section \<open>The tables\<close>

definition maxOpenVPNLogicalLine :: nat where "maxOpenVPNLogicalLine = 2 ^ 14"
definition maxOpenVPNInlineBlock :: nat where "maxOpenVPNInlineBlock = 2 ^ 18"

definition openVPNInlineBlocks :: "string list" where
  "openVPNInlineBlocks = [''ca'', ''cert'', ''key'', ''tls-auth'', ''tls-crypt'', ''tls-crypt-v2'']"

definition openVPNAllowedDirectives :: "(string \<times> nat \<times> nat) list" where
  "openVPNAllowedDirectives = [
      (''allow-compression'', 1, 1), (''allow-pull-fqdn'', 0, 0), (''auth'', 1, 1),
      (''auth-nocache'', 0, 0), (''auth-retry'', 1, 1), (''cipher'', 1, 1), (''client'', 0, 0),
      (''comp-lzo'', 0, 1), (''compress'', 0, 1), (''connect-retry'', 1, 2),
      (''connect-retry-max'', 1, 1), (''connect-timeout'', 1, 1), (''data-ciphers'', 1, 1),
      (''data-ciphers-fallback'', 1, 1), (''dev'', 1, 1), (''dev-type'', 1, 1),
      (''dhcp-option'', 2, 3), (''explicit-exit-notify'', 0, 1), (''fast-io'', 0, 0),
      (''hand-window'', 1, 1), (''inactive'', 1, 2), (''keepalive'', 2, 2),
      (''key-direction'', 1, 1), (''link-mtu'', 1, 1), (''mssfix'', 0, 2),
      (''mute-replay-warnings'', 0, 0), (''nobind'', 0, 0), (''ns-cert-type'', 1, 1),
      (''ping'', 1, 1), (''ping-exit'', 1, 1), (''ping-restart'', 1, 1), (''persist-key'', 0, 0),
      (''persist-tun'', 0, 0), (''peer-fingerprint'', 1, 1), (''proto'', 1, 1), (''pull'', 0, 0),
      (''pull-filter'', 2, 2), (''rcvbuf'', 1, 1), (''redirect-gateway'', 0, 8),
      (''redirect-private'', 0, 8), (''remote'', 1, 3), (''remote-cert-ku'', 1, 8),
      (''remote-cert-tls'', 1, 1), (''remote-random'', 0, 0), (''remote-random-hostname'', 0, 0),
      (''reneg-sec'', 1, 1), (''resolv-retry'', 1, 1), (''route'', 1, 4), (''route-delay'', 0, 2),
      (''route-gateway'', 1, 1), (''route-ipv6'', 1, 2), (''route-metric'', 1, 1),
      (''route-nopull'', 0, 0), (''sndbuf'', 1, 1), (''socket-flags'', 1, 8),
      (''tcp-nodelay'', 0, 0), (''tls-cipher'', 1, 1), (''tls-ciphersuites'', 1, 1),
      (''tls-client'', 0, 0), (''tls-exit'', 0, 0), (''tls-version-max'', 1, 2),
      (''tls-version-min'', 1, 2), (''topology'', 1, 1), (''tran-window'', 1, 1),
      (''tun-mtu'', 1, 1), (''tun-mtu-extra'', 1, 1), (''verify-x509-name'', 1, 2)
   ]"

definition openVPNDeniedDirectives :: "(string \<times> string) list" where
  "openVPNDeniedDirectives = [
      (''askpass'', ''interactive credentials''),
      (''auth-gen-token'', ''interactive credentials''),
      (''auth-gen-token-secret'', ''credential files''),
      (''auth-user-pass'', ''interactive credentials''),
      (''auth-user-pass-verify'', ''executable hooks''), (''cd'', ''process ownership changes''),
      (''chroot'', ''process ownership changes''), (''client-connect'', ''executable hooks''),
      (''client-crresponse'', ''interactive challenges''),
      (''client-disconnect'', ''executable hooks''), (''config'', ''included configuration''),
      (''daemon'', ''process ownership changes''), (''down'', ''executable hooks''),
      (''down-pre'', ''executable hooks''), (''group'', ''process ownership changes''),
      (''http-proxy-user-pass'', ''credential files''), (''ipchange'', ''executable hooks''),
      (''learn-address'', ''executable hooks''), (''log'', ''arbitrary output paths''),
      (''log-append'', ''arbitrary output paths''), (''management'', ''management interfaces''),
      (''management-client'', ''management interfaces''),
      (''management-external-key'', ''management interfaces''),
      (''management-hold'', ''management interfaces''),
      (''management-query-passwords'', ''management interfaces''),
      (''management-signal'', ''management interfaces''),
      (''machine-readable-output'', ''diagnostic overrides''), (''plugin'', ''plugins''),
      (''route-up'', ''executable hooks''), (''script-security'', ''executable hooks''),
      (''secret'', ''static key files''), (''setenv-safe'', ''environment overrides''),
      (''socks-proxy'', ''proxy credential files''), (''status'', ''arbitrary output paths''),
      (''status-version'', ''arbitrary output paths''), (''syslog'', ''diagnostic overrides''),
      (''tls-verify'', ''executable hooks''), (''tmp-dir'', ''arbitrary output paths''),
      (''up'', ''executable hooks''), (''up-delay'', ''executable hooks''),
      (''up-restart'', ''executable hooks''), (''user'', ''process ownership changes''),
      (''verb'', ''diagnostic overrides''), (''writepid'', ''process ownership changes'')
   ]"

abbreviation backslash :: nat where "backslash \<equiv> 92"
abbreviation singleQuote :: nat where "singleQuote \<equiv> 39"
abbreviation doubleQuote :: nat where "doubleQuote \<equiv> 34"

definition bs :: string where
  "bs = [CHR 0x5C]"

text \<open>A comment starts at \<open>#\<close> or \<open>;\<close> at the beginning of the line or after a blank.\<close>

definition commentStart :: "string \<Rightarrow> nat \<Rightarrow> nat \<Rightarrow> bool" where
  "commentStart line index r \<longleftrightarrow> (r = 35 \<or> r = 59) \<and>
     (index = 0 \<or> line ! (index - 1) = CHR '' '' \<or> byteOf (line ! (index - 1)) = 9)"

section \<open>Logical lines\<close>

text \<open>The scan for a comment: the quote and escape flags where it stops, and the comment's index.\<close>

fun continuationScan ::
    "string \<Rightarrow> bool \<Rightarrow> bool \<Rightarrow> bool \<Rightarrow> (nat \<times> nat \<times> nat) list \<Rightarrow> bool \<times> bool \<times> bool \<times> nat option" where
  "continuationScan line inSingle inDouble escaped [] = (inSingle, inDouble, escaped, None)"
| "continuationScan line inSingle inDouble escaped ((index, char, n) # rs) =
     (if escaped then continuationScan line inSingle inDouble False rs
      else if char = backslash \<and> \<not> inSingle then continuationScan line inSingle inDouble True rs
      else if char = singleQuote \<and> \<not> inDouble
      then continuationScan line (\<not> inSingle) inDouble escaped rs
      else if char = doubleQuote \<and> \<not> inSingle
      then continuationScan line inSingle (\<not> inDouble) escaped rs
      else if \<not> inSingle \<and> \<not> inDouble \<and> commentStart line index char
      then (inSingle, inDouble, escaped, Some index)
      else continuationScan line inSingle inDouble escaped rs)"

fun escapedAtEnd :: "bool \<Rightarrow> nat list \<Rightarrow> bool" where
  "escapedAtEnd escaped [] = escaped"
| "escapedAtEnd escaped (c # cs) =
     escapedAtEnd (if escaped then False else c = backslash) cs"

definition continuationEnd ::
    "string \<Rightarrow> bool \<times> bool \<times> bool \<times> nat option \<Rightarrow> goerr + bool \<times> string" where
  "continuationEnd line scan =
     (case scan of (inSingle, inDouble, escaped, commentAt) \<Rightarrow>
        let content = (case commentAt of None \<Rightarrow> line | Some i \<Rightarrow> take i line);
            escaped = (case commentAt of None \<Rightarrow> escaped | Some i \<Rightarrow> escapedAtEnd False (runes content));
            trimmed = trimRightSet [CHR '' '', CHR 0x09] content
        in if escaped \<and> hasSuffix trimmed bs then Inr (True, trimSuffix trimmed bs)
           else if inSingle \<or> inDouble then Inl (ErrText ''unterminated quote'')
           else Inr (False, content))"

definition openVPNContinuation :: "string \<Rightarrow> goerr + bool \<times> string" where
  "openVPNContinuation line =
     continuationEnd line (continuationScan line False False False (runesFrom 0 line))"

section \<open>Tokens\<close>

record tokenizer =
  tkTokens :: "string list"
  tkToken :: string
  tkSingle :: bool
  tkDouble :: bool
  tkEscaped :: bool
  tkStarted :: bool

definition tkFlush :: "tokenizer \<Rightarrow> tokenizer" where
  "tkFlush t =
     (if tkStarted t
      then t\<lparr>tkTokens := tkTokens t @ [tkToken t], tkToken := [], tkStarted := False\<rparr> else t)"

definition tkWrite :: "nat \<Rightarrow> tokenizer \<Rightarrow> tokenizer" where
  "tkWrite r t = t\<lparr>tkToken := tkToken t @ encodeRune r, tkStarted := True\<rparr>"

fun tokenLoop :: "string \<Rightarrow> tokenizer \<Rightarrow> (nat \<times> nat \<times> nat) list \<Rightarrow> tokenizer" where
  "tokenLoop line t [] = t"
| "tokenLoop line t ((index, char, n) # rs) =
     (if tkEscaped t then tokenLoop line ((tkWrite char t)\<lparr>tkEscaped := False\<rparr>) rs
      else if char = backslash \<and> \<not> tkSingle t
      then tokenLoop line (t\<lparr>tkEscaped := True, tkStarted := True\<rparr>) rs
      else if char = singleQuote \<and> \<not> tkDouble t
      then tokenLoop line (t\<lparr>tkSingle := \<not> tkSingle t, tkStarted := True\<rparr>) rs
      else if char = doubleQuote \<and> \<not> tkSingle t
      then tokenLoop line (t\<lparr>tkDouble := \<not> tkDouble t, tkStarted := True\<rparr>) rs
      else if \<not> tkSingle t \<and> \<not> tkDouble t \<and> commentStart line index char then t
      else if \<not> tkSingle t \<and> \<not> tkDouble t \<and> (char = 32 \<or> char = 9)
      then tokenLoop line (tkFlush t) rs
      else tokenLoop line (tkWrite char t) rs)"

definition tkStart :: tokenizer where
  "tkStart = \<lparr>tkTokens = [], tkToken = [], tkSingle = False, tkDouble = False,
     tkEscaped = False, tkStarted = False\<rparr>"

definition tokenizeOpenVPNLine :: "string \<Rightarrow> goerr + string list" where
  "tokenizeOpenVPNLine line =
     (let t = tokenLoop line tkStart (runesFrom 0 line)
      in if tkEscaped t then Inl (ErrText ''dangling escape'')
         else if tkSingle t \<or> tkDouble t then Inl (ErrText ''unterminated quote'')
         else Inr (tkTokens (tkFlush t)))"

section \<open>One directive\<close>

definition managementPrefix :: string where
  "managementPrefix = ''management-''"

definition directiveName :: "utab \<Rightarrow> string \<Rightarrow> string" where
  "directiveName U token = toLower U (trimLeftSet ''-'' token)"

definition validateOpenVPNDirective :: "utab \<Rightarrow> string \<Rightarrow> nat \<Rightarrow> goerr + string" where
  "validateOpenVPNDirective U line lineNumber =
     (case tokenizeOpenVPNLine line of
        Inl e \<Rightarrow> Inl (PolicyErr lineNumber ''invalid_directive'' (case e of ErrText m \<Rightarrow> m | _ \<Rightarrow> []))
      | Inr [] \<Rightarrow> Inr []
      | Inr (first # args) \<Rightarrow>
          let directive = directiveName U first;
              denied = map_of openVPNDeniedDirectives directive
          in if denied \<noteq> None \<or> hasPrefix directive managementPrefix
             then Inl (PolicyErr lineNumber ''unsafe_directive''
                    (directive @ '' is not imported because it controls '' @
                     (case denied of None \<Rightarrow> ''management interfaces'' | Some reason \<Rightarrow> reason)))
             else if directive \<in> set openVPNInlineBlocks
             then (if length (first # args) \<noteq> 2 \<or> toLower U (args ! 0) \<noteq> ''[inline]''
                   then Inl (PolicyErr lineNumber ''external_reference''
                          (directive @ '' must use an inline block; referenced files are not imported''))
                   else Inr directive)
             else case map_of openVPNAllowedDirectives directive of
               None \<Rightarrow> Inl (PolicyErr lineNumber ''unsupported_directive''
                         ''this directive is not in the version 1 OpenVPN import policy'')
             | Some (lo, hi) \<Rightarrow>
                 if length args < lo \<or> length args > hi
                 then Inl (PolicyErr lineNumber ''invalid_directive''
                        (directive @ '' has an unsupported argument count''))
                 else Inr directive)"

definition validateOpenVPNCharacters :: "string \<Rightarrow> err" where
  "validateOpenVPNCharacters line =
     (if list_ex (\<lambda>r. isControl r \<and> r \<noteq> 9) (runes line)
      then Some (ErrText ''configuration contains a control character'') else None)"

text \<open>The name, and whether the line opens or closes an inline block.\<close>

definition openVPNBlockDelimiter :: "utab \<Rightarrow> string \<Rightarrow> string \<times> bool \<times> bool" where
  "openVPNBlockDelimiter U line =
     (if length line < 3 \<or> line ! 0 \<noteq> CHR ''<'' \<or> line ! (length line - 1) \<noteq> CHR ''>''
      then ([], False, False)
      else let content = trimSpace (take (length line - 2) (drop 1 line))
           in if hasPrefix content ''/''
              then let name = toLower U (trimSpace (trimPrefix content ''/''))
                   in (name, False, name \<noteq> [])
              else let name = toLower U content in (name, name \<noteq> [], False))"

section \<open>The whole file\<close>

text \<open>The physical lines \<open>bufio.Reader.ReadString\<close> returns, each with its line feed; an empty last
  read is not a line.\<close>

fun physicalLines :: "string \<Rightarrow> string list" where
  "physicalLines [] = []"
| "physicalLines (c # cs) =
     (if byteOf c = 10 then [c] # physicalLines cs
      else case physicalLines cs of [] \<Rightarrow> [[c]]
           | l # ls \<Rightarrow> (c # l) # ls)"

definition lineText :: "string \<Rightarrow> string" where
  "lineText physical = trimSuffix (trimSuffix physical [CHR 0x0A]) [CHR 0x0D]"

record policyState =
  ovLine :: nat
  ovLogical :: string
  ovBlock :: string
  ovBlockBytes :: nat
  ovSeenBlocks :: "string list"
  ovSeenClient :: bool
  ovSeenRemote :: bool

definition policyBlockLine :: "utab \<Rightarrow> policyState \<Rightarrow> string \<Rightarrow> string \<Rightarrow> goerr + policyState" where
  "policyBlockLine U st physical trimmed =
     (if equalFold U trimmed (''</'' @ ovBlock st @ ''>'')
      then Inr (st\<lparr>ovSeenBlocks := ovBlock st # ovSeenBlocks st, ovBlock := [], ovBlockBytes := 0\<rparr>)
      else if hasPrefix trimmed ''<'' \<and> hasSuffix trimmed ''>''
      then Inl (PolicyErr (ovLine st) ''nested_inline_block'' ''inline blocks cannot be nested'')
      else let n = ovBlockBytes st + length physical + 1
           in if n > maxOpenVPNInlineBlock
              then Inl (PolicyErr (ovLine st) ''inline_block_too_large'' ''inline block exceeds 256 KiB'')
              else Inr (st\<lparr>ovBlockBytes := n\<rparr>))"

definition policyOpenBlock :: "policyState \<Rightarrow> string \<Rightarrow> bool \<Rightarrow> goerr + policyState" where
  "policyOpenBlock st name closing =
     (if closing
      then Inl (PolicyErr (ovLine st) ''unexpected_inline_close''
             ''inline block closing delimiter has no matching opening delimiter'')
      else if name \<notin> set openVPNInlineBlocks
      then Inl (PolicyErr (ovLine st) ''unsupported_inline_block'' ''this inline block is not supported'')
      else if name \<in> set (ovSeenBlocks st)
      then Inl (PolicyErr (ovLine st) ''duplicate_inline_block''
             (''inline block '' @ name @ '' may appear only once''))
      else Inr (st\<lparr>ovBlock := name\<rparr>))"

definition policyDirectiveLine :: "utab \<Rightarrow> policyState \<Rightarrow> string \<Rightarrow> goerr + policyState" where
  "policyDirectiveLine U st physical =
     (case openVPNContinuation physical of
        Inl e \<Rightarrow> Inl (PolicyErr (ovLine st) ''invalid_directive'' (case e of ErrText m \<Rightarrow> m | _ \<Rightarrow> []))
      | Inr (continued, fragment) \<Rightarrow>
          let logical = ovLogical st @ fragment
          in if length logical > maxOpenVPNLogicalLine
             then Inl (PolicyErr (ovLine st) ''line_too_long'' ''logical configuration line exceeds 16 KiB'')
             else if continued then Inr (st\<lparr>ovLogical := logical\<rparr>)
             else case validateOpenVPNDirective U logical (ovLine st) of
                    Inl e \<Rightarrow> Inl e
                  | Inr directive \<Rightarrow>
                      Inr (st\<lparr>ovSeenClient := ovSeenClient st \<or> directive = ''client''
                                              \<or> directive = ''tls-client'',
                              ovSeenRemote := ovSeenRemote st \<or> directive = ''remote'',
                              ovLogical := []\<rparr>))"

definition policyStep :: "utab \<Rightarrow> policyState \<Rightarrow> string \<Rightarrow> goerr + policyState" where
  "policyStep U st0 raw =
     (let st = st0\<lparr>ovLine := ovLine st0 + 1\<rparr>;
          physical = lineText raw
      in if length physical > maxOpenVPNLogicalLine
         then Inl (PolicyErr (ovLine st) ''line_too_long'' ''configuration line exceeds 16 KiB'')
         else case validateOpenVPNCharacters physical of
           Some e \<Rightarrow> Inl (PolicyErr (ovLine st) ''control_character''
                      ''configuration contains a control character'')
         | None \<Rightarrow>
             let trimmed = trimSpace physical
             in if ovBlock st \<noteq> [] then policyBlockLine U st physical trimmed
                else case openVPNBlockDelimiter U trimmed of (name, opening, closing) \<Rightarrow>
                  if opening \<or> closing then policyOpenBlock st name closing
                  else policyDirectiveLine U st physical)"

fun policyLines :: "utab \<Rightarrow> policyState \<Rightarrow> string list \<Rightarrow> goerr + policyState" where
  "policyLines U st [] = Inr st"
| "policyLines U st (l # ls) =
     (case policyStep U st l of Inl e \<Rightarrow> Inl e | Inr st' \<Rightarrow> policyLines U st' ls)"

definition policyStart :: policyState where
  "policyStart = \<lparr>ovLine = 0, ovLogical = [], ovBlock = [], ovBlockBytes = 0, ovSeenBlocks = [],
     ovSeenClient = False, ovSeenRemote = False\<rparr>"

definition ValidateOpenVPNImport :: "utab \<Rightarrow> string \<Rightarrow> err" where
  "ValidateOpenVPNImport U data =
     (if data = [] \<or> length data > MaxProfileBytes \<or> \<not> validUTF8 data
      then Some (PolicyErr 0 ''invalid_encoding''
             ''OpenVPN profile must be non-empty UTF-8 text no larger than 1 MiB'')
      else case policyLines U policyStart (physicalLines data) of
        Inl e \<Rightarrow> Some e
      | Inr st \<Rightarrow>
          if ovBlock st \<noteq> []
          then Some (PolicyErr (ovLine st) ''unterminated_inline_block''
                 (''inline block '' @ ovBlock st @ '' is not closed''))
          else if ovLogical st \<noteq> []
          then Some (PolicyErr (ovLine st) ''dangling_continuation''
                 ''configuration ends during a continued directive'')
          else if \<not> ovSeenClient st \<or> \<not> ovSeenRemote st
          then Some (PolicyErr 0 ''missing_client_directive''
                 ''OpenVPN profile requires client mode and at least one remote'')
          else None)"

section \<open>What an accepted file contains\<close>

text \<open>A directive with that many arguments is permitted when it is not denied, not a management
  directive, and either an inline block marked \<open>[inline]\<close> or on the allowed list within its bounds.\<close>

definition permittedDirective :: "string \<Rightarrow> nat \<Rightarrow> bool" where
  "permittedDirective directive n \<longleftrightarrow>
     directive \<notin> set (map fst openVPNDeniedDirectives) \<and> \<not> hasPrefix directive managementPrefix \<and>
     (directive \<in> set openVPNInlineBlocks \<and> n = 1 \<or>
      (case map_of openVPNAllowedDirectives directive of
         None \<Rightarrow> False | Some (lo, hi) \<Rightarrow> lo \<le> n \<and> n \<le> hi))"

definition permittedLine :: "utab \<Rightarrow> string \<Rightarrow> bool" where
  "permittedLine U line =
     (case tokenizeOpenVPNLine line of
        Inl e \<Rightarrow> False
      | Inr [] \<Rightarrow> True
      | Inr (first # args) \<Rightarrow> permittedDirective (directiveName U first) (length args))"

definition lineDirective :: "utab \<Rightarrow> string \<Rightarrow> string" where
  "lineDirective U line =
     (case tokenizeOpenVPNLine line of Inr (first # args) \<Rightarrow> directiveName U first | _ \<Rightarrow> [])"

text \<open>The logical lines of a file that lie outside its inline blocks, in order.\<close>

definition stepLines :: "policyState \<Rightarrow> policyState \<Rightarrow> string \<Rightarrow> string list" where
  "stepLines st st' l =
     (if ovBlock st = [] \<and> ovBlock st' = []
      then (case openVPNContinuation (lineText l) of
              Inr (False, fragment) \<Rightarrow> [ovLogical st @ fragment] | _ \<Rightarrow> [])
      else [])"

fun logicalLines :: "utab \<Rightarrow> policyState \<Rightarrow> string list \<Rightarrow> string list" where
  "logicalLines U st [] = []"
| "logicalLines U st (l # ls) =
     (case policyStep U st l of
        Inl e \<Rightarrow> []
      | Inr st' \<Rightarrow> stepLines st st' l @ logicalLines U st' ls)"

lemma denied_None:
  "map_of openVPNDeniedDirectives d = None \<longleftrightarrow> d \<notin> set (map fst openVPNDeniedDirectives)"
  by (simp add: map_of_eq_None_iff)

lemma validateOpenVPNDirective_permitted:
  assumes "validateOpenVPNDirective U line n = Inr d"
  shows "permittedLine U line" and "d = lineDirective U line"
  using assms
  by (auto simp: validateOpenVPNDirective_def permittedLine_def permittedDirective_def
      lineDirective_def Let_def denied_None
      split: sum.splits list.splits if_splits option.splits)

lemma openVPNBlockDelimiter_name:
  "openVPNBlockDelimiter U line = (name, True, c) \<Longrightarrow> name \<noteq> []"
  by (auto simp: openVPNBlockDelimiter_def Let_def split: if_splits)

lemma policyDirectiveLine_block:
  "policyDirectiveLine U st physical = Inr st' \<Longrightarrow> ovBlock st' = ovBlock st"
  by (auto simp: policyDirectiveLine_def Let_def split: sum.splits if_splits)

lemma policyBlockLine_keeps:
  "policyBlockLine U st physical trimmed = Inr st' \<Longrightarrow>
     ovSeenClient st' = ovSeenClient st \<and> ovSeenRemote st' = ovSeenRemote st"
  by (auto simp: policyBlockLine_def Let_def split: if_splits)

lemma policyOpenBlock_keeps:
  "policyOpenBlock st name closing = Inr st' \<Longrightarrow> name \<noteq> [] \<Longrightarrow>
     ovBlock st' \<noteq> [] \<and> ovSeenClient st' = ovSeenClient st \<and> ovSeenRemote st' = ovSeenRemote st"
  by (auto simp: policyOpenBlock_def split: if_splits)

lemma policyOpenBlock_closing: "policyOpenBlock st name True \<noteq> Inr st'"
  by (simp add: policyOpenBlock_def)

text \<open>One line: what it adds to the directives seen.\<close>

definition stepTrace :: "utab \<Rightarrow> policyState \<Rightarrow> policyState \<Rightarrow> string list \<Rightarrow> bool" where
  "stepTrace U st st' lines \<longleftrightarrow>
     (\<forall>l\<in>set lines. permittedLine U l) \<and>
     (ovSeenClient st' \<longleftrightarrow> ovSeenClient st \<or>
        (\<exists>l\<in>set lines. lineDirective U l \<in> {''client'', ''tls-client''})) \<and>
     (ovSeenRemote st' \<longleftrightarrow> ovSeenRemote st \<or> (\<exists>l\<in>set lines. lineDirective U l = ''remote''))"

lemma stepTrace_Nil:
  "ovSeenClient st' = ovSeenClient st \<Longrightarrow> ovSeenRemote st' = ovSeenRemote st \<Longrightarrow> stepTrace U st st' []"
  by (simp add: stepTrace_def)

lemma step_line_number:
  "stepTrace U (st\<lparr>ovLine := n\<rparr>) = stepTrace U st" "stepLines (st\<lparr>ovLine := n\<rparr>) = stepLines st"
  by (intro ext; simp add: stepTrace_def stepLines_def split: sum.splits prod.splits bool.splits)+

lemma policyDirectiveLine_trace:
  assumes "policyDirectiveLine U st (lineText l) = Inr st'" and "ovBlock st = []"
  shows "stepTrace U st st' (stepLines st st' l)"
proof -
  from assms(1) obtain continued fragment
    where c: "openVPNContinuation (lineText l) = Inr (continued, fragment)"
    by (auto simp: policyDirectiveLine_def split: sum.splits)
  have b: "ovBlock st' = []" using assms policyDirectiveLine_block by metis
  show ?thesis
  proof (cases continued)
    case True
    then show ?thesis using assms c
      by (auto simp: policyDirectiveLine_def stepLines_def Let_def split: if_splits intro!: stepTrace_Nil)
  next
    case False
    with assms(1) c obtain d where
      d: "validateOpenVPNDirective U (ovLogical st @ fragment) (ovLine st) = Inr d"
      and s: "ovSeenClient st' = (ovSeenClient st \<or> d = ''client'' \<or> d = ''tls-client'')"
        "ovSeenRemote st' = (ovSeenRemote st \<or> d = ''remote'')"
      by (auto simp: policyDirectiveLine_def Let_def split: if_splits sum.splits)
    have "stepLines st st' l = [ovLogical st @ fragment]"
      using assms(2) b c False by (simp add: stepLines_def)
    then show ?thesis
      using validateOpenVPNDirective_permitted [OF d] s by (simp add: stepTrace_def)
  qed
qed

lemma policyStep_Inr:
  assumes "policyStep U st l = Inr st'"
  shows "if ovBlock st \<noteq> []
     then policyBlockLine U (st\<lparr>ovLine := ovLine st + 1\<rparr>) (lineText l) (trimSpace (lineText l)) = Inr st'
     else case openVPNBlockDelimiter U (trimSpace (lineText l)) of (name, opn, closing) \<Rightarrow>
       if opn \<or> closing then policyOpenBlock (st\<lparr>ovLine := ovLine st + 1\<rparr>) name closing = Inr st'
       else policyDirectiveLine U (st\<lparr>ovLine := ovLine st + 1\<rparr>) (lineText l) = Inr st'"
  using assms unfolding policyStep_def Let_def
  by (auto split: if_split_asm option.split_asm prod.splits)

lemma policyStep_trace:
  assumes "policyStep U st l = Inr st'"
  shows "stepTrace U st st' (stepLines st st' l)"
proof (cases "ovBlock st = []")
  case False
  with policyStep_Inr [OF assms]
  have "policyBlockLine U (st\<lparr>ovLine := ovLine st + 1\<rparr>) (lineText l) (trimSpace (lineText l)) = Inr st'"
    by simp
  from policyBlockLine_keeps [OF this] False show ?thesis
    by (simp add: stepLines_def stepTrace_Nil)
next
  case True
  let ?st = "st\<lparr>ovLine := ovLine st + 1\<rparr>"
  obtain name opn closing where
    d: "openVPNBlockDelimiter U (trimSpace (lineText l)) = (name, opn, closing)"
    by (cases "openVPNBlockDelimiter U (trimSpace (lineText l))")
  show ?thesis
  proof (cases "opn \<or> closing")
    case op: True
    with assms True d have o: "policyOpenBlock ?st name closing = Inr st'"
      using policyStep_Inr [OF assms] by simp
    then have "\<not> closing" using policyOpenBlock_closing by (cases closing) auto
    with op d have "name \<noteq> []" using openVPNBlockDelimiter_name by auto
    with policyOpenBlock_keeps [OF o] show ?thesis
      by (simp add: stepLines_def stepTrace_Nil)
  next
    case False
    with assms True d have "policyDirectiveLine U ?st (lineText l) = Inr st'"
      using policyStep_Inr [OF assms] by simp
    moreover have "ovBlock ?st = []" using True by simp
    ultimately have "stepTrace U ?st st' (stepLines ?st st' l)" by (rule policyDirectiveLine_trace)
    then show ?thesis by (simp only: step_line_number)
  qed
qed

lemma stepTrace_append:
  "stepTrace U s0 s1 xs \<Longrightarrow> stepTrace U s1 s2 ys \<Longrightarrow> stepTrace U s0 s2 (xs @ ys)"
  by (simp add: stepTrace_def ball_Un bex_Un disj_assoc)

lemma policyLines_trace:
  "policyLines U st ls = Inr st' \<Longrightarrow> stepTrace U st st' (logicalLines U st ls)"
  by (induction ls arbitrary: st)
    (auto intro: stepTrace_Nil stepTrace_append policyStep_trace split: sum.splits)

lemma ValidateOpenVPNImport_trace:
  assumes "ValidateOpenVPNImport U data = None"
  shows "\<forall>l\<in>set (logicalLines U policyStart (physicalLines data)). permittedLine U l"
    and "\<exists>l\<in>set (logicalLines U policyStart (physicalLines data)).
           lineDirective U l \<in> {''client'', ''tls-client''}"
    and "\<exists>l\<in>set (logicalLines U policyStart (physicalLines data)). lineDirective U l = ''remote''"
proof -
  from assms obtain st where "policyLines U policyStart (physicalLines data) = Inr st"
    and s: "ovSeenClient st" "ovSeenRemote st"
    by (auto simp: ValidateOpenVPNImport_def split: if_splits sum.splits)
  then have "stepTrace U policyStart st (logicalLines U policyStart (physicalLines data))"
    by (blast intro: policyLines_trace)
  with s show "\<forall>l\<in>set (logicalLines U policyStart (physicalLines data)). permittedLine U l"
    and "\<exists>l\<in>set (logicalLines U policyStart (physicalLines data)).
           lineDirective U l \<in> {''client'', ''tls-client''}"
    and "\<exists>l\<in>set (logicalLines U policyStart (physicalLines data)). lineDirective U l = ''remote''"
    by (simp_all add: stepTrace_def policyStart_def)
qed

lemma policyLines_append:
  "policyLines U st (xs @ ys) =
     (case policyLines U st xs of Inl e \<Rightarrow> Inl e | Inr st' \<Rightarrow> policyLines U st' ys)"
  by (induction xs arbitrary: st) (auto split: sum.splits)

lemma unpermitted_step:
  assumes "ovBlock st = []" and "openVPNBlockDelimiter U (trimSpace (lineText l)) = (x, False, False)"
    and "openVPNContinuation (lineText l) = Inr (False, fragment)"
    and "\<not> permittedLine U (ovLogical st @ fragment)"
  shows "\<exists>e. policyStep U st l = Inl e"
proof (cases "policyStep U st l")
  case (Inr st')
  with policyStep_Inr [OF Inr] assms(1,2)
  have d: "policyDirectiveLine U (st\<lparr>ovLine := ovLine st + 1\<rparr>) (lineText l) = Inr st'" by simp
  then have "stepLines st st' l = [ovLogical st @ fragment]"
    using assms policyDirectiveLine_block [OF d] by (simp add: stepLines_def)
  with policyStep_trace [OF Inr] assms(4) show ?thesis by (simp add: stepTrace_def)
qed simp

lemma denied_not_permitted:
  "lineDirective U l \<in> set (map fst openVPNDeniedDirectives) \<or>
   hasPrefix (lineDirective U l) managementPrefix \<Longrightarrow> lineDirective U l \<noteq> [] \<Longrightarrow> \<not> permittedLine U l"
  unfolding permittedLine_def lineDirective_def permittedDirective_def
  by (auto split: sum.splits list.splits)

section \<open>Properties\<close>

text \<open>A small profile and Unicode tables for the concrete instances.\<close>

definition plainTables :: utab where
  "plainTables = \<lparr>uLower = id, uUpper = id, uFold = id\<rparr>"

definition sampleOpenVPN :: string where
  "sampleOpenVPN = ''client'' @ [CHR 0x0A] @ ''remote vpn.example 1194'' @ [CHR 0x0A] @ ''<ca>'' @ [CHR 0x0A]
     @ ''up /bin/sh'' @ [CHR 0x0A] @ ''</ca>'' @ [CHR 0x0A] @ ''DEV tun # comment'' @ [CHR 0x0A]"

text \<open>C23: every logical line of an accepted OpenVPN profile that lies outside its inline blocks is blank
  or a permitted directive with a permitted number of arguments, and the file has a client line and a
  remote line.\<close>

theorem accepted_openvpn_lines_permitted:
  assumes "ValidateOpenVPNImport U data = None"
  shows "list_all (permittedLine U) (logicalLines U policyStart (physicalLines data)) \<and>
     list_ex (\<lambda>l. lineDirective U l = ''client'' \<or> lineDirective U l = ''tls-client'')
       (logicalLines U policyStart (physicalLines data)) \<and>
     list_ex (\<lambda>l. lineDirective U l = ''remote'') (logicalLines U policyStart (physicalLines data))"
  using ValidateOpenVPNImport_trace [OF assms] by (simp add: list_all_iff list_ex_iff)

lemma sampleOpenVPN_accepted: "ValidateOpenVPNImport plainTables sampleOpenVPN = None"
  by code_simp

theorem accepted_openvpn_lines_permitted_witness:
  "list_all (permittedLine plainTables)
       (logicalLines plainTables policyStart (physicalLines sampleOpenVPN)) \<and>
     list_ex (\<lambda>l. lineDirective plainTables l = ''client'' \<or> lineDirective plainTables l = ''tls-client'')
       (logicalLines plainTables policyStart (physicalLines sampleOpenVPN)) \<and>
     list_ex (\<lambda>l. lineDirective plainTables l = ''remote'')
       (logicalLines plainTables policyStart (physicalLines sampleOpenVPN))"
  by (rule accepted_openvpn_lines_permitted [OF sampleOpenVPN_accepted])

text \<open>C24: a denied or management directive that the reader reaches outside an inline block rejects the
  whole file, whatever precedes and follows it.\<close>

theorem denied_directive_rejects_file:
  assumes "physicalLines data = pre @ l # post"
    and "policyLines U policyStart pre = Inr st" and "ovBlock st = []"
    and "openVPNBlockDelimiter U (trimSpace (lineText l)) = (x, False, False)"
    and "openVPNContinuation (lineText l) = Inr (False, fragment)"
    and "lineDirective U (ovLogical st @ fragment) = directive" and "directive \<noteq> []"
    and "directive \<in> set (map fst openVPNDeniedDirectives) \<or> hasPrefix directive managementPrefix"
  shows "ValidateOpenVPNImport U data \<noteq> None"
proof -
  have "\<not> permittedLine U (ovLogical st @ fragment)"
    using assms(6-8) denied_not_permitted by metis
  with assms(3-5) obtain e where "policyStep U st l = Inl e" using unpermitted_step by blast
  with assms(1,2) have "policyLines U policyStart (physicalLines data) = Inl e"
    by (simp add: policyLines_append)
  then show ?thesis by (simp add: ValidateOpenVPNImport_def)
qed

theorem denied_directive_rejects_file_witness:
  "ValidateOpenVPNImport plainTables
     (''client'' @ [CHR 0x0A] @ ''--Up /bin/sh'' @ [CHR 0x0A] @ ''remote a'' @ [CHR 0x0A]) \<noteq> None"
  by (rule denied_directive_rejects_file [where
        pre = "[''client'' @ [CHR 0x0A]]" and l = "''--Up /bin/sh'' @ [CHR 0x0A]"
        and post = "[''remote a'' @ [CHR 0x0A]]" and x = "[]" and fragment = "''--Up /bin/sh''"
        and directive = "''up''" and st = "policyStart\<lparr>ovLine := 1, ovSeenClient := True\<rparr>"]) code_simp+

end
