(* ===== verification/GoNet.thy ===== *)
theory GoNet
  imports Encoding
begin

text \<open>
  The parts of Go's \<open>net\<close> and \<open>net/netip\<close> that the program parses with: addresses, prefixes and
  host-port pairs.  An address is its four or its sixteen bytes, an IPv6 address with its zone.
\<close>

datatype addr = Addr4 "nat list" | Addr6 "nat list" string

section \<open>netip.ParseAddr\<close>

definition ipv4Octet :: "string \<Rightarrow> nat option" where
  "ipv4Octet s =
     (if s \<noteq> [] \<and> length s \<le> 3 \<and> list_all isDigit s \<and> (s ! 0 = CHR ''0'' \<longrightarrow> length s = 1)
         \<and> decimal s \<le> 255
      then Some (decimal s) else None)"

definition parseIPv4 :: "string \<Rightarrow> nat list option" where
  "parseIPv4 s =
     (case map ipv4Octet (splitOn CHR ''.'' s) of
        [Some a, Some b, Some c, Some d] \<Rightarrow> Some [a, b, c, d]
      | _ \<Rightarrow> None)"

definition hexVal :: "char \<Rightarrow> nat option" where
  "hexVal c =
     (let b = byteOf c
      in if 48 \<le> b \<and> b \<le> 57 then Some (b - 48)
         else if 97 \<le> b \<and> b \<le> 102 then Some (b - 87)
         else if 65 \<le> b \<and> b \<le> 70 then Some (b - 55) else None)"

definition hexNumber :: "string \<Rightarrow> nat" where
  "hexNumber s = foldl (\<lambda>n c. 16 * n + (case hexVal c of Some v \<Rightarrow> v | None \<Rightarrow> 0)) 0 s"

text \<open>The loop over the colon-separated fields: the bytes so far, the place of the ellipsis, the
  rest of the text.  Every round adds two bytes, so the eight rounds of the fuel are the loop's own
  bound of sixteen bytes.\<close>

fun ipv6Loop ::
    "nat \<Rightarrow> nat list \<Rightarrow> nat option \<Rightarrow> string \<Rightarrow> (nat list \<times> nat option \<times> string) option" where
  "ipv6Loop 0 ip ellipsis s = Some (ip, ellipsis, s)"
| "ipv6Loop (Suc k) ip ellipsis s =
     (let digits = takeWhile (\<lambda>c. hexVal c \<noteq> None) s;
          rest = dropWhile (\<lambda>c. hexVal c \<noteq> None) s;
          n = hexNumber digits
      in if digits = [] \<or> length digits > 4 then None
         else if rest \<noteq> [] \<and> hd rest = CHR ''.'' then
           (if ellipsis = None \<and> length ip \<noteq> 12 \<or> length ip + 4 > 16 then None
            else case parseIPv4 s of None \<Rightarrow> None | Some v4 \<Rightarrow> Some (ip @ v4, ellipsis, []))
         else let ip = ip @ [n div 256, n mod 256]
         in case rest of
              [] \<Rightarrow> Some (ip, ellipsis, [])
            | [c] \<Rightarrow> None
            | c # d # rest' \<Rightarrow>
                if c \<noteq> CHR '':'' then None
                else if d \<noteq> CHR '':'' then ipv6Loop k ip ellipsis (d # rest')
                else if ellipsis \<noteq> None then None
                else if rest' = [] then Some (ip, Some (length ip), [])
                else ipv6Loop k ip (Some (length ip)) rest')"

definition parseIPv6 :: "string \<Rightarrow> addr option" where
  "parseIPv6 text =
     (case cutAt CHR ''%'' text of (s, zone, zoned) \<Rightarrow>
        if zoned \<and> zone = [] then None
        else let leading = hasPrefix s ''::''; body = (if leading then drop 2 s else s)
        in if leading \<and> body = [] then Some (Addr6 (replicate 16 0) zone)
           else case ipv6Loop 8 [] (if leading then Some 0 else None) body of
             None \<Rightarrow> None
           | Some (ip, ellipsis, rest) \<Rightarrow>
               if rest \<noteq> [] then None
               else case ellipsis of
                 None \<Rightarrow> if length ip < 16 then None else Some (Addr6 ip zone)
               | Some e \<Rightarrow>
                   if length ip < 16
                   then Some (Addr6 (take e ip @ replicate (16 - length ip) 0 @ drop e ip) zone)
                   else None)"

definition parseAddr :: "string \<Rightarrow> addr option" where
  "parseAddr s =
     (case List.find (\<lambda>c. c \<in> set ''.:%'') s of
        Some CHR ''.'' \<Rightarrow> map_option Addr4 (parseIPv4 s)
      | Some CHR '':'' \<Rightarrow> parseIPv6 s
      | _ \<Rightarrow> None)"

section \<open>netip.ParsePrefix\<close>

definition lastCut :: "char \<Rightarrow> string \<Rightarrow> (string \<times> string) option" where
  "lastCut x s =
     (if x \<in> set s
      then Some (rev (tl (dropWhile (\<lambda>c. c \<noteq> x) (rev s))), rev (takeWhile (\<lambda>c. c \<noteq> x) (rev s)))
      else None)"

definition parsePrefix :: "string \<Rightarrow> (addr \<times> nat) option" where
  "parsePrefix s =
     (case lastCut CHR ''/'' s of
        None \<Rightarrow> None
      | Some (ipText, bitsText) \<Rightarrow>
          case parseAddr ipText of
            None \<Rightarrow> None
          | Some ip \<Rightarrow>
              let maxBits = (case ip of Addr4 _ \<Rightarrow> 32 | Addr6 _ _ \<Rightarrow> 128);
                  zoned = (case ip of Addr4 _ \<Rightarrow> False | Addr6 _ z \<Rightarrow> z \<noteq> [])
              in if zoned \<or> bitsText = [] \<or> \<not> list_all isDigit bitsText
                    \<or> length bitsText > 1 \<and> bitsText ! 0 = CHR ''0''
                    \<or> decimal bitsText > maxBits
                 then None else Some (ip, decimal bitsText))"

section \<open>net.SplitHostPort\<close>

definition splitHostPort :: "string \<Rightarrow> (string \<times> string) option" where
  "splitHostPort hostport =
     (case lastCut CHR '':'' hostport of
        None \<Rightarrow> None
      | Some (front, port) \<Rightarrow>
          if hasPrefix hostport ''['' then
            (case cutAt CHR '']'' hostport of (inner, back, found) \<Rightarrow>
               if \<not> found \<or> inner @ '']'' \<noteq> front
                  \<or> CHR ''['' \<in> set (drop 1 hostport) \<or> CHR '']'' \<in> set back
               then None else Some (drop 1 inner, port))
          else if CHR '':'' \<in> set front \<or> CHR ''['' \<in> set hostport \<or> CHR '']'' \<in> set hostport
          then None else Some (front, port))"

section \<open>net.ParseIP and IP.IsLoopback\<close>

definition parseIP :: "string \<Rightarrow> addr option" where
  "parseIP s =
     (case parseAddr s of
        Some (Addr6 b z) \<Rightarrow> if z = [] then Some (Addr6 b z) else None
      | r \<Rightarrow> r)"

definition v4Mapped :: "nat list \<Rightarrow> bool" where
  "v4Mapped b \<longleftrightarrow> take 12 b = replicate 10 0 @ [255, 255]"

fun isLoopback :: "addr \<Rightarrow> bool" where
  "isLoopback (Addr4 b) = (b ! 0 = 127)"
| "isLoopback (Addr6 b z) =
     (if v4Mapped b then b ! 12 = 127 else b = replicate 15 0 @ [1])"

lemma lastCut_Some:
  assumes "lastCut x s = Some (a, b)"
  shows "s = a @ x # b" and "x \<notin> set b"
proof -
  from assms have x: "x \<in> set (rev s)"
    and ab: "a = rev (tl (dropWhile (\<lambda>c. c \<noteq> x) (rev s)))" "b = rev (takeWhile (\<lambda>c. c \<noteq> x) (rev s))"
    by (auto simp: lastCut_def split: if_splits)
  have "\<exists>d. dropWhile (\<lambda>c. c \<noteq> x) t = x # d" if "x \<in> set t" for t
    using that by (induction t) auto
  with x obtain d where d: "dropWhile (\<lambda>c. c \<noteq> x) (rev s) = x # d"
    by blast
  have "rev s = rev b @ x # rev a"
    using takeWhile_dropWhile_id [of "\<lambda>c. c \<noteq> x" "rev s"] d ab by simp
  then have "rev (rev s) = rev (rev b @ x # rev a)" by simp
  then show "s = a @ x # b" by simp
  show "x \<notin> set b"
    using set_takeWhileD [of x "\<lambda>c. c \<noteq> x" "rev s"] ab by auto
qed

end
