(* ===== verification/WireGuardPolicy.thy ===== *)
theory WireGuardPolicy
  imports Model GoNet
begin

text \<open>
  The import policy for WireGuard profiles, \<open>internal/profiles/wireguard_policy.go\<close>: the sections of
  the file, the closed lists of keys, and the checks on addresses, endpoints and keys.  SHA-256 and
  the X25519 base-point multiplication of the standard library are parameters.  The theorems: a hook
  key anywhere in a file rejects it, an accepted key is the canonical base64 of 32 bytes, and the
  shape of an accepted file.
\<close>

definition maxWireGuardPeers :: nat where "maxWireGuardPeers = 32"

record wireGuardSection =
  wgKind :: string
  wgLine :: nat
  wgValues :: "string \<Rightarrow> string list"

definition wireGuardInterfaceKeys :: "string list" where
  "wireGuardInterfaceKeys = [''address'', ''dns'', ''listenport'', ''mtu'', ''privatekey'', ''table'']"

definition wireGuardPeerKeys :: "string list" where
  "wireGuardPeerKeys =
     [''allowedips'', ''endpoint'', ''persistentkeepalive'', ''presharedkey'', ''publickey'']"

definition wireGuardHookKeys :: "string list" where
  "wireGuardHookKeys = [''preup'', ''postup'', ''predown'', ''postdown'', ''saveconfig'']"

section \<open>Sections\<close>

fun replaceCRLF :: "string \<Rightarrow> string" where
  "replaceCRLF (c # d # cs) =
     (if byteOf c = 13 \<and> byteOf d = 10 then d # replaceCRLF cs else c # replaceCRLF (d # cs))"
| "replaceCRLF cs = cs"

definition sectionHeader ::
    "utab \<Rightarrow> wireGuardSection list \<Rightarrow> nat \<Rightarrow> string \<Rightarrow> goerr + wireGuardSection list" where
  "sectionHeader U sections lineNumber line =
     (if \<not> hasSuffix line '']''
      then Inl (PolicyErr lineNumber ''invalid_section'' ''section header is malformed'')
      else let kind = toLower U (trimSpace (trimSuffix (trimPrefix line ''['') '']''))
      in if kind \<noteq> ''interface'' \<and> kind \<noteq> ''peer''
         then Inl (PolicyErr lineNumber ''unsupported_section''
                ''only Interface and Peer sections are supported'')
         else if kind = ''interface'' \<and> sections \<noteq> []
         then Inl (PolicyErr lineNumber ''duplicate_interface''
                ''WireGuard profile must contain exactly one Interface section'')
         else Inr (sections @ [\<lparr>wgKind = kind, wgLine = lineNumber, wgValues = (\<lambda>_. [])\<rparr>]))"

definition assignmentKey :: "utab \<Rightarrow> string \<Rightarrow> string" where
  "assignmentKey U line = toLower U (trimSpace (fst (cutAt CHR ''='' line)))"

definition sectionAssignment ::
    "utab \<Rightarrow> wireGuardSection list \<Rightarrow> nat \<Rightarrow> string \<Rightarrow> goerr + wireGuardSection list" where
  "sectionAssignment U sections lineNumber line =
     (if sections = []
      then Inl (PolicyErr lineNumber ''missing_section'' ''configuration values must be inside a section'')
      else case cutAt CHR ''='' line of (_, value, found) \<Rightarrow>
        if \<not> found
        then Inl (PolicyErr lineNumber ''invalid_assignment'' ''configuration value must use key = value'')
        else let key = assignmentKey U line; value = trimSpace value; current = last sections
        in if key = [] \<or> value = []
           then Inl (PolicyErr lineNumber ''invalid_assignment''
                  ''configuration key and value must be non-empty'')
           else if key \<in> set wireGuardHookKeys
           then Inl (PolicyErr lineNumber ''executable_hook''
                  ''WireGuard hooks and SaveConfig are not imported'')
           else let allowed = (if wgKind current = ''peer'' then wireGuardPeerKeys
                               else wireGuardInterfaceKeys)
           in if key \<notin> set allowed
              then Inl (PolicyErr lineNumber ''unsupported_key''
                     (''this key is not supported in a '' @ wgKind current @ '' section''))
              else if wgValues current key \<noteq> [] \<and> key \<noteq> ''address'' \<and> key \<noteq> ''dns''
              then Inl (PolicyErr lineNumber ''duplicate_key''
                     (key @ '' may appear only once in this section''))
              else Inr (butlast sections @
                     [current\<lparr>wgValues := (wgValues current)(key := wgValues current key @ [value])\<rparr>]))"

definition sectionLine ::
    "utab \<Rightarrow> wireGuardSection list \<Rightarrow> nat \<Rightarrow> string \<Rightarrow> goerr + wireGuardSection list" where
  "sectionLine U sections lineNumber raw =
     (if length raw > 2 ^ 14
      then Inl (PolicyErr lineNumber ''line_too_long'' ''configuration line exceeds 16 KiB'')
      else if list_ex (\<lambda>r. isControl r \<and> r \<noteq> 9) (runes raw)
      then Inl (PolicyErr lineNumber ''control_character'' ''configuration contains a control character'')
      else let line = trimSpace (fst (cutAt CHR ''#'' raw))
      in if line = [] then Inr sections
         else if hasPrefix line ''['' then sectionHeader U sections lineNumber line
         else sectionAssignment U sections lineNumber line)"

fun sectionLines ::
    "utab \<Rightarrow> wireGuardSection list \<Rightarrow> nat \<Rightarrow> string list \<Rightarrow> goerr + wireGuardSection list" where
  "sectionLines U sections index [] = Inr sections"
| "sectionLines U sections index (raw # lines) =
     (case sectionLine U sections (index + 1) raw of
        Inl e \<Rightarrow> Inl e
      | Inr sections' \<Rightarrow> sectionLines U sections' (index + 1) lines)"

definition parseWireGuardSections :: "utab \<Rightarrow> string \<Rightarrow> goerr + wireGuardSection list" where
  "parseWireGuardSections U data = sectionLines U [] 0 (splitOn CHR 0x0A (replaceCRLF data))"

section \<open>Values\<close>

definition singleValue :: "wireGuardSection \<Rightarrow> string \<Rightarrow> string" where
  "singleValue sec key = (case wgValues sec key of [v] \<Rightarrow> v | _ \<Rightarrow> [])"

definition decodeWireGuardKey :: "string \<Rightarrow> bytes option" where
  "decodeWireGuardKey value =
     (case base64StdDecode value of
        None \<Rightarrow> None
      | Some decoded \<Rightarrow>
          if length decoded \<noteq> 32 \<or> base64StdEncode decoded \<noteq> value then None else Some decoded)"

definition validateUintRange :: "string \<Rightarrow> nat \<Rightarrow> nat \<Rightarrow> bool" where
  "validateUintRange value minimum maximum =
     (case parseUint64 value of
        None \<Rightarrow> False
      | Some number \<Rightarrow> \<not> (number < minimum \<or> number > maximum))"

definition splitList :: "string \<Rightarrow> string list" where
  "splitList value = filter (\<lambda>p. p \<noteq> []) (map trimSpace (splitOn CHR '','' value))"

definition validatePrefixList :: "string \<Rightarrow> bool" where
  "validatePrefixList value \<longleftrightarrow>
     splitList value \<noteq> [] \<and> list_all (\<lambda>item. parsePrefix item \<noteq> None) (splitList value)"

definition hostLabel :: "string \<Rightarrow> bool" where
  "hostLabel label \<longleftrightarrow>
     \<not> (length label = 0 \<or> length label > 63 \<or> hd label = CHR ''-'' \<or> last label = CHR ''-'') \<and>
     list_all (\<lambda>r. \<not> (r \<noteq> 45 \<and> (r < 97 \<or> r > 122) \<and> (r < 65 \<or> r > 90) \<and> (r < 48 \<or> r > 57)))
       (runes label)"

definition validateEndpoint :: "string \<Rightarrow> bool" where
  "validateEndpoint value =
     (case splitHostPort value of
        None \<Rightarrow> False
      | Some (host, port) \<Rightarrow>
          if host = [] then False
          else if \<not> validateUintRange port 1 65535 then False
          else if parseAddr host \<noteq> None then True
          else if length host > 253 \<or> hasPrefix host ''.'' \<or> hasSuffix host ''.'' then False
          else list_all hostLabel (splitOn CHR ''.'' host))"

section \<open>The sections\<close>

definition validateWireGuardInterface :: "utab \<Rightarrow> wireGuardSection \<Rightarrow> err" where
  "validateWireGuardInterface U sec =
     (if length (wgValues sec ''privatekey'') \<noteq> 1 \<or> length (wgValues sec ''address'') = 0
      then Some (PolicyErr (wgLine sec) ''missing_interface_value''
             ''Interface requires PrivateKey and Address'')
      else if decodeWireGuardKey (singleValue sec ''privatekey'') = None
      then Some (PolicyErr (wgLine sec) ''invalid_private_key''
             ''Interface PrivateKey must be a 32-byte base64 key'')
      else if \<not> list_all validatePrefixList (wgValues sec ''address'')
      then Some (PolicyErr (wgLine sec) ''invalid_address''
             ''Interface Address must contain valid IP prefixes'')
      else if \<not> list_all (\<lambda>v. list_all (\<lambda>item. parseAddr item \<noteq> None) (splitList v)) (wgValues sec ''dns'')
      then Some (PolicyErr (wgLine sec) ''invalid_dns'' ''Interface DNS accepts IP addresses only'')
      else if singleValue sec ''listenport'' \<noteq> []
              \<and> \<not> validateUintRange (singleValue sec ''listenport'') 1 65535
      then Some (PolicyErr (wgLine sec) ''invalid_listen_port''
             ''ListenPort must be between 1 and 65535'')
      else if singleValue sec ''mtu'' \<noteq> [] \<and> \<not> validateUintRange (singleValue sec ''mtu'') 576 65535
      then Some (PolicyErr (wgLine sec) ''invalid_mtu'' ''MTU must be between 576 and 65535'')
      else let value = toLower U (singleValue sec ''table'')
      in if value \<noteq> [] \<and> value \<noteq> ''auto'' \<and> value \<noteq> ''off''
            \<and> \<not> validateUintRange value 1 (2 ^ 32 - 1)
         then Some (PolicyErr (wgLine sec) ''invalid_table''
                ''Table must be auto, off, or a positive 32-bit table number'')
         else None)"

definition validateWireGuardPeer :: "wireGuardSection \<Rightarrow> err" where
  "validateWireGuardPeer sec =
     (if \<not> list_all (\<lambda>key. length (wgValues sec key) = 1) [''publickey'', ''endpoint'', ''allowedips'']
      then Some (PolicyErr (wgLine sec) ''missing_peer_value''
             ''Peer requires PublicKey, Endpoint, and AllowedIPs'')
      else if decodeWireGuardKey (singleValue sec ''publickey'') = None
      then Some (PolicyErr (wgLine sec) ''invalid_public_key''
             ''Peer PublicKey must be a 32-byte base64 key'')
      else if singleValue sec ''presharedkey'' \<noteq> []
              \<and> decodeWireGuardKey (singleValue sec ''presharedkey'') = None
      then Some (PolicyErr (wgLine sec) ''invalid_preshared_key''
             ''Peer PresharedKey must be a 32-byte base64 key'')
      else if \<not> validatePrefixList (singleValue sec ''allowedips'')
      then Some (PolicyErr (wgLine sec) ''invalid_allowed_ips''
             ''Peer AllowedIPs must contain valid IP prefixes'')
      else if \<not> validateEndpoint (singleValue sec ''endpoint'')
      then Some (PolicyErr (wgLine sec) ''invalid_endpoint''
             ''Peer Endpoint must be a hostname or IP address with a port'')
      else if singleValue sec ''persistentkeepalive'' \<noteq> []
              \<and> \<not> validateUintRange (singleValue sec ''persistentkeepalive'') 0 65535
      then Some (PolicyErr (wgLine sec) ''invalid_keepalive''
             ''PersistentKeepalive must be between 0 and 65535'')
      else None)"

fun validatePeers :: "wireGuardSection list \<Rightarrow> err" where
  "validatePeers [] = None"
| "validatePeers (sec # secs) =
     (if wgKind sec \<noteq> ''peer''
      then Some (PolicyErr (wgLine sec) ''invalid_structure'' ''only Peer sections may follow Interface'')
      else case validateWireGuardPeer sec of Some e \<Rightarrow> Some e | None \<Rightarrow> validatePeers secs)"

record crypto =
  sha256 :: "bytes \<Rightarrow> bytes"
  x25519Public :: "bytes \<Rightarrow> bytes"

definition ValidateWireGuardImport :: "utab \<Rightarrow> crypto \<Rightarrow> string \<Rightarrow> goerr + string" where
  "ValidateWireGuardImport U C data =
     (if data = [] \<or> length data > MaxProfileBytes \<or> \<not> validUTF8 data
      then Inl (PolicyErr 0 ''invalid_encoding''
             ''WireGuard profile must be non-empty UTF-8 text no larger than 1 MiB'')
      else case parseWireGuardSections U data of
        Inl e \<Rightarrow> Inl e
      | Inr sections \<Rightarrow>
          if length sections < 2 \<or> wgKind (sections ! 0) \<noteq> ''interface''
          then Inl (PolicyErr 0 ''invalid_structure''
                 ''WireGuard profile requires one Interface section followed by Peer sections'')
          else if length sections - 1 < 1 \<or> length sections - 1 > maxWireGuardPeers
          then Inl (PolicyErr 0 ''peer_limit'' ''WireGuard profile requires between 1 and 32 peers'')
          else case validateWireGuardInterface U (sections ! 0) of
            Some e \<Rightarrow> Inl e
          | None \<Rightarrow>
              case validatePeers (tl sections) of
                Some e \<Rightarrow> Inl e
              | None \<Rightarrow>
                  case decodeWireGuardKey (singleValue (sections ! 0) ''privatekey'') of
                    None \<Rightarrow> Inl (PolicyErr (wgLine (sections ! 0)) ''invalid_private_key''
                              ''Interface PrivateKey must be a 32-byte base64 key'')
                  | Some privateKey \<Rightarrow>
                      if length privateKey \<noteq> 32
                      then Inl (PolicyErr (wgLine (sections ! 0)) ''invalid_private_key''
                             ''Interface PrivateKey is not a valid X25519 key'')
                      else Inr (hexEncode (sha256 C (x25519Public C privateKey))))"

section \<open>Lemmas\<close>

lemma decodeWireGuardKey_iff:
  "decodeWireGuardKey v = Some k \<longleftrightarrow> v = base64StdEncode k \<and> length k = 32"
  by (auto simp: decodeWireGuardKey_def base64Std_roundtrip split: option.splits if_splits)

lemma sectionLines_append:
  "sectionLines U secs i (xs @ ys) =
     (case sectionLines U secs i xs of Inl e \<Rightarrow> Inl e
      | Inr secs' \<Rightarrow> sectionLines U secs' (i + length xs) ys)"
  by (induction xs arbitrary: secs i) (auto split: sum.splits)

text \<open>What a line contributes once comments and blanks are gone.\<close>

definition lineContent :: "string \<Rightarrow> string" where
  "lineContent raw = trimSpace (fst (cutAt CHR ''#'' raw))"

definition permittedKey :: "string \<Rightarrow> bool" where
  "permittedKey key \<longleftrightarrow> key \<in> set (wireGuardInterfaceKeys @ wireGuardPeerKeys) \<and> key \<notin> set wireGuardHookKeys"

lemma sectionAssignment_permitted:
  "sectionAssignment U secs n line = Inr secs' \<Longrightarrow> permittedKey (assignmentKey U line)"
  by (auto simp: sectionAssignment_def permittedKey_def Let_def split: if_splits prod.splits)

lemma sectionLine_permitted:
  "sectionLine U secs n raw = Inr secs' \<Longrightarrow>
     lineContent raw = [] \<or> hasPrefix (lineContent raw) ''['' \<or> permittedKey (assignmentKey U (lineContent raw))"
  by (auto simp: sectionLine_def lineContent_def Let_def split: if_splits dest: sectionAssignment_permitted)

lemma sectionLines_permitted:
  "sectionLines U secs n raws = Inr secs' \<Longrightarrow> raw \<in> set raws \<Longrightarrow>
     lineContent raw = [] \<or> hasPrefix (lineContent raw) ''['' \<or> permittedKey (assignmentKey U (lineContent raw))"
  by (induction raws arbitrary: secs n) (auto split: sum.splits dest: sectionLine_permitted)

lemma validatePeers_None:
  "validatePeers secs = None \<longleftrightarrow>
     (\<forall>sec\<in>set secs. wgKind sec = ''peer'' \<and> validateWireGuardPeer sec = None)"
  by (induction secs) (auto split: option.splits)

lemma ValidateWireGuardImport_Inr:
  assumes "ValidateWireGuardImport U C data = Inr h"
  obtains iface peers k where
    "parseWireGuardSections U data = Inr (iface # peers)" "wgKind iface = ''interface''"
    "1 \<le> length peers" "length peers \<le> maxWireGuardPeers" "validateWireGuardInterface U iface = None"
    "\<forall>sec\<in>set peers. wgKind sec = ''peer'' \<and> validateWireGuardPeer sec = None"
    "decodeWireGuardKey (singleValue iface ''privatekey'') = Some k"
    "h = hexEncode (sha256 C (x25519Public C k))"
proof -
  from assms obtain secs where secs: "parseWireGuardSections U data = Inr secs" "2 \<le> length secs"
    by (auto simp: ValidateWireGuardImport_def split: if_splits sum.splits)
  then obtain iface peers where [simp]: "secs = iface # peers" by (cases secs) auto
  show ?thesis
    by (rule that [of iface peers "the (decodeWireGuardKey (singleValue iface ''privatekey''))"])
      (use assms secs in \<open>auto simp: ValidateWireGuardImport_def validatePeers_None
        split: if_splits option.splits\<close>)
qed

section \<open>Properties\<close>

text \<open>A profile for the concrete instances, with stand-ins for the two functions of the standard
  library.\<close>

definition sampleCrypto :: crypto where
  "sampleCrypto = \<lparr>sha256 = (\<lambda>b. take 32 (b @ replicate 32 (CHR ''h''))), x25519Public = rev\<rparr>"

definition sampleTables :: utab where
  "sampleTables = \<lparr>uLower = id, uUpper = id, uFold = id\<rparr>"

definition sampleKey :: string where
  "sampleKey = ''a2tra2tra2tra2tra2tra2tra2tra2tra2tra2tra2s=''"

definition sampleWireGuard :: string where
  "sampleWireGuard = ''[Interface]'' @ [CHR 0x0A] @ ''PrivateKey = '' @ sampleKey @ [CHR 0x0A]
     @ ''Address = 10.0.0.2/32 # home'' @ [CHR 0x0A] @ ''[Peer]'' @ [CHR 0x0A]
     @ ''PublicKey = '' @ sampleKey @ [CHR 0x0A] @ ''Endpoint = vpn:51820'' @ [CHR 0x0A]
     @ ''AllowedIPs = 0.0.0.0/0'' @ [CHR 0x0A]"

lemma sampleWireGuard_accepted:
  "ValidateWireGuardImport sampleTables sampleCrypto sampleWireGuard =
     Inr (hexEncode (replicate 32 (CHR ''k'')))"
  by code_simp

text \<open>C25: a hook or any key outside the two closed lists, on any line of a file, rejects it: every line of
  an accepted profile is blank, a section header, or an assignment to a permitted key.\<close>

theorem accepted_wireguard_keys_permitted:
  assumes "ValidateWireGuardImport U C data = Inr h"
    and "raw \<in> set (splitOn CHR 0x0A (replaceCRLF data))"
  shows "lineContent raw = [] \<or> hasPrefix (lineContent raw) ''['' \<or>
     (assignmentKey U (lineContent raw) \<in> set (wireGuardInterfaceKeys @ wireGuardPeerKeys) \<and>
      assignmentKey U (lineContent raw) \<notin> set wireGuardHookKeys)"
proof -
  from assms(1) obtain secs where "parseWireGuardSections U data = Inr secs"
    by (rule ValidateWireGuardImport_Inr)
  then show ?thesis
    using assms(2) sectionLines_permitted
    unfolding parseWireGuardSections_def permittedKey_def by blast
qed

theorem accepted_wireguard_keys_permitted_witness:
  "lineContent ''Address = 10.0.0.2/32 # home'' = [] \<or>
     hasPrefix (lineContent ''Address = 10.0.0.2/32 # home'') ''['' \<or>
     (assignmentKey sampleTables (lineContent ''Address = 10.0.0.2/32 # home'')
        \<in> set (wireGuardInterfaceKeys @ wireGuardPeerKeys) \<and>
      assignmentKey sampleTables (lineContent ''Address = 10.0.0.2/32 # home'') \<notin> set wireGuardHookKeys)"
  by (rule accepted_wireguard_keys_permitted [OF sampleWireGuard_accepted]) code_simp

text \<open>C26: the identity of an accepted WireGuard profile is the fingerprint of the public key that belongs
  to its private key, the private key is the canonical base64 of 32 bytes, and the file is one
  interface followed by one to 32 peers.\<close>

theorem accepted_wireguard_identity:
  assumes "ValidateWireGuardImport U C data = Inr h"
  shows "\<exists>iface peers k. parseWireGuardSections U data = Inr (iface # peers) \<and>
     wgKind iface = ''interface'' \<and> list_all (\<lambda>sec. wgKind sec = ''peer'') peers \<and>
     length peers \<in> {1..32} \<and> wgValues iface ''privatekey'' = [base64StdEncode k] \<and> length k = 32 \<and>
     h = hexEncode (sha256 C (x25519Public C k))"
  using assms
proof (rule ValidateWireGuardImport_Inr)
  fix iface peers k
  assume a: "parseWireGuardSections U data = Inr (iface # peers)" "wgKind iface = ''interface''"
    "1 \<le> length peers" "length peers \<le> maxWireGuardPeers"
    "\<forall>sec\<in>set peers. wgKind sec = ''peer'' \<and> validateWireGuardPeer sec = None"
    "h = hexEncode (sha256 C (x25519Public C k))"
    and i: "validateWireGuardInterface U iface = None"
    and k: "decodeWireGuardKey (singleValue iface ''privatekey'') = Some k"
  from i have "length (wgValues iface ''privatekey'') = 1"
    by (simp add: validateWireGuardInterface_def split: if_splits)
  then obtain v where v: "wgValues iface ''privatekey'' = [v]" by (auto simp: length_Suc_conv)
  with k have "v = base64StdEncode k \<and> length k = 32"
    by (simp add: singleValue_def decodeWireGuardKey_iff)
  with a v show ?thesis by (auto simp: list_all_iff maxWireGuardPeers_def)
qed

theorem accepted_wireguard_identity_witness:
  "\<exists>iface peers k. parseWireGuardSections sampleTables sampleWireGuard = Inr (iface # peers) \<and>
     wgKind iface = ''interface'' \<and> list_all (\<lambda>sec. wgKind sec = ''peer'') peers \<and>
     length peers \<in> {1..32} \<and> wgValues iface ''privatekey'' = [base64StdEncode k] \<and> length k = 32 \<and>
     hexEncode (replicate 32 (CHR ''k'')) = hexEncode (sha256 sampleCrypto (x25519Public sampleCrypto k))"
  by (rule accepted_wireguard_identity [OF sampleWireGuard_accepted])

end
