(* ===== verification/Policy.thy ===== *)
theory Policy
  imports OpenVPNPolicy WireGuardPolicy
begin

text \<open>
  The dispatch of the import policy on the protocol, \<open>internal/profiles/policy.go\<close>, with the version
  number that import receipts bind.
\<close>

definition ImportPolicyVersion :: nat where "ImportPolicyVersion = 1"

record policyResult =
  prProtocol :: string
  prWireGuardPublicKeySHA256 :: string

definition ValidateImportedProfile ::
    "utab \<Rightarrow> crypto \<Rightarrow> string \<Rightarrow> string \<Rightarrow> goerr + policyResult" where
  "ValidateImportedProfile U C protocol data =
     (if protocol = ProtocolOpenVPN then
        (case ValidateOpenVPNImport U data of
           Some e \<Rightarrow> Inl e
         | None \<Rightarrow> Inr \<lparr>prProtocol = protocol, prWireGuardPublicKeySHA256 = []\<rparr>)
      else if protocol = ProtocolWireGuard then
        (case ValidateWireGuardImport U C data of
           Inl e \<Rightarrow> Inl e
         | Inr identity \<Rightarrow> Inr \<lparr>prProtocol = protocol, prWireGuardPublicKeySHA256 = identity\<rparr>)
      else Inl (PolicyErr 0 ''unsupported_protocol'' ''the profile protocol is not supported''))"

end
