(* ===== verification/Store.thy ===== *)
theory Store
  imports SecureFs Policy
begin

text \<open>
  The profile store, \<open>internal/profiles/store.go\<close>: the manifest in memory and on disk, the profile
  objects, transactions, garbage and execution copies below the library directory.  The fields of
  \<open>Store\<close> that never change are the record \<open>'w store\<close>; the ones that do, with the machine the system
  calls act on, are \<open>'w sstate\<close>.  Every exported operation holds \<open>s.mu\<close> from start to end, so an
  operation is one step on this state.  The JSON codec, the clock, the entropy source, the checkpoint
  hook and the kernel are parameters.

  The closure \<open>PrepareExecution\<close> returns is kept as data: the name of the execution directory and the
  index of its \<open>cleaned\<close> flag in \<open>sCleaned\<close>.
\<close>

section \<open>State\<close>

record 'w store =
  sKernel :: "'w unix"
  sRoot :: string
  sRequiredUID :: int
  sReadOnly :: bool
  sRandom :: "nat \<Rightarrow> ('w, goerr + string) state"
  sCheckpoint :: "(string \<Rightarrow> ('w, err) state) option"
  sMarshal :: "manifest \<Rightarrow> goerr + string"
  sDecode :: "string \<Rightarrow> goerr + manifest \<times> string"
  sTables :: utab
  sCrypto :: crypto

record 'w sstate =
  sWorld :: 'w
  sManifest :: manifest
  sDurabilityUnknown :: bool
  sCleaned :: "bool list"

record newObject =
  noProfile :: profile
  noBytes :: string

record publicationResult =
  pubManifest :: manifest
  pubCleanupPending :: bool

record removalResult =
  rmProfile :: profile
  rmCleanupPending :: bool
  rmCleanupError :: err

record cleanupHandle =
  chName :: string
  chCell :: nat

definition manifestName :: string where
  "manifestName = ''manifest.json''"

text \<open>A system call, or a function of \<open>securefs\<close>, run from the store.\<close>

definition onWorld :: "('w, 'a) state \<Rightarrow> ('w sstate, 'a) state" where
  "onWorld = zoom sWorld (\<lambda>w s. s\<lparr>sWorld := w\<rparr>)"

definition libraryRoot :: "'w store \<Rightarrow> string" where
  "libraryRoot S = pathJoin [sRoot S, ''library'']"

definition libraryPath :: "'w store \<Rightarrow> string \<Rightarrow> string" where
  "libraryPath S name = pathJoin [libraryRoot S, name]"

definition manifestPath :: "'w store \<Rightarrow> string" where
  "manifestPath S = pathJoin [sRoot S, manifestName]"

definition objectFilename :: "profile \<Rightarrow> string" where
  "objectFilename p =
     (if pProtocol p = ProtocolWireGuard then pIdentifier p @ ''.conf'' else ''profile.ovpn'')"

definition ObjectPath :: "'w store \<Rightarrow> profile \<Rightarrow> string" where
  "ObjectPath S p =
     (let name = (if pProtocol p = ProtocolWireGuard then pIdentifier p @ ''.conf'' else ''profile.ovpn'')
      in pathJoin [libraryRoot S, pProtocol p, pID p, name])"

definition check :: "'w store \<Rightarrow> string \<Rightarrow> ('w sstate, err) state" where
  "check S name = onWorld (runCheckpoint (sCheckpoint S) name)"

definition closeBoundary :: "'w store \<Rightarrow> string \<Rightarrow> fd \<Rightarrow> ('w sstate, err) state" where
  "closeBoundary S name closer = do {
     beforeErr \<leftarrow> check S (''before_'' @ name @ ''_close'');
     closeErr \<leftarrow> onWorld (uClose (sKernel S) closer);
     if beforeErr \<noteq> None \<or> closeErr \<noteq> None then return (errorsJoin [beforeErr, closeErr])
     else check S (''after_'' @ name @ ''_close'')
   }"

text \<open>\<open>GenerateID(s.random)\<close> behind a prefix; \<open>io.ReadFull\<close> of sixteen bytes.\<close>

definition store_randomName :: "'w store \<Rightarrow> string \<Rightarrow> ('w sstate, goerr + string) state" where
  "store_randomName S prefix =
     tryE (onWorld (sRandom S 16)) (\<lambda>raw. return (Inr (prefix @ trimPrefix (GenerateID raw) ''tf_'')))"

section \<open>Objects\<close>

text \<open>The checks on the bytes of an object against its record.\<close>

definition objectMatches :: "'w store \<Rightarrow> profile \<Rightarrow> string \<Rightarrow> err" where
  "objectMatches S p data =
     (if hexEncode (sha256 (sCrypto S) data) \<noteq> pContentSHA256 p
      then Some (ErrText ''profile content fingerprint does not match'')
      else case ValidateImportedProfile (sTables S) (sCrypto S) (pProtocol p) data of
        Inl e \<Rightarrow> Some (Wrapf ''profile no longer passes import policy'' e)
      | Inr policy \<Rightarrow>
          if prWireGuardPublicKeySHA256 policy \<noteq> pWireGuardPublicKeySHA256 p
          then Some (ErrText ''profile runtime identity does not match'')
          else None)"

definition readValidatedObject :: "'w store \<Rightarrow> profile \<Rightarrow> ('w sstate, goerr + string) state" where
  "readValidatedObject S p =
     tryE (onWorld (OpenPrivateDir (sKernel S) (pathDir (ObjectPath S p)) (sRequiredUID S))) (\<lambda>objectDir.
       deferE (onWorld (uClose (sKernel S) objectDir))
         (tryE (onWorld (uReadDir (sKernel S) objectDir)) (\<lambda>entries.
            if length entries \<noteq> 1 \<or> deName (hd entries) \<noteq> objectFilename p
            then return (Inl (ErrText ''profile object directory has unexpected contents''))
            else tryE (onWorld (ReadFileAt (sKernel S) objectDir (objectFilename p) MaxProfileBytes
                         (sRequiredUID S)))
              (\<lambda>data. return (case objectMatches S p data of Some e \<Rightarrow> Inl e | None \<Rightarrow> Inr data)))))"

definition validateObject :: "'w store \<Rightarrow> profile \<Rightarrow> ('w sstate, err) state" where
  "validateObject S p = openE (readValidatedObject S p) (\<lambda>_. return None)"

fun validateReferenced :: "'w store \<Rightarrow> profile list \<Rightarrow> ('w sstate, err) state" where
  "validateReferenced S [] = return None"
| "validateReferenced S (p # ps) = thenE (wrapErr ''profile'' (validateObject S p)) (validateReferenced S ps)"

definition validateReferencedObjects :: "'w store \<Rightarrow> manifest \<Rightarrow> ('w sstate, err) state" where
  "validateReferencedObjects S m = validateReferenced S (mProfiles m)"

section \<open>Publishing a manifest\<close>

text \<open>What the store does with the result of the write, over any way of writing a manifest.\<close>

definition publishWith ::
    "(manifest \<Rightarrow> ('w, writeResult \<times> err) state) \<Rightarrow> manifest \<Rightarrow> ('w sstate, err) state" where
  "publishWith put candidate = do {
     (result, e) \<leftarrow> onWorld (put candidate);
     case e of
       Some x \<Rightarrow>
         if wrPublished result then do {
           modify (\<lambda>s. s\<lparr>sManifest := candidate, sDurabilityUnknown := True\<rparr>);
           return (errorsJoin [Some (Sentinel ErrOutcomeAmbiguous), Some x])
         }
         else return (Some x)
     | None \<Rightarrow>
         if \<not> wrDurable result then do {
           modify (\<lambda>s. s\<lparr>sManifest := candidate, sDurabilityUnknown := True\<rparr>);
           return (Some (Sentinel ErrOutcomeAmbiguous))
         }
         else do {
           modify (\<lambda>s. s\<lparr>sManifest := candidate, sDurabilityUnknown := False\<rparr>);
           return None
         }
   }"

definition manifestCheckpoint :: "'w store \<Rightarrow> string \<Rightarrow> ('w, err) state" where
  "manifestCheckpoint S name = runCheckpoint (sCheckpoint S) (''manifest_'' @ name)"

definition publishManifestLocked :: "'w store \<Rightarrow> manifest \<Rightarrow> ('w sstate, err) state" where
  "publishManifestLocked S =
     publishWith (\<lambda>m. WriteJSONAtomic (sKernel S) (sMarshal S) (manifestPath S) m (sRequiredUID S)
       (Some (manifestCheckpoint S)))"

definition ambiguous :: "('s, err) state \<Rightarrow> ('s, err) state" where
  "ambiguous m = do {
     e \<leftarrow> m;
     return (if e = None then None else errorsJoin [Some (Sentinel ErrOutcomeAmbiguous), e])
   }"

definition readManifest :: "'w store \<Rightarrow> ('w, goerr + manifest) state" where
  "readManifest S = ReadJSON (sKernel S) (sDecode S) (manifestPath S) DefaultJSONLimit (sRequiredUID S)"

text \<open>\<open>wrap\<close> is what the caller puts around the error of the sync.\<close>

definition syncRoot :: "'w store \<Rightarrow> (('w, err) state \<Rightarrow> ('w, err) state) \<Rightarrow> ('w, err) state" where
  "syncRoot S wrap =
     openE (OpenPrivateDir (sKernel S) (sRoot S) (sRequiredUID S)) (\<lambda>root.
       deferE (uClose (sKernel S) root) (wrap (Sync (sKernel S) root)))"

text \<open>A manifest read back is checked, synced and only then taken over.\<close>

definition adoptManifest :: "'w store \<Rightarrow> manifest \<Rightarrow> ('w sstate, err) state" where
  "adoptManifest S m =
     runSteps [return (ValidateManifest m), validateReferencedObjects S m,
       onWorld (SyncPrivateFile (sKernel S) (manifestPath S) (sRequiredUID S)),
       onWorld (syncRoot S id),
       do { modify (\<lambda>s. s\<lparr>sManifest := m, sDurabilityUnknown := False\<rparr>); return None }]"

definition repairDurabilityLocked :: "'w store \<Rightarrow> ('w sstate, err) state" where
  "repairDurabilityLocked S = do {
     unknown \<leftarrow> gets sDurabilityUnknown;
     if \<not> unknown then return None
     else ambiguous (openE (onWorld (readManifest S)) (adoptManifest S))
   }"

definition RepairDurability :: "'w store \<Rightarrow> ('w sstate, err) state" where
  "RepairDurability S = repairDurabilityLocked S"

definition prepareMutationLocked :: "'w store \<Rightarrow> ('w sstate, err) state" where
  "prepareMutationLocked S =
     (if sReadOnly S then return (Some (Sentinel ErrReadOnly)) else repairDurabilityLocked S)"

definition bumpRevision :: "manifest \<Rightarrow> manifest" where
  "bumpRevision m = m\<lparr>mLibraryRevision := mLibraryRevision m + 1\<rparr>"

text \<open>\<open>change\<close> gets the copy of the manifest and gives the changed copy, with a value of its own.\<close>

definition commitCandidate :: "'w store \<Rightarrow> manifest \<Rightarrow> 'a \<Rightarrow> ('w sstate, goerr + manifest \<times> 'a) state" where
  "commitCandidate S candidate a =
     checkE (return (ValidateManifest candidate))
       (checkE (publishManifestLocked S candidate)
         (do { m \<leftarrow> gets sManifest; return (Inr (m, a)) }))"

definition mutate ::
    "'w store \<Rightarrow> (manifest \<Rightarrow> goerr + manifest \<times> 'a) \<Rightarrow> ('w sstate, goerr + manifest \<times> 'a) state" where
  "mutate S change =
     checkE (prepareMutationLocked S) (do {
       current \<leftarrow> gets sManifest;
       case change current of
         Inl e \<Rightarrow> return (Inl e)
       | Inr (changed, a) \<Rightarrow> commitCandidate S (bumpRevision changed) a
     })"

section \<open>Operations on the manifest\<close>

definition Snapshot :: "('w sstate, manifest) state" where
  "Snapshot = gets sManifest"

definition ListProfiles :: "'w store \<Rightarrow> ('w sstate, profile list) state" where
  "ListProfiles S = do { m \<leftarrow> Snapshot; return (SortedProfiles (sTables S) (mProfiles m)) }"

definition IDsByProtocol :: "string \<Rightarrow> ('w sstate, string list) state" where
  "IDsByProtocol protocol = do {
     m \<leftarrow> gets sManifest;
     return (sort (map pID (filter (\<lambda>p. pProtocol p = protocol) (mProfiles m))))
   }"

definition Resolve :: "'w store \<Rightarrow> string \<Rightarrow> ('w sstate, goerr + profile) state" where
  "Resolve S i = do {
     m \<leftarrow> gets sManifest;
     case manifestProfile m i of
       None \<Rightarrow> return (Inl (Sentinel ErrNotFound))
     | Some p \<Rightarrow> checkE (wrapErr ''validate profile object'' (validateObject S p)) (return (Inr p))
   }"

definition SetPreferences ::
    "'w store \<Rightarrow> string list \<Rightarrow> string list \<Rightarrow> string \<Rightarrow> ('w sstate, goerr + manifest) state" where
  "SetPreferences S favorites recents startupMode =
     tryE (mutate S (\<lambda>m. Inr (m\<lparr>mFavorites := favorites, mRecents := recents, mStartupMode := startupMode\<rparr>, ())))
       (\<lambda>(m, _). return (Inr m))"

definition connectionChange :: "string \<Rightarrow> int \<Rightarrow> bool \<Rightarrow> manifest \<Rightarrow> manifest" where
  "connectionChange desired connectedAt addRecent m =
     (let m = m\<lparr>mDesiredProfile := desired, mConnectedAt := connectedAt\<rparr>
      in if addRecent \<and> desired \<noteq> [] then m\<lparr>mRecents := prependUnique (mRecents m) desired MaxRecents\<rparr>
         else m)"

definition SetConnection ::
    "'w store \<Rightarrow> string \<Rightarrow> int \<Rightarrow> bool \<Rightarrow> ('w sstate, goerr + manifest) state" where
  "SetConnection S desired connectedAt addRecent =
     tryE (mutate S (\<lambda>m. Inr (connectionChange desired connectedAt addRecent m, ())))
       (\<lambda>(m, _). return (Inr m))"

definition patchProfile :: "metadataPatch \<Rightarrow> profile \<Rightarrow> profile" where
  "patchProfile patch p =
     (let p = (case mpDisplayName patch of None \<Rightarrow> p | Some v \<Rightarrow> p\<lparr>pDisplayName := v\<rparr>);
          p = (case mpGroup patch of None \<Rightarrow> p | Some v \<Rightarrow> p\<lparr>pGroup := v\<rparr>);
          p = (if mpClearLocation patch then p\<lparr>pLocation := []\<rparr>
               else case mpLocation patch of None \<Rightarrow> p | Some v \<Rightarrow> p\<lparr>pLocation := v\<rparr>);
          p = (if mpClearEmoji patch then p\<lparr>pEmoji := []\<rparr>
               else case mpEmoji patch of None \<Rightarrow> p | Some v \<Rightarrow> p\<lparr>pEmoji := v\<rparr>)
      in p)"

text \<open>The loop over the profiles stops at the first with the identifier.\<close>

fun patchFirst :: "string \<Rightarrow> metadataPatch \<Rightarrow> profile list \<Rightarrow> goerr + profile list \<times> profile" where
  "patchFirst i patch [] = Inl (Sentinel ErrNotFound)"
| "patchFirst i patch (p # ps) =
     (if pID p \<noteq> i then map_sum id (\<lambda>(qs, q). (p # qs, q)) (patchFirst i patch ps)
      else let q = patchProfile patch p
           in case ValidateMetadata (profileMetadata q) of
                Some e \<Rightarrow> Inl e
              | None \<Rightarrow> Inr (q # ps, q))"

definition emptyPatch :: "metadataPatch \<Rightarrow> bool" where
  "emptyPatch patch \<longleftrightarrow> mpDisplayName patch = None \<and> mpGroup patch = None \<and> mpLocation patch = None
     \<and> \<not> mpClearLocation patch \<and> mpEmoji patch = None \<and> \<not> mpClearEmoji patch"

definition UpdateMetadata ::
    "'w store \<Rightarrow> string \<Rightarrow> metadataPatch \<Rightarrow> ('w sstate, goerr + profile) state" where
  "UpdateMetadata S i patch =
     (if emptyPatch patch then return (Inl (ErrText ''metadata patch is empty''))
      else tryE (mutate S (\<lambda>m. case patchFirst i patch (mProfiles m) of
                   Inl e \<Rightarrow> Inl e
                 | Inr (ps, updated) \<Rightarrow> Inr (m\<lparr>mProfiles := ps\<rparr>, updated)))
             (\<lambda>(m, updated). return (Inr updated)))"

section \<open>Removing a profile\<close>

text \<open>\<open>errors.Join(securefs.Sync(a), securefs.Sync(b))\<close>\<close>

definition syncBoth :: "'w store \<Rightarrow> fd \<Rightarrow> fd \<Rightarrow> ('w sstate, err) state" where
  "syncBoth S a b = do {
     x \<leftarrow> onWorld (Sync (sKernel S) a);
     y \<leftarrow> onWorld (Sync (sKernel S) b);
     return (errorsJoin [x, y])
   }"

definition withDirectory ::
    "'w store \<Rightarrow> string \<Rightarrow> (fd \<Rightarrow> ('w sstate, err) state) \<Rightarrow> ('w sstate, err) state" where
  "withDirectory S name body =
     openE (onWorld (OpenPrivateDir (sKernel S) (libraryPath S name) (sRequiredUID S)))
       (\<lambda>directory. deferE (onWorld (uClose (sKernel S) directory)) (body directory))"

definition garbageCollectObjectLocked :: "'w store \<Rightarrow> profile \<Rightarrow> ('w sstate, err) state" where
  "garbageCollectObjectLocked S p =
     withDirectory S (pProtocol p) (\<lambda>protocolDir.
     withDirectory S ''.garbage'' (\<lambda>garbage. do {
       revision \<leftarrow> gets (\<lambda>s. mLibraryRevision (sManifest s));
       let garbageName = ''removed-'' @ itoaNat (unat revision) @ ''-'' @ pID p;
       runSteps [check S ''removal_before_quarantine'',
         onWorld (RenameNoReplace (sKernel S) protocolDir (pID p) garbage garbageName),
         check S ''removal_after_quarantine'',
         syncBoth S protocolDir garbage,
         check S ''removal_after_parent_sync'',
         onWorld (RemoveTreeAt (sKernel S) garbage garbageName (sRequiredUID S)),
         check S ''removal_after_cleanup'',
         onWorld (Sync (sKernel S) garbage),
         check S ''removal_after_garbage_sync'']
     }))"

definition removalCandidate :: "manifest \<Rightarrow> string \<Rightarrow> manifest" where
  "removalCandidate m i =
     (let c = m\<lparr>mProfiles := removeProfile (mProfiles m) i, mFavorites := removeID (mFavorites m) i,
                mRecents := removeID (mRecents m) i\<rparr>;
          c = (if mDesiredProfile c = i then c\<lparr>mDesiredProfile := [], mConnectedAt := 0\<rparr> else c)
      in bumpRevision c)"

definition store_Remove :: "'w store \<Rightarrow> string \<Rightarrow> ('w sstate, goerr + removalResult) state" where
  "store_Remove S i =
     checkE (prepareMutationLocked S) (do {
       m \<leftarrow> gets sManifest;
       case manifestProfile m i of
         None \<Rightarrow> return (Inl (Sentinel ErrNotFound))
       | Some removed \<Rightarrow>
           let candidate = removalCandidate m i
           in checkE (return (ValidateManifest candidate))
                (checkE (publishManifestLocked S candidate) (do {
                   e \<leftarrow> garbageCollectObjectLocked S removed;
                   return (Inr \<lparr>rmProfile = removed, rmCleanupPending = (e \<noteq> None), rmCleanupError = e\<rparr>)
                 }))
     })"

section \<open>Publishing new objects\<close>

text \<open>The checks on each new object before anything is written: the identifiers and contents seen.\<close>

fun admitObjects :: "'w store \<Rightarrow> string list \<Rightarrow> string list \<Rightarrow> newObject list \<Rightarrow> err" where
  "admitObjects S seenIDs seenContents [] = None"
| "admitObjects S seenIDs seenContents (obj # objs) =
     (let p = noProfile obj
      in if length (noBytes obj) = 0 \<or> length (noBytes obj) > MaxProfileBytes
         then Some (ErrText ''profile object is outside its size limit'')
         else case ValidateProfile p of Some e \<Rightarrow> Some e
         | None \<Rightarrow>
           if hexEncode (sha256 (sCrypto S) (noBytes obj)) \<noteq> pContentSHA256 p
           then Some (ErrText ''profile object fingerprint does not match'')
           else case ValidateImportedProfile (sTables S) (sCrypto S) (pProtocol p) (noBytes obj) of
             Inl e \<Rightarrow> Some e
           | Inr policy \<Rightarrow>
             if prWireGuardPublicKeySHA256 policy \<noteq> pWireGuardPublicKeySHA256 p
             then Some (ErrText ''profile object identity does not match'')
             else if pID p \<in> set seenIDs then Some (Sentinel ErrConflict)
             else if pContentSHA256 p \<in> set seenContents then Some (Sentinel ErrConflict)
             else admitObjects S (pID p # seenIDs) (pContentSHA256 p # seenContents) objs)"

definition stageObject :: "'w store \<Rightarrow> fd \<Rightarrow> newObject \<Rightarrow> ('w sstate, err) state" where
  "stageObject S transactionDir obj =
     thenE (check S ''before_object_stage'')
     (thenE (check S ''before_object_create'')
     (openE (onWorld (MkdirExclusive (sKernel S) transactionDir (pID (noProfile obj)) (sRequiredUID S)))
       (\<lambda>objectDir. do {
          created \<leftarrow> check S ''after_object_create'';
          if created \<noteq> None then do {
            c \<leftarrow> onWorld (uClose (sKernel S) objectDir);
            return (errorsJoin [created, c])
          }
          else do {
            writeErr \<leftarrow> runSteps [check S ''before_object_write'',
              onWorld (WriteExclusive (sKernel S) objectDir (objectFilename (noProfile obj)) (noBytes obj)
                (sRequiredUID S)),
              check S ''after_object_write'', check S ''before_object_sync'',
              onWorld (Sync (sKernel S) objectDir), check S ''after_object_sync''];
            closeErr \<leftarrow> closeBoundary S ''object'' objectDir;
            return (errorsJoin [writeErr, closeErr])
          }
        })))"

definition publishObject :: "'w store \<Rightarrow> fd \<Rightarrow> newObject \<Rightarrow> ('w sstate, err) state" where
  "publishObject S transactionDir obj =
     (let p = noProfile obj in
      thenE (check S ''before_destination_open'')
      (openE (onWorld (OpenPrivateDir (sKernel S) (libraryPath S (pProtocol p)) (sRequiredUID S)))
        (\<lambda>destination. do {
           opened \<leftarrow> check S ''after_destination_open'';
           if opened \<noteq> None then do {
             c \<leftarrow> onWorld (uClose (sKernel S) destination);
             return (errorsJoin [opened, c])
           }
           else do {
             renameErr \<leftarrow> thenE (check S ''before_object_publish'')
               (onWorld (RenameNoReplace (sKernel S) transactionDir (pID p) destination (pID p)));
             renameErr \<leftarrow> (if errIs renameErr EEXIST then validateObject S p else return renameErr);
             renameErr \<leftarrow> runSteps [return renameErr, check S ''after_object_publish'',
               check S ''before_object_parent_sync'', onWorld (Sync (sKernel S) destination),
               check S ''after_object_parent_sync''];
             closeErr \<leftarrow> closeBoundary S ''destination'' destination;
             return (errorsJoin [renameErr, closeErr])
           }
         })))"

text \<open>A result and whether the descriptor of \<open>.transactions\<close> is still open.\<close>

type_synonym publication = "publicationResult option \<times> err"

definition finishPublication ::
    "'w store \<Rightarrow> fd \<Rightarrow> string \<Rightarrow> fd \<Rightarrow> ('w sstate, publication \<times> bool) state" where
  "finishPublication S transactions transactionName transactionDir = do {
     boundary \<leftarrow> closeBoundary S ''transaction'' transactionDir;
     m \<leftarrow> gets sManifest;
     if boundary \<noteq> None
     then return ((Some \<lparr>pubManifest = m, pubCleanupPending = True\<rparr>, None), True)
     else do {
       cleanupErr \<leftarrow> runSteps [check S ''before_transaction_remove'',
         onWorld (RemoveTreeAt (sKernel S) transactions transactionName (sRequiredUID S)),
         check S ''after_transaction_remove'', check S ''before_transactions_sync'',
         onWorld (Sync (sKernel S) transactions), check S ''after_transactions_sync''];
       cleanupErr \<leftarrow> (if cleanupErr = None then closeBoundary S ''transactions'' transactions
         else do {
           c \<leftarrow> onWorld (uClose (sKernel S) transactions);
           return (errorsJoin [cleanupErr, c])
         });
       return ((Some \<lparr>pubManifest = m, pubCleanupPending = (cleanupErr \<noteq> None)\<rparr>, None), False)
     }
   }"

definition transactionBody ::
    "'w store \<Rightarrow> manifest \<Rightarrow> newObject list \<Rightarrow> fd \<Rightarrow> string \<Rightarrow> ('w sstate, publication \<times> bool) state" where
  "transactionBody S candidate objs transactions transactionName = do {
     d \<leftarrow> checkE (check S ''before_transaction_create'')
       (onWorld (MkdirExclusive (sKernel S) transactions transactionName (sRequiredUID S)));
     case d of
       Inl e \<Rightarrow> return ((None, Some e), True)
     | Inr transactionDir \<Rightarrow> do {
         staged \<leftarrow> runSteps ([check S ''after_transaction_create''] @
           map (stageObject S transactionDir) objs @
           [check S ''before_transaction_sync'', onWorld (Sync (sKernel S) transactionDir),
            check S ''after_transaction_sync''] @
           map (publishObject S transactionDir) objs);
         case staged of
           Some e \<Rightarrow> do {
             _ \<leftarrow> onWorld (uClose (sKernel S) transactionDir);
             return ((None, Some e), True)
           }
         | None \<Rightarrow> do {
             published \<leftarrow> publishManifestLocked S candidate;
             case published of
               Some e \<Rightarrow> do {
                 m \<leftarrow> gets sManifest;
                 _ \<leftarrow> onWorld (uClose (sKernel S) transactionDir);
                 return ((if errorsIs e ErrOutcomeAmbiguous
                          then Some \<lparr>pubManifest = m, pubCleanupPending = True\<rparr> else None, Some e), True)
               }
             | None \<Rightarrow> finishPublication S transactions transactionName transactionDir
           }
       }
   }"

definition publishTransaction ::
    "'w store \<Rightarrow> manifest \<Rightarrow> newObject list \<Rightarrow> ('w sstate, publication) state" where
  "publishTransaction S candidate objs = do {
     t \<leftarrow> tryE (store_randomName S ''txn-'') (\<lambda>transactionName.
       checkE (check S ''before_transactions_open'')
         (tryE (onWorld (OpenPrivateDir (sKernel S) (libraryPath S ''.transactions'') (sRequiredUID S)))
           (\<lambda>transactions. return (Inr (transactionName, transactions)))));
     case t of
       Inl e \<Rightarrow> return (None, Some e)
     | Inr (transactionName, transactions) \<Rightarrow> do {
         opened \<leftarrow> check S ''after_transactions_open'';
         if opened \<noteq> None then do {
           c \<leftarrow> onWorld (uClose (sKernel S) transactions);
           return (None, errorsJoin [opened, c])
         }
         else do {
           (result, stillOpen) \<leftarrow> transactionBody S candidate objs transactions transactionName;
           _ \<leftarrow> (if stillOpen then onWorld (uClose (sKernel S) transactions) else return None);
           return result
         }
       }
   }"

definition Publish ::
    "'w store \<Rightarrow> 64 word \<Rightarrow> newObject list \<Rightarrow> ('w sstate, publication) state" where
  "Publish S expectedRevision objs = do {
     prepared \<leftarrow> prepareMutationLocked S;
     m \<leftarrow> gets sManifest;
     if prepared \<noteq> None then return (None, prepared)
     else if mLibraryRevision m \<noteq> expectedRevision
     then return (None, Some (Sentinel ErrStaleInspection))
     else if objs = [] then return (Some \<lparr>pubManifest = m, pubCleanupPending = False\<rparr>, None)
     else if length (mProfiles m) + length objs > MaxProfiles
     then return (None, Some (Sentinel ErrCapacity))
     else case admitObjects S (map pID (mProfiles m)) (map pContentSHA256 (mProfiles m)) objs of
       Some e \<Rightarrow> return (None, Some e)
     | None \<Rightarrow>
         let candidate = bumpRevision (m\<lparr>mProfiles := mProfiles m @ map noProfile objs\<rparr>)
         in case ValidateManifest candidate of
              Some e \<Rightarrow> return (None, Some e)
            | None \<Rightarrow> publishTransaction S candidate objs
   }"

section \<open>Execution copies\<close>

definition executionsPath :: "'w store \<Rightarrow> string" where
  "executionsPath S = libraryPath S ''.executions''"

text \<open>The execution directory filled and synced; what is left behind on each failure is removed.\<close>

definition fillExecution ::
    "'w unix \<Rightarrow> int \<Rightarrow> fd \<Rightarrow> string \<Rightarrow> fd \<Rightarrow> string \<Rightarrow> string \<Rightarrow> ('w, err) state" where
  "fillExecution K requiredUID executions executionName execution filename data = do {
     e \<leftarrow> runSteps [WriteExclusive K execution filename data requiredUID, Sync K execution];
     case e of
       Some x \<Rightarrow> do {
         _ \<leftarrow> uClose K execution;
         _ \<leftarrow> RemoveTreeAt K executions executionName requiredUID;
         _ \<leftarrow> uClose K executions;
         return (Some x)
       }
     | None \<Rightarrow> do {
         e \<leftarrow> runSteps [uClose K execution, Sync K executions];
         case e of
           Some x \<Rightarrow> do {
             _ \<leftarrow> RemoveTreeAt K executions executionName requiredUID;
             _ \<leftarrow> uClose K executions;
             return (Some x)
           }
         | None \<Rightarrow> uClose K executions
       }
   }"

definition PrepareExecution ::
    "'w store \<Rightarrow> string \<Rightarrow> ('w sstate, goerr + profile \<times> string \<times> cleanupHandle) state" where
  "PrepareExecution S i =
     (if sReadOnly S then return (Inl (Sentinel ErrReadOnly))
      else do {
        m \<leftarrow> gets sManifest;
        case manifestProfile m i of
          None \<Rightarrow> return (Inl (Sentinel ErrNotFound))
        | Some p \<Rightarrow>
            tryE (wrapE ''validate profile object'' (readValidatedObject S p)) (\<lambda>data.
            tryE (store_randomName S ''exec-'') (\<lambda>executionName.
            tryE (onWorld (OpenPrivateDir (sKernel S) (executionsPath S) (sRequiredUID S))) (\<lambda>executions. do {
              x \<leftarrow> onWorld (MkdirExclusive (sKernel S) executions executionName (sRequiredUID S));
              case x of
                Inl e \<Rightarrow> do { _ \<leftarrow> onWorld (uClose (sKernel S) executions); return (Inl e) }
              | Inr execution \<Rightarrow>
                  checkE (onWorld (fillExecution (sKernel S) (sRequiredUID S) executions executionName
                      execution (objectFilename p) data))
                    (do {
                       cell \<leftarrow> gets (\<lambda>s. length (sCleaned s));
                       modify (\<lambda>s. s\<lparr>sCleaned := sCleaned s @ [False]\<rparr>);
                       return (Inr (p, pathJoin [executionsPath S, executionName, objectFilename p],
                         \<lparr>chName = executionName, chCell = cell\<rparr>))
                     })
            })))
      })"

definition cleanupExecution :: "'w store \<Rightarrow> cleanupHandle \<Rightarrow> ('w sstate, err) state" where
  "cleanupExecution S h = do {
     cleaned \<leftarrow> gets (\<lambda>s. chCell h < length (sCleaned s) \<and> sCleaned s ! chCell h);
     if cleaned then return None
     else openE (onWorld (OpenPrivateDir (sKernel S) (executionsPath S) (sRequiredUID S))) (\<lambda>root. do {
       e \<leftarrow> onWorld (RemoveTreeAt (sKernel S) root (chName h) (sRequiredUID S));
       e \<leftarrow> (if e = None \<or> IsNotExist e then onWorld (Sync (sKernel S) root) else return e);
       c \<leftarrow> onWorld (uClose (sKernel S) root);
       let cleanupErr = errorsJoin [e, c];
       if cleanupErr = None then do {
         modify (\<lambda>s. s\<lparr>sCleaned := (sCleaned s)[chCell h := True]\<rparr>);
         return None
       }
       else return cleanupErr
     })
   }"

section \<open>Opening the store\<close>

definition unreferencedNameOk :: "string \<Rightarrow> string \<Rightarrow> bool" where
  "unreferencedNameOk protocol name \<longleftrightarrow>
     \<not> (protocol = ProtocolOpenVPN \<and> name \<noteq> ''profile.ovpn'' \<or>
        protocol = ProtocolWireGuard \<and>
          (\<not> hasSuffix name ''.conf'' \<or> \<not> identifierPattern (trimSuffix name ''.conf'')))"

text \<open>The checks on an object no record refers to; its directory is closed on every path.\<close>

definition inspectUnreferenced :: "'w store \<Rightarrow> string \<Rightarrow> fd \<Rightarrow> ('w, err) state" where
  "inspectUnreferenced S protocol objectDir = do {
     r \<leftarrow> tryE (uReadDir (sKernel S) objectDir) (\<lambda>entries.
       if length entries \<noteq> 1 \<or> deType (hd entries) \<noteq> RegularFile
       then return (Inl (ErrText ''unreferenced library object has unexpected contents''))
       else if \<not> unreferencedNameOk protocol (deName (hd entries))
       then return (Inl (ErrText ''unreferenced library object has invalid runtime identity''))
       else ReadFileAt (sKernel S) objectDir (deName (hd entries)) MaxProfileBytes (sRequiredUID S));
     _ \<leftarrow> uClose (sKernel S) objectDir;
     return (case r of
       Inl e \<Rightarrow> Some e
     | Inr data \<Rightarrow>
         (case ValidateImportedProfile (sTables S) (sCrypto S) protocol data of
            Inl e \<Rightarrow> Some (ErrText ''unreferenced library object does not pass import policy'')
          | Inr policy \<Rightarrow> None))
   }"

definition withDirectoryW ::
    "'w store \<Rightarrow> string \<Rightarrow> (fd \<Rightarrow> ('w, err) state) \<Rightarrow> ('w, err) state" where
  "withDirectoryW S name body =
     openE (OpenPrivateDir (sKernel S) (libraryPath S name) (sRequiredUID S))
       (\<lambda>directory. deferE (uClose (sKernel S) directory) (body directory))"

definition quarantineUnreferenced :: "'w store \<Rightarrow> string \<Rightarrow> string \<Rightarrow> ('w, err) state" where
  "quarantineUnreferenced S protocol i =
     withDirectoryW S protocol (\<lambda>protocolDir.
       openE (OpenDirAt (sKernel S) protocolDir i (sRequiredUID S)) (\<lambda>objectDir.
         thenE (inspectUnreferenced S protocol objectDir)
           (withDirectoryW S ''.garbage'' (\<lambda>garbage.
              let garbageName = protocol @ ''-'' @ i
              in runSteps [RenameNoReplace (sKernel S) protocolDir i garbage garbageName,
                   do { x \<leftarrow> Sync (sKernel S) protocolDir; y \<leftarrow> Sync (sKernel S) garbage;
                        return (errorsJoin [x, y]) },
                   RemoveTreeAt (sKernel S) garbage garbageName (sRequiredUID S),
                   Sync (sKernel S) garbage]))))"

definition emptySpecial :: "'w store \<Rightarrow> string \<Rightarrow> ('w, err) state" where
  "emptySpecial S special =
     withDirectoryW S special (\<lambda>directory.
       openE (uReadDir (sKernel S) directory) (\<lambda>entries.
         runSteps (map (\<lambda>entry.
             if deType entry \<noteq> Directory
             then return (Some (ErrText ''managed library remnant is not a directory''))
             else RemoveTreeAt (sKernel S) directory (deName entry) (sRequiredUID S)) entries
           @ [Sync (sKernel S) directory])))"

definition sweepEntry :: "'w store \<Rightarrow> manifest \<Rightarrow> string \<Rightarrow> dirEntry \<Rightarrow> ('w, err) state" where
  "sweepEntry S m protocol entry =
     (if list_ex (\<lambda>p. pProtocol p = protocol \<and> pID p = deName entry) (mProfiles m) then return None
      else if deType entry \<noteq> Directory \<or> \<not> idPattern (deName entry)
      then return (Some (ErrText ''unreferenced library object is structurally invalid''))
      else quarantineUnreferenced S protocol (deName entry))"

definition sweepProtocol :: "'w store \<Rightarrow> manifest \<Rightarrow> string \<Rightarrow> ('w, err) state" where
  "sweepProtocol S m protocol =
     openE (OpenPrivateDir (sKernel S) (libraryPath S protocol) (sRequiredUID S)) (\<lambda>directory. do {
       entries \<leftarrow> uReadDir (sKernel S) directory;
       _ \<leftarrow> uClose (sKernel S) directory;
       case entries of
         Inl e \<Rightarrow> return (Some e)
       | Inr es \<Rightarrow> runSteps (map (sweepEntry S m protocol) es)
     })"

definition cleanupRemnants :: "'w store \<Rightarrow> manifest \<Rightarrow> ('w, err) state" where
  "cleanupRemnants S m =
     runSteps (map (emptySpecial S) [''.transactions'', ''.garbage'', ''.executions''] @
       map (sweepProtocol S m) [ProtocolOpenVPN, ProtocolWireGuard])"

definition libraryDirectories :: "string \<Rightarrow> string list" where
  "libraryDirectories root =
     [pathJoin [root, ''library''], pathJoin [root, ''library'', ProtocolOpenVPN],
      pathJoin [root, ''library'', ProtocolWireGuard], pathJoin [root, ''library'', ''.transactions''],
      pathJoin [root, ''library'', ''.garbage''], pathJoin [root, ''library'', ''.executions'']]"

text \<open>The manifest on disk, or a new one; a manifest that was there is synced before it is trusted.\<close>

definition loadManifest :: "'w store \<Rightarrow> ('w, goerr + manifest) state" where
  "loadManifest S = do {
     r \<leftarrow> readManifest S;
     case r of
       Inr m \<Rightarrow>
         checkE (runSteps [return (ValidateManifest m),
             wrapErr ''sync loaded profile manifest''
               (SyncPrivateFile (sKernel S) (manifestPath S) (sRequiredUID S)),
             syncRoot S (wrapErr ''sync profile store'')])
           (return (Inr m))
     | Inl e \<Rightarrow>
         if \<not> errorsIs e ErrNotExist then return (Inl (Wrapf ''load profile manifest'' e))
         else if sReadOnly S then return (Inr InitialManifest)
         else do {
           (result, writeErr) \<leftarrow> WriteJSONAtomic (sKernel S) (sMarshal S) (manifestPath S)
             InitialManifest (sRequiredUID S) None;
           return (case writeErr of
               Some e \<Rightarrow> Inl (Wrapf ''create profile manifest'' e)
             | None \<Rightarrow> if wrDurable result then Inr InitialManifest
                       else Inl (ErrText ''create profile manifest''))
         }
   }"

definition OpenStore :: "'w store \<Rightarrow> ('w, goerr + 'w store \<times> fd \<times> manifest) state" where
  "OpenStore options =
     (if sRoot options = [] then return (Inl (ErrText ''profile store root is required''))
      else if sRequiredUID options < 0 then return (Inl (ErrText ''required store owner is invalid''))
      else checkE (runSteps (
            wrapErr ''prepare profile store''
              (EnsurePrivateDir (sKernel options) (sRoot options) (sRequiredUID options)) #
            map (\<lambda>path. wrapErr ''prepare managed library''
                (EnsurePrivateDir (sKernel options) path (sRequiredUID options)))
              (libraryDirectories (sRoot options))))
        (tryE (AcquireLock (sKernel options) (sRoot options) (sRequiredUID options)) (\<lambda>lock. do {
           let S = options\<lparr>sRoot := cleanPath (sRoot options)\<rparr>;
           r \<leftarrow> tryE (loadManifest S) (\<lambda>m.
             checkE (if sReadOnly S then return None
                     else wrapErr ''clean managed library remnants'' (cleanupRemnants S m))
               (return (Inr m)));
           case r of
             Inl e \<Rightarrow> do { _ \<leftarrow> lock_Close (sKernel S) lock; return (Inl e) }
           | Inr m \<Rightarrow> return (Inr (S, lock, m))
         })))"

definition openedState :: "manifest \<Rightarrow> 'w \<Rightarrow> 'w sstate" where
  "openedState m w = \<lparr>sWorld = w, sManifest = m, sDurabilityUnknown = False, sCleaned = []\<rparr>"

definition store_Close :: "'w store \<Rightarrow> fd \<Rightarrow> ('w, err) state" where
  "store_Close S lock = lock_Close (sKernel S) lock"

end
