(* ===== verification/StoreLaws.thy ===== *)
theory StoreLaws
  imports Store
begin

text \<open>
  What the operations of the store guarantee on any kernel.  The first part says which computations
  leave the store's memory alone; then the contract of publishing a manifest, proved once against the
  contract of an atomic writer; then each operation: the invariant that the manifest in memory is
  well-formed, the exact new manifest on success, and on failure whether anything changed.
\<close>

section \<open>Computations that leave the store's memory alone\<close>

definition memory :: "'w sstate \<Rightarrow> manifest \<times> bool \<times> bool list" where
  "memory s = (sManifest s, sDurabilityUnknown s, sCleaned s)"

lemma memory_world [simp]: "memory (s\<lparr>sWorld := w\<rparr>) = memory s"
  by (simp add: memory_def)

lemma keeps_onWorld [keeps_intros]: "keeps (\<lambda>s. memory s = v) (onWorld m)"
  unfolding onWorld_def by (rule keeps_zoom) simp

lemma wp_onWorld [wp_simps]:
  "wp (onWorld m) Q = (\<lambda>s. wp m (\<lambda>a w. Q a (s\<lparr>sWorld := w\<rparr>)) (sWorld s))"
  by (simp add: onWorld_def wp_zoom)

lemma keeps_check [keeps_intros]: "keeps (\<lambda>s. memory s = v) (check S name)"
  unfolding check_def by (intro keeps_intros)

lemma keeps_closeBoundary [keeps_intros]: "keeps (\<lambda>s. memory s = v) (closeBoundary S name fd)"
  unfolding closeBoundary_def by (intro keeps_intros)

lemma keeps_store_randomName [keeps_intros]: "keeps (\<lambda>s. memory s = v) (store_randomName S prefix)"
  unfolding store_randomName_def by (intro keeps_intros)

lemma keeps_readValidatedObject [keeps_intros]: "keeps (\<lambda>s. memory s = v) (readValidatedObject S p)"
  unfolding readValidatedObject_def by (intro keeps_intros)

lemma keeps_validateObject [keeps_intros]: "keeps (\<lambda>s. memory s = v) (validateObject S p)"
  unfolding validateObject_def by (intro keeps_intros)

lemma keeps_validateReferenced [keeps_intros]: "keeps (\<lambda>s. memory s = v) (validateReferenced S ps)"
  by (induction ps) (simp_all, (intro keeps_intros)+)

lemma keeps_validateReferencedObjects [keeps_intros]:
  "keeps (\<lambda>s. memory s = v) (validateReferencedObjects S m)"
  unfolding validateReferencedObjects_def by (intro keeps_intros)

lemma keeps_withDirectory [keeps_intros]:
  "(\<And>fd. keeps (\<lambda>s. memory s = v) (body fd)) \<Longrightarrow> keeps (\<lambda>s. memory s = v) (withDirectory S name body)"
  unfolding withDirectory_def by (intro keeps_intros)

lemma keeps_syncBoth [keeps_intros]: "keeps (\<lambda>s. memory s = v) (syncBoth S a b)"
  unfolding syncBoth_def by (intro keeps_intros)

lemma keeps_garbageCollect [keeps_intros]: "keeps (\<lambda>s. memory s = v) (garbageCollectObjectLocked S p)"
  unfolding garbageCollectObjectLocked_def Let_def by (intro keeps_intros)

lemma keeps_stageObject [keeps_intros]: "keeps (\<lambda>s. memory s = v) (stageObject S fd obj)"
  unfolding stageObject_def by (intro keeps_intros)

lemma keeps_publishObject [keeps_intros]: "keeps (\<lambda>s. memory s = v) (publishObject S fd obj)"
  unfolding publishObject_def Let_def by (intro keeps_intros)

lemma keeps_finishPublication [keeps_intros]:
  "keeps (\<lambda>s. memory s = v) (finishPublication S a name b)"
  unfolding finishPublication_def by (intro keeps_intros)

lemma keeps_Resolve [keeps_intros]: "keeps (\<lambda>s. memory s = v) (Resolve S i)"
  unfolding Resolve_def by (intro keeps_intros)

text \<open>To leave the memory alone is to keep anything that depends on the memory only.\<close>

lemma quiet_wp:
  assumes "\<And>v. keeps (\<lambda>s. memory s = v) m" and "\<And>a s'. memory s' = memory s \<Longrightarrow> Q a s'"
  shows "wp m Q s"
  using assms(1) [of "memory s"] by (rule keeps_wp) (simp_all add: assms(2))

section \<open>Publishing a manifest\<close>

text \<open>The three things that can happen to the memory when a candidate is published.\<close>

definition publishOutcome :: "manifest \<Rightarrow> 'w sstate \<Rightarrow> err \<Rightarrow> 'w sstate \<Rightarrow> bool" where
  "publishOutcome candidate s e s' \<longleftrightarrow>
     (case e of
        None \<Rightarrow> memory s' = (candidate, False, sCleaned s)
      | Some x \<Rightarrow> errorsIs x ErrOutcomeAmbiguous \<and> memory s' = (candidate, True, sCleaned s) \<or>
          memory s' = memory s)"

locale manifest_writer = atomic_writer put
  for put :: "manifest \<Rightarrow> ('w, writeResult \<times> err) state"
begin

lemma publishWith_outcome: "wp (publishWith put candidate) (publishOutcome candidate s) s"
proof -
  have "wp (put candidate) (\<lambda>a _. \<forall>w. wp (case a of (result, e) \<Rightarrow> case e of
       Some x \<Rightarrow> if wrPublished result then do {
           modify (\<lambda>s. s\<lparr>sManifest := candidate, sDurabilityUnknown := True\<rparr>);
           return (errorsJoin [Some (Sentinel ErrOutcomeAmbiguous), Some x]) } else return (Some x)
     | None \<Rightarrow> if \<not> wrDurable result then do {
           modify (\<lambda>s. s\<lparr>sManifest := candidate, sDurabilityUnknown := True\<rparr>);
           return (Some (Sentinel ErrOutcomeAmbiguous)) }
         else do { modify (\<lambda>s. s\<lparr>sManifest := candidate, sDurabilityUnknown := False\<rparr>); return None })
       (publishOutcome candidate s) (s\<lparr>sWorld := w\<rparr>)) (sWorld s)"
    by (rule put_cases)
      (simp_all add: wp_simps publishOutcome_def memory_def errorsJoin_def map_filter_simps)
  then show ?thesis
    unfolding publishWith_def wp_bind wp_onWorld by (rule wp_mono) blast
qed

end

interpretation store_writer: manifest_writer
  "\<lambda>m. WriteJSONAtomic (sKernel S) (sMarshal S) (manifestPath S) m (sRequiredUID S)
     (Some (manifestCheckpoint S))" for S
  by unfold_locales (rule WriteJSONAtomic_settled)

lemma publishManifestLocked_outcome:
  "wp (publishManifestLocked S candidate) (publishOutcome candidate s) s"
  unfolding publishManifestLocked_def by (rule store_writer.publishWith_outcome)

text \<open>One step that leaves the memory alone, and the rest of a function.\<close>

lemma quiet_thenE:
  assumes "\<And>v. keeps (\<lambda>s. memory s = v) m"
    and "\<And>e s'. memory s' = memory s \<Longrightarrow> Q (Some e) s'"
    and "\<And>s'. memory s' = memory s \<Longrightarrow> wp n Q s'"
  shows "wp (thenE m n) Q s"
  unfolding wp_thenE by (rule quiet_wp [OF assms(1)]) (auto split: option.split intro: assms(2,3))

lemma quiet_openE:
  assumes "\<And>v. keeps (\<lambda>s. memory s = v) m"
    and "\<And>e s'. memory s' = memory s \<Longrightarrow> Q (Some e) s'"
    and "\<And>x s'. memory s' = memory s \<Longrightarrow> wp (f x) Q s'"
  shows "wp (openE m f) Q s"
  unfolding wp_openE by (rule quiet_wp [OF assms(1)]) (auto split: sum.split intro: assms(2,3))

lemma quiet_tryE:
  assumes "\<And>v. keeps (\<lambda>s. memory s = v) m"
    and "\<And>e s'. memory s' = memory s \<Longrightarrow> Q (Inl e) s'"
    and "\<And>x s'. memory s' = memory s \<Longrightarrow> wp (f x) Q s'"
  shows "wp (tryE m f) Q s"
  unfolding wp_tryE by (rule quiet_wp [OF assms(1)]) (auto split: sum.split intro: assms(2,3))

lemma quiet_checkE:
  assumes "\<And>v. keeps (\<lambda>s. memory s = v) m"
    and "\<And>e s'. memory s' = memory s \<Longrightarrow> Q (Inl e) s'"
    and "\<And>s'. memory s' = memory s \<Longrightarrow> wp n Q s'"
  shows "wp (checkE m n) Q s"
  unfolding wp_checkE by (rule quiet_wp [OF assms(1)]) (auto split: option.split intro: assms(2,3))

lemma quiet_bind:
  assumes "\<And>v. keeps (\<lambda>s. memory s = v) m" and "\<And>a s'. memory s' = memory s \<Longrightarrow> wp (f a) Q s'"
  shows "wp (State_Monad.bind m f) Q s"
  unfolding wp_bind by (rule quiet_wp [OF assms(1)]) (rule assms(2))

section \<open>Preparing and committing a change\<close>

text \<open>The manifest a change starts from: the one in memory, or the one a repair read back.\<close>

definition base :: "'w sstate \<Rightarrow> manifest \<Rightarrow> bool" where
  "base s m \<longleftrightarrow> (if sDurabilityUnknown s then wellFormed m else m = sManifest s)"

definition repairOutcome :: "'w sstate \<Rightarrow> err \<Rightarrow> 'w sstate \<Rightarrow> bool" where
  "repairOutcome s e s' \<longleftrightarrow>
     (case e of
        None \<Rightarrow> \<exists>m. base s m \<and> memory s' = (m, False, sCleaned s)
      | Some x \<Rightarrow> sDurabilityUnknown s \<and> errorsIs x ErrOutcomeAmbiguous \<and> memory s' = memory s)"

lemma wp_ambiguous [wp_simps]:
  "wp (ambiguous m) Q =
     wp m (\<lambda>e. Q (if e = None then None else errorsJoin [Some (Sentinel ErrOutcomeAmbiguous), e]))"
  by (simp add: ambiguous_def wp_simps)

lemma ambiguous_error:
  "\<exists>x. errorsJoin [Some (Sentinel ErrOutcomeAmbiguous), Some e] = Some x \<and> errorsIs x ErrOutcomeAmbiguous"
  by (simp add: errorsJoin_def map_filter_simps)

lemma repair_failed:
  "sDurabilityUnknown s \<Longrightarrow> memory s' = memory s \<Longrightarrow>
     repairOutcome s (errorsJoin [Some (Sentinel ErrOutcomeAmbiguous), Some e]) s'"
  using ambiguous_error [of e] by (auto simp: repairOutcome_def)

lemma quiet_runSteps_last:
  assumes "\<And>v. keeps (\<lambda>s. memory s = v) (runSteps ms)"
    and "\<And>e s'. memory s' = memory s \<Longrightarrow> Q (Some e) s'"
    and "\<And>s'. memory s' = memory s \<Longrightarrow> wp n Q s'"
  shows "wp (runSteps (ms @ [n])) Q s"
proof -
  have "(\<lambda>r. case r of None \<Rightarrow> Q None | Some e \<Rightarrow> Q (Some e)) = Q"
    by (rule ext) (simp split: option.split)
  then have "wp (runSteps [n]) Q s' = wp n Q s'" for s'
    by (simp add: wp_thenE wp_return cong: wp_congs)
  then show ?thesis
    unfolding wp_runSteps_append
    by (intro quiet_wp [OF assms(1)]) (auto split: option.split intro: assms(2,3))
qed

lemma adoptManifest_wp:
  assumes "sDurabilityUnknown s" and "memory t = memory s"
  shows "wp (adoptManifest S m) (\<lambda>e. repairOutcome s (if e = None then None
     else errorsJoin [Some (Sentinel ErrOutcomeAmbiguous), e])) t"
proof (cases "ValidateManifest m")
  case None
  then have "wellFormed m" by (simp add: ValidateManifest_None)
  with assms have last: "repairOutcome s None (t'\<lparr>sManifest := m, sDurabilityUnknown := False\<rparr>)"
    if "memory t' = memory t" for t'
    using that by (auto simp: repairOutcome_def base_def memory_def)
  show ?thesis
    unfolding adoptManifest_def
    by (rule quiet_runSteps_last [where ms = "[_, _, _, _]", simplified append.simps], intro keeps_intros)
      (simp_all add: wp_simps last repair_failed [OF assms(1)] assms(2))
next
  case (Some e)
  with assms show ?thesis
    by (simp add: adoptManifest_def wp_thenE wp_return repair_failed)
qed

lemma repairDurabilityLocked_outcome: "wp (repairDurabilityLocked S) (repairOutcome s) s"
proof (cases "sDurabilityUnknown s")
  case False
  then show ?thesis
    by (simp add: repairDurabilityLocked_def wp_simps repairOutcome_def base_def memory_def)
next
  case True
  let ?R = "\<lambda>e. repairOutcome s (if e = None then None
              else errorsJoin [Some (Sentinel ErrOutcomeAmbiguous), e])"
  note failed = repair_failed [OF True]
  have "wp (openE (onWorld (readManifest S)) (adoptManifest S)) ?R s"
    by (rule quiet_openE, intro keeps_intros)
      (simp_all add: failed adoptManifest_wp [OF True])
  then show ?thesis
    using True by (simp add: repairDurabilityLocked_def wp_gets wp_bind wp_if wp_ambiguous)
qed

definition prepareOutcome :: "'w store \<Rightarrow> 'w sstate \<Rightarrow> err \<Rightarrow> 'w sstate \<Rightarrow> bool" where
  "prepareOutcome S s e s' \<longleftrightarrow>
     (case e of
        None \<Rightarrow> \<not> sReadOnly S \<and> (\<exists>m. base s m \<and> memory s' = (m, False, sCleaned s))
      | Some x \<Rightarrow> memory s' = memory s \<and>
          (if sReadOnly S then x = Sentinel ErrReadOnly
           else sDurabilityUnknown s \<and> errorsIs x ErrOutcomeAmbiguous))"

lemma prepareMutationLocked_outcome: "wp (prepareMutationLocked S) (prepareOutcome S s) s"
proof (cases "sReadOnly S")
  case True
  then show ?thesis by (simp add: prepareMutationLocked_def wp_simps prepareOutcome_def)
next
  case False
  have "wp (repairDurabilityLocked S) (prepareOutcome S s) s"
    by (rule wp_mono [OF repairDurabilityLocked_outcome])
      (auto simp: repairOutcome_def prepareOutcome_def False split: option.splits)
  with False show ?thesis by (simp add: prepareMutationLocked_def)
qed

text \<open>Validate a candidate, publish it, and go on.\<close>

lemma commit_wp:
  assumes "memory s = (m, False, cleaned)"
    and "\<And>e s'. memory s' = memory s \<Longrightarrow> Q (Inl e) s'"
    and "\<And>e s'. wellFormed candidate \<Longrightarrow> errorsIs e ErrOutcomeAmbiguous \<Longrightarrow>
           memory s' = (candidate, True, cleaned) \<Longrightarrow> Q (Inl e) s'"
    and "\<And>s'. wellFormed candidate \<Longrightarrow> memory s' = (candidate, False, cleaned) \<Longrightarrow> wp n Q s'"
  shows "wp (checkE (return (ValidateManifest candidate)) (checkE (publishManifestLocked S candidate) n)) Q s"
proof (cases "ValidateManifest candidate")
  case None
  then have "wellFormed candidate" by (simp add: ValidateManifest_None)
  then have "wp (publishManifestLocked S candidate)
      (\<lambda>r. case r of Some e \<Rightarrow> Q (Inl e) | None \<Rightarrow> wp n Q) s"
    using assms by (intro wp_mono [OF publishManifestLocked_outcome])
      (auto simp: publishOutcome_def memory_def split: option.splits)
  with None show ?thesis by (simp add: wp_checkE wp_return)
next
  case (Some e)
  then show ?thesis using assms(2) by (simp add: wp_checkE wp_return)
qed

section \<open>A change of the manifest\<close>

definition editDone :: "(manifest \<Rightarrow> manifest \<Rightarrow> bool) \<Rightarrow> 'w sstate \<Rightarrow> 'w sstate \<Rightarrow> bool" where
  "editDone edit s s' \<longleftrightarrow>
     (\<exists>m. base s m \<and> edit m (sManifest s') \<and> wellFormed (sManifest s') \<and>
        memory s' = (sManifest s', False, sCleaned s))"

definition editFailed ::
    "(manifest \<Rightarrow> manifest \<Rightarrow> bool) \<Rightarrow> 'w sstate \<Rightarrow> goerr \<Rightarrow> 'w sstate \<Rightarrow> bool" where
  "editFailed edit s e s' \<longleftrightarrow>
     memory s' = memory s \<or>
     sDurabilityUnknown s \<and> wellFormed (sManifest s') \<and> memory s' = (sManifest s', False, sCleaned s) \<or>
     errorsIs e ErrOutcomeAmbiguous \<and>
       (\<exists>m. base s m \<and> edit m (sManifest s') \<and> wellFormed (sManifest s') \<and>
          memory s' = (sManifest s', True, sCleaned s))"

lemma editFailed_base:
  "base s m \<Longrightarrow> memory s' = (m, False, sCleaned s) \<Longrightarrow> editFailed edit s e s'"
  by (auto simp: editFailed_def base_def memory_def split: if_splits)

text \<open>The common shape of the operations: prepare, compute a candidate from the base, commit it.\<close>

lemma edit_wp:
  assumes "\<And>m t. base s m \<Longrightarrow> memory t = (m, False, sCleaned s) \<Longrightarrow> wp body Q t"
    and "\<And>e s'. editFailed edit s e s' \<Longrightarrow> Q (Inl e) s'"
  shows "wp (checkE (prepareMutationLocked S) body) Q s"
  unfolding wp_checkE
  by (rule wp_mono [OF prepareMutationLocked_outcome])
    (auto simp: prepareOutcome_def editFailed_def split: option.splits intro: assms)

lemma memory_manifest: "memory s = (m, u, c) \<Longrightarrow> sManifest s = m"
  by (simp add: memory_def)

lemma commitCandidate_wp:
  fixes s t :: "'w sstate"
  assumes "base s m" and "memory t = (m, False, sCleaned s)" and "edit m candidate"
  shows "wp (commitCandidate S candidate a) (\<lambda>r s'. case r of
      Inl e \<Rightarrow> editFailed edit s e s'
    | Inr (m', b) \<Rightarrow> m' = sManifest s' \<and> b = a \<and> editDone edit s s') t"
  unfolding commitCandidate_def
proof (rule commit_wp [OF assms(2)])
  fix e and s' :: "'w sstate"
  assume "memory s' = memory t"
  with assms(2) show "case Inl e of Inl e \<Rightarrow> editFailed edit s e s'
    | Inr (m', b) \<Rightarrow> m' = sManifest s' \<and> b = a \<and> editDone edit s s'"
    using editFailed_base [OF assms(1)] by simp
next
  fix e and s' :: "'w sstate"
  assume "wellFormed candidate" "errorsIs e ErrOutcomeAmbiguous"
    and s': "memory s' = (candidate, True, sCleaned s)"
  then show "case Inl e of Inl e \<Rightarrow> editFailed edit s e s'
    | Inr (m', b) \<Rightarrow> m' = sManifest s' \<and> b = a \<and> editDone edit s s'"
    using assms(1,3) memory_manifest [OF s'] by (auto simp: editFailed_def)
next
  fix s' :: "'w sstate"
  assume "wellFormed candidate" and s': "memory s' = (candidate, False, sCleaned s)"
  then show "wp (do { m \<leftarrow> gets sManifest; return (Inr (m, a)) }) (\<lambda>r s'. case r of
      Inl e \<Rightarrow> editFailed edit s e s'
    | Inr (m', b) \<Rightarrow> m' = sManifest s' \<and> b = a \<and> editDone edit s s') s'"
    using assms(1,3) memory_manifest [OF s'] by (auto simp: wp_simps editDone_def)
qed

text \<open>What \<open>mutate\<close> does for a change function.\<close>

definition changes :: "(manifest \<Rightarrow> goerr + manifest \<times> 'a) \<Rightarrow> 'a \<Rightarrow> manifest \<Rightarrow> manifest \<Rightarrow> bool" where
  "changes change a m m' \<longleftrightarrow> (\<exists>c. change m = Inr (c, a) \<and> m' = bumpRevision c)"

lemma mutate_outcome:
  fixes s :: "'w sstate"
  shows "wp (mutate S change) (\<lambda>r s'. case r of
     Inl e \<Rightarrow> editFailed (\<lambda>m m'. \<exists>a. changes change a m m') s e s'
   | Inr (m', a) \<Rightarrow> m' = sManifest s' \<and> editDone (changes change a) s s') s" (is "wp _ ?Q s")
  unfolding mutate_def
proof (rule edit_wp)
  fix m and t :: "'w sstate"
  assume b: "base s m" and t: "memory t = (m, False, sCleaned s)"
  then have m: "sManifest t = m" by (simp add: memory_def)
  show "wp (do { current \<leftarrow> gets sManifest;
       case change current of Inl e \<Rightarrow> return (Inl e)
       | Inr (changed, a) \<Rightarrow> commitCandidate S (bumpRevision changed) a }) ?Q t"
  proof (cases "change m")
    case (Inl e)
    with b t m show ?thesis by (simp add: wp_simps editFailed_base)
  next
    case (Inr ca)
    obtain c a where ca: "ca = (c, a)" by (cases ca)
    have "wp (commitCandidate S (bumpRevision c) a) ?Q t"
      by (rule wp_mono [OF commitCandidate_wp [OF b t, where edit = "changes change a"]])
        (use Inr ca in \<open>auto simp: changes_def editFailed_def split: sum.splits\<close>)
    with m Inr ca show ?thesis by (simp add: wp_bind wp_gets)
  qed
qed simp

section \<open>The operations\<close>

lemma wp_result_fst:
  "wp (tryE m (\<lambda>(x, _). return (Inr x))) Q =
     wp m (\<lambda>r. Q (case r of Inl e \<Rightarrow> Inl e | Inr (x, _) \<Rightarrow> Inr x))"
  by (simp add: wp_simps sum.case_distrib [of Q] split_def cong: wp_congs)

lemma mutate_fst:
  fixes s :: "'w sstate"
  assumes "\<And>m m'. changes change () m m' \<longleftrightarrow> edit m m'"
  shows "wp (tryE (mutate S change) (\<lambda>(m, _). return (Inr m))) (\<lambda>r s'. case r of
      Inl e \<Rightarrow> editFailed edit s e s'
    | Inr m \<Rightarrow> m = sManifest s' \<and> editDone edit s s') s"
proof -
  have "(\<lambda>m m'. \<exists>a. changes change a m m') = edit" "changes change a = edit" for a
    using assms by (auto simp: fun_eq_iff)
  then show ?thesis
    unfolding wp_result_fst
    using mutate_outcome [of S change s]
    by (elim wp_mono) (auto split: sum.splits)
qed

lemma SetConnection_outcome:
  "wp (SetConnection S desired at addRecent) (\<lambda>r s'. case r of
      Inl e \<Rightarrow> editFailed (\<lambda>m m'. m' = bumpRevision (connectionChange desired at addRecent m)) s e s'
    | Inr m \<Rightarrow> m = sManifest s' \<and>
        editDone (\<lambda>m m'. m' = bumpRevision (connectionChange desired at addRecent m)) s s') s"
  unfolding SetConnection_def by (rule mutate_fst) (auto simp: changes_def)

definition preferencesChange :: "string list \<Rightarrow> string list \<Rightarrow> string \<Rightarrow> manifest \<Rightarrow> manifest" where
  "preferencesChange favorites recents startupMode m =
     m\<lparr>mFavorites := favorites, mRecents := recents, mStartupMode := startupMode\<rparr>"

lemma SetPreferences_outcome:
  "wp (SetPreferences S favorites recents startupMode) (\<lambda>r s'. case r of
      Inl e \<Rightarrow> editFailed (\<lambda>m m'. m' = bumpRevision (preferencesChange favorites recents startupMode m)) s e s'
    | Inr m \<Rightarrow> m = sManifest s' \<and>
        editDone (\<lambda>m m'. m' = bumpRevision (preferencesChange favorites recents startupMode m)) s s') s"
  unfolding SetPreferences_def by (rule mutate_fst) (auto simp: changes_def preferencesChange_def)

text \<open>A patch changes the four fields of metadata of the first profile with the identifier.\<close>

lemma patchProfile_keeps [simp]:
  "pID (patchProfile patch p) = pID p" "pProtocol (patchProfile patch p) = pProtocol p"
  "pIdentifier (patchProfile patch p) = pIdentifier p"
  "pContentSHA256 (patchProfile patch p) = pContentSHA256 p"
  "pWireGuardPublicKeySHA256 (patchProfile patch p) = pWireGuardPublicKeySHA256 p"
  "pOriginalFilename (patchProfile patch p) = pOriginalFilename p"
  "pImportedAt (patchProfile patch p) = pImportedAt p"
  by (auto simp: patchProfile_def Let_def split: option.splits)

lemma patchFirst_Inr:
  "patchFirst i patch ps = Inr (qs, q) \<Longrightarrow>
     \<exists>pre p post. ps = pre @ p # post \<and> qs = pre @ patchProfile patch p # post \<and> pID p = i \<and>
       q = patchProfile patch p \<and> i \<notin> pID ` set pre"
proof (induction ps arbitrary: qs)
  case (Cons p ps)
  show ?case
  proof (cases "pID p = i")
    case True
    with Cons.prems show ?thesis
      by (intro exI [of _ "[]"] exI [of _ p] exI [of _ ps]) (auto simp: Let_def split: option.splits)
  next
    case False
    with Cons.prems obtain rs where rs: "patchFirst i patch ps = Inr (rs, q)" "qs = p # rs"
      by (cases "patchFirst i patch ps") (auto split: prod.splits)
    from Cons.IH [OF rs(1)] obtain pre p' post where
      "ps = pre @ p' # post \<and> rs = pre @ patchProfile patch p' # post \<and> pID p' = i \<and>
         q = patchProfile patch p' \<and> i \<notin> pID ` set pre" by blast
    with False rs(2) show ?thesis
      by (intro exI [of _ "p # pre"] exI [of _ p'] exI [of _ post]) auto
  qed
qed simp

definition metadataEdit :: "string \<Rightarrow> metadataPatch \<Rightarrow> profile \<Rightarrow> manifest \<Rightarrow> manifest \<Rightarrow> bool" where
  "metadataEdit i patch updated m m' \<longleftrightarrow>
     (\<exists>pre p post. mProfiles m = pre @ p # post \<and> pID p = i \<and> updated = patchProfile patch p \<and>
        m' = bumpRevision (m\<lparr>mProfiles := pre @ updated # post\<rparr>))"

lemma metadata_changes:
  "changes (\<lambda>m. case patchFirst i patch (mProfiles m) of Inl e \<Rightarrow> Inl e
      | Inr (ps, updated) \<Rightarrow> Inr (m\<lparr>mProfiles := ps\<rparr>, updated)) updated m m' \<Longrightarrow>
     metadataEdit i patch updated m m'"
  by (fastforce simp: changes_def metadataEdit_def split: sum.splits dest: patchFirst_Inr)

lemma editDone_mono: "editDone e s s' \<Longrightarrow> (\<And>m m'. e m m' \<Longrightarrow> f m m') \<Longrightarrow> editDone f s s'"
  by (auto simp: editDone_def)

lemma editFailed_mono: "editFailed e s x s' \<Longrightarrow> (\<And>m m'. e m m' \<Longrightarrow> f m m') \<Longrightarrow> editFailed f s x s'"
  by (auto simp: editFailed_def)

lemma editFailed_same: "editFailed e s x s"
  by (simp add: editFailed_def)

lemma UpdateMetadata_outcome:
  "wp (UpdateMetadata S i patch) (\<lambda>r s'. case r of
      Inl e \<Rightarrow> editFailed (\<lambda>m m'. \<exists>updated. metadataEdit i patch updated m m') s e s'
    | Inr updated \<Rightarrow> editDone (metadataEdit i patch updated) s s') s" (is "wp _ ?Q s")
proof -
  have "wp (mutate S (\<lambda>m. case patchFirst i patch (mProfiles m) of Inl e \<Rightarrow> Inl e
      | Inr (ps, updated) \<Rightarrow> Inr (m\<lparr>mProfiles := ps\<rparr>, updated)))
    (\<lambda>r. case r of Inl e \<Rightarrow> ?Q (Inl e) | Inr (m, updated) \<Rightarrow> ?Q (Inr updated)) s"
    by (rule wp_mono [OF mutate_outcome])
      (auto split: sum.splits elim!: editDone_mono editFailed_mono intro: metadata_changes)
  then show ?thesis
    by (simp add: UpdateMetadata_def wp_simps editFailed_same split_def cong: wp_congs)
qed

definition removalEdit :: "string \<Rightarrow> profile \<Rightarrow> manifest \<Rightarrow> manifest \<Rightarrow> bool" where
  "removalEdit i p m m' \<longleftrightarrow> manifestProfile m i = Some p \<and> m' = removalCandidate m i"

lemma quiet_editDone: "memory t = memory s' \<Longrightarrow> editDone e s s' \<Longrightarrow> editDone e s t"
  by (auto simp: editDone_def memory_def)

lemma store_Remove_outcome:
  fixes s :: "'w sstate"
  shows "wp (store_Remove S i) (\<lambda>r s'. case r of
      Inl e \<Rightarrow> editFailed (\<lambda>m m'. \<exists>p. removalEdit i p m m') s e s'
    | Inr res \<Rightarrow> editDone (removalEdit i (rmProfile res)) s s' \<and>
        rmCleanupPending res = (rmCleanupError res \<noteq> None)) s" (is "wp _ ?Q s")
  unfolding store_Remove_def
proof (rule edit_wp)
  fix m and t :: "'w sstate"
  assume b: "base s m" and t: "memory t = (m, False, sCleaned s)"
  note m = memory_manifest [OF t]
  show "wp (do { m \<leftarrow> gets sManifest;
       case manifestProfile m i of None \<Rightarrow> return (Inl (Sentinel ErrNotFound))
       | Some removed \<Rightarrow>
           let candidate = removalCandidate m i
           in checkE (return (ValidateManifest candidate))
                (checkE (publishManifestLocked S candidate) (do {
                   e \<leftarrow> garbageCollectObjectLocked S removed;
                   return (Inr \<lparr>rmProfile = removed, rmCleanupPending = (e \<noteq> None), rmCleanupError = e\<rparr>)
                 })) }) ?Q t"
  proof (cases "manifestProfile m i")
    case None
    with b t m show ?thesis by (simp add: wp_simps editFailed_base)
  next
    case (Some p)
    have settles: "wp (do { e \<leftarrow> garbageCollectObjectLocked S p;
        return (Inr \<lparr>rmProfile = p, rmCleanupPending = (e \<noteq> None), rmCleanupError = e\<rparr>) }) ?Q t'"
      if "wellFormed (removalCandidate m i)"
        and t': "memory t' = (removalCandidate m i, False, sCleaned s)" for t' :: "'w sstate"
    proof (rule quiet_bind, intro keeps_intros)
      fix e and u :: "'w sstate"
      assume u: "memory u = memory t'"
      with t' have "memory u = (removalCandidate m i, False, sCleaned s)" by simp
      with that(1) b Some have "editDone (removalEdit i p) s u"
        by (auto simp: editDone_def removalEdit_def memory_def)
      then show "wp (return (Inr \<lparr>rmProfile = p, rmCleanupPending = (e \<noteq> None),
          rmCleanupError = e\<rparr>)) ?Q u"
        by (simp add: wp_return)
    qed
    have "wp (checkE (return (ValidateManifest (removalCandidate m i)))
        (checkE (publishManifestLocked S (removalCandidate m i)) (do {
           e \<leftarrow> garbageCollectObjectLocked S p;
           return (Inr \<lparr>rmProfile = p, rmCleanupPending = (e \<noteq> None), rmCleanupError = e\<rparr>) }))) ?Q t"
    proof (rule commit_wp [OF t])
      fix e and u :: "'w sstate"
      assume "memory u = memory t"
      with t show "?Q (Inl e) u" using editFailed_base [OF b] by simp
    next
      fix e and u :: "'w sstate"
      assume "wellFormed (removalCandidate m i)" "errorsIs e ErrOutcomeAmbiguous"
        and u: "memory u = (removalCandidate m i, True, sCleaned s)"
      then show "?Q (Inl e) u"
        using b Some memory_manifest [OF u] by (auto simp: editFailed_def removalEdit_def)
    qed (rule settles)
    with m Some show ?thesis by (simp add: wp_bind wp_gets Let_def)
  qed
qed simp

text \<open>Publishing objects: the transaction itself touches the memory only through the manifest.\<close>

definition transactionOutcome ::
    "manifest \<Rightarrow> 'w sstate \<Rightarrow> publication \<Rightarrow> 'w sstate \<Rightarrow> bool" where
  "transactionOutcome candidate s r s' \<longleftrightarrow>
     (case r of
        (res, None) \<Rightarrow> map_option pubManifest res = Some candidate \<and>
          memory s' = (candidate, False, sCleaned s)
      | (res, Some x) \<Rightarrow>
          memory s' = memory s \<or>
          errorsIs x ErrOutcomeAmbiguous \<and> memory s' = (candidate, True, sCleaned s))"

lemma finishPublication_outcome:
  fixes t :: "'w sstate"
  assumes "memory t = (candidate, False, sCleaned s)"
  shows "wp (finishPublication S transactions name transactionDir)
    (\<lambda>(r, _). transactionOutcome candidate s r) t"
  unfolding finishPublication_def
proof (rule quiet_bind, intro keeps_intros)
  fix boundary and u :: "'w sstate"
  assume "memory u = memory t"
  with assms have u: "memory u = (candidate, False, sCleaned s)" by simp
  note m = memory_manifest [OF u]
  have settles: "wp (return ((Some \<lparr>pubManifest = sManifest u, pubCleanupPending = b\<rparr>, None), x))
      (\<lambda>(r, _). transactionOutcome candidate s r) v" if "memory v = memory u" for v :: "'w sstate" and b x
    using that u m by (simp add: wp_return transactionOutcome_def)
  show "wp (do { m \<leftarrow> gets sManifest;
     if boundary \<noteq> None
     then return ((Some \<lparr>pubManifest = m, pubCleanupPending = True\<rparr>, None), True)
     else do {
       cleanupErr \<leftarrow> runSteps [check S ''before_transaction_remove'',
         onWorld (RemoveTreeAt (sKernel S) transactions name (sRequiredUID S)),
         check S ''after_transaction_remove'', check S ''before_transactions_sync'',
         onWorld (Sync (sKernel S) transactions), check S ''after_transactions_sync''];
       cleanupErr \<leftarrow> (if cleanupErr = None then closeBoundary S ''transactions'' transactions
         else do {
           c \<leftarrow> onWorld (uClose (sKernel S) transactions);
           return (errorsJoin [cleanupErr, c])
         });
       return ((Some \<lparr>pubManifest = m, pubCleanupPending = (cleanupErr \<noteq> None)\<rparr>, None), False)
     } }) (\<lambda>(r, _). transactionOutcome candidate s r) u"
  proof (cases boundary)
    case None
    show ?thesis
      unfolding wp_bind wp_gets None
      by (simp only: simp_thms if_False option.distinct)
        (rule quiet_bind, intro keeps_intros, rule quiet_bind, intro keeps_intros, rule settles, simp)
  next
    case (Some e)
    then show ?thesis using settles [of u] by (simp add: wp_bind wp_gets)
  qed
qed

lemma transactionBody_outcome:
  fixes t :: "'w sstate"
  assumes "memory t = memory s" and "\<not> sDurabilityUnknown s"
  shows "wp (transactionBody S candidate objs transactions name)
    (\<lambda>(r, _). transactionOutcome candidate s r) t"
  unfolding transactionBody_def
proof (rule quiet_bind, intro keeps_intros)
  fix d and u :: "'w sstate"
  assume u: "memory u = memory t"
  have failed: "transactionOutcome candidate s (res, Some e) v" if "memory v = memory t" for res e
    and v :: "'w sstate"
    using that assms by (simp add: transactionOutcome_def)
  show "wp (case d of
       Inl e \<Rightarrow> return ((None, Some e), True)
     | Inr transactionDir \<Rightarrow> do {
         staged \<leftarrow> runSteps ([check S ''after_transaction_create''] @
           map (stageObject S transactionDir) objs @
           [check S ''before_transaction_sync'', onWorld (Sync (sKernel S) transactionDir),
            check S ''after_transaction_sync''] @
           map (publishObject S transactionDir) objs);
         case staged of
           Some e \<Rightarrow> do {
             _ \<leftarrow> onWorld (uClose (sKernel S) transactionDir);
             return ((None, Some e), True)
           }
         | None \<Rightarrow> do {
             published \<leftarrow> publishManifestLocked S candidate;
             case published of
               Some e \<Rightarrow> do {
                 m \<leftarrow> gets sManifest;
                 _ \<leftarrow> onWorld (uClose (sKernel S) transactionDir);
                 return ((if errorsIs e ErrOutcomeAmbiguous
                          then Some \<lparr>pubManifest = m, pubCleanupPending = True\<rparr> else None, Some e), True)
               }
             | None \<Rightarrow> finishPublication S transactions name transactionDir
           }
       }) (\<lambda>(r, _). transactionOutcome candidate s r) u"
  proof (cases d)
    case (Inl e)
    with u failed show ?thesis by (simp add: wp_return)
  next
    case (Inr transactionDir)
    show ?thesis
      unfolding Inr sum.case
    proof (rule quiet_bind, intro keeps_intros, goal_cases)
      case (1 staged v)
      show ?case
      proof (cases staged)
        case (Some e)
        have "wp (do { _ \<leftarrow> onWorld (uClose (sKernel S) transactionDir); return ((None, Some e), True) })
            (\<lambda>(r, _). transactionOutcome candidate s r) v"
          by (rule quiet_bind, intro keeps_intros) (use 1 u failed in \<open>simp add: wp_return\<close>)
        with Some show ?thesis by simp
      next
        case None
        let ?rest = "\<lambda>published. case published of
               Some e \<Rightarrow> do {
                 m \<leftarrow> gets sManifest;
                 _ \<leftarrow> onWorld (uClose (sKernel S) transactionDir);
                 return ((if errorsIs e ErrOutcomeAmbiguous
                          then Some \<lparr>pubManifest = m, pubCleanupPending = True\<rparr> else None, Some e), True)
               }
             | None \<Rightarrow> finishPublication S transactions name transactionDir"
        have v: "memory v = memory s" using 1 u assms by simp
        have rest: "wp (?rest published) (\<lambda>(r, _). transactionOutcome candidate s r) v'"
          if p: "publishOutcome candidate v published v'" for published and v' :: "'w sstate"
        proof (cases published)
          case None
          with p v have "memory v' = (candidate, False, sCleaned s)"
            by (simp add: publishOutcome_def memory_def)
          from finishPublication_outcome [OF this] None show ?thesis by simp
        next
          case (Some e)
          have o: "transactionOutcome candidate s (res, Some e) x" if "memory x = memory v'" for res
            and x :: "'w sstate"
            using p v that Some by (auto simp: publishOutcome_def transactionOutcome_def memory_def)
          show ?thesis
            unfolding Some option.case
            by (subst wp_bind, subst wp_gets, rule quiet_bind, intro keeps_intros)
              (simp add: wp_return o)
        qed
        have "wp (State_Monad.bind (publishManifestLocked S candidate) ?rest)
            (\<lambda>(r, _). transactionOutcome candidate s r) v"
          unfolding wp_bind by (rule wp_mono [OF publishManifestLocked_outcome]) (rule rest)
        with None show ?thesis by simp
      qed
    qed
  qed
qed

lemma publishTransaction_outcome:
  fixes s :: "'w sstate"
  assumes "\<not> sDurabilityUnknown s"
  shows "wp (publishTransaction S candidate objs) (transactionOutcome candidate s) s"
  unfolding publishTransaction_def
proof (rule quiet_bind, intro keeps_intros, goal_cases)
  case (1 t u)
  have failed': "transactionOutcome candidate s (None, x) v" if "x \<noteq> None" "memory v = memory s" for x
    and v :: "'w sstate"
    using that by (auto simp: transactionOutcome_def)
  then have failed: "transactionOutcome candidate s (None, Some e) v" if "memory v = memory s" for e
    and v :: "'w sstate"
    using that by simp
  show ?case
  proof (cases t)
    case (Inl e)
    with 1 failed show ?thesis by (simp add: wp_return)
  next
    case (Inr nt)
    obtain name transactions where nt: "nt = (name, transactions)" by (cases nt)
    show ?thesis
      unfolding Inr nt sum.case prod.case
    proof (rule quiet_bind, intro keeps_intros, goal_cases)
      case (1 opened v)
      have v: "memory v = memory s" using 1 \<open>memory u = memory s\<close> by simp
      show ?case
      proof (cases opened)
        case None
        have "wp (do { (result, stillOpen) \<leftarrow> transactionBody S candidate objs transactions name;
             _ \<leftarrow> (if stillOpen then onWorld (uClose (sKernel S) transactions) else return None);
             return result }) (transactionOutcome candidate s) v"
          unfolding wp_bind
        proof (rule wp_mono [OF transactionBody_outcome [OF v assms]])
          fix a :: "publication \<times> bool" and x :: "'w sstate"
          assume "(case a of (r, _) \<Rightarrow> transactionOutcome candidate s r) x"
          then obtain r stillOpen where a: "a = (r, stillOpen)" and o: "transactionOutcome candidate s r x"
            by (cases a) auto
          show "wp (case a of (result, stillOpen) \<Rightarrow> do {
              _ \<leftarrow> (if stillOpen then onWorld (uClose (sKernel S) transactions) else return None);
              return result }) (transactionOutcome candidate s) x"
            unfolding a prod.case
            by (rule quiet_bind, intro keeps_intros)
              (use o in \<open>simp add: wp_return transactionOutcome_def split: prod.splits option.splits\<close>)
        qed
        with None show ?thesis by simp
      next
        case (Some e)
        have joined: "errorsJoin [opened, c] \<noteq> None" for c
          using Some by (simp add: errorsJoin_None)
        have "wp (do { c \<leftarrow> onWorld (uClose (sKernel S) transactions);
            return (None, errorsJoin [opened, c]) }) (transactionOutcome candidate s) v"
          by (rule quiet_bind, intro keeps_intros)
            (use v in \<open>simp add: wp_return failed' [OF joined]\<close>)
        with Some show ?thesis by simp
      qed
    qed
  qed
qed

definition publishEdit :: "'w store \<Rightarrow> 64 word \<Rightarrow> newObject list \<Rightarrow> manifest \<Rightarrow> manifest \<Rightarrow> bool" where
  "publishEdit S revision objs m m' \<longleftrightarrow>
     mLibraryRevision m = revision \<and> objs \<noteq> [] \<and> length (mProfiles m) + length objs \<le> MaxProfiles \<and>
     admitObjects S (map pID (mProfiles m)) (map pContentSHA256 (mProfiles m)) objs = None \<and>
     m' = bumpRevision (m\<lparr>mProfiles := mProfiles m @ map noProfile objs\<rparr>)"

definition publicationOutcome ::
    "'w store \<Rightarrow> 64 word \<Rightarrow> newObject list \<Rightarrow> 'w sstate \<Rightarrow> publication \<Rightarrow> 'w sstate \<Rightarrow> bool" where
  "publicationOutcome S revision objs s r s' \<longleftrightarrow>
     (case r of
        (res, None) \<Rightarrow> map_option pubManifest res = Some (sManifest s') \<and>
          (if objs = []
           then (\<exists>m. base s m \<and> mLibraryRevision m = revision \<and> memory s' = (m, False, sCleaned s))
           else editDone (publishEdit S revision objs) s s')
      | (res, Some e) \<Rightarrow> editFailed (publishEdit S revision objs) s e s')"

lemma transaction_publication:
  assumes "base s m" and "memory t = (m, False, sCleaned s)" and "publishEdit S revision objs m candidate"
    and "wellFormed candidate" and "transactionOutcome candidate t r s'"
  shows "publicationOutcome S revision objs s r s'"
proof -
  obtain res e where r: "r = (res, e)" by (cases r)
  have cl: "sCleaned t = sCleaned s" using assms(2) by (simp add: memory_def)
  have ne: "objs \<noteq> []" using assms(3) by (simp add: publishEdit_def)
  show ?thesis
  proof (cases e)
    case None
    with assms(5) r cl have m': "memory s' = (candidate, False, sCleaned s)"
      and res: "map_option pubManifest res = Some candidate"
      by (simp_all add: transactionOutcome_def)
    note sm = memory_manifest [OF m']
    have "editDone (publishEdit S revision objs) s s'"
      unfolding editDone_def sm using assms m' by blast
    with r None ne res sm show ?thesis by (simp add: publicationOutcome_def)
  next
    case (Some x)
    have "editFailed (publishEdit S revision objs) s x s'"
    proof (cases "memory s' = memory t")
      case True
      with assms(2) show ?thesis using editFailed_base [OF assms(1)] by simp
    next
      case False
      with assms(5) r Some cl have "errorsIs x ErrOutcomeAmbiguous"
        and m': "memory s' = (candidate, True, sCleaned s)"
        by (simp_all add: transactionOutcome_def)
      then show ?thesis
        unfolding editFailed_def memory_manifest [OF m'] using assms by blast
    qed
    with r Some show ?thesis by (simp add: publicationOutcome_def)
  qed
qed

lemma Publish_outcome:
  fixes s :: "'w sstate"
  shows "wp (Publish S revision objs) (publicationOutcome S revision objs s) s"
  unfolding Publish_def wp_bind
proof (rule wp_mono [OF prepareMutationLocked_outcome], unfold wp_gets)
  fix prepared and t :: "'w sstate"
  assume p: "prepareOutcome S s prepared t"
  let ?m = "sManifest t"
  let ?candidate = "bumpRevision (?m\<lparr>mProfiles := mProfiles ?m @ map noProfile objs\<rparr>)"
  show "wp (if prepared \<noteq> None then return (None, prepared)
     else if mLibraryRevision ?m \<noteq> revision then return (None, Some (Sentinel ErrStaleInspection))
     else if objs = [] then return (Some \<lparr>pubManifest = ?m, pubCleanupPending = False\<rparr>, None)
     else if length (mProfiles ?m) + length objs > MaxProfiles
     then return (None, Some (Sentinel ErrCapacity))
     else case admitObjects S (map pID (mProfiles ?m)) (map pContentSHA256 (mProfiles ?m)) objs of
       Some e \<Rightarrow> return (None, Some e)
     | None \<Rightarrow>
         let candidate = ?candidate
         in case ValidateManifest candidate of
              Some e \<Rightarrow> return (None, Some e)
            | None \<Rightarrow> publishTransaction S candidate objs) (publicationOutcome S revision objs s) t"
  proof (cases prepared)
    case (Some e)
    with p show ?thesis
      by (simp add: wp_return publicationOutcome_def prepareOutcome_def editFailed_def)
  next
    case None
    with p obtain m where b: "base s m" and t: "memory t = (m, False, sCleaned s)"
      by (auto simp: prepareOutcome_def)
    note m = memory_manifest [OF t]
    have failed: "publicationOutcome S revision objs s (None, Some e) t" for e
      using editFailed_base [OF b t] by (simp add: publicationOutcome_def)
    have settles: "wp (publishTransaction S ?candidate objs) (publicationOutcome S revision objs s) t"
      if "mLibraryRevision m = revision" "objs \<noteq> []" "\<not> length (mProfiles m) + length objs > MaxProfiles"
        "admitObjects S (map pID (mProfiles m)) (map pContentSHA256 (mProfiles m)) objs = None"
        "ValidateManifest ?candidate = None"
    proof (rule wp_mono [OF publishTransaction_outcome])
      show "\<not> sDurabilityUnknown t" using t by (simp add: memory_def)
      fix r and s' :: "'w sstate"
      assume o: "transactionOutcome ?candidate t r s'"
      show "publicationOutcome S revision objs s r s'"
        by (rule transaction_publication [OF b t _ _ o])
          (use that m in \<open>simp_all add: publishEdit_def flip: ValidateManifest_None\<close>)
    qed
    have empty: "publicationOutcome S revision []
        s (Some \<lparr>pubManifest = m, pubCleanupPending = False\<rparr>, None) t"
      if "mLibraryRevision m = revision"
      using that b t m by (auto simp: publicationOutcome_def)
    show ?thesis
      unfolding m None Let_def
      using failed settles empty
      by (auto simp: wp_return m split: option.split)
  qed
qed

section \<open>Execution copies\<close>

lemma wp_extend_cells:
  "wp (do { cell \<leftarrow> gets (\<lambda>s. length (sCleaned s));
        modify (\<lambda>s. s\<lparr>sCleaned := sCleaned s @ [False]\<rparr>); return (f cell) }) Q =
   (\<lambda>s. Q (f (length (sCleaned s))) (s\<lparr>sCleaned := sCleaned s @ [False]\<rparr>))"
  by (simp add: wp_simps)

definition sameLibrary :: "'w sstate \<Rightarrow> 'w sstate \<Rightarrow> bool" where
  "sameLibrary s s' \<longleftrightarrow> sManifest s' = sManifest s \<and> sDurabilityUnknown s' = sDurabilityUnknown s"

lemma memory_sameLibrary: "memory s' = memory s \<Longrightarrow> sameLibrary s s'"
  by (simp add: memory_def sameLibrary_def)

text \<open>A prepared execution is a copy of an object that passed every check; it has a new cleanup cell.\<close>

lemma PrepareExecution_outcome:
  fixes s :: "'w sstate"
  shows "wp (PrepareExecution S i) (\<lambda>r s'. case r of
      Inl e \<Rightarrow> memory s' = memory s
    | Inr (p, path, h) \<Rightarrow> \<not> sReadOnly S \<and> manifestProfile (sManifest s) i = Some p \<and>
        chCell h = length (sCleaned s) \<and> sCleaned s' = sCleaned s @ [False] \<and> sameLibrary s s') s"
proof -
  let ?Q = "\<lambda>r s'. case r of
      Inl e \<Rightarrow> memory s' = memory s
    | Inr (p, path, h) \<Rightarrow> \<not> sReadOnly S \<and> manifestProfile (sManifest s) i = Some p \<and>
        chCell h = length (sCleaned s) \<and> sCleaned s' = sCleaned s @ [False] \<and> sameLibrary s s'"
  have body: "wp (tryE (wrapE ''validate profile object'' (readValidatedObject S p)) (\<lambda>data.
            tryE (store_randomName S ''exec-'') (\<lambda>executionName.
            tryE (onWorld (OpenPrivateDir (sKernel S) (executionsPath S) (sRequiredUID S))) (\<lambda>executions. do {
              x \<leftarrow> onWorld (MkdirExclusive (sKernel S) executions executionName (sRequiredUID S));
              case x of
                Inl e \<Rightarrow> do { _ \<leftarrow> onWorld (uClose (sKernel S) executions); return (Inl e) }
              | Inr execution \<Rightarrow>
                  checkE (onWorld (fillExecution (sKernel S) (sRequiredUID S) executions executionName
                      execution (objectFilename p) data))
                    (do {
                       cell \<leftarrow> gets (\<lambda>s. length (sCleaned s));
                       modify (\<lambda>s. s\<lparr>sCleaned := sCleaned s @ [False]\<rparr>);
                       return (Inr (p, pathJoin [executionsPath S, executionName, objectFilename p],
                         \<lparr>chName = executionName, chCell = cell\<rparr>))
                     }) })))) ?Q s" if "\<not> sReadOnly S" "manifestProfile (sManifest s) i = Some p" for p
  proof (rule quiet_tryE, intro keeps_intros, simp, rule quiet_tryE, intro keeps_intros, simp,
      rule quiet_tryE, intro keeps_intros, simp, rule quiet_bind, intro keeps_intros, goal_cases)
    case (1 data s1 name s2 fd s3 x s4)
    then have m: "memory s4 = memory s" by simp
    show ?case
    proof (cases x)
      case (Inl e)
      have "wp (do { _ \<leftarrow> onWorld (uClose (sKernel S) fd); return (Inl e) }) ?Q s4"
        by (rule quiet_bind, intro keeps_intros) (simp add: wp_return m)
      with Inl show ?thesis by simp
    next
      case (Inr execution)
      show ?thesis
        unfolding Inr sum.case
        by (rule quiet_checkE, intro keeps_intros)
          (use m that in \<open>auto simp: wp_extend_cells memory_def sameLibrary_def\<close>)
    qed
  qed
  show ?thesis
    unfolding PrepareExecution_def
    using body by (auto simp: wp_bind wp_gets wp_return split: option.split)
qed

lemma cleanupExecution_outcome:
  fixes s :: "'w sstate"
  shows "wp (cleanupExecution S h) (\<lambda>e s'. sameLibrary s s' \<and>
      sCleaned s' = (if e = None then (sCleaned s)[chCell h := True] else sCleaned s)) s"
proof -
  let ?Q = "\<lambda>e s'. sameLibrary s s' \<and>
      sCleaned s' = (if e = None then (sCleaned s)[chCell h := True] else sCleaned s)"
  have failed: "?Q (Some e) s'" if "memory s' = memory s" for e s'
    using that by (simp add: memory_def sameLibrary_def)
  have "wp (openE (onWorld (OpenPrivateDir (sKernel S) (executionsPath S) (sRequiredUID S))) (\<lambda>root. do {
       e \<leftarrow> onWorld (RemoveTreeAt (sKernel S) root (chName h) (sRequiredUID S));
       e \<leftarrow> (if e = None \<or> IsNotExist e then onWorld (Sync (sKernel S) root) else return e);
       c \<leftarrow> onWorld (uClose (sKernel S) root);
       let cleanupErr = errorsJoin [e, c];
       if cleanupErr = None then do {
         modify (\<lambda>s. s\<lparr>sCleaned := (sCleaned s)[chCell h := True]\<rparr>);
         return None
       }
       else return cleanupErr
     })) ?Q s"
    by (rule quiet_openE, intro keeps_intros, rule failed, assumption,
        (rule quiet_bind, intro keeps_intros)+)
      (auto simp: wp_simps Let_def memory_def sameLibrary_def)
  moreover have "wp (return None) ?Q s" if "chCell h < length (sCleaned s) \<and> sCleaned s ! chCell h"
  proof -
    have "(sCleaned s)[chCell h := True] = sCleaned s"
      using that by (metis list_update_id)
    then show ?thesis by (simp add: wp_return sameLibrary_def)
  qed
  ultimately show ?thesis
    unfolding cleanupExecution_def by (simp add: wp_bind wp_gets) blast
qed

end
