(* ===== verification/StoreSteps.thy ===== *)
theory StoreSteps
  imports StoreLaws
begin

text \<open>
  The store as a state machine: every exported operation is one step, because it holds \<open>s.mu\<close> from
  start to end, and between two operations the machine may change in any way.  The invariant that the
  manifest in memory is well-formed is proved once for the contract of an operation and interpreted on
  each of them; the reachable states follow by rule induction.
\<close>

section \<open>The contract of an operation\<close>

definition libraryValid :: "'w sstate \<Rightarrow> bool" where
  "libraryValid s \<longleftrightarrow> wellFormed (sManifest s)"

locale store_operation =
  fixes operation :: "('w sstate, 'a) state"
  assumes operation_keeps: "keeps libraryValid operation"
begin

lemma operation_step:
  "libraryValid s \<Longrightarrow> run_state operation s = (r, s') \<Longrightarrow> libraryValid s'"
  using operation_keeps by (auto simp: keeps_def dest: wp_runD)

lemma operation_wp: "libraryValid s \<Longrightarrow> wp operation (\<lambda>_. libraryValid) s"
  by (rule keepsD [OF operation_keeps])

end

lemma memory_valid: "memory s' = memory s \<Longrightarrow> libraryValid s \<Longrightarrow> libraryValid s'"
  by (simp add: libraryValid_def memory_def)

lemma repair_valid: "repairOutcome s e s' \<Longrightarrow> libraryValid s \<Longrightarrow> libraryValid s'"
  by (auto simp: repairOutcome_def base_def libraryValid_def memory_def split: option.splits if_splits)

lemma editDone_valid: "editDone edit s s' \<Longrightarrow> libraryValid s'"
  by (auto simp: editDone_def libraryValid_def)

lemma editFailed_valid: "libraryValid s \<Longrightarrow> editFailed edit s e s' \<Longrightarrow> libraryValid s'"
  by (auto simp: editFailed_def libraryValid_def memory_def)

lemma base_valid: "libraryValid s \<Longrightarrow> base s m \<Longrightarrow> memory s' = (m, u, c) \<Longrightarrow> libraryValid s'"
  by (auto simp: base_def libraryValid_def memory_def split: if_splits)

lemmas edits_valid = editDone_valid editFailed_valid

interpretation preferences: store_operation "SetPreferences S favorites recents startupMode"
  for S favorites recents startupMode
  by unfold_locales
    (rule keepsI, rule wp_mono [OF SetPreferences_outcome], auto split: sum.splits intro: edits_valid)

interpretation connection: store_operation "SetConnection S desired at addRecent"
  for S desired at addRecent
  by unfold_locales
    (rule keepsI, rule wp_mono [OF SetConnection_outcome], auto split: sum.splits intro: edits_valid)

interpretation metadata: store_operation "UpdateMetadata S i patch" for S i patch
  by unfold_locales
    (rule keepsI, rule wp_mono [OF UpdateMetadata_outcome], auto split: sum.splits intro: edits_valid)

interpretation removal: store_operation "store_Remove S i" for S i
  by unfold_locales
    (rule keepsI, rule wp_mono [OF store_Remove_outcome], auto split: sum.splits intro: edits_valid)

interpretation publication: store_operation "Publish S revision objs" for S revision objs
  by unfold_locales
    (rule keepsI, rule wp_mono [OF Publish_outcome],
      auto simp: publicationOutcome_def split: prod.splits option.splits if_splits
        intro: edits_valid base_valid)

interpretation repair: store_operation "RepairDurability S" for S
  by unfold_locales
    (rule keepsI, unfold RepairDurability_def, rule wp_mono [OF repairDurabilityLocked_outcome],
      erule repair_valid)

interpretation resolve: store_operation "Resolve S i" for S i
  by unfold_locales (rule keepsI, rule quiet_wp, intro keeps_intros, erule memory_valid)

interpretation execution: store_operation "PrepareExecution S i" for S i
  by unfold_locales
    (rule keepsI, rule wp_mono [OF PrepareExecution_outcome],
      auto simp: sameLibrary_def libraryValid_def memory_def split: sum.splits)

interpretation cleanup: store_operation "cleanupExecution S h" for S h
  by unfold_locales
    (rule keepsI, rule wp_mono [OF cleanupExecution_outcome], auto simp: sameLibrary_def libraryValid_def)

section \<open>Opening\<close>

lemma loadManifest_valid:
  "wp (loadManifest S) (\<lambda>r _. case r of Inl e \<Rightarrow> True | Inr m \<Rightarrow> wellFormed m) w"
proof -
  have "wp (checkE (runSteps [return (ValidateManifest m), a, b]) (return (Inr m)))
      (\<lambda>r _. case r of Inl e \<Rightarrow> True | Inr m \<Rightarrow> wellFormed m) u" for m a b u
    by (cases "ValidateManifest m")
      (simp_all add: wp_simps ValidateManifest_None [symmetric] cong: wp_congs)
  moreover have "wp (if sReadOnly S then return (Inr InitialManifest)
      else do {
        (result, writeErr) \<leftarrow> WriteJSONAtomic (sKernel S) (sMarshal S) (manifestPath S)
          InitialManifest (sRequiredUID S) None;
        return (case writeErr of Some e \<Rightarrow> Inl (Wrapf ''create profile manifest'' e)
          | None \<Rightarrow> if wrDurable result then Inr InitialManifest
                    else Inl (ErrText ''create profile manifest'')) })
      (\<lambda>r _. case r of Inl e \<Rightarrow> True | Inr m \<Rightarrow> wellFormed m) u" for u
    by (auto simp: wp_simps InitialManifest_wellFormed split: option.split intro!: wp_any)
  ultimately show ?thesis
    unfolding loadManifest_def wp_bind
    by - (rule wp_any, auto simp: wp_return simp del: runSteps.simps split: sum.split)
qed

lemma OpenStore_valid:
  "wp (OpenStore options) (\<lambda>r _. case r of
      Inl e \<Rightarrow> True
    | Inr (S, lock, m) \<Rightarrow> wellFormed m \<and> S = options\<lparr>sRoot := cleanPath (sRoot options)\<rparr>) w"
proof -
  let ?S = "options\<lparr>sRoot := cleanPath (sRoot options)\<rparr>"
  let ?Q = "\<lambda>r _. case r of Inl e \<Rightarrow> True
    | Inr (S, lock, m) \<Rightarrow> wellFormed m \<and> S = ?S"
  have "wp (do { let S = ?S;
           r \<leftarrow> tryE (loadManifest S) (\<lambda>m.
             checkE (if sReadOnly S then return None
                     else wrapErr ''clean managed library remnants'' (cleanupRemnants S m))
               (return (Inr m)));
           case r of
             Inl e \<Rightarrow> do { _ \<leftarrow> lock_Close (sKernel S) lock; return (Inl e) }
           | Inr m \<Rightarrow> return (Inr (S, lock, m)) }) ?Q u" for lock u
    unfolding Let_def wp_bind wp_tryE
    by (rule wp_mono [OF loadManifest_valid])
      (auto simp: wp_simps split: sum.splits option.splits intro!: wp_any)
  then show ?thesis
    unfolding OpenStore_def
    by (auto simp: wp_if wp_return wp_checkE wp_tryE split: option.split sum.split intro!: wp_any)
qed

section \<open>Reachable states\<close>

inductive storeReachable :: "'w store \<Rightarrow> 'w sstate \<Rightarrow> bool" for S where
  opened: "run_state (OpenStore options) w0 = (Inr (S, lock, m), w) \<Longrightarrow> storeReachable S (openedState m w)"
| environment: "storeReachable S s \<Longrightarrow> storeReachable S (s\<lparr>sWorld := w\<rparr>)"
| preferences: "storeReachable S s \<Longrightarrow> run_state (SetPreferences S favorites recents mode) s = (r, s') \<Longrightarrow>
    storeReachable S s'"
| connection: "storeReachable S s \<Longrightarrow> run_state (SetConnection S desired at addRecent) s = (r, s') \<Longrightarrow>
    storeReachable S s'"
| metadata: "storeReachable S s \<Longrightarrow> run_state (UpdateMetadata S i patch) s = (q, s') \<Longrightarrow> storeReachable S s'"
| removal: "storeReachable S s \<Longrightarrow> run_state (store_Remove S i) s = (d, s') \<Longrightarrow> storeReachable S s'"
| publication: "storeReachable S s \<Longrightarrow> run_state (Publish S revision objs) s = (p, s') \<Longrightarrow>
    storeReachable S s'"
| repair: "storeReachable S s \<Longrightarrow> run_state (RepairDurability S) s = (e, s') \<Longrightarrow> storeReachable S s'"
| resolve: "storeReachable S s \<Longrightarrow> run_state (Resolve S i) s = (q, s') \<Longrightarrow> storeReachable S s'"
| execution: "storeReachable S s \<Longrightarrow> run_state (PrepareExecution S i) s = (x, s') \<Longrightarrow> storeReachable S s'"
| cleanup: "storeReachable S s \<Longrightarrow> run_state (cleanupExecution S h) s = (e, s') \<Longrightarrow> storeReachable S s'"

lemma reachable_valid: "storeReachable S s \<Longrightarrow> libraryValid s"
proof (induction rule: storeReachable.induct)
  case (opened options w0 lock m w)
  from wp_runD [OF OpenStore_valid opened] show ?case
    by (simp add: libraryValid_def openedState_def)
next
  case (environment s w)
  then show ?case by (simp add: libraryValid_def)
qed (blast intro: preferences.operation_step connection.operation_step metadata.operation_step
    removal.operation_step publication.operation_step repair.operation_step resolve.operation_step
    execution.operation_step cleanup.operation_step)+

end
