(* ===== verification/SampleKernel.thy ===== *)
theory SampleKernel
  imports StoreSteps
begin

text \<open>
  A kernel for the concrete instances of the properties: every call succeeds, a file is opened as
  descriptor 4, the directory of an object as 5 and any other as 3; every file reads as the same OpenVPN
  profile, and only the directory of an object lists one.  It models no part of the program; it shows that the hypotheses of
  the properties can hold, on runs in which the operations succeed.
\<close>

definition smallOpenVPN :: string where
  "smallOpenVPN = ''client'' @ [CHR 0x0A] @ ''remote a'' @ [CHR 0x0A]"

definition steadyKernel :: "unit unix" where
  "steadyKernel = \<lparr>
     uGetwd = return (Inr ''/''),
     uOpen = (\<lambda>p flags. return (Inr 3)),
     uOpenat = (\<lambda>fd name flags mode. return (Inr (
        if O_DIRECTORY \<notin> set flags then 4 else if hasPrefix name ''tf_'' then 5 else 3))),
     uMkdirat = (\<lambda>fd name mode. return None),
     uFstat = (\<lambda>fd. return (Inr \<lparr>stMode = (if fd \<noteq> 4 then 0x41C0 else 0x8180), stUid = 0, stSize = 10\<rparr>)),
     uFstatat = (\<lambda>fd name. return (Inr \<lparr>stMode = 0x8180, stUid = 0, stSize = 10\<rparr>)),
     uFlock = (\<lambda>fd op. return None),
     uReadAll = (\<lambda>fd n. return (Inr (take n smallOpenVPN))),
     uWrite = (\<lambda>fd data. return (length data, None)),
     uFsync = (\<lambda>fd. return None),
     uClose = (\<lambda>fd. return None),
     uUnlinkat = (\<lambda>fd name dir. return None),
     uRenameat = (\<lambda>a x b y. return None),
     uRenameNoReplace = (\<lambda>a x b y. return None),
     uReadDir = (\<lambda>fd. return (Inr (if fd = 5 then [\<lparr>deName = ''profile.ovpn'', deType = RegularFile\<rparr>]
        else []))),
     uRandom = (\<lambda>n. return (Inr (replicate n (CHR ''r'')))),
     uMaxOpen = 16\<rparr>"

definition sampleProfile :: profile where
  "sampleProfile = \<lparr>pID = ''tf_aaaaaaaaaaaaaaaaaaaaaaaaaa'', pProtocol = ProtocolOpenVPN,
     pDisplayName = ''Home'', pGroup = ''Default'', pLocation = [], pEmoji = [],
     pIdentifier = ''tfaaaaaaaaaaaa'', pOriginalFilename = ''home.ovpn'',
     pImportedAt = \<lparr>tSeconds = 1700000000, tNanos = 0, tUTC = True\<rparr>,
     pContentSHA256 = replicate 64 (CHR ''a''), pWireGuardPublicKeySHA256 = []\<rparr>"

definition sampleManifest :: manifest where
  "sampleManifest = InitialManifest\<lparr>mProfiles := [sampleProfile]\<rparr>"

text \<open>The hash of the instances sends everything to the digest of the sample profile.\<close>

definition steadyStore :: "unit store" where
  "steadyStore = \<lparr>sKernel = steadyKernel, sRoot = ''/state'', sRequiredUID = 0, sReadOnly = False,
     sRandom = (\<lambda>n. return (Inr (replicate n (CHR ''r'')))), sCheckpoint = None,
     sMarshal = (\<lambda>m. Inr ''{}''), sDecode = (\<lambda>d. Inr (sampleManifest, [])),
     sTables = plainTables,
     sCrypto = \<lparr>sha256 = (\<lambda>b. replicate 32 (CHR 0xAA)), x25519Public = id\<rparr>\<rparr>"

definition steadyState :: "unit sstate" where
  "steadyState = openedState sampleManifest ()"

lemma sampleManifest_valid: "wellFormed sampleManifest"
proof -
  have "ValidateManifest sampleManifest = None" by code_simp
  then show ?thesis by (simp add: ValidateManifest_None)
qed

text \<open>Opening the library on this kernel succeeds, so its first state is reachable.\<close>

lemma steadyStore_opened: "run_state (OpenStore steadyStore) () = (Inr (steadyStore, 4, sampleManifest), ())"
proof -
  have "case fst (run_state (OpenStore steadyStore) ()) of
      Inl e \<Rightarrow> False | Inr (S, lock, m) \<Rightarrow> lock = 4 \<and> m = sampleManifest"
    by code_simp
  moreover have "cleanPath (sRoot steadyStore) = sRoot steadyStore"
    by code_simp
  ultimately show ?thesis
    using wp_runD [OF OpenStore_valid, of steadyStore "()"]
    by (cases "run_state (OpenStore steadyStore) ()") (auto split: sum.splits)
qed

lemma steadyState_reachable: "storeReachable steadyStore steadyState"
  unfolding steadyState_def by (rule storeReachable.opened [OF steadyStore_opened])

end
