(* ===== verification/StoreProperties.thy ===== *)
theory StoreProperties
  imports StoreSteps SampleKernel
begin

text \<open>
  The properties of the profile store, over the laws of \<open>StoreLaws\<close> and the reachable states of
  \<open>StoreSteps\<close>.  \<open>base s m\<close> says that an operation worked from the manifest \<open>m\<close>: the one in memory or,
  when the durability of the last write was unknown, a well-formed one read back from disk.
\<close>

section \<open>What admission guarantees\<close>

definition admissible :: "'w store \<Rightarrow> newObject \<Rightarrow> bool" where
  "admissible S obj \<longleftrightarrow>
     1 \<le> length (noBytes obj) \<and> length (noBytes obj) \<le> MaxProfileBytes \<and>
     ValidateProfile (noProfile obj) = None \<and>
     hexEncode (sha256 (sCrypto S) (noBytes obj)) = pContentSHA256 (noProfile obj) \<and>
     (case ValidateImportedProfile (sTables S) (sCrypto S) (pProtocol (noProfile obj)) (noBytes obj) of
        Inl e \<Rightarrow> False
      | Inr policy \<Rightarrow> prWireGuardPublicKeySHA256 policy = pWireGuardPublicKeySHA256 (noProfile obj))"

lemma admitObjects_None:
  "admitObjects S ids contents objs = None \<longleftrightarrow>
     (\<forall>obj\<in>set objs. admissible S obj) \<and>
     distinct (map (pID \<circ> noProfile) objs) \<and> (pID \<circ> noProfile) ` set objs \<inter> set ids = {} \<and>
     distinct (map (pContentSHA256 \<circ> noProfile) objs) \<and>
     (pContentSHA256 \<circ> noProfile) ` set objs \<inter> set contents = {}"
proof (induction objs arbitrary: ids contents)
  case (Cons obj objs)
  have "admitObjects S ids contents (obj # objs) = None \<longleftrightarrow>
      admissible S obj \<and> pID (noProfile obj) \<notin> set ids \<and> pContentSHA256 (noProfile obj) \<notin> set contents \<and>
      admitObjects S (pID (noProfile obj) # ids) (pContentSHA256 (noProfile obj) # contents) objs = None"
    by (auto simp: admissible_def Let_def Suc_le_eq split: option.splits sum.splits)
  then show ?case by (auto simp: Cons.IH)
qed simp

section \<open>Properties\<close>

text \<open>C16: whatever operations have run and whatever happened to the machine between them, the manifest
  the store holds is well-formed.\<close>

theorem store_manifest_always_valid:
  assumes "storeReachable S s"
  shows "wellFormed (sManifest s)"
  using reachable_valid [OF assms] by (simp add: libraryValid_def)

theorem store_manifest_always_valid_witness:
  "wellFormed (sManifest (snd (run_state (SetConnection steadyStore (pID sampleProfile) 5 True) steadyState)))"
  by (rule store_manifest_always_valid [OF storeReachable.connection
        [OF steadyState_reachable, OF prod.collapse [symmetric]]])

text \<open>C19: \<open>SetConnection\<close> either returns the base manifest with the new desired profile, time and
  recents and the next revision, durable and well-formed, or reports an error; an error other than an
  ambiguous outcome means the new connection was not recorded.\<close>

theorem set_connection_contract:
  "wp (SetConnection S desired at addRecent) (\<lambda>r s'. case r of
      Inr m \<Rightarrow> m = sManifest s' \<and> \<not> sDurabilityUnknown s' \<and> wellFormed m \<and>
        (\<exists>m0. base s m0 \<and> mDesiredProfile m = desired \<and> mConnectedAt m = at \<and>
           mRecents m = (if addRecent \<and> desired \<noteq> [] then prependUnique (mRecents m0) desired MaxRecents
                         else mRecents m0) \<and>
           mProfiles m = mProfiles m0 \<and> mFavorites m = mFavorites m0 \<and>
           mStartupMode m = mStartupMode m0 \<and> mLibraryRevision m = mLibraryRevision m0 + 1)
    | Inl e \<Rightarrow> sManifest s' = sManifest s \<or>
        (sDurabilityUnknown s \<and> \<not> sDurabilityUnknown s') \<or>
        (errorsIs e ErrOutcomeAmbiguous \<and> sDurabilityUnknown s')) s"
proof (rule wp_mono [OF SetConnection_outcome], goal_cases)
  case (1 r s')
  show ?case
  proof (cases r)
    case (Inl e)
    with 1 show ?thesis by (auto simp: editFailed_def memory_def)
  next
    case (Inr m)
    with 1 obtain m0 where b: "base s m0"
      and m: "sManifest s' = bumpRevision (connectionChange desired at addRecent m0)"
      and rest: "m = sManifest s'" "wellFormed (sManifest s')" "\<not> sDurabilityUnknown s'"
      by (auto simp: editDone_def memory_def)
    show ?thesis
      unfolding Inr sum.case using b rest
      by (simp, intro exI [of _ m0]) (simp add: m connectionChange_def bumpRevision_def Let_def)
  qed
qed






end
