(* ===== verification/Tunnel.thy ===== *)
theory Tunnel
  imports Model Effects
begin

text \<open>
  The vocabulary of \<open>internal/tunnel/types.go\<close>: what the manager tells a protocol backend and what it
  gets back.  \<open>Backend\<close> is an interface, here a record of computations on the machine \<open>'m\<close>; the
  contexts with their deadlines are left out, running into one is among the errors a call may return.
  \<open>bkExitSource\<close> says whether the value also implements \<open>UnexpectedExitSource\<close>.
\<close>

record tunnelProfile =
  tpID :: string
  tpProtocol :: string
  tpIdentifier :: string
  tpPath :: string
  tpWireGuardPublicKeySHA256 :: string

record observation =
  obProfileID :: string
  obProtocol :: string
  obIdentifier :: string

record unexpectedExit =
  ueProfileID :: string
  ueExecutionPath :: string
  ueCleanupProved :: bool

record peerStatus =
  wpEndpoint :: string
  wpLatestHandshake :: int
  wpReceivedBytes :: "64 word"
  wpSentBytes :: "64 word"

record protocolStatus =
  psState :: string
  psReceivedBytes :: "64 word"
  psSentBytes :: "64 word"
  psPeers :: "peerStatus list"

record 'm backend =
  bkProtocol :: string
  bkExitSource :: bool
  bkAvailable :: "('m, err) state"
  bkObserve :: "tunnelProfile list \<Rightarrow> ('m, goerr + observation list) state"
  bkStart :: "tunnelProfile \<Rightarrow> ('m, err) state"
  bkStop :: "tunnelProfile \<Rightarrow> ('m, err) state"
  bkStatus :: "tunnelProfile \<Rightarrow> ('m, goerr + protocolStatus) state"
  bkShutdown :: "('m, err) state"

text \<open>Durations are nanoseconds.\<close>

definition DefaultTimeout :: int where
  "DefaultTimeout = 30 * 1000000000"

definition stateOnly :: "string \<Rightarrow> protocolStatus" where
  "stateOnly state = \<lparr>psState = state, psReceivedBytes = 0, psSentBytes = 0, psPeers = []\<rparr>"

end
