(* ===== verification/Manager.thy ===== *)
theory Manager
  imports Store Tunnel "HOL-Library.AList"
begin

text \<open>
  The tunnel manager, \<open>internal/manager/manager.go\<close>: it owns the lifecycle of at most one tunnel over
  the profile store and the protocol backends.  The machine is the pair of the store's world and the
  network with the processes of the backends; the store's calls act on the first, the backends on both.

  \<open>gate\<close> is a channel of capacity one: \<open>gGate\<close> says whether the token is in it.  Every transition runs
  between taking the token and putting it back, so a transition is one step of this model; a step that
  waits for the token (\<open>acquire\<close>) is only taken when it is there.  The maps of backends and of execution
  copies are association lists, and \<open>mgOrder\<close> is the order in which a \<open>range\<close> goes through their keys.
\<close>

section \<open>State\<close>

record executionCopy =
  ecPath :: string
  ecCleanup :: cleanupHandle

datatype networkTruth = networkTruthKnown | networkTruthUncertain

record ('w, 'n) manager =
  mgStore :: "'w store"
  mgBackends :: "(string \<times> ('w \<times> 'n) backend) list"
  mgReadOnly :: bool
  mgNow :: "('w \<times> 'n, goTime) state"
  mgTimeout :: int
  mgOrder :: "string list \<Rightarrow> string list"
  mgExitSources :: "string list"

record ('w, 'n) mstate =
  gStore :: "'w sstate"
  gNet :: 'n
  gGate :: bool
  gLifecycle :: string
  gLifecycleProfile :: string
  gLastError :: string
  gExecutions :: "(string \<times> executionCopy list) list"

record availability =
  avAvailable :: bool
  avReason :: string

record profileView =
  vwID :: string
  vwProtocol :: string
  vwDisplayName :: string
  vwGroup :: string
  vwLocation :: string
  vwEmoji :: string
  vwIdentifier :: string
  vwOriginalFilename :: string
  vwImportedAt :: string
  vwFavorite :: bool
  vwRecent :: bool
  vwAvailable :: bool
  vwUnavailableReason :: string
  vwCapabilities :: "(string \<times> bool) list"

record status =
  stLifecycle :: string
  stConnected :: bool
  stProfile :: "profileView option"
  stProtocolStatus :: "protocolStatus option"
  stBackends :: "(string \<times> availability) list"
  stLastError :: string
  stObservedAt :: goTime
  stObservationAvailable :: bool
  stCanDisconnect :: bool

record profileDetail =
  pdView :: profileView
  pdCurrent :: bool
  pdProtocolStatus :: "protocolStatus option"

record preferences =
  prFavorites :: "string list"
  prRecents :: "string list"
  prStartupMode :: string

record removeResult =
  rrProfile :: profileView
  rrCleanupPending :: bool

record ('w, 'n) managerOptions =
  moStore :: "'w store option"
  moBackends :: "(string \<times> ('w \<times> 'n) backend option) list"
  moReadOnly :: bool
  moNow :: "('w \<times> 'n, goTime) state option"
  moTimeout :: int

definition onStore :: "('w sstate, 'a) state \<Rightarrow> (('w, 'n) mstate, 'a) state" where
  "onStore = zoom gStore (\<lambda>t s. s\<lparr>gStore := t\<rparr>)"

definition machine :: "('w, 'n) mstate \<Rightarrow> 'w \<times> 'n" where
  "machine s = (sWorld (gStore s), gNet s)"

definition onMachine :: "('w \<times> 'n, 'a) state \<Rightarrow> (('w, 'n) mstate, 'a) state" where
  "onMachine = zoom machine (\<lambda>(w, n) s. s\<lparr>gStore := (gStore s)\<lparr>sWorld := w\<rparr>, gNet := n\<rparr>)"

text \<open>\<open>New\<close>: a backend must be there and speak the protocol it is registered for; the exits of those that
  report them go to \<open>handleUnexpectedExit\<close>, \<open>mgExitSources\<close> names their protocols.  \<open>now\<close> is
  \<open>time.Now\<close> and \<open>order\<close> the iteration order of the runtime.\<close>

fun registerBackends ::
    "(string \<times> ('w \<times> 'n) backend option) list \<Rightarrow> goerr + (string \<times> ('w \<times> 'n) backend) list" where
  "registerBackends [] = Inr []"
| "registerBackends ((protocol, backend) # rest) =
     (case backend of
        None \<Rightarrow> Inl (ErrText ''invalid backend'')
      | Some b \<Rightarrow>
          if bkProtocol b \<noteq> protocol then Inl (ErrText ''invalid backend'')
          else map_sum id (\<lambda>bs. (protocol, b) # bs) (registerBackends rest))"

definition manager_New ::
    "('w \<times> 'n, goTime) state \<Rightarrow> (string list \<Rightarrow> string list) \<Rightarrow> ('w, 'n) managerOptions \<Rightarrow>
     goerr + ('w, 'n) manager" where
  "manager_New now order options =
     (case moStore options of
        None \<Rightarrow> Inl (ErrText ''profile store is required'')
      | Some S \<Rightarrow>
          map_sum id (\<lambda>bs. \<lparr>mgStore = S, mgBackends = bs, mgReadOnly = moReadOnly options,
              mgNow = (case moNow options of None \<Rightarrow> now | Some f \<Rightarrow> f),
              mgTimeout = (if moTimeout options \<le> 0 then DefaultTimeout else moTimeout options),
              mgOrder = order,
              mgExitSources = map fst (filter (\<lambda>(_, b). bkExitSource b) bs)\<rparr>)
            (registerBackends (moBackends options)))"

definition initialState :: "'w sstate \<Rightarrow> 'n \<Rightarrow> ('w, 'n) mstate" where
  "initialState store net =
     \<lparr>gStore = store, gNet = net, gGate = True, gLifecycle = ''disconnected'', gLifecycleProfile = [],
      gLastError = [], gExecutions = []\<rparr>"

section \<open>The gate and the lifecycle\<close>

definition tryAcquire :: "(('w, 'n) mstate, bool) state" where
  "tryAcquire = do {
     token \<leftarrow> gets gGate;
     if token then do { modify (\<lambda>s. s\<lparr>gGate := False\<rparr>); return True } else return False
   }"

definition acquire :: "(('w, 'n) mstate, unit) state" where
  "acquire = modify (\<lambda>s. s\<lparr>gGate := False\<rparr>)"

definition release :: "(('w, 'n) mstate, unit) state" where
  "release = modify (\<lambda>s. s\<lparr>gGate := True\<rparr>)"

definition setLifecycle :: "string \<Rightarrow> string \<Rightarrow> string \<Rightarrow> (('w, 'n) mstate, unit) state" where
  "setLifecycle lifecycle profile message =
     modify (\<lambda>s. s\<lparr>gLifecycle := lifecycle, gLifecycleProfile := profile, gLastError := message\<rparr>)"

definition lifecycleSnapshot :: "(('w, 'n) mstate, string \<times> string \<times> string) state" where
  "lifecycleSnapshot = gets (\<lambda>s. (gLifecycle s, gLifecycleProfile s, gLastError s))"

definition lifecycleForTruth :: "networkTruth \<Rightarrow> string" where
  "lifecycleForTruth truth = (if truth = networkTruthUncertain then ''state_conflict'' else ''failed'')"

definition setFailure :: "networkTruth \<Rightarrow> string \<Rightarrow> string \<Rightarrow> string \<Rightarrow> (('w, 'n) mstate, unit) state" where
  "setFailure truth profile failedMessage conflictMessage =
     (let message = (if truth = networkTruthUncertain then conflictMessage else failedMessage)
      in setLifecycle (lifecycleForTruth truth) profile message)"

definition recoveryTruth :: "err \<Rightarrow> err \<Rightarrow> err \<Rightarrow> err \<Rightarrow> networkTruth" where
  "recoveryTruth cleanupErr restoreErr repairErr reconcileErr =
     (if cleanupErr \<noteq> None \<or> restoreErr \<noteq> None \<or> repairErr \<noteq> None \<or> reconcileErr \<noteq> None
      then networkTruthUncertain else networkTruthKnown)"

text \<open>\<open>if !m.tryAcquire() { return busy }; defer m.release(); body\<close>\<close>

definition guarded :: "'a \<Rightarrow> (('w, 'n) mstate, 'a) state \<Rightarrow> (('w, 'n) mstate, 'a) state" where
  "guarded busy body = do {
     token \<leftarrow> tryAcquire;
     if \<not> token then return busy else deferE release body
   }"

text \<open>\<open>AcquireLibraryOperation\<close> and the release function it returns, whose flag is \<open>sync.Once\<close>.\<close>

definition AcquireLibraryOperation :: "(('w, 'n) mstate, err) state" where
  "AcquireLibraryOperation = do {
     token \<leftarrow> tryAcquire;
     return (if \<not> token then Some (Sentinel ErrTransitionInProgress) else None)
   }"

definition releaseLibraryOperation :: "bool \<Rightarrow> (('w, 'n) mstate, bool) state" where
  "releaseLibraryOperation used = (if used then return True else do { release; return True })"

section \<open>Execution copies\<close>

definition executionsOf :: "(string \<times> executionCopy list) list \<Rightarrow> string \<Rightarrow> executionCopy list" where
  "executionsOf m i = (case map_of m i of None \<Rightarrow> [] | Some xs \<Rightarrow> xs)"

definition setExecutions ::
    "string \<Rightarrow> executionCopy list \<Rightarrow> (string \<times> executionCopy list) list \<Rightarrow>
     (string \<times> executionCopy list) list" where
  "setExecutions i xs m =
     (if xs = [] then filter (\<lambda>(j, _). j \<noteq> i) m else AList.update i xs m)"

definition addExecution :: "string \<Rightarrow> executionCopy \<Rightarrow> (('w, 'n) mstate, unit) state" where
  "addExecution i x =
     modify (\<lambda>s. s\<lparr>gExecutions := AList.update i (executionsOf (gExecutions s) i @ [x]) (gExecutions s)\<rparr>)"

definition takeExecutions :: "string \<Rightarrow> string \<Rightarrow> (('w, 'n) mstate, executionCopy list) state" where
  "takeExecutions i exceptPath = do {
     current \<leftarrow> gets (\<lambda>s. executionsOf (gExecutions s) i);
     let keep = (\<lambda>x. exceptPath \<noteq> [] \<and> ecPath x = exceptPath);
     modify (\<lambda>s. s\<lparr>gExecutions := setExecutions i (filter keep current) (gExecutions s)\<rparr>);
     return (filter (\<lambda>x. \<not> keep x) current)
   }"

fun cleanupLoop ::
    "('w, 'n) manager \<Rightarrow> string \<Rightarrow> err \<Rightarrow> executionCopy list \<Rightarrow> (('w, 'n) mstate, err) state" where
  "cleanupLoop M i result [] = return result"
| "cleanupLoop M i result (x # xs) = do {
     e \<leftarrow> onStore (cleanupExecution (mgStore M) (ecCleanup x));
     case e of
       None \<Rightarrow> cleanupLoop M i result xs
     | Some _ \<Rightarrow> do { addExecution i x; cleanupLoop M i (errorsJoin [result, e]) xs }
   }"

definition cleanupExecutions :: "('w, 'n) manager \<Rightarrow> string \<Rightarrow> string \<Rightarrow> (('w, 'n) mstate, err) state" where
  "cleanupExecutions M i exceptPath = do {
     executions \<leftarrow> takeExecutions i exceptPath;
     cleanupLoop M i None executions
   }"

definition cleanupExecutionPath :: "('w, 'n) manager \<Rightarrow> string \<Rightarrow> string \<Rightarrow> (('w, 'n) mstate, err) state" where
  "cleanupExecutionPath M i path =
     (if path = [] then return (Some (ErrText ''execution path is required''))
      else do {
        current \<leftarrow> gets (\<lambda>s. executionsOf (gExecutions s) i);
        modify (\<lambda>s. s\<lparr>gExecutions := setExecutions i
          (takeWhile (\<lambda>x. ecPath x \<noteq> path) current @ drop 1 (dropWhile (\<lambda>x. ecPath x \<noteq> path) current))
          (gExecutions s)\<rparr>);
        case List.find (\<lambda>x. ecPath x = path) current of
          None \<Rightarrow> return None
        | Some target \<Rightarrow> do {
            e \<leftarrow> onStore (cleanupExecution (mgStore M) (ecCleanup target));
            if e = None then return None else do { addExecution i target; return e }
          }
      })"

fun cleanupEach :: "('w, 'n) manager \<Rightarrow> err \<Rightarrow> string list \<Rightarrow> (('w, 'n) mstate, err) state" where
  "cleanupEach M result [] = return result"
| "cleanupEach M result (i # ids) = do {
     e \<leftarrow> cleanupExecutions M i [];
     cleanupEach M (errorsJoin [result, e]) ids
   }"

definition cleanupAllExecutions :: "('w, 'n) manager \<Rightarrow> (('w, 'n) mstate, err) state" where
  "cleanupAllExecutions M = do {
     ids \<leftarrow> gets (\<lambda>s. map fst (gExecutions s));
     cleanupEach M None (mgOrder M ids)
   }"

section \<open>Calls of the backends\<close>

definition runtimeProfileAt :: "profile \<Rightarrow> string \<Rightarrow> tunnelProfile" where
  "runtimeProfileAt p path =
     \<lparr>tpID = pID p, tpProtocol = pProtocol p, tpIdentifier = pIdentifier p, tpPath = path,
      tpWireGuardPublicKeySHA256 = pWireGuardPublicKeySHA256 p\<rparr>"

definition runtimeProfile :: "'w store \<Rightarrow> profile \<Rightarrow> tunnelProfile" where
  "runtimeProfile S p = runtimeProfileAt p (ObjectPath S p)"

definition backendOf :: "('w, 'n) manager \<Rightarrow> string \<Rightarrow> ('w \<times> 'n) backend option" where
  "backendOf M protocol = map_of (mgBackends M) protocol"

definition observeProtocol ::
    "('w, 'n) manager \<Rightarrow> manifest \<Rightarrow> string \<Rightarrow> (('w, 'n) mstate, goerr + observation list) state" where
  "observeProtocol M m protocol =
     (let ps = map (runtimeProfile (mgStore M)) (filter (\<lambda>p. pProtocol p = protocol) (mProfiles m))
      in if ps = [] then return (Inr [])
         else case backendOf M protocol of
           None \<Rightarrow> return (Inl (Sentinel ErrUnavailable))
         | Some b \<Rightarrow> onMachine (bkObserve b ps))"

fun observeLoop ::
    "('w, 'n) manager \<Rightarrow> manifest \<Rightarrow> observation list \<Rightarrow> bool \<Rightarrow> string list \<Rightarrow>
     (('w, 'n) mstate, observation list \<times> err) state" where
  "observeLoop M m active missing [] =
     return (active, if length active > 1 then Some (Sentinel ErrManagedStateConflict)
                     else if missing then Some (Sentinel ErrUnavailable) else None)"
| "observeLoop M m active missing (protocol # rest) = do {
     r \<leftarrow> observeProtocol M m protocol;
     case r of
       Inl e \<Rightarrow> if errorsIs e ErrUnavailable then observeLoop M m active True rest
                else return (active, Some e)
     | Inr observed \<Rightarrow> observeLoop M m (active @ observed) missing rest
   }"

definition observe :: "('w, 'n) manager \<Rightarrow> manifest \<Rightarrow> (('w, 'n) mstate, observation list \<times> err) state" where
  "observe M m = observeLoop M m [] False [ProtocolOpenVPN, ProtocolWireGuard]"

text \<open>The calls between \<open>PrepareExecution\<close> and the end of \<open>start\<close> and \<open>stop\<close>.\<close>

definition abandonStart ::
    "('w, 'n) manager \<Rightarrow> string \<Rightarrow> string \<Rightarrow> cleanupHandle \<Rightarrow> goerr \<Rightarrow> (('w, 'n) mstate, err) state" where
  "abandonStart M i path h e = do {
     c \<leftarrow> onStore (cleanupExecution (mgStore M) h);
     if c \<noteq> None then do {
       addExecution i \<lparr>ecPath = path, ecCleanup = h\<rparr>;
       return (errorsJoin [Some e, Some (Sentinel ErrCleanupUnproved), c])
     }
     else return (Some e)
   }"

definition startPrepared ::
    "('w, 'n) manager \<Rightarrow> ('w \<times> 'n) backend \<Rightarrow> string \<Rightarrow> profile \<Rightarrow> string \<Rightarrow> cleanupHandle \<Rightarrow>
     (('w, 'n) mstate, err) state" where
  "startPrepared M b i verified path h = do {
     e \<leftarrow> onMachine (bkStart b (runtimeProfileAt verified path));
     case e of
       Some x \<Rightarrow> abandonStart M i path h x
     | None \<Rightarrow> do { addExecution i \<lparr>ecPath = path, ecCleanup = h\<rparr>; return None }
   }"

definition tunnelStart :: "('w, 'n) manager \<Rightarrow> profile \<Rightarrow> (('w, 'n) mstate, err) state" where
  "tunnelStart M p =
     (case backendOf M (pProtocol p) of
        None \<Rightarrow> return (Some (Sentinel ErrUnavailable))
      | Some b \<Rightarrow> openE (onStore (PrepareExecution (mgStore M) (pID p)))
          (\<lambda>(verified, path, h). startPrepared M b (pID p) verified path h))"

definition finishStop ::
    "('w, 'n) manager \<Rightarrow> string \<Rightarrow> string \<Rightarrow> cleanupHandle \<Rightarrow> err \<Rightarrow> (('w, 'n) mstate, err) state" where
  "finishStop M i path h stopErr = do {
     c \<leftarrow> onStore (cleanupExecution (mgStore M) h);
     _ \<leftarrow> (if c \<noteq> None then addExecution i \<lparr>ecPath = path, ecCleanup = h\<rparr> else return ());
     c \<leftarrow> (if stopErr = None
           then do { d \<leftarrow> cleanupExecutions M i path; return (errorsJoin [c, d]) }
           else return c);
     return (errorsJoin [stopErr, c])
   }"

definition stopPrepared ::
    "('w, 'n) manager \<Rightarrow> ('w \<times> 'n) backend \<Rightarrow> string \<Rightarrow> profile \<Rightarrow> string \<Rightarrow> cleanupHandle \<Rightarrow>
     (('w, 'n) mstate, err) state" where
  "stopPrepared M b i verified path h = do {
     stopErr \<leftarrow> onMachine (bkStop b (runtimeProfileAt verified path));
     finishStop M i path h stopErr
   }"

definition tunnelStop :: "('w, 'n) manager \<Rightarrow> profile \<Rightarrow> (('w, 'n) mstate, err) state" where
  "tunnelStop M p =
     (case backendOf M (pProtocol p) of
        None \<Rightarrow> return (Some (Sentinel ErrUnavailable))
      | Some b \<Rightarrow> openE (onStore (PrepareExecution (mgStore M) (pID p)))
          (\<lambda>(verified, path, h). stopPrepared M b (pID p) verified path h))"

text \<open>\<open>m.now().Unix()\<close>\<close>

definition nowUnix :: "('w, 'n) manager \<Rightarrow> (('w, 'n) mstate, int) state" where
  "nowUnix M = do { t \<leftarrow> onMachine (mgNow M); return (tSeconds t) }"

definition setConnection ::
    "('w, 'n) manager \<Rightarrow> string \<Rightarrow> int \<Rightarrow> bool \<Rightarrow> (('w, 'n) mstate, err) state" where
  "setConnection M desired at addRecent = do {
     r \<leftarrow> onStore (SetConnection (mgStore M) desired at addRecent);
     return (resultErr r)
   }"

definition repairDurability :: "('w, 'n) manager \<Rightarrow> (('w, 'n) mstate, err) state" where
  "repairDurability M = onStore (RepairDurability (mgStore M))"

definition reconcileConnection :: "('w, 'n) manager \<Rightarrow> string \<Rightarrow> int \<Rightarrow> (('w, 'n) mstate, err) state" where
  "reconcileConnection M desired at = do {
     firstErr \<leftarrow> setConnection M desired at False;
     if firstErr = None then return None
     else do {
       e \<leftarrow> repairDurability M;
       if e \<noteq> None then return (errorsJoin [firstErr, e])
       else do {
         e \<leftarrow> setConnection M desired at False;
         if e \<noteq> None then return (errorsJoin [firstErr, e]) else return None
       }
     }
   }"

definition backendKeys :: "('w, 'n) manager \<Rightarrow> string list" where
  "backendKeys M = mgOrder M (map fst (mgBackends M))"

fun shutdownLoop :: "('w, 'n) manager \<Rightarrow> err \<Rightarrow> string list \<Rightarrow> (('w, 'n) mstate, err) state" where
  "shutdownLoop M result [] = return result"
| "shutdownLoop M result (protocol # rest) =
     (case backendOf M protocol of
        None \<Rightarrow> shutdownLoop M result rest
      | Some b \<Rightarrow> do {
          e \<leftarrow> onMachine (bkShutdown b);
          shutdownLoop M (errorsJoin [result, e]) rest
        })"

definition shutdownBackends :: "('w, 'n) manager \<Rightarrow> (('w, 'n) mstate, err) state" where
  "shutdownBackends M = shutdownLoop M None (backendKeys M)"

definition manager_Shutdown :: "('w, 'n) manager \<Rightarrow> (('w, 'n) mstate, err) state" where
  "manager_Shutdown M = do {
     result \<leftarrow> shutdownBackends M;
     c \<leftarrow> cleanupAllExecutions M;
     return (errorsJoin [result, c])
   }"

section \<open>Connecting\<close>

text \<open>The connection time is the present when the previous tunnel was restored, else zero.\<close>

definition restoredAt :: "('w, 'n) manager \<Rightarrow> string \<Rightarrow> (('w, 'n) mstate, int) state" where
  "restoredAt M actual = (if actual \<noteq> [] then nowUnix M else return 0)"

text \<open>What was cleaned up and restored is recorded; the lifecycle says how far that got.\<close>

definition settleRecovery ::
    "profile \<Rightarrow> goerr \<Rightarrow> string \<Rightarrow> err \<Rightarrow> err \<Rightarrow> err \<Rightarrow> err \<Rightarrow> (('w, 'n) mstate, err) state" where
  "settleRecovery target cause actual cleanupErr restoreErr repairErr reconcileErr = do {
     let truth = recoveryTruth cleanupErr restoreErr repairErr reconcileErr;
     _ \<leftarrow> (if truth = networkTruthKnown \<and> actual \<noteq> []
       then setLifecycle ''active'' actual
         ''The network transition could not be recorded durably; the previous tunnel was restored.''
       else setFailure truth (pID target)
         ''The network transition could not be recorded durably and was rolled back.''
         ''The network transition could not be compensated safely.'');
     let result = errorsJoin [Some cause, cleanupErr, restoreErr, repairErr, reconcileErr];
     return (if truth = networkTruthUncertain
             then errorsJoin [Some (Sentinel ErrManagedStateConflict), result] else result)
   }"

definition recordRecovery ::
    "('w, 'n) manager \<Rightarrow> profile \<Rightarrow> profile option \<Rightarrow> goerr \<Rightarrow> err \<Rightarrow> err \<Rightarrow> (('w, 'n) mstate, err) state" where
  "recordRecovery M target previous cause cleanupErr restoreErr = do {
     let actual = (case previous of
         Some p \<Rightarrow> if cleanupErr = None \<and> restoreErr = None then pID p else []
       | None \<Rightarrow> []);
     repairErr \<leftarrow> repairDurability M;
     reconcileErr \<leftarrow> (if cleanupErr = None \<and> repairErr = None then do {
         let desired = (case previous of Some p \<Rightarrow> if restoreErr \<noteq> None then pID p else actual
                        | None \<Rightarrow> actual);
         at \<leftarrow> restoredAt M actual;
         setConnection M desired at False
       } else return None);
     settleRecovery target cause actual cleanupErr restoreErr repairErr reconcileErr
   }"

definition recoverPersistenceFailure ::
    "('w, 'n) manager \<Rightarrow> profile \<Rightarrow> profile option \<Rightarrow> goerr \<Rightarrow> (('w, 'n) mstate, err) state" where
  "recoverPersistenceFailure M target previous cause = do {
     cleanupErr \<leftarrow> tunnelStop M target;
     restoreErr \<leftarrow> (case previous of
         Some p \<Rightarrow> if cleanupErr = None then tunnelStart M p else return None
       | None \<Rightarrow> return None);
     recordRecovery M target previous cause cleanupErr restoreErr
   }"

text \<open>The target did not start: prove it absent, restore what ran before, or say so.\<close>

definition startFailed ::
    "('w, 'n) manager \<Rightarrow> manifest \<Rightarrow> profile \<Rightarrow> profile option \<Rightarrow> goerr \<Rightarrow> (('w, 'n) mstate, err) state" where
  "startFailed M m target previous e =
     (if errorsIs e ErrCleanupUnproved then do {
        reconcileErr \<leftarrow> reconcileConnection M (mDesiredProfile m) 0;
        setFailure networkTruthUncertain (pID target) []
          ''The failed tunnel could not be proved absent.'';
        return (errorsJoin [Some (Sentinel ErrManagedStateConflict), Some e, reconcileErr])
      }
      else case previous of
        Some p \<Rightarrow> do {
          restoreErr \<leftarrow> tunnelStart M p;
          if restoreErr \<noteq> None then do {
            reconcileErr \<leftarrow> reconcileConnection M (pID p) 0;
            setFailure networkTruthUncertain (pID target) []
              ''The new tunnel failed and the previous tunnel could not be restored safely.'';
            return (errorsJoin [Some (Sentinel ErrManagedStateConflict), Some (Sentinel ErrTransitionFailed),
              Some e, restoreErr, reconcileErr])
          }
          else do {
            setLifecycle ''active'' (pID p) ''The new tunnel failed; the previous tunnel was restored.'';
            return (errorsJoin [Some (Sentinel ErrTransitionFailed), Some e])
          }
        }
      | None \<Rightarrow> do {
          setLifecycle ''failed'' (pID target) ''The tunnel could not be started.'';
          return (errorsJoin [Some (Sentinel ErrTransitionFailed), Some e])
        })"

definition startTarget ::
    "('w, 'n) manager \<Rightarrow> manifest \<Rightarrow> profile \<Rightarrow> profile option \<Rightarrow> (('w, 'n) mstate, err) state" where
  "startTarget M m target previous = do {
     e \<leftarrow> tunnelStart M target;
     case e of
       Some x \<Rightarrow> startFailed M m target previous x
     | None \<Rightarrow> do {
         at \<leftarrow> nowUnix M;
         r \<leftarrow> setConnection M (pID target) at True;
         case r of
           Some cause \<Rightarrow> recoverPersistenceFailure M target previous cause
         | None \<Rightarrow> do { setLifecycle ''active'' (pID target) []; return None }
       }
   }"

text \<open>Stop the tunnel that runs, if one does, and start the target.\<close>

definition replaceTunnel ::
    "('w, 'n) manager \<Rightarrow> manifest \<Rightarrow> profile \<Rightarrow> observation list \<Rightarrow> (('w, 'n) mstate, err) state" where
  "replaceTunnel M m target active =
     (if length active = 1
      then case manifestProfile m (obProfileID (hd active)) of
        None \<Rightarrow> do {
          setFailure networkTruthUncertain (pID target) []
            ''The active tunnel no longer has a trusted library record.'';
          return (Some (Sentinel ErrManagedStateConflict))
        }
      | Some p \<Rightarrow> do {
          e \<leftarrow> tunnelStop M p;
          if e \<noteq> None then do {
            setFailure networkTruthUncertain (pID p) []
              ''The active tunnel could not be proved stopped.'';
            return (errorsJoin [Some (Sentinel ErrManagedStateConflict),
              Some (Sentinel ErrTransitionFailed), e])
          }
          else startTarget M m target (Some p)
        }
      else startTarget M m target None)"

definition settleTransition :: "string \<Rightarrow> (('w, 'n) mstate, unit) state" where
  "settleTransition i = do {
     (lifecycle, _, _) \<leftarrow> lifecycleSnapshot;
     if lifecycle = ''starting'' \<or> lifecycle = ''switching''
     then setLifecycle ''failed'' i ''Tunnel transition did not settle.'' else return ()
   }"

text \<open>The target already runs: only the record is brought up to date.\<close>

definition recordActive :: "('w, 'n) manager \<Rightarrow> string \<Rightarrow> (('w, 'n) mstate, err) state" where
  "recordActive M i = do {
     at \<leftarrow> nowUnix M;
     e \<leftarrow> setConnection M i at True;
     reconcileErr \<leftarrow> (if e \<noteq> None then do { at \<leftarrow> nowUnix M; reconcileConnection M i at } else return None);
     if e \<noteq> None \<and> reconcileErr \<noteq> None then do {
       setFailure networkTruthUncertain i [] ''The active tunnel could not be recorded durably.'';
       return (errorsJoin [Some (Sentinel ErrManagedStateConflict), e, reconcileErr])
     }
     else do { setLifecycle ''active'' i []; return None }
   }"

definition connectObserved ::
    "('w, 'n) manager \<Rightarrow> manifest \<Rightarrow> profile \<Rightarrow> observation list \<Rightarrow> (('w, 'n) mstate, err) state" where
  "connectObserved M m target active =
     (if length active = 1 \<and> obProfileID (hd active) = pID target then recordActive M (pID target)
      else do {
        setLifecycle (if length active = 1 then ''switching'' else ''starting'') (pID target) [];
        deferE (settleTransition (pID target)) (replaceTunnel M m target active)
      })"

definition connectProfile ::
    "('w, 'n) manager \<Rightarrow> manifest \<Rightarrow> profile \<Rightarrow> (('w, 'n) mstate, err) state" where
  "connectProfile M m target = do {
     resolved \<leftarrow> onStore (Resolve (mgStore M) (pID target));
     case resolved of
       Inl e \<Rightarrow> do {
         setFailure networkTruthKnown (pID target) ''The requested profile is unavailable.''
           ''The requested profile could not be validated safely.'';
         return (Some e)
       }
     | Inr _ \<Rightarrow> (case backendOf M (pProtocol target) of
         None \<Rightarrow> return (Some (Sentinel ErrUnavailable))
       | Some b \<Rightarrow> do {
           unavailable \<leftarrow> onMachine (bkAvailable b);
           if unavailable \<noteq> None then return (Some (Sentinel ErrUnavailable))
           else do {
             (active, e) \<leftarrow> observe M m;
             if e \<noteq> None then do {
               setFailure networkTruthUncertain (pID target) []
                 ''Tunnel state could not be proved before connecting.'';
               return (errorsJoin [Some (Sentinel ErrManagedStateConflict), e])
             }
             else connectObserved M m target active
           }
         })
   }"

definition Connect :: "('w, 'n) manager \<Rightarrow> string \<Rightarrow> (('w, 'n) mstate, err) state" where
  "Connect M i =
     (if mgReadOnly M then return (Some (Sentinel ErrReadOnly))
      else guarded (Some (Sentinel ErrTransitionInProgress)) (do {
        (lifecycle, _, _) \<leftarrow> lifecycleSnapshot;
        if lifecycle = ''state_conflict'' then return (Some (Sentinel ErrManagedStateConflict))
        else do {
          m \<leftarrow> onStore Snapshot;
          case manifestProfile m i of
            None \<Rightarrow> return (Some (Sentinel ErrNotFound))
          | Some target \<Rightarrow> connectProfile M m target
        }
      }))"

section \<open>Disconnecting\<close>

fun stopEach ::
    "('w, 'n) manager \<Rightarrow> manifest \<Rightarrow> err \<Rightarrow> observation list \<Rightarrow> (('w, 'n) mstate, err) state" where
  "stopEach M m stopErr [] = return stopErr"
| "stopEach M m stopErr (x # xs) =
     (case manifestProfile m (obProfileID x) of
        None \<Rightarrow> stopEach M m (errorsJoin [stopErr, Some (Sentinel ErrManagedStateConflict)]) xs
      | Some p \<Rightarrow> do { e \<leftarrow> tunnelStop M p; stopEach M m (errorsJoin [stopErr, e]) xs })"

text \<open>A conflict left by an earlier failure: shut the backends down and look again.\<close>

definition observeToStop ::
    "('w, 'n) manager \<Rightarrow> manifest \<Rightarrow> string \<Rightarrow> (('w, 'n) mstate, observation list \<times> err) state" where
  "observeToStop M m priorLifecycle = do {
     (active, e) \<leftarrow> observe M m;
     if e \<noteq> None \<and> \<not> errIs e ErrManagedStateConflict \<and> priorLifecycle = ''state_conflict'' then do {
       shutdownErr \<leftarrow> shutdownBackends M;
       (active, e) \<leftarrow> observe M m;
       return (active, if e \<noteq> None then errorsJoin [shutdownErr, e] else e)
     }
     else return (active, e)
   }"

definition clearConnection :: "('w, 'n) manager \<Rightarrow> (('w, 'n) mstate, err) state" where
  "clearConnection M = do {
     e \<leftarrow> setConnection M [] 0 False;
     if e = None then do { setLifecycle ''disconnected'' [] []; return None }
     else do {
       repairErr \<leftarrow> repairDurability M;
       if repairErr \<noteq> None then do {
         setFailure networkTruthUncertain [] []
           ''The tunnel stopped, but desired-state durability is unknown.'';
         return (errorsJoin [Some (Sentinel ErrManagedStateConflict), e, repairErr])
       }
       else do {
         retryErr \<leftarrow> setConnection M [] 0 False;
         if retryErr \<noteq> None then do {
           setFailure networkTruthUncertain [] []
             ''The tunnel stopped, but desired state could not be cleared safely.'';
           return (errorsJoin [Some (Sentinel ErrManagedStateConflict), e, retryErr])
         }
         else do { setLifecycle ''disconnected'' [] []; return None }
       }
     }
   }"

definition stopAll ::
    "('w, 'n) manager \<Rightarrow> manifest \<Rightarrow> observation list \<Rightarrow> (('w, 'n) mstate, err) state" where
  "stopAll M m active = do {
     stopErr \<leftarrow> stopEach M m None active;
     if stopErr \<noteq> None then do {
       setFailure networkTruthUncertain [] []
         ''One or more managed tunnels could not be proved stopped.'';
       return (errorsJoin [Some (Sentinel ErrManagedStateConflict), Some (Sentinel ErrTransitionFailed),
         stopErr])
     }
     else do {
       cleanupErr \<leftarrow> cleanupAllExecutions M;
       if cleanupErr \<noteq> None then do {
         setFailure networkTruthUncertain [] []
           ''One or more private execution copies could not be cleaned safely.'';
         return (errorsJoin [Some (Sentinel ErrManagedStateConflict), cleanupErr])
       }
       else clearConnection M
     }
   }"

definition stopObserved ::
    "('w, 'n) manager \<Rightarrow> manifest \<Rightarrow> observation list \<Rightarrow> err \<Rightarrow> (('w, 'n) mstate, err) state" where
  "stopObserved M m active e =
     (if e \<noteq> None \<and> \<not> errIs e ErrManagedStateConflict then do {
        setFailure networkTruthUncertain [] []
          ''Tunnel absence could not be proved before disconnecting.'';
        return (errorsJoin [Some (Sentinel ErrManagedStateConflict), e])
      }
      else stopAll M m active)"

definition Disconnect :: "('w, 'n) manager \<Rightarrow> (('w, 'n) mstate, err) state" where
  "Disconnect M =
     (if mgReadOnly M then return (Some (Sentinel ErrReadOnly))
      else guarded (Some (Sentinel ErrTransitionInProgress)) (do {
        (priorLifecycle, _, _) \<leftarrow> lifecycleSnapshot;
        setLifecycle ''disconnecting'' [] [];
        m \<leftarrow> onStore Snapshot;
        (active, e) \<leftarrow> observeToStop M m priorLifecycle;
        stopObserved M m active e
      }))"

end
