(* ===== verification/GoTime.thy ===== *)
theory GoTime
  imports Model
begin

text \<open>
  \<open>time.RFC3339\<close> for a time in UTC: the civil date of a count of days since the epoch, in the
  proleptic Gregorian calendar, and the clock time.  Fractions of a second are not part of the format.
\<close>

definition pad2 :: "nat \<Rightarrow> string" where
  "pad2 n = (if n < 10 then CHR ''0'' # itoaNat n else itoaNat n)"

definition pad4 :: "int \<Rightarrow> string" where
  "pad4 y = (let s = itoaNat (nat \<bar>y\<bar>); z = replicate (4 - length s) CHR ''0''
             in (if y < 0 then ''-'' else []) @ z @ s)"

text \<open>Days are counted from the first of March of the year 0; an era is 400 years.\<close>

definition civilFromDays :: "int \<Rightarrow> int \<times> nat \<times> nat" where
  "civilFromDays days =
     (let z = days + 719468; era = z div 146097; doe = z mod 146097;
          yoe = (doe - doe div 1460 + doe div 36524 - doe div 146096) div 365;
          doy = doe - (365 * yoe + yoe div 4 - yoe div 100);
          mp = (5 * doy + 2) div 153;
          d = doy - (153 * mp + 2) div 5 + 1;
          m = (if mp < 10 then mp + 3 else mp - 9)
      in (yoe + era * 400 + (if m \<le> 2 then 1 else 0), nat m, nat d))"

definition formatRFC3339 :: "goTime \<Rightarrow> string" where
  "formatRFC3339 t =
     (let days = tSeconds t div 86400; clock = nat (tSeconds t mod 86400)
      in case civilFromDays days of (y, m, d) \<Rightarrow>
        pad4 y @ ''-'' @ pad2 m @ ''-'' @ pad2 d @ ''T'' @ pad2 (clock div 3600) @ '':'' @
        pad2 (clock div 60 mod 60) @ '':'' @ pad2 (clock mod 60) @ ''Z'')"

definition UTC :: "goTime \<Rightarrow> goTime" where
  "UTC t = t\<lparr>tUTC := True\<rparr>"

end
