(* ===== verification/ManagerViews.thy ===== *)
theory ManagerViews
  imports Manager GoTime
begin

text \<open>
  The rest of \<open>internal/manager/manager.go\<close>: removing a profile, restoring at startup, the exit of a
  process nobody asked for, and what the manager shows of profiles and of the tunnel.
\<close>

section \<open>Profile views\<close>

definition view :: "profile \<Rightarrow> manifest \<Rightarrow> availability \<Rightarrow> bool \<Rightarrow> profileView" where
  "view p m a mutable =
     \<lparr>vwID = pID p, vwProtocol = pProtocol p, vwDisplayName = pDisplayName p, vwGroup = pGroup p,
      vwLocation = pLocation p, vwEmoji = pEmoji p, vwIdentifier = pIdentifier p,
      vwOriginalFilename = pOriginalFilename p,
      vwImportedAt = formatRFC3339 (UTC (pImportedAt p)),
      vwFavorite = (pID p \<in> set (mFavorites m)), vwRecent = (pID p \<in> set (mRecents m)),
      vwAvailable = avAvailable a, vwUnavailableReason = avReason a,
      vwCapabilities = [(''connect'', mutable \<and> avAvailable a), (''favorite'', mutable),
        (''edit_metadata'', mutable), (''remove'', mutable)]\<rparr>"

definition unavailableBecause :: "string \<Rightarrow> availability" where
  "unavailableBecause reason = \<lparr>avAvailable = False, avReason = reason\<rparr>"

fun availabilityLoop ::
    "('w, 'n) manager \<Rightarrow> string list \<Rightarrow> (('w, 'n) mstate, (string \<times> availability) list) state" where
  "availabilityLoop M [] = return []"
| "availabilityLoop M (protocol # rest) =
     (case backendOf M protocol of
        None \<Rightarrow> do {
          r \<leftarrow> availabilityLoop M rest;
          return ((protocol, unavailableBecause ''Protocol tooling is not installed.'') # r)
        }
      | Some b \<Rightarrow> do {
          e \<leftarrow> onMachine (bkAvailable b);
          r \<leftarrow> availabilityLoop M rest;
          return ((protocol, if e \<noteq> None then unavailableBecause ''Protocol tooling is unavailable.''
                             else \<lparr>avAvailable = True, avReason = []\<rparr>) # r)
        })"

definition availabilities :: "('w, 'n) manager \<Rightarrow> (('w, 'n) mstate, (string \<times> availability) list) state" where
  "availabilities M = availabilityLoop M [ProtocolOpenVPN, ProtocolWireGuard]"

text \<open>A protocol that is not in the map gives the zero value.\<close>

definition availabilityFor :: "(string \<times> availability) list \<Rightarrow> string \<Rightarrow> availability" where
  "availabilityFor m protocol = (case map_of m protocol of None \<Rightarrow> unavailableBecause [] | Some a \<Rightarrow> a)"

definition profileAvailability ::
    "('w, 'n) manager \<Rightarrow> profile \<Rightarrow> availability \<Rightarrow> (('w, 'n) mstate, availability) state" where
  "profileAvailability M p a = do {
     r \<leftarrow> onStore (Resolve (mgStore M) (pID p));
     return (case r of Inl _ \<Rightarrow> unavailableBecause ''Profile data is unavailable.'' | Inr _ \<Rightarrow> a)
   }"

definition viewOf ::
    "('w, 'n) manager \<Rightarrow> manifest \<Rightarrow> profile \<Rightarrow> availability \<Rightarrow> (('w, 'n) mstate, profileView) state" where
  "viewOf M m p a = do {
     a \<leftarrow> profileAvailability M p a;
     return (view p m a (\<not> mgReadOnly M))
   }"

fun viewEach ::
    "('w, 'n) manager \<Rightarrow> manifest \<Rightarrow> (string \<times> availability) list \<Rightarrow> profile list \<Rightarrow>
     (('w, 'n) mstate, profileView list) state" where
  "viewEach M m as [] = return []"
| "viewEach M m as (p # ps) = do {
     v \<leftarrow> viewOf M m p (availabilityFor as (pProtocol p));
     vs \<leftarrow> viewEach M m as ps;
     return (v # vs)
   }"

definition Profiles :: "('w, 'n) manager \<Rightarrow> (('w, 'n) mstate, profileView list) state" where
  "Profiles M = do {
     m \<leftarrow> onStore Snapshot;
     as \<leftarrow> availabilities M;
     viewEach M m as (SortedProfiles (sTables (mgStore M)) (mProfiles m))
   }"

definition manager_Profile :: "('w, 'n) manager \<Rightarrow> string \<Rightarrow> (('w, 'n) mstate, goerr + profileView) state" where
  "manager_Profile M i = do {
     m \<leftarrow> onStore Snapshot;
     case manifestProfile m i of
       None \<Rightarrow> return (Inl (Sentinel ErrNotFound))
     | Some p \<Rightarrow> do {
         as \<leftarrow> availabilities M;
         v \<leftarrow> viewOf M m p (availabilityFor as (pProtocol p));
         return (Inr v)
       }
   }"

definition manifestPreferences :: "manifest \<Rightarrow> preferences" where
  "manifestPreferences m =
     \<lparr>prFavorites = mFavorites m, prRecents = mRecents m, prStartupMode = mStartupMode m\<rparr>"

definition manager_Preferences :: "(('w, 'n) mstate, preferences) state" where
  "manager_Preferences = do { m \<leftarrow> onStore Snapshot; return (manifestPreferences m) }"

definition manager_SetPreferences ::
    "('w, 'n) manager \<Rightarrow> string list \<Rightarrow> string list \<Rightarrow> string \<Rightarrow>
     (('w, 'n) mstate, goerr + preferences) state" where
  "manager_SetPreferences M favorites recents startupMode =
     (if mgReadOnly M then return (Inl (Sentinel ErrReadOnly))
      else tryE (onStore (SetPreferences (mgStore M) favorites recents startupMode))
        (\<lambda>m. return (Inr (manifestPreferences m))))"

definition manager_UpdateMetadata ::
    "('w, 'n) manager \<Rightarrow> string \<Rightarrow> metadataPatch \<Rightarrow> (('w, 'n) mstate, goerr + profileView) state" where
  "manager_UpdateMetadata M i patch =
     (if mgReadOnly M then return (Inl (Sentinel ErrReadOnly))
      else tryE (onStore (UpdateMetadata (mgStore M) i patch)) (\<lambda>updated. do {
        m \<leftarrow> onStore Snapshot;
        as \<leftarrow> availabilities M;
        v \<leftarrow> viewOf M m updated (availabilityFor as (pProtocol updated));
        return (Inr v)
      }))"

section \<open>Status\<close>

definition publicObservationError :: "goerr \<Rightarrow> string" where
  "publicObservationError e =
     (if errorsIs e ErrManagedStateConflict \<or> errorsIs e ErrIdentityConflict
      then ''Managed tunnel state is conflicted.'' else ''Tunnel state could not be observed.'')"

definition optionalView ::
    "('w, 'n) manager \<Rightarrow> manifest \<Rightarrow> (string \<times> availability) list \<Rightarrow> string \<Rightarrow>
     (('w, 'n) mstate, profileView option) state" where
  "optionalView M m as i =
     (case manifestProfile m i of
        None \<Rightarrow> return None
      | Some p \<Rightarrow> do { v \<leftarrow> viewOf M m p (availabilityFor as (pProtocol p)); return (Some v) })"

definition observedNow :: "('w, 'n) manager \<Rightarrow> (('w, 'n) mstate, goTime) state" where
  "observedNow M = do { t \<leftarrow> onMachine (mgNow M); return (UTC t) }"

text \<open>A status with nothing in it but the lifecycle.\<close>

definition bareStatus ::
    "string \<Rightarrow> (string \<times> availability) list \<Rightarrow> string \<Rightarrow> goTime \<Rightarrow> bool \<Rightarrow> bool \<Rightarrow> status" where
  "bareStatus lifecycle as lastError at observation canDisconnect =
     \<lparr>stLifecycle = lifecycle, stConnected = False, stProfile = None, stProtocolStatus = None,
      stBackends = as, stLastError = lastError, stObservedAt = at, stObservationAvailable = observation,
      stCanDisconnect = canDisconnect\<rparr>"

definition transitionStatus ::
    "('w, 'n) manager \<Rightarrow> manifest \<Rightarrow> (string \<times> availability) list \<Rightarrow> string \<Rightarrow> string \<Rightarrow> string \<Rightarrow>
     bool \<Rightarrow> bool \<Rightarrow> (('w, 'n) mstate, status) state" where
  "transitionStatus M m as lifecycle profile lastError observation canDisconnect = do {
     at \<leftarrow> observedNow M;
     v \<leftarrow> optionalView M m as profile;
     return ((bareStatus lifecycle as lastError at observation canDisconnect)\<lparr>stProfile := v\<rparr>)
   }"

text \<open>The observation failed.\<close>

definition unobservedStatus ::
    "('w, 'n) manager \<Rightarrow> manifest \<Rightarrow> (string \<times> availability) list \<Rightarrow> status \<Rightarrow> observation list \<Rightarrow> goerr \<Rightarrow>
     (('w, 'n) mstate, status) state" where
  "unobservedStatus M m as st active e =
     (let st = st\<lparr>stLifecycle := ''observation_unavailable'', stLastError := publicObservationError e\<rparr>
      in if errorsIs e ErrUnavailable \<and> length active = 1
         then case manifestProfile m (obProfileID (hd active)) of
           None \<Rightarrow> return st
         | Some p \<Rightarrow> do {
             v \<leftarrow> viewOf M m p (availabilityFor as (pProtocol p));
             let st = st\<lparr>stConnected := True, stProfile := Some v\<rparr>;
             case backendOf M (pProtocol p) of
               None \<Rightarrow> return st
             | Some b \<Rightarrow> do {
                 r \<leftarrow> onMachine (bkStatus b (runtimeProfile (mgStore M) p));
                 return (case r of Inl _ \<Rightarrow> st | Inr s \<Rightarrow> st\<lparr>stProtocolStatus := Some s\<rparr>)
               }
           }
         else if errorsIs e ErrManagedStateConflict \<or> errorsIs e ErrIdentityConflict
         then return (st\<lparr>stLifecycle := ''state_conflict'',
           stCanDisconnect := errorsIs e ErrManagedStateConflict \<and> \<not> mgReadOnly M\<rparr>)
         else return st)"

text \<open>One tunnel was observed.\<close>

definition activeStatus ::
    "('w, 'n) manager \<Rightarrow> manifest \<Rightarrow> (string \<times> availability) list \<Rightarrow> status \<Rightarrow> observation \<Rightarrow>
     (('w, 'n) mstate, status) state" where
  "activeStatus M m as st x =
     (case manifestProfile m (obProfileID x) of
        None \<Rightarrow> return (st\<lparr>stLifecycle := ''state_conflict'',
          stLastError := ''An active tunnel no longer has a library record.''\<rparr>)
      | Some p \<Rightarrow> do {
          v \<leftarrow> viewOf M m p (availabilityFor as (pProtocol p));
          if mDesiredProfile m \<noteq> [] \<and> mDesiredProfile m \<noteq> pID p
          then return (st\<lparr>stConnected := True, stLifecycle := ''state_conflict'',
            stLastError := ''The active tunnel differs from the desired profile.'', stProfile := Some v\<rparr>)
          else do {
            let st = st\<lparr>stConnected := True, stLifecycle := ''active'', stProfile := Some v\<rparr>;
            case backendOf M (pProtocol p) of
              None \<Rightarrow> return st
            | Some b \<Rightarrow> do {
                r \<leftarrow> onMachine (bkStatus b (runtimeProfile (mgStore M) p));
                return (case r of
                    Inr s \<Rightarrow> st\<lparr>stProtocolStatus := Some s\<rparr>
                  | Inl _ \<Rightarrow> st\<lparr>stProtocolStatus := Some (stateOnly ''observation_unavailable''),
                      stLastError := ''Protocol status could not be observed.''\<rparr>)
              }
          }
        })"

definition transitionLifecycles :: "string list" where
  "transitionLifecycles = [''starting'', ''switching'', ''disconnecting'', ''restoring'']"

definition manager_Status :: "('w, 'n) manager \<Rightarrow> (('w, 'n) mstate, status) state" where
  "manager_Status M = do {
     (lifecycle, transitionProfile, lastError) \<leftarrow> lifecycleSnapshot;
     m \<leftarrow> onStore Snapshot;
     as \<leftarrow> availabilities M;
     if lifecycle = ''state_conflict''
     then transitionStatus M m as lifecycle transitionProfile lastError False (\<not> mgReadOnly M)
     else if lifecycle \<in> set transitionLifecycles
     then transitionStatus M m as lifecycle transitionProfile lastError True False
     else do {
       (active, e) \<leftarrow> observe M m;
       at \<leftarrow> observedNow M;
       let st = bareStatus ''disconnected'' as [] at (e = None) False;
       case e of
         Some x \<Rightarrow> unobservedStatus M m as st active x
       | None \<Rightarrow>
           (case active of
             [] \<Rightarrow> return (if lifecycle = ''failed''
                           then st\<lparr>stLifecycle := lifecycle, stLastError := lastError\<rparr> else st)
           | x # _ \<Rightarrow> activeStatus M m as st x)
     }
   }"

definition ProfileDetail :: "('w, 'n) manager \<Rightarrow> string \<Rightarrow> (('w, 'n) mstate, goerr + profileDetail) state" where
  "ProfileDetail M i =
     tryE (manager_Profile M i) (\<lambda>v. do {
       st \<leftarrow> manager_Status M;
       return (Inr (if stProfile st \<noteq> None \<and> vwID (the (stProfile st)) = i
         then \<lparr>pdView = v, pdCurrent = stConnected st, pdProtocolStatus = stProtocolStatus st\<rparr>
         else \<lparr>pdView = v, pdCurrent = False, pdProtocolStatus = None\<rparr>))
     })"

section \<open>Removing a profile\<close>

definition manager_Remove :: "('w, 'n) manager \<Rightarrow> string \<Rightarrow> (('w, 'n) mstate, goerr + removeResult) state" where
  "manager_Remove M i =
     (if mgReadOnly M then return (Inl (Sentinel ErrReadOnly))
      else guarded (Inl (Sentinel ErrTransitionInProgress)) (do {
        (lifecycle, _, _) \<leftarrow> lifecycleSnapshot;
        if lifecycle = ''state_conflict'' then return (Inl (Sentinel ErrManagedStateConflict))
        else do {
          m \<leftarrow> onStore Snapshot;
          case manifestProfile m i of
            None \<Rightarrow> return (Inl (Sentinel ErrNotFound))
          | Some p \<Rightarrow> tryE (observeProtocol M m (pProtocol p)) (\<lambda>active.
              if \<exists>x\<in>set active. obProfileID x = i then return (Inl (Sentinel ErrActiveProfile))
              else tryE (onStore (store_Remove (mgStore M) i)) (\<lambda>removed. do {
                v \<leftarrow> viewOf M m p \<lparr>avAvailable = (backendOf M (pProtocol p) \<noteq> None), avReason = []\<rparr>;
                return (Inr \<lparr>rrProfile = v, rrCleanupPending = rmCleanupPending removed\<rparr>)
              }))
        }
      }))"

section \<open>Startup\<close>

text \<open>The tunnel is up but its record could not be written: take it down again.\<close>

definition undoRestore :: "('w, 'n) manager \<Rightarrow> profile \<Rightarrow> (('w, 'n) mstate, unit) state" where
  "undoRestore M target = do {
     stopErr \<leftarrow> tunnelStop M target;
     repairErr \<leftarrow> repairDurability M;
     reconcileErr \<leftarrow> (if stopErr = None \<and> repairErr = None
       then reconcileConnection M (pID target) 0 else return None);
     setFailure (recoveryTruth stopErr None repairErr reconcileErr) (pID target)
       ''The restored tunnel could not be recorded durably.''
       ''Startup restoration could not be compensated safely.''
   }"

definition restoreTarget :: "('w, 'n) manager \<Rightarrow> profile \<Rightarrow> (('w, 'n) mstate, unit) state" where
  "restoreTarget M target = do {
     setLifecycle ''restoring'' (pID target) [];
     e \<leftarrow> tunnelStart M target;
     case e of
       Some x \<Rightarrow> setFailure (if errorsIs x ErrCleanupUnproved then networkTruthUncertain else networkTruthKnown)
         (pID target) ''The desired profile could not be restored.''
         ''The failed startup restoration could not be proved absent.''
     | None \<Rightarrow> do {
         at \<leftarrow> nowUnix M;
         r \<leftarrow> setConnection M (pID target) at True;
         if r \<noteq> None then undoRestore M target else setLifecycle ''active'' (pID target) []
       }
   }"

definition restoreDesired :: "('w, 'n) manager \<Rightarrow> manifest \<Rightarrow> (('w, 'n) mstate, unit) state" where
  "restoreDesired M m =
     (if mgReadOnly M \<or> mStartupMode m = StartupManual \<or> mDesiredProfile m = []
      then setLifecycle ''disconnected'' [] []
      else case manifestProfile m (mDesiredProfile m) of
        None \<Rightarrow> setFailure networkTruthKnown (mDesiredProfile m) ''The desired profile is unavailable.'' []
      | Some target \<Rightarrow>
          if backendOf M (pProtocol target) = None
          then setFailure networkTruthKnown (mDesiredProfile m) ''The desired profile is unavailable.'' []
          else do {
            resolved \<leftarrow> onStore (Resolve (mgStore M) (pID target));
            case resolved of
              Inl _ \<Rightarrow> setFailure networkTruthKnown (mDesiredProfile m)
                ''The desired profile could not be restored.'' []
            | Inr _ \<Rightarrow> restoreTarget M target
          })"

text \<open>Nothing runs: a connection time left in the manifest is cleared first.\<close>

definition startupDisconnected :: "('w, 'n) manager \<Rightarrow> manifest \<Rightarrow> (('w, 'n) mstate, unit) state" where
  "startupDisconnected M m =
     (if \<not> mgReadOnly M \<and> mConnectedAt m \<noteq> 0
      then do {
        e \<leftarrow> reconcileConnection M (mDesiredProfile m) 0;
        if e \<noteq> None
        then setFailure networkTruthUncertain (mDesiredProfile m) []
          ''Disconnected startup state could not be recorded durably.''
        else do { m \<leftarrow> onStore Snapshot; restoreDesired M m }
      }
      else restoreDesired M m)"

definition startupObserved ::
    "('w, 'n) manager \<Rightarrow> manifest \<Rightarrow> observation list \<Rightarrow> err \<Rightarrow> (('w, 'n) mstate, unit) state" where
  "startupObserved M m active e =
     (if e \<noteq> None
      then setFailure networkTruthUncertain [] []
        ''Managed tunnel absence could not be proved during startup.''
      else if length active = 1
      then if obProfileID (hd active) = mDesiredProfile m
           then setLifecycle ''active'' (obProfileID (hd active)) []
           else setLifecycle ''state_conflict'' (obProfileID (hd active))
             ''The active tunnel differs from the desired profile.''
      else startupDisconnected M m)"

definition ReconcileStartup :: "('w, 'n) manager \<Rightarrow> (('w, 'n) mstate, unit) state" where
  "ReconcileStartup M = do {
     acquire;
     deferE release (do {
       setLifecycle ''restoring'' [] [];
       m \<leftarrow> onStore Snapshot;
       (active, e) \<leftarrow> observe M m;
       startupObserved M m active e
     })
   }"

section \<open>An exit nobody asked for\<close>

definition exitObserved ::
    "('w, 'n) manager \<Rightarrow> manifest \<Rightarrow> string \<Rightarrow> observation list \<Rightarrow> (('w, 'n) mstate, unit) state" where
  "exitObserved M m i active =
     (if active \<noteq> []
      then if length active = 1 \<and> obProfileID (hd active) = i then return ()
           else setFailure networkTruthUncertain i []
             ''A different tunnel was observed after the OpenVPN process exited.''
      else do {
        e \<leftarrow> cleanupExecutions M i [];
        if e \<noteq> None then setFailure networkTruthUncertain i []
          ''Private OpenVPN execution copies could not be cleaned safely.''
        else do {
          recorded \<leftarrow> (if mConnectedAt m \<noteq> 0 then reconcileConnection M i 0 else return None);
          if recorded \<noteq> None then setFailure networkTruthUncertain i []
            ''The OpenVPN exit could not be recorded durably.''
          else setFailure networkTruthKnown i ''The OpenVPN process exited unexpectedly.'' []
        }
      })"

definition exitLocked :: "('w, 'n) manager \<Rightarrow> unexpectedExit \<Rightarrow> (('w, 'n) mstate, unit) state" where
  "exitLocked M event = do {
     let i = ueProfileID event;
     cleanupErr \<leftarrow> cleanupExecutionPath M i (ueExecutionPath event);
     if \<not> ueCleanupProved event \<or> cleanupErr \<noteq> None
     then setFailure networkTruthUncertain i []
       ''The OpenVPN process exited and cleanup could not be proved.''
     else do {
       m \<leftarrow> onStore Snapshot;
       if mDesiredProfile m \<noteq> i then do {
         e \<leftarrow> cleanupExecutions M i [];
         if e \<noteq> None then setFailure networkTruthUncertain i []
           ''Private OpenVPN execution copies could not be cleaned safely.''
         else return ()
       }
       else do {
         (active, e) \<leftarrow> observe M m;
         if e \<noteq> None then setFailure networkTruthUncertain i []
           ''Tunnel state could not be proved after the OpenVPN process exited.''
         else exitObserved M m i active
       }
     }
   }"

definition handleUnexpectedExit :: "('w, 'n) manager \<Rightarrow> unexpectedExit \<Rightarrow> (('w, 'n) mstate, unit) state" where
  "handleUnexpectedExit M event = do { acquire; deferE release (exitLocked M event) }"

end
