(* ===== verification/ManagerLaws.thy ===== *)
theory ManagerLaws
  imports ManagerViews StoreSteps
begin

text \<open>
  What the manager guarantees when its backends keep their contract.  \<open>up n\<close> is the set of the profiles
  whose tunnels are up in the network \<open>n\<close>.  A tunnel may go down at any moment, so every law bounds
  \<open>up\<close> from above; only \<open>Start\<close> may add to it, and nothing is promised when it is called while another
  tunnel is up.  \<open>calm up c U\<close> says that the lifecycle and the gate are \<open>c\<close>, that at most the tunnels of
  \<open>U\<close> are up and that the library is valid.
\<close>

section \<open>The contract of the backends\<close>

definition shrinks :: "('n \<Rightarrow> string set) \<Rightarrow> ('w \<times> 'n, 'a) state \<Rightarrow> bool" where
  "shrinks up m \<longleftrightarrow> (\<forall>x. wp m (\<lambda>_ y. up (snd y) \<subseteq> up (snd x)) x)"

definition backendLaws :: "('n \<Rightarrow> string set) \<Rightarrow> ('w \<times> 'n) backend \<Rightarrow> bool" where
  "backendLaws up b \<longleftrightarrow>
     shrinks up (bkAvailable b) \<and> shrinks up (bkShutdown b) \<and>
     (\<forall>p. shrinks up (bkStatus b p)) \<and>
     (\<forall>ps x. wp (bkObserve b ps) (\<lambda>r y. up (snd y) \<subseteq> up (snd x) \<and>
        (\<forall>obs. r = Inr obs \<longrightarrow> up (snd y) \<inter> tpID ` set ps \<subseteq> obProfileID ` set obs)) x) \<and>
     (\<forall>p x. wp (bkStop b p) (\<lambda>e y. up (snd y) \<subseteq> up (snd x) \<and> (e = None \<longrightarrow> tpID p \<notin> up (snd y))) x) \<and>
     (\<forall>p x. up (snd x) = {} \<longrightarrow> wp (bkStart b p) (\<lambda>e y. up (snd y) \<subseteq> {tpID p} \<and>
        (e \<noteq> None \<and> \<not> errIs e ErrCleanupUnproved \<longrightarrow> up (snd y) = {})) x)"

definition lawfulBackends :: "('w, 'n) manager \<Rightarrow> ('n \<Rightarrow> string set) \<Rightarrow> bool" where
  "lawfulBackends M up \<longleftrightarrow> (\<forall>(protocol, b)\<in>set (mgBackends M). backendLaws up b) \<and> shrinks up (mgNow M)"

lemma lawful_backend: "lawfulBackends M up \<Longrightarrow> backendOf M protocol = Some b \<Longrightarrow> backendLaws up b"
  by (auto simp: lawfulBackends_def backendOf_def dest!: map_of_SomeD)

lemma lawful_now: "lawfulBackends M up \<Longrightarrow> shrinks up (mgNow M)"
  by (simp add: lawfulBackends_def)

section \<open>Computations that keep the network calm\<close>

definition control :: "('w, 'n) mstate \<Rightarrow> bool \<times> string \<times> string \<times> string" where
  "control s = (gGate s, gLifecycle s, gLifecycleProfile s, gLastError s)"

definition calm ::
    "('n \<Rightarrow> string set) \<Rightarrow> bool \<times> string \<times> string \<times> string \<Rightarrow> string set \<Rightarrow> ('w, 'n) mstate \<Rightarrow> bool" where
  "calm up c U s \<longleftrightarrow> control s = c \<and> up (gNet s) \<subseteq> U \<and> libraryValid (gStore s)"

definition calms :: "('n \<Rightarrow> string set) \<Rightarrow> (('w, 'n) mstate, 'a) state \<Rightarrow> bool" where
  "calms up m \<longleftrightarrow> (\<forall>c U. keeps (calm up c U) m)"

named_theorems calms_intros "introduction rules for calms"

lemma calms_wp:
  "calms up m \<Longrightarrow> calm up c U s \<Longrightarrow> (\<And>a s'. calm up c U s' \<Longrightarrow> Q a s') \<Longrightarrow> wp m Q s"
  unfolding calms_def by (blast intro: keeps_wp)

lemma calms_bind_wp:
  "calms up m \<Longrightarrow> calm up c U s \<Longrightarrow> (\<And>a s'. calm up c U s' \<Longrightarrow> wp (f a) Q s') \<Longrightarrow>
     wp (State_Monad.bind m f) Q s"
  unfolding wp_bind by (rule calms_wp)

lemma calms_return [calms_intros]: "calms up (return a)"
  by (simp add: calms_def keeps_intros)

lemma calms_gets [calms_intros]: "calms up (gets f)"
  by (simp add: calms_def keeps_intros)

lemma calms_bind [calms_intros]:
  "calms up m \<Longrightarrow> (\<And>a. calms up (f a)) \<Longrightarrow> calms up (State_Monad.bind m f)"
  by (simp add: calms_def keeps_bind)

lemma calms_if [calms_intros]: "calms up m \<Longrightarrow> calms up n \<Longrightarrow> calms up (if b then m else n)"
  by simp

lemma calms_option [calms_intros]:
  "calms up m \<Longrightarrow> (\<And>y. x = Some y \<Longrightarrow> calms up (f y)) \<Longrightarrow> calms up (case x of None \<Rightarrow> m | Some y \<Rightarrow> f y)"
  by (cases x) auto

lemma calms_sum [calms_intros]:
  "(\<And>y. calms up (f y)) \<Longrightarrow> (\<And>z. calms up (g z)) \<Longrightarrow> calms up (case x of Inl y \<Rightarrow> f y | Inr z \<Rightarrow> g z)"
  by (cases x) auto

lemma calms_prod [calms_intros]:
  "(\<And>y z. calms up (f y z)) \<Longrightarrow> calms up (case x of (y, z) \<Rightarrow> f y z)"
  by (cases x) auto

lemma calms_let [calms_intros]: "calms up (f e) \<Longrightarrow> calms up (let x = e in f x)"
  by simp

lemma calms_openE [calms_intros]: "calms up m \<Longrightarrow> (\<And>a. calms up (f a)) \<Longrightarrow> calms up (openE m f)"
  by (simp add: calms_def keeps_openE)

lemma calms_tryE [calms_intros]: "calms up m \<Longrightarrow> (\<And>a. calms up (f a)) \<Longrightarrow> calms up (tryE m f)"
  by (simp add: calms_def keeps_tryE)

lemma calms_onStore: "keeps libraryValid m \<Longrightarrow> calms up (onStore m)"
  unfolding calms_def keeps_def onStore_def wp_zoom
  by (auto simp: calm_def control_def elim!: wp_mono)

lemma calms_onMachine: "shrinks up m \<Longrightarrow> calms up (onMachine m)"
  unfolding calms_def keeps_def onMachine_def wp_zoom
proof (intro allI impI)
  fix c U and s :: "('b, 'a) mstate"
  assume m: "shrinks up m" and s: "calm up c U s"
  have "wp m (\<lambda>_ y. up (snd y) \<subseteq> up (snd (machine s))) (machine s)"
    using m unfolding shrinks_def by blast
  then show "wp m (\<lambda>a t. calm up c U ((case t of (w, n) \<Rightarrow>
      \<lambda>s. s\<lparr>gStore := (gStore s)\<lparr>sWorld := w\<rparr>, gNet := n\<rparr>) s)) (machine s)"
    by (rule wp_mono) (use s in \<open>auto simp: calm_def control_def machine_def libraryValid_def\<close>)
qed

text \<open>The operations of the store, and the map of the execution copies.\<close>

lemma keeps_Snapshot: "keeps I Snapshot"
  unfolding Snapshot_def by (rule keeps_gets)

lemma calms_store [calms_intros]:
  "calms up (onStore (SetPreferences S fs rs mode))"
  "calms up (onStore (SetConnection S desired at addRecent))"
  "calms up (onStore (UpdateMetadata S i patch))"
  "calms up (onStore (store_Remove S i))"
  "calms up (onStore (RepairDurability S))"
  "calms up (onStore (Resolve S i))"
  "calms up (onStore (PrepareExecution S i))"
  "calms up (onStore (cleanupExecution S h))"
  "calms up (onStore Snapshot)"
  by - (rule calms_onStore, rule preferences.operation_keeps connection.operation_keeps
      metadata.operation_keeps removal.operation_keeps repair.operation_keeps
      resolve.operation_keeps execution.operation_keeps cleanup.operation_keeps keeps_Snapshot)+

lemma calms_modify: "(\<And>c U s. calm up c U (f s) = calm up c U s) \<Longrightarrow> calms up (modify f)"
  by (simp add: calms_def keeps_def wp_modify)

lemma calms_addExecution [calms_intros]: "calms up (addExecution i x)"
  unfolding addExecution_def by (rule calms_modify) (simp add: calm_def control_def)

lemma calms_takeExecutions [calms_intros]: "calms up (takeExecutions i path)"
  unfolding takeExecutions_def Let_def
  by (intro calms_intros calms_modify) (simp add: calm_def control_def)

lemma calms_cleanupLoop [calms_intros]: "calms up (cleanupLoop M i r xs)"
  by (induction xs arbitrary: r) (simp_all, (intro calms_intros | assumption)+)

lemma calms_cleanupExecutions [calms_intros]: "calms up (cleanupExecutions M i path)"
  unfolding cleanupExecutions_def by (intro calms_intros)

lemma calms_cleanupExecutionPath [calms_intros]: "calms up (cleanupExecutionPath M i path)"
  unfolding cleanupExecutionPath_def
  by (intro calms_intros calms_modify) (simp add: calm_def control_def)

lemma calms_cleanupEach [calms_intros]: "calms up (cleanupEach M r ids)"
  by (induction ids arbitrary: r) (simp_all, (intro calms_intros | assumption)+)

lemma calms_cleanupAllExecutions [calms_intros]: "calms up (cleanupAllExecutions M)"
  unfolding cleanupAllExecutions_def by (intro calms_intros)

lemma calms_setConnection [calms_intros]: "calms up (setConnection M desired at addRecent)"
  unfolding setConnection_def by (intro calms_intros)

lemma calms_repairDurability [calms_intros]: "calms up (repairDurability M)"
  unfolding repairDurability_def by (intro calms_intros)

lemma calms_reconcileConnection [calms_intros]: "calms up (reconcileConnection M desired at)"
  unfolding reconcileConnection_def by (intro calms_intros)

lemma calms_nowUnix [calms_intros]: "lawfulBackends M up \<Longrightarrow> calms up (nowUnix M)"
  unfolding nowUnix_def by (intro calms_intros calms_onMachine lawful_now)

lemma calms_restoredAt [calms_intros]: "lawfulBackends M up \<Longrightarrow> calms up (restoredAt M actual)"
  unfolding restoredAt_def by (intro calms_intros)

lemma lawful_shrinks:
  assumes "lawfulBackends M up" and "backendOf M protocol = Some b"
  shows "shrinks up (bkAvailable b)" "shrinks up (bkShutdown b)" "shrinks up (bkStatus b p)"
    "shrinks up (bkObserve b ps)" "shrinks up (bkStop b p)"
proof -
  have b: "backendLaws up b" using lawful_backend [OF assms] .
  then show "shrinks up (bkAvailable b)" "shrinks up (bkShutdown b)" "shrinks up (bkStatus b p)"
    unfolding backendLaws_def by blast+
  show "shrinks up (bkObserve b ps)" "shrinks up (bkStop b p)"
    using b unfolding backendLaws_def shrinks_def by (blast intro: wp_mono)+
qed

lemma calms_backend [calms_intros]:
  assumes "lawfulBackends M up" and "backendOf M protocol = Some b"
  shows "calms up (onMachine (bkAvailable b))" "calms up (onMachine (bkShutdown b))"
    "calms up (onMachine (bkStatus b p))" "calms up (onMachine (bkObserve b ps))"
    "calms up (onMachine (bkStop b p))"
  using lawful_shrinks [OF assms] by (auto intro: calms_onMachine)

lemma calms_finishStop [calms_intros]: "calms up (finishStop M i path h e)"
  unfolding finishStop_def by (intro calms_intros)

lemma calms_tunnelStop [calms_intros]: "lawfulBackends M up \<Longrightarrow> calms up (tunnelStop M p)"
  unfolding tunnelStop_def stopPrepared_def by (intro calms_intros)

lemma calms_observeProtocol [calms_intros]: "lawfulBackends M up \<Longrightarrow> calms up (observeProtocol M m protocol)"
  unfolding observeProtocol_def Let_def by (intro calms_intros)

lemma calms_observeLoop [calms_intros]:
  assumes L: "lawfulBackends M up"
  shows "calms up (observeLoop M m active missing ps)"
proof (induction ps arbitrary: active missing)
  case (Cons x xs)
  show ?case unfolding observeLoop.simps by (intro calms_intros L Cons.IH) (auto intro: L)?
qed (simp add: calms_intros)

lemma calms_observe [calms_intros]: "lawfulBackends M up \<Longrightarrow> calms up (observe M m)"
  unfolding observe_def by (intro calms_intros)

lemma calms_shutdownLoop [calms_intros]:
  assumes L: "lawfulBackends M up"
  shows "calms up (shutdownLoop M r ps)"
proof (induction ps arbitrary: r)
  case (Cons x xs)
  show ?case unfolding shutdownLoop.simps by (intro calms_intros L Cons.IH) (auto intro: L)?
qed (simp add: calms_intros)

lemma calms_shutdownBackends [calms_intros]: "lawfulBackends M up \<Longrightarrow> calms up (shutdownBackends M)"
  unfolding shutdownBackends_def by (intro calms_intros)

lemma calms_stopEach [calms_intros]:
  assumes L: "lawfulBackends M up"
  shows "calms up (stopEach M m r xs)"
proof (induction xs arbitrary: r)
  case (Cons x xs)
  show ?case unfolding stopEach.simps by (intro calms_intros L Cons.IH) (auto intro: L)?
qed (simp add: calms_intros)

end
