(* ===== verification/ConnectLaws.thy ===== *)
theory ConnectLaws
  imports ManagerLaws
begin

text \<open>
  The transitions of the manager, piece by piece: what starting, stopping and observing do to the
  network, what recording a connection does to the library, and from these the outcome of connecting.
\<close>

section \<open>Changes of the control state\<close>

lemma errorsJoin_first [simp]:
  "errorsJoin (Some e # es) = Some (Joined (e # List.map_filter (\<lambda>e. e) es))"
  by (simp add: errorsJoin_def map_filter_simps)

lemma wp_setLifecycle [wp_simps]:
  "wp (setLifecycle l p msg) Q =
     (\<lambda>s. Q () (s\<lparr>gLifecycle := l, gLifecycleProfile := p, gLastError := msg\<rparr>))"
  by (simp add: setLifecycle_def wp_modify)

lemma wp_setFailure [wp_simps]:
  "wp (setFailure truth p failed conflict) Q =
     wp (setLifecycle (lifecycleForTruth truth) p
       (if truth = networkTruthUncertain then conflict else failed)) Q"
  by (simp add: setFailure_def)

lemma wp_lifecycleSnapshot [wp_simps]:
  "wp lifecycleSnapshot Q = (\<lambda>s. Q (gLifecycle s, gLifecycleProfile s, gLastError s) s)"
  by (simp add: lifecycleSnapshot_def wp_gets)

lemma wp_Snapshot [wp_simps]: "wp (onStore Snapshot) Q = (\<lambda>s. Q (sManifest (gStore s)) s)"
  by (simp add: onStore_def Snapshot_def wp_zoom wp_gets)

lemma lifecycleForTruth_simps [simp]:
  "lifecycleForTruth networkTruthUncertain = ''state_conflict''"
  "lifecycleForTruth networkTruthKnown = ''failed''"
  by (simp_all add: lifecycleForTruth_def)

lemma calm_lifecycle:
  "calm up c U s \<Longrightarrow>
     calm up (fst c, l, p, msg) U (s\<lparr>gLifecycle := l, gLifecycleProfile := p, gLastError := msg\<rparr>)"
  by (auto simp: calm_def control_def)

lemma calm_mono: "calm up c U s \<Longrightarrow> U \<subseteq> V \<Longrightarrow> calm up c V s"
  by (auto simp: calm_def)

section \<open>Starting and stopping\<close>

lemma start_law:
  "backendLaws up b \<Longrightarrow> up (snd x) = {} \<Longrightarrow> wp (bkStart b p) (\<lambda>e y. up (snd y) \<subseteq> {tpID p} \<and>
     (e \<noteq> None \<and> \<not> errIs e ErrCleanupUnproved \<longrightarrow> up (snd y) = {})) x"
  unfolding backendLaws_def by blast

lemma stop_law:
  "backendLaws up b \<Longrightarrow>
     wp (bkStop b p) (\<lambda>e y. up (snd y) \<subseteq> up (snd x) \<and> (e = None \<longrightarrow> tpID p \<notin> up (snd y))) x"
  unfolding backendLaws_def by blast

lemma observe_law:
  "backendLaws up b \<Longrightarrow> wp (bkObserve b ps) (\<lambda>r y. up (snd y) \<subseteq> up (snd x) \<and>
     (\<forall>obs. r = Inr obs \<longrightarrow> up (snd y) \<inter> tpID ` set ps \<subseteq> obProfileID ` set obs)) x"
  unfolding backendLaws_def by blast

lemma runtime_ids [simp]: "tpID (runtimeProfileAt p path) = pID p" "tpID (runtimeProfile S p) = pID p"
  by (simp_all add: runtimeProfileAt_def runtimeProfile_def)

lemma prepared_identity:
  fixes s :: "('w, 'n) mstate"
  assumes "calm up c U s"
    and "\<And>e s'. calm up c U s' \<Longrightarrow> Q (Inl e) s'"
    and "\<And>verified path h s'. calm up c U s' \<Longrightarrow> pID verified = i \<Longrightarrow> Q (Inr (verified, path, h)) s'"
  shows "wp (onStore (PrepareExecution S i)) Q s"
proof -
  have "wp (onStore (PrepareExecution S i))
      (\<lambda>r s'. case r of Inl e \<Rightarrow> True | Inr (verified, path, h) \<Rightarrow> pID verified = i) s"
    unfolding onStore_def wp_zoom
    by (rule wp_mono [OF PrepareExecution_outcome])
      (auto split: sum.splits dest: manifestProfile_Some)
  moreover have "wp (onStore (PrepareExecution S i)) (\<lambda>_. calm up c U) s"
    by (rule calms_wp [OF _ assms(1)]) (intro calms_intros)
  ultimately show ?thesis
    by (rule wp_mono [OF wp_conj]) (auto split: sum.splits intro: assms(2,3))
qed

lemma wp_onMachine:
  "wp (onMachine m) Q = (\<lambda>s. wp m (\<lambda>a y. Q a (s\<lparr>gStore := (gStore s)\<lparr>sWorld := fst y\<rparr>, gNet := snd y\<rparr>))
     (machine s))"
  by (simp add: onMachine_def wp_zoom split_def)

lemma snd_machine [simp]: "snd (machine s) = gNet s"
  by (simp add: machine_def)

lemma calm_machine: "calm up c U s \<Longrightarrow> up n \<subseteq> V \<Longrightarrow> calm up c V (s\<lparr>gStore := (gStore s)\<lparr>sWorld := w\<rparr>, gNet := n\<rparr>)"
  by (simp add: calm_def control_def libraryValid_def)

text \<open>Nothing else is up when a tunnel is started.\<close>

lemma added_wp:
  "(\<And>s'. calm up c V s' \<Longrightarrow> Q r s') \<Longrightarrow> calm up c V t \<Longrightarrow> wp (do { addExecution i x; return r }) Q t"
  by (rule calms_bind_wp [OF calms_addExecution]) (simp_all add: wp_return)

lemma abandonStart_wp:
  assumes t: "calm up c (if errorsIs e ErrCleanupUnproved then {i} else {}) t"
    and unproved: "\<And>x s'. errorsIs x ErrCleanupUnproved \<Longrightarrow> calm up c {i} s' \<Longrightarrow> Q (Some x) s'"
    and absent: "\<And>x s'. \<not> errorsIs x ErrCleanupUnproved \<Longrightarrow> calm up c {} s' \<Longrightarrow> Q (Some x) s'"
  shows "wp (abandonStart M i path h e) Q t"
  unfolding abandonStart_def
proof (rule calms_bind_wp [OF calms_store(8) t], goal_cases)
  case (1 y u)
  have "Q (Some e) u" using 1 unproved absent by (simp split: if_splits)
  moreover have "\<exists>z. errorsJoin [Some e, Some (Sentinel ErrCleanupUnproved), y] = Some z \<and>
      errorsIs z ErrCleanupUnproved"
    by (simp add: errorsJoin_def map_filter_simps)
  then have "wp (do { addExecution i x; return (errorsJoin [Some e, Some (Sentinel ErrCleanupUnproved), y]) }) Q u"
    for x
    by (intro added_wp [OF _ 1]) (auto intro!: unproved intro: calm_mono split: if_splits)
  ultimately show ?case by (simp add: wp_return)
qed

lemma startPrepared_wp:
  assumes b: "backendLaws up b" and t: "calm up c {} t" and v: "pID v = i"
    and "\<And>s'. calm up c {i} s' \<Longrightarrow> Q None s'"
    and "\<And>x s'. errorsIs x ErrCleanupUnproved \<Longrightarrow> calm up c {i} s' \<Longrightarrow> Q (Some x) s'"
    and "\<And>x s'. \<not> errorsIs x ErrCleanupUnproved \<Longrightarrow> calm up c {} s' \<Longrightarrow> Q (Some x) s'"
  shows "wp (startPrepared M b i v path h) Q t"
  unfolding startPrepared_def wp_bind wp_onMachine
proof (rule wp_mono [OF start_law [OF b]], goal_cases)
  case 1
  then show ?case using t by (simp add: calm_def)
next
  case (2 e y)
  let ?t = "t\<lparr>gStore := (gStore t)\<lparr>sWorld := fst y\<rparr>, gNet := snd y\<rparr>"
  have "calm up c (if e \<noteq> None \<and> \<not> errIs e ErrCleanupUnproved then {} else {i}) ?t"
    by (rule calm_machine [OF t]) (use 2 v in auto)
  with assms(4-6) show ?case
    by (cases e) (auto intro!: added_wp abandonStart_wp)
qed

lemma tunnelStart_wp:
  assumes L: "lawfulBackends M up" and s: "calm up c {} s"
    and "\<And>s'. calm up c {pID p} s' \<Longrightarrow> Q None s'"
    and unproved: "\<And>e s'. errorsIs e ErrCleanupUnproved \<Longrightarrow> calm up c {pID p} s' \<Longrightarrow> Q (Some e) s'"
    and absent: "\<And>e s'. \<not> errorsIs e ErrCleanupUnproved \<Longrightarrow> calm up c {} s' \<Longrightarrow> Q (Some e) s'"
  shows "wp (tunnelStart M p) Q s"
proof -
  have absent': "Q (Some e) s'" if "calm up c {} s'" for e s'
    using that unproved [OF _ calm_mono [OF that]] absent by (cases "errorsIs e ErrCleanupUnproved") auto
  show ?thesis
  proof (cases "backendOf M (pProtocol p)")
    case None
    with s absent' show ?thesis by (simp add: tunnelStart_def wp_return)
  next
    case (Some b)
    show ?thesis
      unfolding tunnelStart_def Some option.case wp_openE
      by (rule prepared_identity [OF s], simp, erule absent')
        (auto intro!: startPrepared_wp lawful_backend [OF L Some] assms(3) intro: unproved absent)
  qed
qed

text \<open>A tunnel that was stopped without an error is down.\<close>

lemma stopPrepared_wp:
  assumes b: "backendLaws up b" and t: "calm up c U t" and v: "pID v = i"
    and "\<And>s'. calm up c (U - {i}) s' \<Longrightarrow> Q None s'"
    and failed: "\<And>e s'. calm up c U s' \<Longrightarrow> Q (Some e) s'"
  shows "wp (stopPrepared M b i v path h) Q t"
  unfolding stopPrepared_def wp_bind [of "onMachine _"] wp_onMachine
proof (rule wp_mono [OF stop_law [OF b]], goal_cases)
  case (1 e y)
  let ?t = "t\<lparr>gStore := (gStore t)\<lparr>sWorld := fst y\<rparr>, gNet := snd y\<rparr>"
  have V: "calm up c (if e = None then U - {i} else U) ?t"
    by (rule calm_machine [OF t]) (use 1 v t in \<open>auto simp: calm_def\<close>)
  have "wp (finishStop M i path h e) (\<lambda>r _. e \<noteq> None \<longrightarrow> r \<noteq> None) ?t"
    unfolding finishStop_def by (auto simp: wp_simps errorsJoin_None intro!: wp_any)
  moreover have "wp (finishStop M i path h e) (\<lambda>_. calm up c (if e = None then U - {i} else U)) ?t"
    by (rule calms_wp [OF calms_finishStop V])
  ultimately show ?case
  proof (rule wp_mono [OF wp_conj], goal_cases)
    case (1 r s')
    then show ?case
      using assms(4) failed [OF calm_mono] by (cases r; cases e) auto
  qed
qed

lemma tunnelStop_wp:
  assumes L: "lawfulBackends M up" and s: "calm up c U s"
    and "\<And>s'. calm up c (U - {pID p}) s' \<Longrightarrow> Q None s'"
    and failed: "\<And>e s'. calm up c U s' \<Longrightarrow> Q (Some e) s'"
  shows "wp (tunnelStop M p) Q s"
proof (cases "backendOf M (pProtocol p)")
  case None
  with s failed show ?thesis by (simp add: tunnelStop_def wp_return)
next
  case (Some b)
  show ?thesis
    unfolding tunnelStop_def Some option.case wp_openE
    by (rule prepared_identity [OF s])
      (auto simp: failed intro!: stopPrepared_wp lawful_backend [OF L Some] assms(3) failed)
qed

section \<open>Observing\<close>

definition idsOf :: "manifest \<Rightarrow> string \<Rightarrow> string set" where
  "idsOf m protocol = pID ` set (filter (\<lambda>p. pProtocol p = protocol) (mProfiles m))"

abbreviation observedIds :: "observation list \<Rightarrow> string set" where
  "observedIds obs \<equiv> obProfileID ` set obs"

text \<open>A profile that was asked about and not reported is down.\<close>

lemma observeProtocol_wp:
  assumes L: "lawfulBackends M up" and s: "calm up c U s"
  shows "wp (observeProtocol M m protocol) (\<lambda>r s'. calm up c U s' \<and>
     (\<forall>obs. r = Inr obs \<longrightarrow> calm up c (U - (idsOf m protocol - observedIds obs)) s')) s"
proof -
  define ps where "ps = map (runtimeProfile (mgStore M)) (filter (\<lambda>p. pProtocol p = protocol) (mProfiles m))"
  have ids: "tpID ` set ps = idsOf m protocol"
    by (auto simp: ps_def idsOf_def image_image)
  consider "ps = []" | "ps \<noteq> []" "backendOf M protocol = None"
    | b where "ps \<noteq> []" "backendOf M protocol = Some b" by (cases "backendOf M protocol") auto
  then show ?thesis
  proof cases
    case 1
    with s ids show ?thesis
      unfolding observeProtocol_def ps_def [symmetric] Let_def by (simp add: wp_return)
  next
    case 2
    with s show ?thesis
      unfolding observeProtocol_def ps_def [symmetric] Let_def by (simp add: wp_return)
  next
    case 3
    have "wp (onMachine (bkObserve b ps)) (\<lambda>r s'. calm up c U s' \<and>
        (\<forall>obs. r = Inr obs \<longrightarrow> calm up c (U - (idsOf m protocol - observedIds obs)) s')) s"
      unfolding wp_onMachine
      by (rule wp_mono [OF observe_law [OF lawful_backend [OF L 3(2)]]])
        (use s in \<open>auto simp: ids calm_def control_def libraryValid_def\<close>)
    with 3 show ?thesis
      unfolding observeProtocol_def ps_def [symmetric] Let_def by simp
  qed
qed

lemma observeLoop_wp:
  assumes L: "lawfulBackends M up" and "calm up c U s"
  shows "wp (observeLoop M m active missing protocols) (\<lambda>(obs, e) s'. calm up c U s' \<and>
     (e = None \<longrightarrow> \<not> missing \<and> length obs \<le> 1 \<and> set active \<subseteq> set obs \<and>
        calm up c (U - (\<Union> (idsOf m ` set protocols) - observedIds obs)) s')) s"
  using assms(2)
proof (induction protocols arbitrary: active missing U s)
  case Nil
  then show ?case by (simp add: wp_return)
next
  case (Cons protocol rest)
  have one: "U - (idsOf m protocol - observedIds obs) - (A - observedIds obs')
      \<subseteq> U - (idsOf m protocol \<union> A - observedIds obs')" if "set obs \<subseteq> set obs'" for obs obs' A
    using that by auto
  show ?case
    unfolding observeLoop.simps wp_bind
  proof (rule wp_mono [OF observeProtocol_wp [OF L Cons.prems]], goal_cases)
    case (1 r t)
    show ?case
    proof (cases r)
      case (Inl e)
      with 1 show ?thesis
        by (auto simp: wp_return intro!: wp_mono [OF Cons.IH [of U t active True]])
    next
      case (Inr obs)
      with 1 have "calm up c (U - (idsOf m protocol - observedIds obs)) t" by simp
      from Cons.IH [OF this, of "active @ obs" missing] show ?thesis
        unfolding Inr sum.case
        by (rule wp_mono) (auto intro: calm_mono [OF _ one] calm_mono)
    qed
  qed
qed

lemma wellFormed_profile:
  assumes "wellFormed m" and "p \<in> set (mProfiles m)"
  shows "pProtocol p \<in> {ProtocolOpenVPN, ProtocolWireGuard}" "pID p \<noteq> []"
proof -
  have "ValidateProfile p = None" using assms by (simp add: wellFormed_def)
  then have "ValidProtocol (pProtocol p)" "idPattern (pID p)"
    by (simp_all add: ValidateProfile_def split: if_splits)
  then show "pProtocol p \<in> {ProtocolOpenVPN, ProtocolWireGuard}" "pID p \<noteq> []"
    by (auto simp: ValidProtocol_def idPattern_def)
qed

text \<open>When nothing outside the library is up, an observation without an error has seen all there is.\<close>

lemma observe_wp:
  assumes "lawfulBackends M up" and "calm up c U s" and wf: "wellFormed m"
    and U: "U \<subseteq> pID ` set (mProfiles m)"
    and "\<And>obs s'. length obs \<le> 1 \<Longrightarrow> calm up c (U \<inter> observedIds obs) s' \<Longrightarrow> Q (obs, None) s'"
    and "\<And>obs e s'. calm up c U s' \<Longrightarrow> Q (obs, Some e) s'"
  shows "wp (observe M m) Q s"
proof -
  have "\<Union> (idsOf m ` {ProtocolOpenVPN, ProtocolWireGuard}) = pID ` set (mProfiles m)"
    using wellFormed_profile(1) [OF wf] by (fastforce simp: idsOf_def)
  then have "U - (\<Union> (idsOf m ` set [ProtocolOpenVPN, ProtocolWireGuard]) - observedIds obs)
      \<subseteq> U \<inter> observedIds obs" for obs
    using U by auto
  note shrunk = calm_mono [OF _ this]
  show ?thesis
    unfolding observe_def
  proof (rule wp_mono [OF observeLoop_wp [OF assms(1,2)]], goal_cases)
    case (1 r s')
    obtain obs e where r: "r = (obs, e)" by (cases r)
    show ?case
    proof (cases e)
      case None
      with 1 r shrunk [of up c obs s'] assms(5) show ?thesis by auto
    next
      case (Some x)
      with 1 r assms(6) show ?thesis by auto
    qed
  qed
qed

section \<open>Recording a connection\<close>

definition recorded :: "string \<Rightarrow> int \<Rightarrow> ('w, 'n) mstate \<Rightarrow> bool" where
  "recorded desired at s \<longleftrightarrow>
     mDesiredProfile (sManifest (gStore s)) = desired \<and> mConnectedAt (sManifest (gStore s)) = at \<and>
     \<not> sDurabilityUnknown (gStore s)"

lemma recorded_lifecycle [simp]:
  "recorded desired at (s\<lparr>gLifecycle := l, gLifecycleProfile := p, gLastError := msg\<rparr>) = recorded desired at s"
  by (simp add: recorded_def)

lemma setConnection_wp:
  assumes "calm up c U s"
    and "\<And>s'. calm up c U s' \<Longrightarrow> recorded desired at s' \<Longrightarrow> Q None s'"
    and "\<And>e s'. calm up c U s' \<Longrightarrow> Q (Some e) s'"
  shows "wp (setConnection M desired at addRecent) Q s"
proof -
  have "wp (SetConnection (mgStore M) desired at addRecent) (\<lambda>r t. \<forall>m. r = Inr m \<longrightarrow>
      mDesiredProfile (sManifest t) = desired \<and> mConnectedAt (sManifest t) = at \<and> \<not> sDurabilityUnknown t)
      (gStore s)"
    by (rule wp_mono [OF SetConnection_outcome])
      (auto simp: editDone_def connectionChange_def bumpRevision_def memory_def Let_def split: sum.splits)
  then have "wp (setConnection M desired at addRecent) (\<lambda>e s'. e = None \<longrightarrow> recorded desired at s') s"
    unfolding setConnection_def onStore_def wp_bind wp_zoom wp_return
    by (auto simp: wp_def recorded_def resultErr_def split: prod.splits sum.splits)
  moreover have "wp (setConnection M desired at addRecent) (\<lambda>_. calm up c U) s"
    by (rule calms_wp [OF calms_setConnection assms(1)])
  ultimately show ?thesis
  proof (rule wp_mono [OF wp_conj], goal_cases)
    case (1 e s')
    then show ?case using assms(2,3) by (cases e) auto
  qed
qed

lemma reconcileConnection_wp:
  assumes "calm up c U s"
    and "\<And>s'. calm up c U s' \<Longrightarrow> recorded desired at s' \<Longrightarrow> Q None s'"
    and "\<And>e s'. calm up c U s' \<Longrightarrow> Q (Some e) s'"
  shows "wp (reconcileConnection M desired at) Q s"
  unfolding reconcileConnection_def wp_bind [of "setConnection _ _ _ _"]
proof (rule setConnection_wp [OF assms(1)], goal_cases)
  case (1 s')
  then show ?case using assms(2) by (simp add: wp_return)
next
  case (2 e s')
  have "wp (if r \<noteq> None then return (errorsJoin [Some e, r])
      else do {
        x \<leftarrow> setConnection M desired at False;
        if x \<noteq> None then return (errorsJoin [Some e, x]) else return None
      }) Q t" if "calm up c U t" for r t
    using that assms(2,3)
    by (auto simp: wp_return wp_bind intro!: setConnection_wp)
  then show ?case
    by (simp add: calms_bind_wp [OF calms_repairDurability 2])
qed

section \<open>Connecting\<close>

text \<open>How a transition to the profile \<open>i\<close> ends once the network has been touched.\<close>

definition connected :: "('n \<Rightarrow> string set) \<Rightarrow> string \<Rightarrow> ('w, 'n) mstate \<Rightarrow> bool" where
  "connected up i s \<longleftrightarrow> gLifecycle s = ''active'' \<and> gLifecycleProfile s = i \<and> gLastError s = [] \<and>
     up (gNet s) \<subseteq> {i} \<and> (\<exists>at. recorded i at s)"

definition switchOutcome ::
    "('n \<Rightarrow> string set) \<Rightarrow> bool \<Rightarrow> string \<Rightarrow> err \<Rightarrow> ('w, 'n) mstate \<Rightarrow> bool" where
  "switchOutcome up gate i r s \<longleftrightarrow> gGate s = gate \<and> libraryValid (gStore s) \<and>
     (case r of
        None \<Rightarrow> connected up i s
      | Some e \<Rightarrow>
          gLifecycle s = ''state_conflict'' \<and> errorsIs e ErrManagedStateConflict \<and> (\<exists>j. up (gNet s) \<subseteq> {j}) \<or>
          gLifecycle s = ''failed'' \<and> gLifecycleProfile s = i \<and> up (gNet s) = {} \<or>
          gLifecycle s = ''active'' \<and> up (gNet s) \<subseteq> {gLifecycleProfile s} \<and> gLastError s \<noteq> [])"

lemma calmE:
  assumes "calm up c U s"
  shows "gGate s = fst c" "up (gNet s) \<subseteq> U" "libraryValid (gStore s)"
  using assms by (auto simp: calm_def control_def)

lemma settleRecovery_wp:
  assumes s: "calm up c U s" and j: "U \<subseteq> {j}" and a: "actual \<noteq> [] \<Longrightarrow> U \<subseteq> {actual}"
    and known: "a = None \<Longrightarrow> b = None \<Longrightarrow> actual = [] \<Longrightarrow> U = {}"
  shows "wp (settleRecovery target cause actual a b x y) (switchOutcome up (fst c) (pID target)) s"
proof (cases "recoveryTruth a b x y")
  case networkTruthKnown
  then have n: "a = None" "b = None" "x = None" "y = None"
    by (auto simp: recoveryTruth_def split: if_splits)
  show ?thesis
    using calmE [OF s] a known n
    by (auto simp: settleRecovery_def wp_simps Let_def recoveryTruth_def switchOutcome_def)
next
  case networkTruthUncertain
  then show ?thesis
    using calmE [OF s] j
    by (auto simp: settleRecovery_def wp_simps Let_def switchOutcome_def)
qed

lemma recordRecovery_wp:
  assumes L: "lawfulBackends M up" and s: "calm up c U s" and j: "U \<subseteq> {j}"
    and a: "\<And>p. previous = Some p \<Longrightarrow> a = None \<Longrightarrow> b = None \<Longrightarrow> U \<subseteq> {pID p}"
    and n: "previous = None \<Longrightarrow> a = None \<Longrightarrow> U = {}"
    and p: "\<And>p. previous = Some p \<Longrightarrow> pID p \<noteq> []"
  shows "wp (recordRecovery M target previous cause a b) (switchOutcome up (fst c) (pID target)) s"
proof -
  have settle: "wp (settleRecovery target cause (case previous of
         Some p \<Rightarrow> if a = None \<and> b = None then pID p else [] | None \<Rightarrow> []) a b x y)
      (switchOutcome up (fst c) (pID target)) t" if "calm up c U t" for x y t
    by (rule settleRecovery_wp [OF that j]) (use a n p in \<open>auto split: option.splits if_splits\<close>)
  show ?thesis
    unfolding recordRecovery_def Let_def
    by (rule calms_bind_wp [OF calms_repairDurability s], rule calms_bind_wp [rotated], assumption,
        erule settle, intro calms_intros L)
qed

lemma recoverPersistenceFailure_wp:
  assumes L: "lawfulBackends M up" and s: "calm up c {pID target} s"
    and p: "\<And>p. previous = Some p \<Longrightarrow> pID p \<noteq> []"
  shows "wp (recoverPersistenceFailure M target previous cause) (switchOutcome up (fst c) (pID target)) s"
  unfolding recoverPersistenceFailure_def wp_bind [of "tunnelStop _ _"]
proof (rule tunnelStop_wp [OF L s], goal_cases)
  case (1 t)
  then have t: "calm up c {} t" by simp
  show ?case
  proof (cases previous)
    case None
    then show ?thesis
      using recordRecovery_wp [OF L t, of undefined None] by (simp add: wp_bind wp_return)
  next
    case (Some q)
    note r = recordRecovery_wp [OF L, where j = "pID q" and previous = "Some q"]
    show ?thesis
      unfolding Some
      by (simp add: wp_bind, rule tunnelStart_wp [OF L t]; rule r) (use p Some in \<open>auto\<close>)
  qed
next
  case (2 e t)
  then show ?case
    using recordRecovery_wp [OF L 2, where a = "Some e"] p
    by (auto simp: wp_bind wp_return split: option.split)
qed

lemma conflict_wp:
  assumes "calm up c U s" and "U \<subseteq> {j}" and "errorsIs e ErrManagedStateConflict"
  shows "wp (do { setFailure networkTruthUncertain p a b; return (Some e) }) (switchOutcome up (fst c) i) s"
  using calmE [OF assms(1)] assms(2,3) by (auto simp: wp_simps switchOutcome_def)

lemma startFailed_wp:
  assumes L: "lawfulBackends M up"
    and s: "calm up c (if errorsIs e ErrCleanupUnproved then {pID target} else {}) s"
  shows "wp (startFailed M m target previous e) (switchOutcome up (fst c) (pID target)) s"
proof (cases "errorsIs e ErrCleanupUnproved")
  case True
  with s have t: "calm up c {pID target} s" by simp
  show ?thesis
    unfolding startFailed_def if_P [OF True] errorsJoin_first
    by (rule calms_bind_wp [OF calms_reconcileConnection t], erule conflict_wp [OF _ subset_refl]) simp
next
  case False
  with s have t: "calm up c {} s" by simp
  show ?thesis
  proof (cases previous)
    case None
    with False calmE [OF t] show ?thesis
      by (auto simp: startFailed_def wp_simps switchOutcome_def)
  next
    case (Some p)
    have failed: "wp (do {
          reconcileErr \<leftarrow> reconcileConnection M (pID p) 0;
          setFailure networkTruthUncertain (pID target) []
            ''The new tunnel failed and the previous tunnel could not be restored safely.'';
          return (errorsJoin [Some (Sentinel ErrManagedStateConflict), Some (Sentinel ErrTransitionFailed),
              Some e, Some x, reconcileErr]) }) (switchOutcome up (fst c) (pID target)) u"
      if "calm up c {pID p} u" for x u
      unfolding errorsJoin_first
      by (rule calms_bind_wp [OF calms_reconcileConnection that], erule conflict_wp [OF _ subset_refl]) simp
    have failed': "wp (do {
          reconcileErr \<leftarrow> reconcileConnection M (pID p) 0;
          setFailure networkTruthUncertain (pID target) []
            ''The new tunnel failed and the previous tunnel could not be restored safely.'';
          return (errorsJoin [Some (Sentinel ErrManagedStateConflict), Some (Sentinel ErrTransitionFailed),
              Some e, Some x, reconcileErr]) }) (switchOutcome up (fst c) (pID target)) u"
      if "calm up c {} u" for x u
      by (rule failed [OF calm_mono [OF that]]) simp
    show ?thesis
      unfolding startFailed_def if_not_P [OF False] Some option.case wp_bind [of "tunnelStart _ _"]
    proof (rule tunnelStart_wp [OF L t], goal_cases)
      case (1 u)
      from calmE [OF 1] show ?case by (auto simp: wp_simps switchOutcome_def)
    next
      case (2 x u)
      from failed [OF 2(2)] show ?case by simp
    next
      case (3 x u)
      from failed' [OF 3(2)] show ?case by simp
    qed
  qed
qed

lemma startTarget_wp:
  assumes L: "lawfulBackends M up" and s: "calm up c {} s"
    and p: "\<And>p. previous = Some p \<Longrightarrow> pID p \<noteq> []"
  shows "wp (startTarget M m target previous) (switchOutcome up (fst c) (pID target)) s"
  unfolding startTarget_def wp_bind [of "tunnelStart _ _"]
proof (rule tunnelStart_wp [OF L s], goal_cases)
  case (1 t)
  have "wp (do {
          r \<leftarrow> setConnection M (pID target) at True;
          case r of
            Some cause \<Rightarrow> recoverPersistenceFailure M target previous cause
          | None \<Rightarrow> do { setLifecycle ''active'' (pID target) []; return None } })
      (switchOutcome up (fst c) (pID target)) u" if u: "calm up c {pID target} u" for at u
    unfolding wp_bind [of "setConnection _ _ _ _"]
  proof (rule setConnection_wp [OF u], goal_cases)
    case (1 v)
    with calmE [OF 1(1)] show ?case by (auto simp: wp_simps switchOutcome_def connected_def)
  next
    case (2 e v)
    from recoverPersistenceFailure_wp [OF L 2 p] show ?case by simp
  qed
  then show ?case
    by (simp, intro calms_bind_wp [OF calms_nowUnix [OF L] 1])
next
  case (2 e t)
  then show ?case using startFailed_wp [OF L, of c e target t] by simp
next
  case (3 e t)
  then show ?case using startFailed_wp [OF L, of c e target t] by simp
qed

text \<open>At most one tunnel was seen, and it is in the library.\<close>

lemma replaceTunnel_wp:
  assumes L: "lawfulBackends M up" and wf: "wellFormed m" and one: "length active \<le> 1"
    and s: "calm up c (observedIds active) s"
  shows "wp (replaceTunnel M m target active) (switchOutcome up (fst c) (pID target)) s"
proof (cases active)
  case Nil
  with startTarget_wp [OF L, of c s None] s show ?thesis by (simp add: replaceTunnel_def)
next
  case (Cons x rest)
  with one have a: "active = [x]" by simp
  show ?thesis
  proof (cases "manifestProfile m (obProfileID x)")
    case None
    show ?thesis
      using conflict_wp [OF s, of "obProfileID x" "Sentinel ErrManagedStateConflict"] None a
      by (simp add: replaceTunnel_def)
  next
    case (Some p)
    then have p: "p \<in> set (mProfiles m)" "pID p = obProfileID x" by (auto dest: manifestProfile_Some)
    have u: "calm up c {pID p} s" using s a p by simp
    have "wp (do {
         e \<leftarrow> tunnelStop M p;
         if e \<noteq> None then do {
           setFailure networkTruthUncertain (pID p) [] ''The active tunnel could not be proved stopped.'';
           return (errorsJoin [Some (Sentinel ErrManagedStateConflict),
              Some (Sentinel ErrTransitionFailed), e])
         } else startTarget M m target (Some p) }) (switchOutcome up (fst c) (pID target)) s"
      unfolding wp_bind [of "tunnelStop _ _"]
    proof (rule tunnelStop_wp [OF L u], goal_cases)
      case (1 t)
      then have "calm up c {} t" by simp
      from startTarget_wp [OF L this, of "Some p"] wellFormed_profile(2) [OF wf p(1)]
      show ?case by simp
    next
      case (2 e t)
      from conflict_wp [OF 2 subset_refl] show ?case by simp
    qed
    with Some a show ?thesis by (simp add: replaceTunnel_def)
  qed
qed

lemma settleTransition_keeps:
  "switchOutcome up gate i r s \<Longrightarrow> wp (settleTransition j) (\<lambda>_. switchOutcome up gate i r) s"
  by (auto simp: settleTransition_def wp_simps switchOutcome_def connected_def split: option.splits)

lemma recordActive_wp:
  assumes L: "lawfulBackends M up" and s: "calm up c {i} s"
  shows "wp (recordActive M i) (switchOutcome up (fst c) i) s"
proof -
  have active: "wp (do { setLifecycle ''active'' i []; return None }) (switchOutcome up (fst c) i) u"
    if "calm up c {i} u" "recorded i at u" for u at
    using that calmE [OF that(1)] by (auto simp: wp_simps switchOutcome_def connected_def)
  have retry: "wp (do {
       reconcileErr \<leftarrow> do { at \<leftarrow> nowUnix M; reconcileConnection M i at };
       if Some e \<noteq> None \<and> reconcileErr \<noteq> None then do {
         setFailure networkTruthUncertain i [] ''The active tunnel could not be recorded durably.'';
         return (errorsJoin [Some (Sentinel ErrManagedStateConflict), Some e, reconcileErr]) }
       else do { setLifecycle ''active'' i []; return None } }) (switchOutcome up (fst c) i) u"
    if "calm up c {i} u" for e u
    unfolding wp_bind [of "State_Monad.bind _ _"] wp_bind [of "nowUnix _"]
  proof (rule calms_wp [OF calms_nowUnix [OF L] that], rule reconcileConnection_wp, assumption, goal_cases)
    case (1 a t u)
    with active show ?case by simp
  next
    case (2 a t x u)
    from conflict_wp [OF 2(2) subset_refl] show ?case by simp
  qed
  show ?thesis
    unfolding recordActive_def
  proof (rule calms_bind_wp [OF calms_nowUnix [OF L] s], unfold wp_bind [of "setConnection _ _ _ _"],
      rule setConnection_wp, assumption, goal_cases)
    case (1 a t u)
    with active show ?case by (simp add: wp_bind wp_return)
  next
    case (2 a t e u)
    from retry [OF 2(2), of e] show ?case by simp
  qed
qed

lemma connectObserved_wp:
  assumes L: "lawfulBackends M up" and wf: "wellFormed m" and one: "length active \<le> 1"
    and s: "calm up c (observedIds active) s"
  shows "wp (connectObserved M m target active) (switchOutcome up (fst c) (pID target)) s"
proof (cases "length active = 1 \<and> obProfileID (hd active) = pID target")
  case True
  then have "observedIds active = {pID target}" by (cases active) auto
  with s recordActive_wp [OF L, of c "pID target" s] True show ?thesis
    by (simp add: connectObserved_def)
next
  case False
  define l where "l = (if length active = 1 then ''switching'' else ''starting'')"
  have "wp (deferE (settleTransition (pID target)) (replaceTunnel M m target active))
      (switchOutcome up (fst c) (pID target)) t" if "calm up (fst c, d) (observedIds active) t" for t d
    unfolding wp_deferE
    by (rule wp_mono [OF replaceTunnel_wp [OF L wf one that]]) (simp add: settleTransition_keeps)
  from this [OF calm_lifecycle [OF s]] show ?thesis
    unfolding connectObserved_def if_not_P [OF False] l_def [symmetric] by (simp add: wp_simps)
qed

text \<open>Or the transition ends before the network is touched.\<close>

definition refusal ::
    "('n \<Rightarrow> string set) \<Rightarrow> bool \<times> string \<times> string \<times> string \<Rightarrow> string set \<Rightarrow> string \<Rightarrow> err \<Rightarrow>
     ('w, 'n) mstate \<Rightarrow> bool" where
  "refusal up c U i r s \<longleftrightarrow> gGate s = fst c \<and> libraryValid (gStore s) \<and> up (gNet s) \<subseteq> U \<and>
     (\<exists>e. r = Some e \<and>
        (control s = c \<or> gLifecycle s = ''failed'' \<and> gLifecycleProfile s = i \<or>
         gLifecycle s = ''state_conflict'' \<and> errorsIs e ErrManagedStateConflict))"

lemma calm_refusal: "calm up c U s \<Longrightarrow> refusal up c U i (Some e) s"
  by (auto simp: calm_def refusal_def control_def)

lemma connectProfile_wp:
  assumes L: "lawfulBackends M up" and wf: "wellFormed m" and U: "U \<subseteq> pID ` set (mProfiles m)"
    and s: "calm up c U s"
  shows "wp (connectProfile M m target)
     (\<lambda>r s'. switchOutcome up (fst c) (pID target) r s' \<or> refusal up c U (pID target) r s') s"
    (is "wp _ ?Q s")
proof -
  have seen: "wp (do {
       (active, e) \<leftarrow> observe M m;
       if e \<noteq> None then do {
         setFailure networkTruthUncertain (pID target) []
           ''Tunnel state could not be proved before connecting.'';
         return (errorsJoin [Some (Sentinel ErrManagedStateConflict), e]) }
       else connectObserved M m target active }) ?Q t" if t: "calm up c U t" for t
    unfolding wp_bind [of "observe _ _"]
  proof (rule observe_wp [OF L t wf U], goal_cases)
    case (1 obs u)
    have "wp (connectObserved M m target obs) (switchOutcome up (fst c) (pID target)) u"
      by (rule connectObserved_wp [OF L wf 1(1) calm_mono [OF 1(2)]]) simp
    then show ?case by (auto elim: wp_mono)
  next
    case (2 obs e u)
    from calmE [OF 2] show ?case by (simp add: wp_simps refusal_def)
  qed
  have available: "wp (do {
       unavailable \<leftarrow> onMachine (bkAvailable b);
       if unavailable \<noteq> None then return (Some (Sentinel ErrUnavailable))
       else do {
         (active, e) \<leftarrow> observe M m;
         if e \<noteq> None then do {
           setFailure networkTruthUncertain (pID target) []
             ''Tunnel state could not be proved before connecting.'';
           return (errorsJoin [Some (Sentinel ErrManagedStateConflict), e]) }
         else connectObserved M m target active } }) ?Q t"
    if "backendOf M (pProtocol target) = Some b" and t: "calm up c U t" for b t
    by (rule calms_bind_wp [OF calms_backend(1) [OF L that(1)] t])
      (use seen in \<open>auto simp: wp_return intro: calm_refusal\<close>)
  show ?thesis
    unfolding connectProfile_def
  proof (rule calms_bind_wp [OF calms_store(6) s], goal_cases)
    case (1 r t)
    show ?case
    proof (cases r)
      case (Inl e)
      with calmE [OF 1] show ?thesis by (simp add: wp_simps refusal_def)
    next
      case (Inr q)
      show ?thesis
      proof (cases "backendOf M (pProtocol target)")
        case None
        with Inr calm_refusal [OF 1] show ?thesis by (simp add: wp_return)
      next
        case (Some b)
        from available [OF Some 1] show ?thesis unfolding Inr Some by simp
      qed
    qed
  qed
qed

section \<open>The gate\<close>

lemma wp_guarded:
  "wp (guarded busy body) Q s =
     (if gGate s then wp body (\<lambda>r s'. Q r (s'\<lparr>gGate := True\<rparr>)) (s\<lparr>gGate := False\<rparr>) else Q busy s)"
  by (simp add: guarded_def tryAcquire_def release_def wp_simps)

lemma calm_gate: "calm up c U s \<Longrightarrow> calm up (g, snd c) U (s\<lparr>gGate := g\<rparr>)"
  by (auto simp: calm_def control_def)

definition covered :: "('n \<Rightarrow> string set) \<Rightarrow> ('w, 'n) mstate \<Rightarrow> bool" where
  "covered up s \<longleftrightarrow> up (gNet s) \<subseteq> pID ` set (mProfiles (sManifest (gStore s)))"

lemma calm_start:
  "libraryValid (gStore s) \<Longrightarrow> calm up (control s) (up (gNet s)) s"
  by (simp add: calm_def)

lemma switchOutcome_gate: "switchOutcome up g i r s \<Longrightarrow> switchOutcome up g' i r (s\<lparr>gGate := g'\<rparr>)"
  by (auto simp: switchOutcome_def connected_def recorded_def split: option.splits)

lemma refusal_gate: "refusal up c U i r s \<Longrightarrow> refusal up (g, snd c) U i r (s\<lparr>gGate := g\<rparr>)"
  by (auto simp: refusal_def control_def)

lemma Connect_outcome:
  assumes L: "lawfulBackends M up" and lib: "libraryValid (gStore s)" and cov: "covered up s"
    and gate: "gGate s"
  shows "wp (Connect M i) (\<lambda>r s'. switchOutcome up True i r s' \<or> refusal up (control s) (up (gNet s)) i r s') s"
proof -
  let ?c = "(False, snd (control s))" and ?U = "up (gNet s)" and ?m = "sManifest (gStore s)"
  let ?t = "s\<lparr>gGate := False\<rparr>"
  have t: "calm up ?c ?U ?t" by (rule calm_gate [OF calm_start [OF lib]])
  have c: "(True, snd (control s)) = control s" using gate by (simp add: control_def)
  let ?Q = "\<lambda>r s'. switchOutcome up True i r (s'\<lparr>gGate := True\<rparr>) \<or>
      refusal up (control s) ?U i r (s'\<lparr>gGate := True\<rparr>)"
  have refused: "?Q (Some e) ?t" for e
    using refusal_gate [OF calm_refusal [OF t], where g = True] by (simp add: c)
  have "wp (connectProfile M ?m p) ?Q ?t" if "manifestProfile ?m i = Some p" for p
  proof (rule wp_mono [OF connectProfile_wp [OF L _ _ t]])
    show "wellFormed ?m" using lib by (simp add: libraryValid_def)
    show "?U \<subseteq> pID ` set (mProfiles ?m)" using cov by (simp add: covered_def)
    fix r s'
    assume "switchOutcome up (fst ?c) (pID p) r s' \<or> refusal up ?c ?U (pID p) r s'"
    moreover have "pID p = i" using manifestProfile_Some [OF that] by simp
    ultimately show "?Q r s'"
      using switchOutcome_gate [of up _ i r s' True] refusal_gate [of up ?c ?U i r s' True] by (auto simp: c)
  qed
  then have body: "wp (do {
        (lifecycle, _, _) \<leftarrow> lifecycleSnapshot;
        if lifecycle = ''state_conflict'' then return (Some (Sentinel ErrManagedStateConflict))
        else do {
          m \<leftarrow> onStore Snapshot;
          case manifestProfile m i of
            None \<Rightarrow> return (Some (Sentinel ErrNotFound))
          | Some target \<Rightarrow> connectProfile M m target
        }
      }) ?Q ?t"
    using refused by (simp add: wp_simps split: option.split)
  show ?thesis
  proof (cases "mgReadOnly M")
    case True
    then show ?thesis
      using calm_refusal [OF calm_start [OF lib]] by (simp add: Connect_def wp_return)
  next
    case False
    with gate body show ?thesis by (simp add: Connect_def wp_guarded)
  qed
qed

end
