(* ===== verification/TransitionLaws.thy ===== *)
theory TransitionLaws
  imports ConnectLaws
begin

text \<open>
  The other transitions: disconnecting, restoring at startup, the exit of a process nobody asked for,
  and the removal of a profile.
\<close>

section \<open>Disconnecting\<close>

text \<open>
  To prove that nothing is left running, an observation must look at every profile, so every protocol of
  the library needs its backend, and the conflict the manager itself reports must be told apart from the
  errors of a backend.  Both backends of the program keep to that.
\<close>

definition plainErrors :: "('w, 'n) manager \<Rightarrow> bool" where
  "plainErrors M \<longleftrightarrow> (\<forall>(protocol, b)\<in>set (mgBackends M).
     (\<forall>ps x. wp (bkObserve b ps) (\<lambda>r _. \<forall>e. r = Inl e \<longrightarrow>
        \<not> errorsIs e ErrManagedStateConflict \<and> \<not> errorsIs e ErrUnavailable) x) \<and>
     (\<forall>x. wp (bkShutdown b) (\<lambda>e _. \<not> errIs e ErrManagedStateConflict) x))"

definition equipped :: "('w, 'n) manager \<Rightarrow> manifest \<Rightarrow> bool" where
  "equipped M m \<longleftrightarrow> (\<forall>p\<in>set (mProfiles m). backendOf M (pProtocol p) \<noteq> None)"

lemma plain_backend:
  assumes "plainErrors M" and "backendOf M protocol = Some b"
  shows "wp (bkObserve b ps) (\<lambda>r _. \<forall>e. r = Inl e \<longrightarrow>
        \<not> errorsIs e ErrManagedStateConflict \<and> \<not> errorsIs e ErrUnavailable) x"
    and "wp (bkShutdown b) (\<lambda>e _. \<not> errIs e ErrManagedStateConflict) x"
  using assms unfolding plainErrors_def backendOf_def by (blast dest: map_of_SomeD)+

lemma observeProtocol_plain:
  assumes P: "plainErrors M" and E: "equipped M m"
  shows "wp (observeProtocol M m protocol) (\<lambda>r _. \<forall>e. r = Inl e \<longrightarrow>
     \<not> errorsIs e ErrManagedStateConflict \<and> \<not> errorsIs e ErrUnavailable) s"
proof (cases "filter (\<lambda>p. pProtocol p = protocol) (mProfiles m) = []")
  case True
  then show ?thesis unfolding observeProtocol_def Let_def by (simp add: wp_return)
next
  case False
  then obtain p where "p \<in> set (mProfiles m)" "pProtocol p = protocol"
    by (metis (mono_tags, lifting) filter_False)
  with E obtain b where b: "backendOf M protocol = Some b" by (auto simp: equipped_def)
  have "wp (onMachine (bkObserve b ps)) (\<lambda>r _. \<forall>e. r = Inl e \<longrightarrow>
     \<not> errorsIs e ErrManagedStateConflict \<and> \<not> errorsIs e ErrUnavailable) s" for ps
    unfolding wp_onMachine by (rule plain_backend [OF P b])
  with False b show ?thesis unfolding observeProtocol_def Let_def by simp
qed

text \<open>Then the only conflict an observation reports is that of two tunnels, and it has seen them all.\<close>

lemma observeLoop_plain:
  assumes L: "lawfulBackends M up" and P: "plainErrors M" and E: "equipped M m" and "calm up c U s"
  shows "wp (observeLoop M m active False protocols) (\<lambda>(obs, e) s'. calm up c U s' \<and>
     (e = None \<or> errIs e ErrManagedStateConflict \<longrightarrow> set active \<subseteq> set obs \<and>
        calm up c (U - (\<Union> (idsOf m ` set protocols) - observedIds obs)) s')) s"
  using assms(4)
proof (induction protocols arbitrary: active U s)
  case Nil
  then show ?case by (simp add: wp_return)
next
  case (Cons protocol rest)
  have one: "U - (idsOf m protocol - observedIds obs) - (A - observedIds obs')
      \<subseteq> U - (idsOf m protocol \<union> A - observedIds obs')" if "set obs \<subseteq> set obs'" for obs obs' A
    using that by auto
  show ?case
    unfolding observeLoop.simps wp_bind
  proof (rule wp_mono [OF wp_conj [OF observeProtocol_wp [OF L Cons.prems] observeProtocol_plain [OF P E]]],
      goal_cases)
    case (1 r t)
    show ?case
    proof (cases r)
      case (Inl e)
      with 1 show ?thesis by (simp add: wp_return)
    next
      case (Inr obs)
      with 1 have "calm up c (U - (idsOf m protocol - observedIds obs)) t" by simp
      from Cons.IH [OF this, of "active @ obs"] show ?thesis
        unfolding Inr sum.case
        by (rule wp_mono) (auto intro: calm_mono [OF _ one] calm_mono)
    qed
  qed
qed

lemma observe_plain:
  assumes "lawfulBackends M up" "plainErrors M" "equipped M m" "calm up c U s" and wf: "wellFormed m"
    and U: "U \<subseteq> pID ` set (mProfiles m)"
  shows "wp (observe M m) (\<lambda>(obs, e) s'. calm up c U s' \<and>
     (e = None \<or> errIs e ErrManagedStateConflict \<longrightarrow> calm up c (U \<inter> observedIds obs) s')) s"
proof -
  have "\<Union> (idsOf m ` {ProtocolOpenVPN, ProtocolWireGuard}) = pID ` set (mProfiles m)"
    using wellFormed_profile(1) [OF wf] by (fastforce simp: idsOf_def)
  then have "U - (\<Union> (idsOf m ` set [ProtocolOpenVPN, ProtocolWireGuard]) - observedIds obs)
      \<subseteq> U \<inter> observedIds obs" for obs
    using U by auto
  note shrunk = calm_mono [OF _ this]
  show ?thesis
    unfolding observe_def
    by (rule wp_mono [OF observeLoop_plain [OF assms(1-4)]])
      (auto split: prod.splits intro: shrunk)
qed

lemma shutdownLoop_plain:
  assumes P: "plainErrors M" and "\<not> errIs r ErrManagedStateConflict"
  shows "wp (shutdownLoop M r ps) (\<lambda>e _. \<not> errIs e ErrManagedStateConflict) s"
  using assms(2)
proof (induction ps arbitrary: r s)
  case (Cons p ps)
  show ?case
  proof (cases "backendOf M p")
    case None
    with Cons show ?thesis by simp
  next
    case (Some b)
    show ?thesis
      unfolding shutdownLoop.simps Some option.case wp_bind wp_onMachine
      by (rule wp_mono [OF plain_backend(2) [OF P Some]], rule Cons.IH)
        (use Cons.prems in \<open>simp add: errIs_errorsJoin\<close>)
  qed
qed (simp add: wp_return)

lemma observeToStop_wp:
  assumes L: "lawfulBackends M up" and P: "plainErrors M" and E: "equipped M m" and s: "calm up c U s"
    and wf: "wellFormed m" and U: "U \<subseteq> pID ` set (mProfiles m)"
  shows "wp (observeToStop M m prior) (\<lambda>(obs, e) s'. calm up c U s' \<and>
     (e = None \<or> errIs e ErrManagedStateConflict \<longrightarrow> calm up c (U \<inter> observedIds obs) s')) s"
    (is "wp _ ?Q s")
proof -
  note look = observe_plain [OF L P E _ wf U]
  have again: "wp (do {
       shutdownErr \<leftarrow> shutdownBackends M;
       (active, e) \<leftarrow> observe M m;
       return (active, if e \<noteq> None then errorsJoin [shutdownErr, e] else e) }) ?Q t"
    if t: "calm up c U t" for t
    unfolding wp_bind
  proof (rule wp_mono [OF wp_conj [OF calms_wp [OF calms_shutdownBackends [OF L] t, where Q = "\<lambda>_. calm up c U"]]],
      assumption, unfold shutdownBackends_def, rule shutdownLoop_plain [OF P], simp, elim conjE, goal_cases)
    case (1 x u)
    then have x: "\<not> errIs x ErrManagedStateConflict" and u: "calm up c U u" by simp_all
    show ?case
      by (rule wp_mono [OF look [OF u]])
        (use x in \<open>auto simp: wp_return errIs_errorsJoin errorsJoin_None split: prod.splits\<close>)
  qed
  show ?thesis
    unfolding observeToStop_def wp_bind [of "observe _ _"]
  proof (rule wp_mono [OF look [OF s]], goal_cases)
    case (1 r t)
    obtain obs e where r: "r = (obs, e)" by (cases r)
    with 1 have t: "calm up c U t" by simp
    from again [OF this] 1 r show ?case by (simp add: wp_return)
  qed
qed

lemma stopEach_wp:
  assumes L: "lawfulBackends M up" and "calm up c U s"
  shows "wp (stopEach M m r0 xs) (\<lambda>r s'. calm up c U s' \<and>
     (r = None \<longrightarrow> r0 = None \<and> calm up c (U - observedIds xs) s')) s"
  using assms(2)
proof (induction xs arbitrary: r0 U s)
  case Nil
  then show ?case by (simp add: wp_return)
next
  case (Cons x xs)
  show ?case
  proof (cases "manifestProfile m (obProfileID x)")
    case None
    then show ?thesis
      unfolding stopEach.simps None option.case
      by (intro wp_mono [OF Cons.IH [OF Cons.prems]]) (auto simp: errorsJoin_None)
  next
    case (Some p)
    then have p: "pID p = obProfileID x" by (auto dest: manifestProfile_Some)
    show ?thesis
      unfolding stopEach.simps Some option.case wp_bind
    proof (rule tunnelStop_wp [OF L Cons.prems], goal_cases)
      case (1 t)
      show ?case
        by (rule wp_mono [OF Cons.IH [OF 1]])
          (auto simp: errorsJoin_None p Diff_insert2 [symmetric] insert_commute
            intro: calm_mono elim!: calm_mono)
    next
      case (2 e t)
      show ?case
        by (rule wp_mono [OF Cons.IH [OF 2]]) (auto simp: errorsJoin_None)
    qed
  qed
qed

text \<open>When every cleanup succeeded there is no execution copy left.\<close>

lemma executions_onStore:
  "wp (onStore m) (\<lambda>_ s'. gExecutions s' = gExecutions s) s"
  by (simp add: onStore_def wp_zoom)

lemma cleanupLoop_None:
  "wp (cleanupLoop M i r0 xs) (\<lambda>r s'. r = None \<longrightarrow> r0 = None \<and> gExecutions s' = gExecutions s) s"
proof (induction xs arbitrary: r0 s)
  case (Cons x xs)
  show ?case
    unfolding cleanupLoop.simps wp_bind
  proof (rule wp_mono [OF executions_onStore], goal_cases)
    case (1 e t)
    show ?case
    proof (cases e)
      case None
      with 1 Cons.IH [of r0 t] show ?thesis by simp
    next
      case (Some y)
      have "wp (cleanupLoop M i (errorsJoin [r0, Some y]) xs)
          (\<lambda>r s'. r = None \<longrightarrow> r0 = None \<and> gExecutions s' = gExecutions s) u" for u
        by (rule wp_mono [OF Cons.IH]) (auto simp: errorsJoin_None)
      then show ?thesis
        unfolding Some option.case wp_bind by (rule wp_any)
    qed
  qed
qed (simp add: wp_return)

lemma cleanupExecutions_None:
  "wp (cleanupExecutions M i []) (\<lambda>r s'. r = None \<longrightarrow>
     gExecutions s' = filter (\<lambda>(j, _). j \<noteq> i) (gExecutions s)) s"
  unfolding cleanupExecutions_def takeExecutions_def
  by (simp add: wp_simps Let_def, rule wp_mono [OF cleanupLoop_None]) (simp add: setExecutions_def)

lemma cleanupEach_None:
  "wp (cleanupEach M r0 ids) (\<lambda>r s'. r = None \<longrightarrow> r0 = None \<and>
     gExecutions s' = filter (\<lambda>(j, _). j \<notin> set ids) (gExecutions s)) s"
proof (induction ids arbitrary: r0 s)
  case Nil
  then show ?case by (simp add: wp_return)
next
  case (Cons i ids)
  show ?case
    unfolding cleanupEach.simps wp_bind
    by (rule wp_mono [OF cleanupExecutions_None], rule wp_mono [OF Cons.IH])
      (auto simp: errorsJoin_None intro: filter_cong)
qed

lemma cleanupAllExecutions_None:
  assumes "\<And>ids. set (mgOrder M ids) = set ids"
  shows "wp (cleanupAllExecutions M) (\<lambda>r s'. r = None \<longrightarrow> gExecutions s' = []) s"
  unfolding cleanupAllExecutions_def wp_bind wp_gets
  by (rule wp_mono [OF cleanupEach_None]) (auto simp: assms filter_empty_conv intro: rev_image_eqI)

lemma keeps_executions [keeps_intros]:
  "keeps (\<lambda>s. gExecutions s = v) (setConnection M desired at addRecent)"
  "keeps (\<lambda>s. gExecutions s = v) (repairDurability M)"
  "keeps (\<lambda>s. gExecutions s = v) (setLifecycle l p msg)"
  "keeps (\<lambda>s. gExecutions s = v) (setFailure truth p a b)"
  unfolding setConnection_def repairDurability_def setFailure_def setLifecycle_def onStore_def Let_def
  by (intro keeps_intros keeps_zoom keeps_modify; simp)+

lemma keeps_clearConnection: "keeps (\<lambda>s. gExecutions s = v) (clearConnection M)"
  unfolding clearConnection_def by (intro keeps_intros)

text \<open>How a disconnection ends: everything is down, recorded and cleaned, or there is a conflict.\<close>

definition stopOutcome ::
    "('n \<Rightarrow> string set) \<Rightarrow> bool \<Rightarrow> string set \<Rightarrow> err \<Rightarrow> ('w, 'n) mstate \<Rightarrow> bool" where
  "stopOutcome up gate U r s \<longleftrightarrow> gGate s = gate \<and> libraryValid (gStore s) \<and> up (gNet s) \<subseteq> U \<and>
     (case r of
        None \<Rightarrow> gLifecycle s = ''disconnected'' \<and> gLifecycleProfile s = [] \<and> gLastError s = [] \<and>
          recorded [] 0 s
      | Some e \<Rightarrow> gLifecycle s = ''state_conflict'' \<and> errorsIs e ErrManagedStateConflict)"

lemma stopConflict_wp:
  assumes "calm up c U s" and "errorsIs e ErrManagedStateConflict"
  shows "wp (do { setFailure networkTruthUncertain p a b; return (Some e) }) (stopOutcome up (fst c) U) s"
  using calmE [OF assms(1)] assms(2) by (simp add: wp_simps stopOutcome_def)

lemma stopConflict_wp':
  assumes "calm up c U s" and "errorsIs e ErrManagedStateConflict"
  shows "wp (do { setFailure networkTruthUncertain p a b; return (Some e) })
    (\<lambda>r s'. stopOutcome up (fst c) U r s' \<and> (r = None \<longrightarrow> P s')) s"
  using calmE [OF assms(1)] assms(2) by (simp add: wp_simps stopOutcome_def)

lemma clearConnection_wp:
  assumes s: "calm up c U s"
  shows "wp (clearConnection M) (stopOutcome up (fst c) U) s"
proof -
  have finished: "wp (do { setLifecycle ''disconnected'' [] []; return None }) (stopOutcome up (fst c) U) t"
    if "calm up c U t" "recorded [] 0 t" for t
    using that calmE [OF that(1)] by (simp add: wp_simps stopOutcome_def)
  show ?thesis
    unfolding clearConnection_def wp_bind [of "setConnection _ _ _ _"]
  proof (rule setConnection_wp [OF s], goal_cases)
    case (1 t)
    with finished show ?case by simp
  next
    case (2 e t)
    have retry: "wp (do {
         retryErr \<leftarrow> setConnection M [] 0 False;
         if retryErr \<noteq> None then do {
           setFailure networkTruthUncertain [] []
             ''The tunnel stopped, but desired state could not be cleared safely.'';
           return (errorsJoin [Some (Sentinel ErrManagedStateConflict), Some e, retryErr]) }
         else do { setLifecycle ''disconnected'' [] []; return None } }) (stopOutcome up (fst c) U) u"
      if u: "calm up c U u" for u
      unfolding wp_bind [of "setConnection _ _ _ _"]
      by (rule setConnection_wp [OF u]) (simp_all add: finished stopConflict_wp)
    have "wp (do {
         repairErr \<leftarrow> repairDurability M;
         if repairErr \<noteq> None then do {
           setFailure networkTruthUncertain [] []
             ''The tunnel stopped, but desired-state durability is unknown.'';
           return (errorsJoin [Some (Sentinel ErrManagedStateConflict), Some e, repairErr]) }
         else do {
           retryErr \<leftarrow> setConnection M [] 0 False;
           if retryErr \<noteq> None then do {
             setFailure networkTruthUncertain [] []
               ''The tunnel stopped, but desired state could not be cleared safely.'';
             return (errorsJoin [Some (Sentinel ErrManagedStateConflict), Some e, retryErr]) }
           else do { setLifecycle ''disconnected'' [] []; return None } } }) (stopOutcome up (fst c) U) t"
    proof (rule calms_bind_wp [OF calms_repairDurability 2], goal_cases)
      case (1 r u)
      with retry [OF 1] stopConflict_wp [OF 1] show ?case by (cases r) simp_all
    qed
    then show ?case by simp
  qed
qed

lemma stopAll_wp:
  assumes L: "lawfulBackends M up" and order: "\<And>ids. set (mgOrder M ids) = set ids" and s: "calm up c U s"
  shows "wp (stopAll M m active) (\<lambda>r s'. stopOutcome up (fst c) U r s' \<and>
     (r = None \<longrightarrow> up (gNet s') \<subseteq> U - observedIds active \<and> gExecutions s' = [])) s" (is "wp _ ?Q s")
  unfolding stopAll_def wp_bind [of "stopEach _ _ _ _"]
proof (rule wp_mono [OF stopEach_wp [OF L s]], goal_cases)
  case (1 r t)
  show ?case
  proof (cases r)
    case (Some e)
    with 1 have "calm up c U t" by simp
    from stopConflict_wp' [OF this] Some show ?thesis by simp
  next
    case None
    let ?V = "U - observedIds active"
    from 1 None have t: "calm up c ?V t" by simp
    have "wp (cleanupAllExecutions M)
        (\<lambda>r s'. calm up c ?V s' \<and> (r = None \<longrightarrow> gExecutions s' = [])) t"
      by (rule wp_conj [OF calms_wp [OF calms_cleanupAllExecutions t] cleanupAllExecutions_None [OF order]])
    then have "wp (do {
         cleanupErr \<leftarrow> cleanupAllExecutions M;
         if cleanupErr \<noteq> None then do {
           setFailure networkTruthUncertain [] []
             ''One or more private execution copies could not be cleaned safely.'';
           return (errorsJoin [Some (Sentinel ErrManagedStateConflict), cleanupErr]) }
         else clearConnection M }) ?Q t"
      unfolding wp_bind [of "cleanupAllExecutions _"]
    proof (rule wp_mono, goal_cases)
      case (1 e u)
      show ?case
      proof (cases e)
        case None
        have "wp (clearConnection M) (\<lambda>r s'. stopOutcome up (fst c) ?V r s' \<and> gExecutions s' = []) u"
          using 1 None by (intro wp_conj [OF clearConnection_wp keepsD [OF keeps_clearConnection]]) simp_all
        with None show ?thesis by (auto elim!: wp_mono simp: stopOutcome_def split: option.splits)
      next
        case (Some x)
        from 1 have "calm up c U u" by (auto intro: calm_mono)
        from stopConflict_wp' [OF this] Some show ?thesis by simp
      qed
    qed
    with None show ?thesis by simp
  qed
qed

lemma stopOutcome_gate: "stopOutcome up g U r s \<Longrightarrow> stopOutcome up g' U r (s\<lparr>gGate := g'\<rparr>)"
  by (auto simp: stopOutcome_def recorded_def split: option.splits)

lemma Disconnect_outcome:
  assumes L: "lawfulBackends M up" and P: "plainErrors M" and order: "\<And>ids. set (mgOrder M ids) = set ids"
    and E: "equipped M (sManifest (gStore s))" and lib: "libraryValid (gStore s)" and cov: "covered up s"
    and gate: "gGate s" and rw: "\<not> mgReadOnly M"
  shows "wp (Disconnect M) (\<lambda>r s'. stopOutcome up True (up (gNet s)) r s' \<and>
     (r = None \<longrightarrow> up (gNet s') = {} \<and> gExecutions s' = [])) s"
proof -
  let ?U = "up (gNet s)" and ?m = "sManifest (gStore s)"
  let ?Q = "\<lambda>r s'. stopOutcome up False ?U r s' \<and> (r = None \<longrightarrow> up (gNet s') = {} \<and> gExecutions s' = [])"
  have wf: "wellFormed ?m" and U: "?U \<subseteq> pID ` set (mProfiles ?m)"
    using lib cov by (simp_all add: libraryValid_def covered_def)
  have body: "wp (do {
        (active, e) \<leftarrow> observeToStop M ?m prior;
        stopObserved M ?m active e }) ?Q t" if t: "calm up (False, d) ?U t" for prior t d
    unfolding wp_bind [of "observeToStop _ _ _"]
  proof (rule wp_mono [OF observeToStop_wp [OF L P E t wf U]], goal_cases)
    case (1 r u)
    obtain obs e where r: "r = (obs, e)" by (cases r)
    show ?case
    proof (cases "e \<noteq> None \<and> \<not> errIs e ErrManagedStateConflict")
      case True
      then obtain x where x: "e = Some x" by auto
      from 1 r have "calm up (False, d) ?U u" by simp
      from stopConflict_wp' [OF this] True x r show ?thesis by (simp add: stopObserved_def)
    next
      case False
      with 1 r have u: "calm up (False, d) (?U \<inter> observedIds obs) u" by auto
      have "wp (stopAll M ?m obs) ?Q u"
        by (rule wp_mono [OF stopAll_wp [OF L order u]]) (auto simp: stopOutcome_def)
      then show ?thesis unfolding r prod.case stopObserved_def if_not_P [OF False] .
    qed
  qed
  let ?t = "s\<lparr>gGate := False, gLifecycle := ''disconnecting'', gLifecycleProfile := [], gLastError := []\<rparr>"
  have "calm up (False, snd (control ?t)) ?U ?t"
    using calm_lifecycle [OF calm_gate [OF calm_start [OF lib, of up], of False]] by (simp add: control_def)
  from body [OF this] have "wp (do {
        (priorLifecycle, _, _) \<leftarrow> lifecycleSnapshot;
        setLifecycle ''disconnecting'' [] [];
        m \<leftarrow> onStore Snapshot;
        (active, e) \<leftarrow> observeToStop M m priorLifecycle;
        stopObserved M m active e
      }) ?Q (s\<lparr>gGate := False\<rparr>)"
    by (simp add: wp_bind [of lifecycleSnapshot] wp_bind [of "setLifecycle _ _ _"] wp_bind [of "onStore _"]
        wp_lifecycleSnapshot wp_setLifecycle wp_Snapshot)
  then have "wp (do {
        (priorLifecycle, _, _) \<leftarrow> lifecycleSnapshot;
        setLifecycle ''disconnecting'' [] [];
        m \<leftarrow> onStore Snapshot;
        (active, e) \<leftarrow> observeToStop M m priorLifecycle;
        stopObserved M m active e
      }) (\<lambda>r s'. stopOutcome up True ?U r (s'\<lparr>gGate := True\<rparr>) \<and>
        (r = None \<longrightarrow> up (gNet (s'\<lparr>gGate := True\<rparr>)) = {} \<and> gExecutions (s'\<lparr>gGate := True\<rparr>) = []))
      (s\<lparr>gGate := False\<rparr>)"
    by (rule wp_mono) (auto intro: stopOutcome_gate)
  with gate rw show ?thesis by (simp add: Disconnect_def wp_guarded)
qed

section \<open>Startup\<close>

text \<open>The lifecycle tells the truth about the network: the active profile is the only one that can be
  up, and nothing is up when the lifecycle says failed or disconnected.\<close>

definition settled :: "('n \<Rightarrow> string set) \<Rightarrow> ('w, 'n) mstate \<Rightarrow> bool" where
  "settled up s \<longleftrightarrow>
     gLifecycle s = ''active'' \<and> up (gNet s) \<subseteq> {gLifecycleProfile s} \<or>
     gLifecycle s = ''state_conflict'' \<or>
     gLifecycle s \<in> {''failed'', ''disconnected''} \<and> up (gNet s) = {}"

definition startupOutcome :: "('n \<Rightarrow> string set) \<Rightarrow> bool \<Rightarrow> ('w, 'n) mstate \<Rightarrow> bool" where
  "startupOutcome up gate s \<longleftrightarrow> gGate s = gate \<and> libraryValid (gStore s) \<and> settled up s \<and>
     (\<exists>j. up (gNet s) \<subseteq> {j})"

lemma startup_active_wp:
  "calm up c {j} s \<Longrightarrow> wp (setLifecycle ''active'' j msg) (\<lambda>_. startupOutcome up (fst c)) s"
  using calmE [of up c "{j}" s] by (auto simp: wp_simps startupOutcome_def settled_def)

lemma startup_conflict_wp:
  "calm up c U s \<Longrightarrow> U \<subseteq> {j} \<Longrightarrow>
     wp (setFailure networkTruthUncertain p a b) (\<lambda>_. startupOutcome up (fst c)) s"
  using calmE [of up c U s] by (auto simp: wp_simps startupOutcome_def settled_def)

lemma startup_empty_wp:
  assumes "calm up c {} s"
  shows "wp (setFailure truth p a b) (\<lambda>_. startupOutcome up (fst c)) s"
    and "wp (setLifecycle ''disconnected'' [] []) (\<lambda>_. startupOutcome up (fst c)) s"
  using calmE [OF assms] by (cases truth; auto simp: wp_simps startupOutcome_def settled_def)+

lemma undoRestore_wp:
  assumes L: "lawfulBackends M up" and s: "calm up c {pID target} s"
  shows "wp (undoRestore M target) (\<lambda>_. startupOutcome up (fst c)) s"
  unfolding undoRestore_def wp_bind [of "tunnelStop _ _"]
proof (rule tunnelStop_wp [OF L s], goal_cases)
  case (1 t)
  then have t: "calm up c {} t" by simp
  show ?case
    by (rule calms_bind_wp [OF calms_repairDurability t], rule calms_bind_wp [rotated], assumption,
        erule startup_empty_wp, intro calms_intros)
next
  case (2 e t)
  show ?case
    by (rule calms_bind_wp [OF calms_repairDurability 2], rule calms_bind_wp [rotated], assumption,
        simp add: recoveryTruth_def, erule startup_conflict_wp [OF _ subset_refl], intro calms_intros)
qed

lemma restoreTarget_wp:
  assumes L: "lawfulBackends M up" and s: "calm up c {} s"
  shows "wp (restoreTarget M target) (\<lambda>_. startupOutcome up (fst c)) s"
proof -
  have up: "wp (do {
       at \<leftarrow> nowUnix M;
       r \<leftarrow> setConnection M (pID target) at True;
       if r \<noteq> None then undoRestore M target else setLifecycle ''active'' (pID target) [] })
      (\<lambda>_. startupOutcome up (fst c)) u" if "calm up (fst c, d) {pID target} u" for d u
  proof (rule calms_bind_wp [OF calms_nowUnix [OF L] that], unfold wp_bind, rule setConnection_wp, assumption,
      goal_cases)
    case (1 a t v)
    from startup_active_wp [OF 1(2)] show ?case by simp
  next
    case (2 a t e v)
    from undoRestore_wp [OF L 2(2)] show ?case by simp
  qed
  have "wp (do {
       e \<leftarrow> tunnelStart M target;
       case e of
         Some x \<Rightarrow> setFailure (if errorsIs x ErrCleanupUnproved then networkTruthUncertain else networkTruthKnown)
           (pID target) ''The desired profile could not be restored.''
           ''The failed startup restoration could not be proved absent.''
       | None \<Rightarrow> do {
           at \<leftarrow> nowUnix M;
           r \<leftarrow> setConnection M (pID target) at True;
           if r \<noteq> None then undoRestore M target else setLifecycle ''active'' (pID target) []
         } }) (\<lambda>_. startupOutcome up (fst c)) t" if t: "calm up (fst c, d) {} t" for d t
    unfolding wp_bind [of "tunnelStart _ _"]
  proof (rule tunnelStart_wp [OF L t], goal_cases)
    case (1 u)
    from up [OF 1] show ?case by simp
  next
    case (2 x u)
    with startup_conflict_wp [OF 2(2) subset_refl] show ?case by simp
  next
    case (3 x u)
    with startup_empty_wp(1) [OF 3(2)] show ?case by simp
  qed
  from this [OF calm_lifecycle [OF s]] show ?thesis
    unfolding restoreTarget_def wp_bind [of "setLifecycle _ _ _"] wp_setLifecycle .
qed

lemma restoreDesired_wp:
  assumes L: "lawfulBackends M up" and s: "calm up c {} s"
  shows "wp (restoreDesired M m) (\<lambda>_. startupOutcome up (fst c)) s"
proof -
  have "wp (do {
        resolved \<leftarrow> onStore (Resolve (mgStore M) i);
        case resolved of
          Inl _ \<Rightarrow> setFailure networkTruthKnown (mDesiredProfile m)
            ''The desired profile could not be restored.'' []
        | Inr _ \<Rightarrow> restoreTarget M target }) (\<lambda>_. startupOutcome up (fst c)) s" for i target
    by (rule calms_bind_wp [OF calms_store(6) s])
      (auto split: sum.split intro: startup_empty_wp restoreTarget_wp [OF L])
  then show ?thesis
    unfolding restoreDesired_def using startup_empty_wp [OF s] by (simp split: option.split)
qed

lemma startupDisconnected_wp:
  assumes L: "lawfulBackends M up" and s: "calm up c {} s"
  shows "wp (startupDisconnected M m) (\<lambda>_. startupOutcome up (fst c)) s"
proof -
  have "wp (do {
        e \<leftarrow> reconcileConnection M (mDesiredProfile m) 0;
        if e \<noteq> None
        then setFailure networkTruthUncertain (mDesiredProfile m) []
          ''Disconnected startup state could not be recorded durably.''
        else do { m \<leftarrow> onStore Snapshot; restoreDesired M m } }) (\<lambda>_. startupOutcome up (fst c)) s"
    by (rule calms_bind_wp [OF calms_reconcileConnection s])
      (auto simp: wp_bind wp_Snapshot intro: startup_empty_wp restoreDesired_wp [OF L])
  then show ?thesis
    unfolding startupDisconnected_def using restoreDesired_wp [OF L s] by simp
qed

text \<open>Nothing is up that the manager did not see: then startup leaves at most one tunnel, and the
  lifecycle says which.  Otherwise the lifecycle is a conflict and nothing was started.\<close>

lemma ReconcileStartup_outcome:
  assumes L: "lawfulBackends M up" and lib: "libraryValid (gStore s)" and cov: "covered up s"
  shows "wp (ReconcileStartup M) (\<lambda>_ s'. startupOutcome up True s' \<or>
     gGate s' \<and> libraryValid (gStore s') \<and> gLifecycle s' = ''state_conflict'' \<and>
     up (gNet s') \<subseteq> up (gNet s)) s" (is "wp _ ?Q s")
proof -
  let ?U = "up (gNet s)" and ?m = "sManifest (gStore s)"
  let ?P = "\<lambda>_ s'. startupOutcome up False s' \<or>
     \<not> gGate s' \<and> libraryValid (gStore s') \<and> gLifecycle s' = ''state_conflict'' \<and> up (gNet s') \<subseteq> ?U"
  have wf: "wellFormed ?m" and U: "?U \<subseteq> pID ` set (mProfiles ?m)"
    using lib cov by (simp_all add: libraryValid_def covered_def)
  have body: "wp (do {
       (active, e) \<leftarrow> observe M ?m;
       startupObserved M ?m active e }) ?P t" if t: "calm up (False, d) ?U t" for d t
    unfolding wp_bind [of "observe _ _"]
  proof (rule observe_wp [OF L t wf U], goal_cases)
    case (1 obs u)
    show ?case
    proof (cases obs)
      case Nil
      with 1 have u: "calm up (False, d) {} u" by simp
      have "wp (startupDisconnected M ?m) ?P u"
        by (rule wp_mono [OF startupDisconnected_wp [OF L u]]) simp
      with Nil show ?thesis by (simp add: startupObserved_def)
    next
      case (Cons x rest)
      with 1 have u: "calm up (False, d) {obProfileID x} u" by (auto intro: calm_mono)
      from calmE [OF u] Cons 1 show ?thesis
        by (auto simp: startupObserved_def wp_simps startupOutcome_def settled_def)
    qed
  next
    case (2 obs e u)
    from calmE [OF 2] show ?case by (simp add: startupObserved_def wp_simps)
  qed
  let ?t = "s\<lparr>gGate := False, gLifecycle := ''restoring'', gLifecycleProfile := [], gLastError := []\<rparr>"
  have "calm up (False, snd (control ?t)) ?U ?t"
    using calm_lifecycle [OF calm_gate [OF calm_start [OF lib, of up], of False]] by (simp add: control_def)
  from body [OF this] have "wp (do {
       (active, e) \<leftarrow> observe M ?m;
       startupObserved M ?m active e }) (\<lambda>r s'. ?Q r (s'\<lparr>gGate := True\<rparr>)) ?t"
    by (rule wp_mono) (auto simp: startupOutcome_def settled_def)
  then show ?thesis
    by (simp add: ReconcileStartup_def acquire_def release_def wp_deferE wp_modify wp_bind [of "modify _"]
        wp_bind [of "setLifecycle _ _ _"] wp_bind [of "onStore _"] wp_setLifecycle wp_Snapshot
       )
qed

section \<open>An exit nobody asked for\<close>

text \<open>Nothing is started; the lifecycle stays, becomes a conflict, or says that the profile failed, and
  then nothing is up.\<close>

definition exitOutcome ::
    "('n \<Rightarrow> string set) \<Rightarrow> bool \<times> string \<times> string \<times> string \<Rightarrow> string set \<Rightarrow> string \<Rightarrow>
     ('w, 'n) mstate \<Rightarrow> bool" where
  "exitOutcome up c U i s \<longleftrightarrow> gGate s = fst c \<and> libraryValid (gStore s) \<and> up (gNet s) \<subseteq> U \<and>
     (control s = c \<or> gLifecycle s = ''state_conflict'' \<and> gLifecycleProfile s = i \<or>
      gLifecycle s = ''failed'' \<and> gLifecycleProfile s = i \<and> up (gNet s) = {})"

lemma exit_conflict_wp:
  "calm up c V s \<Longrightarrow> V \<subseteq> U \<Longrightarrow>
     wp (setFailure networkTruthUncertain i a b) (\<lambda>_. exitOutcome up c U i) s"
  using calmE [of up c V s] by (auto simp: wp_simps exitOutcome_def)

lemma exit_failed_wp:
  "calm up c {} s \<Longrightarrow> wp (setFailure networkTruthKnown i a b) (\<lambda>_. exitOutcome up c U i) s"
  using calmE [of up c "{}" s] by (auto simp: wp_simps exitOutcome_def)

lemma exit_same_wp: "calm up c V s \<Longrightarrow> V \<subseteq> U \<Longrightarrow> wp (return ()) (\<lambda>_. exitOutcome up c U i) s"
  by (auto simp: wp_return exitOutcome_def calm_def control_def)

lemma exitObserved_wp:
  assumes s: "calm up c (U \<inter> observedIds active) s"
  shows "wp (exitObserved M m i active) (\<lambda>_. exitOutcome up c U i) s"
proof (cases "active = []")
  case False
  then show ?thesis
    using exit_conflict_wp [OF s, of U] exit_same_wp [OF s, of U] by (simp add: exitObserved_def)
next
  case True
  with s have t: "calm up c {} s" by simp
  have "wp (do {
        e \<leftarrow> cleanupExecutions M i [];
        if e \<noteq> None then setFailure networkTruthUncertain i []
          ''Private OpenVPN execution copies could not be cleaned safely.''
        else do {
          recorded \<leftarrow> (if mConnectedAt m \<noteq> 0 then reconcileConnection M i 0 else return None);
          if recorded \<noteq> None then setFailure networkTruthUncertain i []
            ''The OpenVPN exit could not be recorded durably.''
          else setFailure networkTruthKnown i ''The OpenVPN process exited unexpectedly.'' [] } })
      (\<lambda>_. exitOutcome up c U i) s"
  proof (rule calms_bind_wp [OF calms_cleanupExecutions t], goal_cases)
    case (1 e u)
    have "wp (do {
          recorded \<leftarrow> (if mConnectedAt m \<noteq> 0 then reconcileConnection M i 0 else return None);
          if recorded \<noteq> None then setFailure networkTruthUncertain i []
            ''The OpenVPN exit could not be recorded durably.''
          else setFailure networkTruthKnown i ''The OpenVPN process exited unexpectedly.'' [] })
        (\<lambda>_. exitOutcome up c U i) u"
      by (rule calms_bind_wp [rotated, OF 1])
        (auto intro!: calms_intros intro: exit_conflict_wp exit_failed_wp)
    with exit_conflict_wp [OF 1] show ?case by simp
  qed
  with True show ?thesis by (simp add: exitObserved_def)
qed

text \<open>Cleaning up and looking leave the manifest alone.\<close>

definition library :: "('w, 'n) mstate \<Rightarrow> manifest \<times> bool" where
  "library s = (sManifest (gStore s), sDurabilityUnknown (gStore s))"

lemma library_simps [simp]:
  "library (s\<lparr>gExecutions := x\<rparr>) = library s" "library (s\<lparr>gGate := g\<rparr>) = library s"
  "library (s\<lparr>gStore := (gStore s)\<lparr>sWorld := w\<rparr>, gNet := n\<rparr>) = library s"
  by (simp_all add: library_def)

lemma keeps_library_store:
  assumes "\<And>t. wp m (\<lambda>_ t'. sameLibrary t t') t"
  shows "keeps (\<lambda>s. library s = v) (onStore m)"
  unfolding onStore_def
  by (rule keepsI, unfold wp_zoom, rule wp_mono [OF assms]) (auto simp: library_def sameLibrary_def)

lemma keeps_library [keeps_intros]:
  "keeps (\<lambda>s. library s = v) (onMachine m)"
  "keeps (\<lambda>s. library s = v) (onStore (cleanupExecution S h))"
  "keeps (\<lambda>s. library s = v) (onStore (Resolve S i))"
  "keeps (\<lambda>s. library s = v) (addExecution i x)"
proof -
  show "keeps (\<lambda>s. library s = v) (onMachine m)"
    unfolding onMachine_def by (rule keeps_zoom) (auto split: prod.split)
  show "keeps (\<lambda>s. library s = v) (onStore (cleanupExecution S h))"
    by (rule keeps_library_store, rule wp_mono [OF cleanupExecution_outcome]) simp
  show "keeps (\<lambda>s. library s = v) (onStore (Resolve S i))"
    by (rule keeps_library_store, rule quiet_wp, intro keeps_intros, erule memory_sameLibrary)
  show "keeps (\<lambda>s. library s = v) (addExecution i x)"
    unfolding addExecution_def by (rule keeps_modify) simp
qed

lemma keeps_library_path: "keeps (\<lambda>s. library s = v) (cleanupExecutionPath M i path)"
  unfolding cleanupExecutionPath_def by (intro keeps_intros keeps_modify) simp

lemma keeps_library_observe: "keeps (\<lambda>s. library s = v) (observeProtocol M m protocol)"
  unfolding observeProtocol_def Let_def by (intro keeps_intros)

lemma keeps_library_view: "keeps (\<lambda>s. library s = v) (viewOf M m p a)"
  unfolding viewOf_def profileAvailability_def by (intro keeps_intros)

lemma handleUnexpectedExit_outcome:
  assumes L: "lawfulBackends M up" and lib: "libraryValid (gStore s)" and cov: "covered up s"
    and gate: "gGate s"
  shows "wp (handleUnexpectedExit M event)
     (\<lambda>_ s'. exitOutcome up (control s) (up (gNet s)) (ueProfileID event) s') s"
proof -
  let ?U = "up (gNet s)" and ?m = "sManifest (gStore s)" and ?i = "ueProfileID event"
  let ?c = "(False, snd (control s))" and ?t = "s\<lparr>gGate := False\<rparr>"
  let ?E = "\<lambda>_. exitOutcome up ?c ?U ?i"
  have wf: "wellFormed ?m" and U: "?U \<subseteq> pID ` set (mProfiles ?m)"
    using lib cov by (simp_all add: libraryValid_def covered_def)
  have observed: "wp (do {
       (active, e) \<leftarrow> observe M ?m;
       if e \<noteq> None then setFailure networkTruthUncertain ?i []
         ''Tunnel state could not be proved after the OpenVPN process exited.''
       else exitObserved M ?m ?i active }) ?E t" if t: "calm up ?c ?U t" for t
    unfolding wp_bind [of "observe _ _"]
    by (rule observe_wp [OF L t wf U]) (auto intro: exitObserved_wp exit_conflict_wp)
  have undesired: "wp (do {
       e \<leftarrow> cleanupExecutions M ?i [];
       if e \<noteq> None then setFailure networkTruthUncertain ?i []
         ''Private OpenVPN execution copies could not be cleaned safely.''
       else return () }) ?E t" if t: "calm up ?c ?U t" for t
    by (rule calms_bind_wp [OF calms_cleanupExecutions t]) (auto intro: exit_conflict_wp exit_same_wp)
  have "wp (cleanupExecutionPath M ?i (ueExecutionPath event))
      (\<lambda>_ t. calm up ?c ?U t \<and> library t = library ?t) ?t"
    by (intro wp_conj calms_wp [OF calms_cleanupExecutionPath calm_gate [OF calm_start [OF lib]]]
        keepsD [OF keeps_library_path] refl)
  then have "wp (exitLocked M event) ?E ?t"
    unfolding exitLocked_def Let_def wp_bind [of "cleanupExecutionPath _ _ _"]
  proof (rule wp_mono, goal_cases)
    case (1 e t)
    then have t: "calm up ?c ?U t" and m: "sManifest (gStore t) = ?m" by (simp_all add: library_def)
    show ?case
      using exit_conflict_wp [OF t subset_refl] observed [OF t] undesired [OF t]
      by (simp only: wp_if wp_bind [of "onStore _"] wp_Snapshot m split: if_split) simp
  qed
  then have "wp (exitLocked M event)
      (\<lambda>_ s'. exitOutcome up (control s) ?U ?i (s'\<lparr>gGate := True\<rparr>)) ?t"
    by (rule wp_mono) (use gate in \<open>auto simp: exitOutcome_def control_def\<close>)
  then show ?thesis
    by (simp only: handleUnexpectedExit_def acquire_def release_def wp_deferE wp_modify
        wp_bind [of "modify _"])
qed

section \<open>Removing a profile\<close>

text \<open>A removed profile was seen to be down, and what is up is still in the library.\<close>

definition removeOutcome ::
    "('n \<Rightarrow> string set) \<Rightarrow> string \<Rightarrow> ('w, 'n) mstate \<Rightarrow> goerr + removeResult \<Rightarrow> ('w, 'n) mstate \<Rightarrow> bool" where
  "removeOutcome up i s r s' \<longleftrightarrow> control s' = control s \<and> libraryValid (gStore s') \<and>
     up (gNet s') \<subseteq> up (gNet s) \<and>
     (\<forall>res. r = Inr res \<longrightarrow> i \<notin> up (gNet s') \<and> i \<notin> pID ` set (mProfiles (sManifest (gStore s'))) \<and>
        (\<not> sDurabilityUnknown (gStore s) \<longrightarrow>
           mProfiles (sManifest (gStore s')) = filter (\<lambda>p. pID p \<noteq> i) (mProfiles (sManifest (gStore s)))))"

lemma onStore_net:
  "wp (onStore m) (\<lambda>_ s'. gNet s' = gNet s \<and> control s' = control s) s"
  by (simp add: onStore_def wp_zoom control_def)

lemma removal_recorded:
  fixes s :: "('w, 'n) mstate"
  shows "wp (onStore (store_Remove S i)) (\<lambda>r s'. \<forall>res. r = Inr res \<longrightarrow>
     i \<notin> pID ` set (mProfiles (sManifest (gStore s'))) \<and>
     (\<not> sDurabilityUnknown (gStore s) \<longrightarrow>
        mProfiles (sManifest (gStore s')) = filter (\<lambda>p. pID p \<noteq> i) (mProfiles (sManifest (gStore s))))) s"
  unfolding onStore_def wp_zoom
proof (rule wp_mono [OF store_Remove_outcome], intro allI impI, goal_cases)
  case (1 r t res)
  then have "editDone (removalEdit i (rmProfile res)) (gStore s) t" by simp
  then obtain m where b: "base (gStore s) m" and m: "sManifest t = removalCandidate m i"
    unfolding editDone_def removalEdit_def by blast
  have "mProfiles (sManifest t) = filter (\<lambda>p. pID p \<noteq> i) (mProfiles m)"
    unfolding m by (simp add: removalCandidate_def removeProfile_def bumpRevision_def Let_def)
  with b show ?case by (auto simp: base_def)
qed

lemma removeLocked_wp:
  fixes s :: "('w, 'n) mstate"
  assumes L: "lawfulBackends M up" and lib: "libraryValid (gStore s)"
    and p: "manifestProfile (sManifest (gStore s)) i = Some p"
  shows "wp (tryE (observeProtocol M (sManifest (gStore s)) (pProtocol p)) (\<lambda>active.
      if \<exists>x\<in>set active. obProfileID x = i then return (Inl (Sentinel ErrActiveProfile))
      else tryE (onStore (store_Remove (mgStore M) i)) (\<lambda>removed. do {
        v \<leftarrow> viewOf M (sManifest (gStore s)) p
               \<lparr>avAvailable = (backendOf M (pProtocol p) \<noteq> None), avReason = []\<rparr>;
        return (Inr \<lparr>rrProfile = v, rrCleanupPending = rmCleanupPending removed\<rparr>)
      }))) (removeOutcome up i s) s"
proof -
  let ?m = "sManifest (gStore s)" and ?U = "up (gNet s)" and ?c = "control s"
  have i: "i \<in> idsOf ?m (pProtocol p)" using manifestProfile_Some [OF p] by (auto simp: idsOf_def)
  have failed: "removeOutcome up i s (Inl e) t" if "calm up ?c ?U t" for e t
    using that by (simp add: removeOutcome_def calm_def)
  have shown: "wp (do { v \<leftarrow> viewOf M ?m p a; return (Inr \<lparr>rrProfile = v, rrCleanupPending = b\<rparr>) })
      (removeOutcome up i s) t"
    if t: "calm up ?c (?U - {i}) t" and ids: "i \<notin> pID ` set (mProfiles (sManifest (gStore t)))"
      and m: "\<not> sDurabilityUnknown (gStore s) \<longrightarrow>
         mProfiles (sManifest (gStore t)) = filter (\<lambda>p. pID p \<noteq> i) (mProfiles ?m)" for a b t
  proof -
    have "calms up (viewOf M ?m p a)"
      unfolding viewOf_def profileAvailability_def by (intro calms_intros)
    then have "wp (viewOf M ?m p a) (\<lambda>_ u. calm up ?c (?U - {i}) u \<and> library u = library t) t"
      by (intro wp_conj calms_wp [OF _ t] keepsD [OF keeps_library_view] refl)
    then show ?thesis
      unfolding wp_bind
      by (rule wp_mono) (use ids m in \<open>auto simp: wp_return removeOutcome_def calm_def library_def\<close>)
  qed
  have remove: "wp (tryE (onStore (store_Remove (mgStore M) i)) (\<lambda>removed. do {
        v \<leftarrow> viewOf M ?m p \<lparr>avAvailable = (backendOf M (pProtocol p) \<noteq> None), avReason = []\<rparr>;
        return (Inr \<lparr>rrProfile = v, rrCleanupPending = rmCleanupPending removed\<rparr>) })) (removeOutcome up i s) t"
    if t: "calm up ?c (?U - {i}) t" and same: "library t = library s" for t
    unfolding wp_tryE
  proof (rule wp_mono [OF wp_conj [OF calms_wp [OF calms_store(4) t] removal_recorded]], assumption, goal_cases)
    case (1 r u)
    then show ?case
      using same shown [of u] failed [OF calm_mono [of up ?c "?U - {i}" u]]
      by (auto simp: library_def split: sum.splits)
  qed
  have "wp (observeProtocol M ?m (pProtocol p)) (\<lambda>r t. (calm up ?c ?U t \<and>
      (\<forall>obs. r = Inr obs \<longrightarrow> calm up ?c (?U - (idsOf ?m (pProtocol p) - observedIds obs)) t)) \<and>
      library t = library s) s"
    by (intro wp_conj observeProtocol_wp [OF L calm_start [OF lib]] keepsD [OF keeps_library_observe] refl)
  then show ?thesis
    unfolding wp_tryE
  proof (rule wp_mono, goal_cases)
    case (1 r t)
    show ?case
    proof (cases r)
      case (Inl e)
      with 1 failed show ?thesis by simp
    next
      case (Inr obs)
      show ?thesis
      proof (cases "i \<in> observedIds obs")
        case True
        with 1 Inr failed [of t] show ?thesis by (auto simp: wp_return)
      next
        case False
        have "calm up ?c (?U - {i}) t"
          by (rule calm_mono [of up ?c "?U - (idsOf ?m (pProtocol p) - observedIds obs)"])
            (use 1 Inr i False in auto)
        with remove [of t] 1 Inr False show ?thesis by auto
      qed
    qed
  qed
qed

lemma Remove_outcome:
  assumes L: "lawfulBackends M up" and lib: "libraryValid (gStore s)"
  shows "wp (manager_Remove M i) (removeOutcome up i s) s"
proof -
  have same: "removeOutcome up i s (Inl e) s" for e
    using lib by (simp add: removeOutcome_def)
  let ?t = "s\<lparr>gGate := False\<rparr>"
  have gate: "removeOutcome up i ?t r s' \<Longrightarrow> gGate s \<Longrightarrow> removeOutcome up i s r (s'\<lparr>gGate := True\<rparr>)" for r s'
    by (auto simp: removeOutcome_def control_def)
  have locked: "removeOutcome up i ?t (Inl e) ?t" for e
    using lib by (simp add: removeOutcome_def)
  have "wp (do {
        (lifecycle, _, _) \<leftarrow> lifecycleSnapshot;
        if lifecycle = ''state_conflict'' then return (Inl (Sentinel ErrManagedStateConflict))
        else do {
          m \<leftarrow> onStore Snapshot;
          case manifestProfile m i of
            None \<Rightarrow> return (Inl (Sentinel ErrNotFound))
          | Some p \<Rightarrow> tryE (observeProtocol M m (pProtocol p)) (\<lambda>active.
              if \<exists>x\<in>set active. obProfileID x = i then return (Inl (Sentinel ErrActiveProfile))
              else tryE (onStore (store_Remove (mgStore M) i)) (\<lambda>removed. do {
                v \<leftarrow> viewOf M m p \<lparr>avAvailable = (backendOf M (pProtocol p) \<noteq> None), avReason = []\<rparr>;
                return (Inr \<lparr>rrProfile = v, rrCleanupPending = rmCleanupPending removed\<rparr>)
              }))
        } }) (removeOutcome up i ?t) ?t"
    using removeLocked_wp [OF L, of ?t i] lib locked
    by (simp add: wp_bind [of lifecycleSnapshot] wp_bind [of "onStore _"] wp_lifecycleSnapshot wp_Snapshot
        wp_return split: option.split)
  then show ?thesis
    using same by (auto simp: manager_Remove_def wp_guarded wp_return elim!: wp_mono intro: gate)
qed

end
