(* ===== verification/ManagerSteps.thy ===== *)
theory ManagerSteps
  imports TransitionLaws
begin

text \<open>
  The manager as a state machine.  A step is one operation of the manager, an operation of the import
  service that runs while it holds the gate, or the machine doing something on its own: files change,
  tunnels go down.  Starting up and handling an exit wait for the gate, so they are steps only when the
  token is there.  The invariant is proved for the contract of an operation and interpreted on each.
\<close>

section \<open>The contract of an operation\<close>

definition managerInv :: "('n \<Rightarrow> string set) \<Rightarrow> ('w, 'n) mstate \<Rightarrow> bool" where
  "managerInv up s \<longleftrightarrow> libraryValid (gStore s) \<and> (\<exists>j. up (gNet s) \<subseteq> {j}) \<and>
     gLifecycle s \<notin> set transitionLifecycles"

locale manager_operation =
  fixes M :: "('w, 'n) manager" and up :: "'n \<Rightarrow> string set" and waits :: bool
    and operation :: "(('w, 'n) mstate, 'a) state"
  assumes operation_keeps:
    "lawfulBackends M up \<Longrightarrow> managerInv up s \<Longrightarrow> covered up s \<Longrightarrow> waits \<longrightarrow> gGate s \<Longrightarrow>
       wp operation (\<lambda>_. managerInv up) s"
begin

lemma operation_step:
  "lawfulBackends M up \<Longrightarrow> managerInv up s \<Longrightarrow> covered up s \<Longrightarrow> waits \<longrightarrow> gGate s \<Longrightarrow>
     run_state operation s = (r, s') \<Longrightarrow> managerInv up s'"
  by (drule (3) operation_keeps) (erule (1) wp_runD)

end

lemma stable_lifecycles [simp]:
  "''active'' \<notin> set transitionLifecycles" "''failed'' \<notin> set transitionLifecycles"
  "''state_conflict'' \<notin> set transitionLifecycles" "''disconnected'' \<notin> set transitionLifecycles"
  by (simp_all add: transitionLifecycles_def)

lemma managerInv_gate [simp]: "managerInv up (s\<lparr>gGate := g\<rparr>) = managerInv up s"
  by (simp add: managerInv_def)

text \<open>What keeps the network calm keeps the invariant.\<close>

lemma calm_inv: "managerInv up s \<Longrightarrow> calm up (control s) (up (gNet s)) t \<Longrightarrow> managerInv up t"
  by (auto simp: managerInv_def calm_def control_def)

lemma calms_inv:
  assumes "calms up m" and "managerInv up s"
  shows "wp m (\<lambda>_. managerInv up) s"
proof (rule calms_wp [OF assms(1)])
  show "calm up (control s) (up (gNet s)) s" using assms(2) by (simp add: managerInv_def calm_start)
qed (rule calm_inv [OF assms(2)])

lemma calms_operation:
  assumes "\<And>L. lawfulBackends M up \<Longrightarrow> calms up m"
  shows "manager_operation M up waits m"
  by unfold_locales (rule calms_inv, erule assms)

section \<open>The operations\<close>

interpretation connect: manager_operation M up False "Connect M i"
  for M :: "('w, 'n) manager" and up and i
proof unfold_locales
  fix s :: "('w, 'n) mstate"
  assume L: "lawfulBackends M up" and inv: "managerInv up s" and cov: "covered up s"
  show "wp (Connect M i) (\<lambda>_. managerInv up) s"
  proof (cases "gGate s")
    case True
    with inv have "wp (Connect M i) (\<lambda>r s'. switchOutcome up True i r s' \<or>
        refusal up (control s) (up (gNet s)) i r s') s"
      by (intro Connect_outcome [OF L _ cov]) (simp_all add: managerInv_def)
    then show ?thesis
      by (rule wp_mono) (use inv in \<open>auto simp: managerInv_def switchOutcome_def connected_def refusal_def
          control_def split: option.splits\<close>)
  next
    case False
    with inv show ?thesis by (simp add: Connect_def wp_guarded wp_return wp_if)
  qed
qed

lemma stopAll_stops:
  assumes L: "lawfulBackends M up" and s: "calm up c U s"
  shows "wp (stopAll M m active) (stopOutcome up (fst c) U) s"
proof -
  have clear: "wp (do {
       cleanupErr \<leftarrow> cleanupAllExecutions M;
       if cleanupErr \<noteq> None then do {
         setFailure networkTruthUncertain [] []
           ''One or more private execution copies could not be cleaned safely.'';
         return (errorsJoin [Some (Sentinel ErrManagedStateConflict), cleanupErr]) }
       else clearConnection M }) (stopOutcome up (fst c) U) t" if t: "calm up c U t" for t
  proof (rule calms_bind_wp [OF calms_cleanupAllExecutions t], goal_cases)
    case (1 e u)
    with stopConflict_wp [OF 1] clearConnection_wp [OF 1] show ?case by simp
  qed
  show ?thesis
    unfolding stopAll_def
  proof (rule calms_bind_wp [OF calms_stopEach [OF L] s], goal_cases)
    case (1 e t)
    with stopConflict_wp [OF 1] clear [OF 1] show ?case by simp
  qed
qed

lemma Disconnect_stops:
  fixes s :: "('w, 'n) mstate"
  assumes L: "lawfulBackends M up" and lib: "libraryValid (gStore s)" and gate: "gGate s" and rw: "\<not> mgReadOnly M"
  shows "wp (Disconnect M) (stopOutcome up True (up (gNet s))) s"
proof -
  let ?U = "up (gNet s)"
  let ?t = "s\<lparr>gGate := False, gLifecycle := ''disconnecting'', gLifecycleProfile := [], gLastError := []\<rparr>"
  have t: "calm up (False, snd (control ?t)) ?U ?t"
    using calm_lifecycle [OF calm_gate [OF calm_start [OF lib, of up], of False]] by (simp add: control_def)
  have stop: "wp (do { (active, e) \<leftarrow> observeToStop M m prior; stopObserved M m active e })
      (stopOutcome up False ?U) ?t" for m prior
  proof (rule calms_bind_wp [OF _ t])
    show "calms up (observeToStop M m prior)"
      unfolding observeToStop_def by (intro calms_intros L)
    fix a and u :: "('w, 'n) mstate"
    assume u: "calm up (False, snd (control ?t)) ?U u"
    show "wp (case a of (active, e) \<Rightarrow> stopObserved M m active e) (stopOutcome up False ?U) u"
      using stopConflict_wp [OF u] stopAll_stops [OF L u] by (cases a) (simp add: stopObserved_def)
  qed
  then have "wp (do { (active, e) \<leftarrow> observeToStop M m prior; stopObserved M m active e })
      (\<lambda>r s'. stopOutcome up True ?U r (s'\<lparr>gGate := True\<rparr>)) ?t" for m prior
    by (rule wp_mono) (rule stopOutcome_gate)
  with gate rw show ?thesis
    by (simp add: Disconnect_def wp_guarded wp_bind [of lifecycleSnapshot] wp_bind [of "setLifecycle _ _ _"]
        wp_bind [of "onStore _"] wp_lifecycleSnapshot wp_setLifecycle wp_Snapshot)
qed

interpretation disconnect: manager_operation M up False "Disconnect M"
  for M :: "('w, 'n) manager" and up
proof unfold_locales
  fix s :: "('w, 'n) mstate"
  assume L: "lawfulBackends M up" and inv: "managerInv up s"
  show "wp (Disconnect M) (\<lambda>_. managerInv up) s"
  proof (cases "gGate s \<and> \<not> mgReadOnly M")
    case True
    with inv have "wp (Disconnect M) (stopOutcome up True (up (gNet s))) s"
      by (intro Disconnect_stops [OF L]) (simp_all add: managerInv_def)
    then show ?thesis
      by (rule wp_mono) (use inv in \<open>auto simp: managerInv_def stopOutcome_def split: option.splits\<close>)
  next
    case False
    with inv show ?thesis by (auto simp: Disconnect_def wp_guarded wp_return wp_if)
  qed
qed

interpretation remove: manager_operation M up False "manager_Remove M i" for M up i
  by unfold_locales (rule wp_mono [OF Remove_outcome],
      auto simp: managerInv_def removeOutcome_def control_def)

interpretation startup: manager_operation M up True "ReconcileStartup M" for M up
  by unfold_locales (rule wp_mono [OF ReconcileStartup_outcome],
      auto simp: managerInv_def startupOutcome_def settled_def)

interpretation exit: manager_operation M up True "handleUnexpectedExit M event" for M up event
  by unfold_locales (rule wp_mono [OF handleUnexpectedExit_outcome],
      auto simp: managerInv_def exitOutcome_def control_def)

interpretation shutdown: manager_operation M up False "manager_Shutdown M" for M up
  unfolding manager_Shutdown_def by (rule calms_operation) (intro calms_intros)

lemma calms_availabilityLoop [calms_intros]:
  assumes L: "lawfulBackends M up"
  shows "calms up (availabilityLoop M ps)"
proof (induction ps)
  case (Cons x xs)
  show ?case unfolding availabilityLoop.simps by (intro calms_intros L Cons.IH) (auto intro: L)?
qed (simp add: calms_intros)

lemma calms_availabilities [calms_intros]: "lawfulBackends M up \<Longrightarrow> calms up (availabilities M)"
  unfolding availabilities_def by (intro calms_intros)

lemma calms_viewOf [calms_intros]: "calms up (viewOf M m p a)"
  unfolding viewOf_def profileAvailability_def by (intro calms_intros)

lemma calms_optionalView [calms_intros]: "calms up (optionalView M m as i)"
  unfolding optionalView_def by (intro calms_intros)

lemma calms_observedNow [calms_intros]: "lawfulBackends M up \<Longrightarrow> calms up (observedNow M)"
  unfolding observedNow_def by (intro calms_intros calms_onMachine lawful_now)

lemma calms_status [calms_intros]:
  assumes "lawfulBackends M up"
  shows "calms up (transitionStatus M m as l i e o1 d)" "calms up (unobservedStatus M m as st active x)"
    "calms up (activeStatus M m as st y)"
  unfolding transitionStatus_def unobservedStatus_def activeStatus_def Let_def
  by (intro calms_intros assms; (rule assms | assumption)?)+

lemma calms_lifecycleSnapshot [calms_intros]: "calms up lifecycleSnapshot"
  unfolding lifecycleSnapshot_def by (rule calms_gets)

lemma calms_list [calms_intros]:
  "calms up m \<Longrightarrow> (\<And>y ys. calms up (f y ys)) \<Longrightarrow> calms up (case x of [] \<Rightarrow> m | y # ys \<Rightarrow> f y ys)"
  by (cases x) auto

interpretation status: manager_operation M up False "manager_Status M" for M up
  unfolding manager_Status_def Let_def by (rule calms_operation) (intro calms_intros)

interpretation managerPreferences: manager_operation M up False "manager_SetPreferences M fs rs mode"
  for M up fs rs mode
  unfolding manager_SetPreferences_def by (rule calms_operation) (intro calms_intros)

interpretation managerMetadata: manager_operation M up False "manager_UpdateMetadata M i patch" for M up i patch
  unfolding manager_UpdateMetadata_def by (rule calms_operation) (intro calms_intros)

text \<open>The import service publishes while it holds the gate.\<close>

interpretation publish: manager_operation M up False "onStore (Publish (mgStore M) revision objs)"
  for M up revision objs
  by (rule calms_operation, rule calms_onStore, rule publication.operation_keeps)

interpretation acquire: manager_operation M up False AcquireLibraryOperation for M up
  by unfold_locales (simp add: AcquireLibraryOperation_def tryAcquire_def wp_simps)

interpretation release: manager_operation M up False "releaseLibraryOperation used" for M up used
  by unfold_locales (simp add: releaseLibraryOperation_def release_def wp_simps)

section \<open>Reachable states\<close>

inductive managerReachable :: "('w, 'n) manager \<Rightarrow> ('n \<Rightarrow> string set) \<Rightarrow> ('w, 'n) mstate \<Rightarrow> bool"
  for M up where
  initial: "storeReachable (mgStore M) t \<Longrightarrow> up n \<subseteq> {j} \<Longrightarrow> managerReachable M up (initialState t n)"
| environment: "managerReachable M up s \<Longrightarrow> up n \<subseteq> up (gNet s) \<Longrightarrow>
    managerReachable M up (s\<lparr>gStore := (gStore s)\<lparr>sWorld := w\<rparr>, gNet := n\<rparr>)"
| connect: "managerReachable M up s \<Longrightarrow> covered up s \<Longrightarrow> run_state (Connect M i) s = (e, s') \<Longrightarrow>
    managerReachable M up s'"
| disconnect: "managerReachable M up s \<Longrightarrow> covered up s \<Longrightarrow> run_state (Disconnect M) s = (e, s') \<Longrightarrow>
    managerReachable M up s'"
| remove: "managerReachable M up s \<Longrightarrow> covered up s \<Longrightarrow> run_state (manager_Remove M i) s = (r, s') \<Longrightarrow>
    managerReachable M up s'"
| startup: "managerReachable M up s \<Longrightarrow> covered up s \<Longrightarrow> gGate s \<Longrightarrow>
    run_state (ReconcileStartup M) s = (u, s') \<Longrightarrow> managerReachable M up s'"
| exit: "managerReachable M up s \<Longrightarrow> covered up s \<Longrightarrow> gGate s \<Longrightarrow>
    run_state (handleUnexpectedExit M event) s = (u, s') \<Longrightarrow> managerReachable M up s'"
| shutdown: "managerReachable M up s \<Longrightarrow> covered up s \<Longrightarrow> run_state (manager_Shutdown M) s = (e, s') \<Longrightarrow>
    managerReachable M up s'"
| status: "managerReachable M up s \<Longrightarrow> covered up s \<Longrightarrow> run_state (manager_Status M) s = (st, s') \<Longrightarrow>
    managerReachable M up s'"
| preferences: "managerReachable M up s \<Longrightarrow> covered up s \<Longrightarrow>
    run_state (manager_SetPreferences M fs rs mode) s = (pr, s') \<Longrightarrow> managerReachable M up s'"
| metadata: "managerReachable M up s \<Longrightarrow> covered up s \<Longrightarrow>
    run_state (manager_UpdateMetadata M i patch) s = (v, s') \<Longrightarrow> managerReachable M up s'"
| publish: "managerReachable M up s \<Longrightarrow> covered up s \<Longrightarrow>
    run_state (onStore (Publish (mgStore M) revision objs)) s = (p, s') \<Longrightarrow> managerReachable M up s'"
| acquire: "managerReachable M up s \<Longrightarrow> covered up s \<Longrightarrow> run_state AcquireLibraryOperation s = (e, s') \<Longrightarrow>
    managerReachable M up s'"
| release: "managerReachable M up s \<Longrightarrow> covered up s \<Longrightarrow>
    run_state (releaseLibraryOperation used) s = (b, s') \<Longrightarrow> managerReachable M up s'"

lemma reachable_inv:
  assumes "managerReachable M up s" and L: "lawfulBackends M up"
  shows "managerInv up s"
  using assms(1)
proof (induction rule: managerReachable.induct)
  case (initial t n j)
  then show ?case
    using reachable_valid by (auto simp: managerInv_def initialState_def)
next
  case (environment s n w)
  then show ?case by (auto simp: managerInv_def libraryValid_def)
qed (blast intro: L connect.operation_step disconnect.operation_step remove.operation_step
    startup.operation_step exit.operation_step shutdown.operation_step status.operation_step
    managerPreferences.operation_step managerMetadata.operation_step publish.operation_step acquire.operation_step
    release.operation_step)+

end
