(* ===== verification/SampleManager.thy ===== *)
theory SampleManager
  imports ManagerSteps SampleKernel
begin

text \<open>
  A network for the concrete instances of the manager's properties: the list of the profiles whose
  tunnels are up, and a backend of each protocol that starts, stops and reports them without failing.
\<close>

definition steadyBackend :: "string \<Rightarrow> (unit \<times> string list) backend" where
  "steadyBackend protocol = \<lparr>
     bkProtocol = protocol, bkExitSource = False,
     bkAvailable = return None,
     bkObserve = (\<lambda>ps. gets (\<lambda>(w, n). Inr (map (\<lambda>p.
        \<lparr>obProfileID = tpID p, obProtocol = protocol, obIdentifier = tpIdentifier p\<rparr>)
          (filter (\<lambda>p. tpID p \<in> set n) ps)))),
     bkStart = (\<lambda>p. do { modify (\<lambda>(w, n). (w, tpID p # n)); return None }),
     bkStop = (\<lambda>p. do { modify (\<lambda>(w, n). (w, filter (\<lambda>i. i \<noteq> tpID p) n)); return None }),
     bkStatus = (\<lambda>p. return (Inr (stateOnly ''active''))),
     bkShutdown = return None\<rparr>"

definition sampleManager :: "(unit, string list) manager" where
  "sampleManager = \<lparr>mgStore = steadyStore,
     mgBackends = [(ProtocolOpenVPN, steadyBackend ProtocolOpenVPN)],
     mgReadOnly = False, mgNow = return \<lparr>tSeconds = 1700000001, tNanos = 0, tUTC = False\<rparr>,
     mgTimeout = DefaultTimeout, mgOrder = id, mgExitSources = []\<rparr>"

definition sampleState :: "string list \<Rightarrow> (unit, string list) mstate" where
  "sampleState n = initialState steadyState n"

lemma steadyBackend_laws: "backendLaws set (steadyBackend protocol)"
  unfolding backendLaws_def shrinks_def steadyBackend_def
  by (auto simp: wp_simps image_image split: prod.splits)

lemma sampleManager_lawful: "lawfulBackends sampleManager set"
  by (auto simp: lawfulBackends_def sampleManager_def steadyBackend_laws shrinks_def wp_simps)

lemma sampleManager_plain: "plainErrors sampleManager"
  by (auto simp: plainErrors_def sampleManager_def steadyBackend_def wp_simps)

lemma sampleState_valid:
  "libraryValid (gStore (sampleState n))" "gGate (sampleState n)"
  "covered set (sampleState n) = (set n \<subseteq> {pID sampleProfile})"
  "equipped sampleManager (sManifest (gStore (sampleState n)))" "\<not> mgReadOnly sampleManager"
  "set (mgOrder sampleManager ids) = set ids" "\<not> sDurabilityUnknown (gStore (sampleState n))"
  using sampleManifest_valid
  by (auto simp: libraryValid_def covered_def sampleState_def initialState_def steadyState_def
      openedState_def sampleManifest_def equipped_def sampleManager_def backendOf_def sampleProfile_def)

end
