(* ===== verification/ManagerProperties.thy ===== *)
theory ManagerProperties
  imports SampleManager
begin

text \<open>
  The properties of the tunnel manager.  Their common hypotheses: the backends keep the contract
  \<open>backendLaws\<close> with respect to \<open>up\<close>, the set of the profiles whose tunnels are up, the library is valid,
  and what is up is in the library (\<open>covered\<close>).
\<close>

text \<open>C1: in every reachable state, whatever sequence of transitions, imports and exits has run, at most
  one tunnel is up, the manifest is well-formed and no transition is left half-way.\<close>

theorem at_most_one_tunnel:
  assumes "lawfulBackends M up" and "managerReachable M up s"
  shows "(\<exists>j. up (gNet s) \<subseteq> {j}) \<and> wellFormed (sManifest (gStore s)) \<and>
     gLifecycle s \<notin> {''starting'', ''switching'', ''disconnecting'', ''restoring''}"
  using reachable_inv [OF assms(2,1)]
  by (simp add: managerInv_def libraryValid_def transitionLifecycles_def)

lemma sample_initial: "managerReachable sampleManager set (sampleState [])"
  unfolding sampleState_def
  by (rule managerReachable.initial) (simp_all add: sampleManager_def steadyState_reachable)

theorem at_most_one_tunnel_witness:
  "\<exists>j. set (gNet (snd (run_state (Connect sampleManager (pID sampleProfile)) (sampleState [])))) \<subseteq> {j}"
proof -
  have "covered set (sampleState [])" by (simp add: sampleState_valid)
  from at_most_one_tunnel [OF sampleManager_lawful
      managerReachable.connect [OF sample_initial this prod.collapse [symmetric]]]
  show ?thesis by blast
qed

text \<open>C2: a connection that reports success ends with the lifecycle active for the profile, no other
  tunnel up, and the profile recorded durably as the desired one.  A connection that reports an error
  leaves the lifecycle and the gate as they were, or says that the profile failed, or that the previous
  tunnel is active again, or reports a conflict, and then the error says so too.\<close>

theorem connect_contract:
  assumes "lawfulBackends M up" and "wellFormed (sManifest (gStore s))" and "covered up s" and "gGate s"
  shows "wp (Connect M i) (\<lambda>r s'. gGate s' \<and> (up (gNet s') \<subseteq> up (gNet s) \<or> (\<exists>j. up (gNet s') \<subseteq> {j})) \<and>
     (case r of
        None \<Rightarrow> gLifecycle s' = ''active'' \<and> gLifecycleProfile s' = i \<and> gLastError s' = [] \<and>
          up (gNet s') \<subseteq> {i} \<and> mDesiredProfile (sManifest (gStore s')) = i \<and>
          \<not> sDurabilityUnknown (gStore s')
      | Some e \<Rightarrow>
          gLifecycle s' = gLifecycle s \<and> gLifecycleProfile s' = gLifecycleProfile s \<and>
            up (gNet s') \<subseteq> up (gNet s) \<or>
          gLifecycle s' = ''failed'' \<and> gLifecycleProfile s' = i \<or>
          gLifecycle s' = ''active'' \<and> up (gNet s') \<subseteq> {gLifecycleProfile s'} \<and> gLastError s' \<noteq> [] \<or>
          gLifecycle s' = ''state_conflict'' \<and> errorsIs e ErrManagedStateConflict)) s"
proof -
  have lib: "libraryValid (gStore s)" using assms(2) by (simp add: libraryValid_def)
  show ?thesis
    by (rule wp_mono [OF Connect_outcome [OF assms(1) lib assms(3,4)]])
      (use assms(4) in \<open>auto simp: switchOutcome_def connected_def recorded_def refusal_def control_def
        split: option.splits\<close>)
qed

theorem connect_contract_witness:
  "gNet (snd (run_state (Connect sampleManager (pID sampleProfile)) (sampleState []))) = [pID sampleProfile] \<and>
   mDesiredProfile (sManifest (gStore (snd (run_state (Connect sampleManager (pID sampleProfile))
     (sampleState []))))) = pID sampleProfile"
proof -
  let ?run = "run_state (Connect sampleManager (pID sampleProfile)) (sampleState [])"
  have "fst ?run = None \<and> gNet (snd ?run) = [pID sampleProfile]" by code_simp
  moreover have "wellFormed (sManifest (gStore (sampleState [])))"
    using sampleState_valid(1) [of "[]"] by (simp add: libraryValid_def)
  ultimately show ?thesis
    using wp_runD [OF connect_contract [OF sampleManager_lawful, of "sampleState []" "pID sampleProfile"],
        OF _ _ _ prod.collapse [symmetric]]
    by (auto simp: sampleState_valid)
qed

text \<open>C3: a disconnection that reports success leaves no tunnel up and no execution copy behind, and has
  recorded durably that no profile is desired; one that fails reports a conflict.\<close>

theorem disconnect_contract:
  assumes "lawfulBackends M up" and "plainErrors M" and "\<And>ids. set (mgOrder M ids) = set ids"
    and "equipped M (sManifest (gStore s))" and "wellFormed (sManifest (gStore s))" and "covered up s"
    and "gGate s" and "\<not> mgReadOnly M"
  shows "wp (Disconnect M) (\<lambda>r s'. gGate s' \<and> up (gNet s') \<subseteq> up (gNet s) \<and>
     (case r of
        None \<Rightarrow> up (gNet s') = {} \<and> gExecutions s' = [] \<and> gLifecycle s' = ''disconnected'' \<and>
          mDesiredProfile (sManifest (gStore s')) = [] \<and> mConnectedAt (sManifest (gStore s')) = 0 \<and>
          \<not> sDurabilityUnknown (gStore s')
      | Some e \<Rightarrow> gLifecycle s' = ''state_conflict'' \<and> errorsIs e ErrManagedStateConflict)) s"
proof -
  have lib: "libraryValid (gStore s)" using assms(5) by (simp add: libraryValid_def)
  show ?thesis
    by (rule wp_mono [OF Disconnect_outcome [OF assms(1-4) lib assms(6-8)]])
      (auto simp: stopOutcome_def recorded_def split: option.splits)
qed

theorem disconnect_contract_witness:
  "gNet (snd (run_state (Disconnect sampleManager) (sampleState [pID sampleProfile]))) = [] \<and>
   gExecutions (snd (run_state (Disconnect sampleManager) (sampleState [pID sampleProfile]))) = []"
proof -
  let ?s = "sampleState [pID sampleProfile]"
  have "fst (run_state (Disconnect sampleManager) ?s) = None" by code_simp
  moreover have "wellFormed (sManifest (gStore ?s))"
    using sampleState_valid(1) [of "[pID sampleProfile]"] by (simp add: libraryValid_def)
  ultimately show ?thesis
    using wp_runD [OF disconnect_contract [OF sampleManager_lawful sampleManager_plain, of ?s],
        OF _ _ _ _ _ _ prod.collapse [symmetric]]
    by (auto simp: sampleState_valid)
qed

text \<open>C4: restoring at startup ends in a lifecycle that tells the truth: active, and then no other tunnel
  is up; failed or disconnected, and then none is; or a conflict.  Unless the observation failed, at most
  one tunnel is up afterwards.\<close>

theorem startup_tells_the_truth:
  assumes "lawfulBackends M up" and "wellFormed (sManifest (gStore s))" and "covered up s"
  shows "wp (ReconcileStartup M) (\<lambda>_ s'. gGate s' \<and> wellFormed (sManifest (gStore s')) \<and>
     (gLifecycle s' = ''active'' \<and> up (gNet s') \<subseteq> {gLifecycleProfile s'} \<or>
      gLifecycle s' = ''failed'' \<and> up (gNet s') = {} \<or>
      gLifecycle s' = ''disconnected'' \<and> up (gNet s') = {} \<or>
      gLifecycle s' = ''state_conflict'' \<and>
        ((\<exists>j. up (gNet s') \<subseteq> {j}) \<or> up (gNet s') \<subseteq> up (gNet s)))) s"
proof -
  have lib: "libraryValid (gStore s)" using assms(2) by (simp add: libraryValid_def)
  show ?thesis
    by (rule wp_mono [OF ReconcileStartup_outcome [OF assms(1) lib assms(3)]])
      (auto simp: startupOutcome_def settled_def libraryValid_def)
qed

theorem startup_tells_the_truth_witness:
  "gLifecycle (snd (run_state (ReconcileStartup sampleManager) (sampleState []))) = ''disconnected''"
proof -
  let ?run = "run_state (ReconcileStartup sampleManager) (sampleState [])"
  have "gLifecycle (snd ?run) = ''disconnected''" by code_simp
  moreover have "wellFormed (sManifest (gStore (sampleState [])))"
    using sampleState_valid(1) [of "[]"] by (simp add: libraryValid_def)
  ultimately show ?thesis
    using wp_runD [OF startup_tells_the_truth [OF sampleManager_lawful, of "sampleState []"],
        OF _ _ prod.collapse [symmetric]]
    by (auto simp: sampleState_valid)
qed

text \<open>C5: the exit of a process never starts a tunnel.  The lifecycle stays as it was, becomes a conflict,
  or says that the profile failed, and that only when no tunnel is up.\<close>

theorem exit_never_starts:
  assumes "lawfulBackends M up" and "wellFormed (sManifest (gStore s))" and "covered up s" and "gGate s"
  shows "wp (handleUnexpectedExit M event) (\<lambda>_ s'. gGate s' \<and> up (gNet s') \<subseteq> up (gNet s) \<and>
     (gLifecycle s' = gLifecycle s \<and> gLifecycleProfile s' = gLifecycleProfile s \<or>
      gLifecycle s' = ''state_conflict'' \<and> gLifecycleProfile s' = ueProfileID event \<or>
      gLifecycle s' = ''failed'' \<and> gLifecycleProfile s' = ueProfileID event \<and> up (gNet s') = {})) s"
proof -
  have lib: "libraryValid (gStore s)" using assms(2) by (simp add: libraryValid_def)
  show ?thesis
    by (rule wp_mono [OF handleUnexpectedExit_outcome [OF assms(1) lib assms(3,4)]])
      (use assms(4) in \<open>auto simp: exitOutcome_def control_def\<close>)
qed

definition sampleExit :: unexpectedExit where
  "sampleExit = \<lparr>ueProfileID = pID sampleProfile, ueExecutionPath = ''/state'', ueCleanupProved = False\<rparr>"

theorem exit_never_starts_witness:
  "gLifecycle (snd (run_state (handleUnexpectedExit sampleManager sampleExit) (sampleState []))) =
     ''state_conflict'' \<and>
   gNet (snd (run_state (handleUnexpectedExit sampleManager sampleExit) (sampleState []))) = []"
proof -
  let ?run = "run_state (handleUnexpectedExit sampleManager sampleExit) (sampleState [])"
  have "gLifecycle (snd ?run) = ''state_conflict''" by code_simp
  moreover have "wellFormed (sManifest (gStore (sampleState [])))"
    using sampleState_valid(1) [of "[]"] by (simp add: libraryValid_def)
  moreover have "gNet (sampleState []) = []" by (simp add: sampleState_def initialState_def)
  ultimately show ?thesis
    using wp_runD [OF exit_never_starts [OF sampleManager_lawful, of "sampleState []" sampleExit],
        OF _ _ _ prod.collapse [symmetric]]
    by (auto simp: sampleState_valid)
qed

text \<open>C6: a profile is removed only when its tunnel is down; the others, and the lifecycle, stay as they
  were.\<close>

theorem active_profile_not_removed:
  assumes "lawfulBackends M up" and "wellFormed (sManifest (gStore s))" and "\<not> sDurabilityUnknown (gStore s)"
  shows "wp (manager_Remove M i) (\<lambda>r s'. gGate s' = gGate s \<and> gLifecycle s' = gLifecycle s \<and>
     up (gNet s') \<subseteq> up (gNet s) \<and>
     (\<forall>res. r = Inr res \<longrightarrow> i \<notin> up (gNet s') \<and>
        mProfiles (sManifest (gStore s')) = filter (\<lambda>p. pID p \<noteq> i) (mProfiles (sManifest (gStore s))))) s"
proof -
  have lib: "libraryValid (gStore s)" using assms(2) by (simp add: libraryValid_def)
  show ?thesis
    by (rule wp_mono [OF Remove_outcome [OF assms(1) lib]])
      (use assms(3) in \<open>auto simp: removeOutcome_def control_def\<close>)
qed

theorem active_profile_not_removed_witness:
  "mProfiles (sManifest (gStore (snd (run_state (manager_Remove sampleManager (pID sampleProfile))
     (sampleState []))))) = []"
proof -
  let ?run = "run_state (manager_Remove sampleManager (pID sampleProfile)) (sampleState [])"
  have "case fst ?run of Inl e \<Rightarrow> False | Inr res \<Rightarrow> True" by code_simp
  then obtain res where "fst ?run = Inr res" by (auto split: sum.splits)
  moreover have "wellFormed (sManifest (gStore (sampleState [])))"
    using sampleState_valid(1) [of "[]"] by (simp add: libraryValid_def)
  moreover have "mProfiles (sManifest (gStore (sampleState []))) = [sampleProfile]"
    by (simp add: sampleState_def initialState_def steadyState_def openedState_def sampleManifest_def)
  ultimately show ?thesis
    using wp_runD [OF active_profile_not_removed [OF sampleManager_lawful, of "sampleState []" "pID sampleProfile"],
        OF _ _ prod.collapse [symmetric]]
    by (auto simp: sampleState_valid)
qed


end
