(* ===== verification/WireGuard.thy ===== *)
theory WireGuard
  imports Tunnel Encoding GoNet WireGuardPolicy
begin

text \<open>
  The WireGuard backend, \<open>internal/tunnel/wireguard.go\<close>, over a command runner: a call names a command
  and its arguments and gives its output or an error.  A poll that waits for an interface ends when the
  context does; \<open>wgTicks\<close> is the number of poll timers that fire before that, so the loop recurses on it
  and an exhausted count is the error of the context.  A call through a nil runner panics in Go and is
  an error of its own here.
\<close>

type_synonym 'm commandRunner = "string \<Rightarrow> string list \<Rightarrow> ('m, goerr + string) state"

record 'm wireGuardBackend =
  wbRunner :: "'m commandRunner option"
  wbPollInterval :: int
  wbCleanupTimeout :: int
  wbCanActivate :: bool
  wbTicks :: nat
  wbCrypto :: crypto

definition NewWireGuardBackend :: "crypto \<Rightarrow> nat \<Rightarrow> 'm commandRunner option \<Rightarrow> int \<Rightarrow> 'm wireGuardBackend" where
  "NewWireGuardBackend C ticks runner pollInterval =
     \<lparr>wbRunner = runner, wbPollInterval = pollInterval, wbCleanupTimeout = DefaultTimeout,
      wbCanActivate = True, wbTicks = ticks, wbCrypto = C\<rparr>"

definition NewWireGuardObservationBackend :: "crypto \<Rightarrow> nat \<Rightarrow> 'm commandRunner option \<Rightarrow> 'm wireGuardBackend" where
  "NewWireGuardObservationBackend C ticks runner =
     \<lparr>wbRunner = runner, wbPollInterval = 0, wbCleanupTimeout = DefaultTimeout,
      wbCanActivate = False, wbTicks = ticks, wbCrypto = C\<rparr>"

definition runCommand :: "'m wireGuardBackend \<Rightarrow> string \<Rightarrow> string list \<Rightarrow> ('m, goerr + string) state" where
  "runCommand b name args =
     (case wbRunner b of None \<Rightarrow> return (Inl (ErrText ''nil command runner'')) | Some run \<Rightarrow> run name args)"

section \<open>Looking at the interfaces\<close>

definition wg_Available :: "'m wireGuardBackend \<Rightarrow> ('m, err) state" where
  "wg_Available b =
     (case wbRunner b of
        None \<Rightarrow> return (Some (Sentinel ErrUnavailable))
      | Some run \<Rightarrow> do {
          r \<leftarrow> run ''wg'' [''show'', ''interfaces''];
          return (case r of
              Inl _ \<Rightarrow> Some (Wrapf ''query WireGuard interfaces'' (Sentinel ErrUnavailable))
            | Inr _ \<Rightarrow> if \<not> wbCanActivate b
                       then Some (Wrapf ''wg-quick is unavailable'' (Sentinel ErrUnavailable)) else None)
        })"

definition interfacePresent :: "'m wireGuardBackend \<Rightarrow> string \<Rightarrow> ('m, goerr + bool) state" where
  "interfacePresent b identifier =
     tryE (wrapE ''query WireGuard interfaces'' (runCommand b ''wg'' [''show'', ''interfaces'']))
       (\<lambda>output. return (Inr (identifier \<in> set (stringFields output))))"

text \<open>The fingerprint of the key in the output, when it is the canonical base64 of 32 bytes.\<close>

definition keyFingerprint :: "crypto \<Rightarrow> string \<Rightarrow> string option" where
  "keyFingerprint C output =
     (let encoded = trimSpace output
      in case base64StdDecode encoded of
        None \<Rightarrow> None
      | Some key \<Rightarrow>
          if length key \<noteq> 32 \<or> base64StdEncode key \<noteq> encoded then None
          else Some (hexEncode (sha256 C key)))"

definition identityMatches :: "'m wireGuardBackend \<Rightarrow> tunnelProfile \<Rightarrow> ('m, goerr + bool) state" where
  "identityMatches b p = do {
     r \<leftarrow> runCommand b ''wg'' [''show'', tpIdentifier p, ''public-key''];
     return (case r of
         Inl _ \<Rightarrow> Inl (Wrapf ''query WireGuard interface identity'' (Sentinel ErrObservationFailed))
       | Inr output \<Rightarrow>
           case keyFingerprint (wbCrypto b) output of
             None \<Rightarrow> Inl (Wrapf ''malformed WireGuard public key'' (Sentinel ErrObservationFailed))
           | Some digest \<Rightarrow> Inr (digest = tpWireGuardPublicKeySHA256 p))
   }"

text \<open>The map from runtime names to profiles; a name used twice is an error.\<close>

fun indexProfiles ::
    "(string \<times> tunnelProfile) list \<Rightarrow> tunnelProfile list \<Rightarrow> goerr + (string \<times> tunnelProfile) list" where
  "indexProfiles m [] = Inr m"
| "indexProfiles m (p # ps) =
     (if tpProtocol p \<noteq> ProtocolWireGuard then indexProfiles m ps
      else if map_of m (tpIdentifier p) \<noteq> None
      then Inl (Wrapf ''duplicate WireGuard runtime name'' (Sentinel ErrIdentityConflict))
      else indexProfiles (m @ [(tpIdentifier p, p)]) ps)"

fun observeInterfaces ::
    "'m wireGuardBackend \<Rightarrow> (string \<times> tunnelProfile) list \<Rightarrow> observation list \<Rightarrow> string list \<Rightarrow>
     ('m, goerr + observation list) state" where
  "observeInterfaces b m active [] = return (Inr active)"
| "observeInterfaces b m active (name # names) =
     (case map_of m name of
        None \<Rightarrow> observeInterfaces b m active names
      | Some p \<Rightarrow> tryE (identityMatches b p) (\<lambda>matches.
          if \<not> matches
          then return (Inl (Wrapf ''WireGuard name exists with a different key'' (Sentinel ErrIdentityConflict)))
          else observeInterfaces b m (active @
            [\<lparr>obProfileID = tpID p, obProtocol = tpProtocol p, obIdentifier = tpIdentifier p\<rparr>]) names))"

definition wg_Observe ::
    "'m wireGuardBackend \<Rightarrow> tunnelProfile list \<Rightarrow> ('m, goerr + observation list) state" where
  "wg_Observe b ps = do {
     r \<leftarrow> runCommand b ''wg'' [''show'', ''interfaces''];
     case r of
       Inl _ \<Rightarrow> return (Inl (Wrapf ''query WireGuard interfaces'' (Sentinel ErrObservationFailed)))
     | Inr output \<Rightarrow>
         (case indexProfiles [] ps of
            Inl e \<Rightarrow> return (Inl e)
          | Inr m \<Rightarrow> observeInterfaces b m [] (stringFields output))
   }"

section \<open>Starting and stopping\<close>

definition validateWireGuardProfile :: "tunnelProfile \<Rightarrow> err" where
  "validateWireGuardProfile p =
     (if tpID p = [] \<or> tpProtocol p \<noteq> ProtocolWireGuard \<or> tpIdentifier p = [] \<or> tpPath p = []
         \<or> length (tpWireGuardPublicKeySHA256 p) \<noteq> 64
      then Some (ErrText ''invalid WireGuard profile'') else None)"

definition requireIdentity :: "'m wireGuardBackend \<Rightarrow> tunnelProfile \<Rightarrow> ('m, err) state" where
  "requireIdentity b p =
     openE (identityMatches b p) (\<lambda>matches.
       return (if \<not> matches then Some (Sentinel ErrIdentityConflict) else None))"

fun waitForProfile :: "'m wireGuardBackend \<Rightarrow> nat \<Rightarrow> tunnelProfile \<Rightarrow> bool \<Rightarrow> ('m, err) state" where
  "waitForProfile b ticks p present =
     openE (interfacePresent b (tpIdentifier p)) (\<lambda>seen.
       if seen = present then (if \<not> present then return None else requireIdentity b p)
       else if wbPollInterval b \<le> 0
       then return (Some (ErrText ''WireGuard interface did not reach expected state''))
       else case ticks of
         0 \<Rightarrow> return (Some (ErrText ''context is done''))
       | Suc k \<Rightarrow> waitForProfile b k p present)"

declare waitForProfile.simps [simp del]

definition bringDown :: "'m wireGuardBackend \<Rightarrow> tunnelProfile \<Rightarrow> ('m, err) state" where
  "bringDown b p = do {
     r \<leftarrow> runCommand b ''wg-quick'' [''down'', tpPath p];
     case r of Inl e \<Rightarrow> return (Some e) | Inr _ \<Rightarrow> waitForProfile b (wbTicks b) p False
   }"

definition cleanupFailedStart :: "'m wireGuardBackend \<Rightarrow> tunnelProfile \<Rightarrow> goerr \<Rightarrow> ('m, err) state" where
  "cleanupFailedStart b p cause = do {
     present \<leftarrow> interfacePresent b (tpIdentifier p);
     case present of
       Inr False \<Rightarrow> return (Some cause)
     | Inl observeErr \<Rightarrow> return (errorsJoin [Some cause, Some (Sentinel ErrCleanupUnproved),
         Some (Wrapf ''cleanup observation failed'' observeErr)])
     | Inr True \<Rightarrow> do {
         matches \<leftarrow> identityMatches b p;
         if matches \<noteq> Inr True
         then return (errorsJoin [Some cause, Some (Sentinel ErrCleanupUnproved),
           map_option (Wrapf ''cleanup identity was not proved'')
             (errorsJoin [Some (Sentinel ErrIdentityConflict), resultErr matches])])
         else do {
           downErr \<leftarrow> bringDown b p;
           return (case downErr of
               Some e \<Rightarrow> errorsJoin [Some cause, Some (Sentinel ErrCleanupUnproved),
                 Some (Wrapf ''cleanup failed'' e)]
             | None \<Rightarrow> Some cause)
         }
       }
   }"

definition wg_Start :: "'m wireGuardBackend \<Rightarrow> tunnelProfile \<Rightarrow> ('m, err) state" where
  "wg_Start b p =
     (if \<not> wbCanActivate b then return (Some (Sentinel ErrUnavailable))
      else thenE (return (validateWireGuardProfile p))
        (openE (interfacePresent b (tpIdentifier p)) (\<lambda>present.
          if present
          then return (Some (Wrapf ''WireGuard runtime name is already present'' (Sentinel ErrIdentityConflict)))
          else do {
            r \<leftarrow> runCommand b ''wg-quick'' [''up'', tpPath p];
            case r of
              Inl e \<Rightarrow> cleanupFailedStart b p (Wrapf ''start WireGuard profile'' e)
            | Inr _ \<Rightarrow> do {
                w \<leftarrow> waitForProfile b (wbTicks b) p True;
                case w of
                  Some e \<Rightarrow> cleanupFailedStart b p (Wrapf ''prove WireGuard profile ready'' e)
                | None \<Rightarrow> return None
              }
          })))"

definition wg_Stop :: "'m wireGuardBackend \<Rightarrow> tunnelProfile \<Rightarrow> ('m, err) state" where
  "wg_Stop b p =
     (if \<not> wbCanActivate b then return (Some (Sentinel ErrUnavailable))
      else thenE (return (validateWireGuardProfile p))
        (openE (wrapE ''inspect WireGuard profile before stopping'' (interfacePresent b (tpIdentifier p))) (\<lambda>present.
          if \<not> present then return None
          else openE (identityMatches b p) (\<lambda>matches.
            if \<not> matches
            then return (Some (Wrapf ''refusing to stop key-mismatched WireGuard interface''
                   (Sentinel ErrIdentityConflict)))
            else openE (wrapE ''stop WireGuard profile'' (runCommand b ''wg-quick'' [''down'', tpPath p])) (\<lambda>_.
              wrapErr ''prove WireGuard profile stopped'' (waitForProfile b (wbTicks b) p False))))))"

section \<open>Status\<close>

text \<open>One row of a peer, added to the status so far; \<open>index\<close> counts from one.\<close>

definition peerRow :: "protocolStatus \<Rightarrow> string \<Rightarrow> goerr + protocolStatus" where
  "peerRow st line =
     (let fields = splitOn (CHR 0x09) line
      in if length fields \<noteq> 8 then Inl (ErrText ''malformed WireGuard peer row'')
         else case parseInt64 (fields ! 4) of
           None \<Rightarrow> Inl (ErrText ''malformed WireGuard handshake in peer row'')
         | Some handshake \<Rightarrow>
             if handshake < 0 then Inl (ErrText ''malformed WireGuard handshake in peer row'')
             else case parseUint64 (fields ! 5) of
               None \<Rightarrow> Inl (ErrText ''malformed WireGuard receive counter in peer row'')
             | Some received \<Rightarrow>
                 case parseUint64 (fields ! 6) of
                   None \<Rightarrow> Inl (ErrText ''malformed WireGuard send counter in peer row'')
                 | Some sent \<Rightarrow>
                     let rx = word_of_nat received; tx = word_of_nat sent
                     in if - 1 - psReceivedBytes st < rx \<or> - 1 - psSentBytes st < tx
                        then Inl (ErrText ''WireGuard transfer counters overflow'')
                        else Inr (st\<lparr>psReceivedBytes := psReceivedBytes st + rx,
                               psSentBytes := psSentBytes st + tx,
                               psPeers := psPeers st @ [\<lparr>wpEndpoint = fields ! 2, wpLatestHandshake = handshake,
                                 wpReceivedBytes = rx, wpSentBytes = tx\<rparr>]\<rparr>))"

fun peerRows :: "protocolStatus \<Rightarrow> string list \<Rightarrow> goerr + protocolStatus" where
  "peerRows st [] = Inr st"
| "peerRows st (line # lines) =
     (case peerRow st line of Inl e \<Rightarrow> Inl e | Inr st' \<Rightarrow> peerRows st' lines)"

definition parseWireGuardDump :: "string \<Rightarrow> goerr + protocolStatus" where
  "parseWireGuardDump output =
     (case splitOn (CHR 0x0A) (trimSpace output) of
        [] \<Rightarrow> Inl (ErrText ''malformed WireGuard interface row'')
      | first # rest \<Rightarrow>
          if first = [] \<or> length (splitOn (CHR 0x09) first) \<noteq> 4
          then Inl (ErrText ''malformed WireGuard interface row'')
          else if length rest > 32 then Inl (ErrText ''WireGuard dump exceeds the managed peer limit'')
          else peerRows (stateOnly ''interface_active'') rest)"

definition wg_Status :: "'m wireGuardBackend \<Rightarrow> tunnelProfile \<Rightarrow> ('m, goerr + protocolStatus) state" where
  "wg_Status b p =
     checkE (return (validateWireGuardProfile p)) (do {
       r \<leftarrow> runCommand b ''wg'' [''show'', tpIdentifier p, ''dump''];
       return (case r of Inl _ \<Rightarrow> Inl (ErrText ''query WireGuard status'')
         | Inr output \<Rightarrow> parseWireGuardDump output)
     })"

definition wireGuardBackend :: "'m wireGuardBackend \<Rightarrow> 'm backend" where
  "wireGuardBackend b = \<lparr>bkProtocol = ProtocolWireGuard, bkExitSource = False,
     bkAvailable = wg_Available b, bkObserve = wg_Observe b, bkStart = wg_Start b, bkStop = wg_Stop b,
     bkStatus = wg_Status b, bkShutdown = return None\<rparr>"

end
