(* ===== verification/WireGuardLaws.thy ===== *)
theory WireGuardLaws
  imports WireGuard
begin

text \<open>
  What the WireGuard backend has seen when it says that a tunnel is up or down.  The runner is wrapped so
  that every call and its result is kept in a log behind the machine; the theorems hold for any runner.
\<close>

type_synonym commandLog = "(string \<times> string list \<times> (goerr + string)) list"

definition loggedRunner :: "'m commandRunner \<Rightarrow> ('m \<times> commandLog) commandRunner" where
  "loggedRunner run name args = do {
     r \<leftarrow> zoom fst (\<lambda>m s. (m, snd s)) (run name args);
     modify (\<lambda>(m, log). (m, log @ [(name, args, r)]));
     return r
   }"

definition logs :: "('m \<times> commandLog) wireGuardBackend \<Rightarrow> bool" where
  "logs b \<longleftrightarrow> (\<exists>run. wbRunner b = Some (loggedRunner run))"

definition showsInterface :: "string \<Rightarrow> bool \<Rightarrow> string \<times> string list \<times> (goerr + string) \<Rightarrow> bool" where
  "showsInterface i present entry \<longleftrightarrow>
     (\<exists>output. entry = (''wg'', [''show'', ''interfaces''], Inr output) \<and>
        (i \<in> set (stringFields output)) = present)"

definition showsKey :: "crypto \<Rightarrow> tunnelProfile \<Rightarrow> string \<times> string list \<times> (goerr + string) \<Rightarrow> bool" where
  "showsKey C p entry \<longleftrightarrow>
     (\<exists>output. entry = (''wg'', [''show'', tpIdentifier p, ''public-key''], Inr output) \<and>
        keyFingerprint C output = Some (tpWireGuardPublicKeySHA256 p))"

text \<open>What the last calls of a log prove: the interface is absent, or present with the profile's key.\<close>

definition provesAbsent :: "tunnelProfile \<Rightarrow> commandLog \<Rightarrow> bool" where
  "provesAbsent p log \<longleftrightarrow> log \<noteq> [] \<and> showsInterface (tpIdentifier p) False (last log)"

definition provesPresent :: "crypto \<Rightarrow> tunnelProfile \<Rightarrow> commandLog \<Rightarrow> bool" where
  "provesPresent C p log \<longleftrightarrow>
     (\<exists>old x y. log = old @ [x, y] \<and> showsInterface (tpIdentifier p) True x \<and> showsKey C p y)"

lemma wp_runCommand:
  assumes "logs b" and "\<And>r m'. Q r (m', log @ [(name, args, r)])"
  shows "wp (runCommand b name args) Q (m, log)"
  using assms by (auto simp: logs_def runCommand_def loggedRunner_def wp_simps wp_def split: prod.splits)

lemma interfacePresent_wp:
  assumes "logs b"
    and "\<And>e r m'. Q (Inl e) (m', log @ [(''wg'', [''show'', ''interfaces''], r)])"
    and "\<And>seen x m'. showsInterface i seen x \<Longrightarrow> fst x = ''wg'' \<Longrightarrow> Q (Inr seen) (m', log @ [x])"
  shows "wp (interfacePresent b i) Q (m, log)"
  unfolding interfacePresent_def wp_tryE wp_wrapE
proof (rule wp_runCommand [OF assms(1)], goal_cases)
  case (1 r m')
  then show ?case
    using assms(2,3) by (cases r) (auto simp: wp_return showsInterface_def)
qed

lemma identityMatches_wp:
  assumes "logs b"
    and "\<And>r x m'. fst x = ''wg'' \<Longrightarrow> r \<noteq> Inr True \<Longrightarrow> Q r (m', log @ [x])"
    and "\<And>x m'. showsKey (wbCrypto b) p x \<Longrightarrow> fst x = ''wg'' \<Longrightarrow> Q (Inr True) (m', log @ [x])"
  shows "wp (identityMatches b p) Q (m, log)"
  unfolding identityMatches_def wp_bind
proof (rule wp_runCommand [OF assms(1)], goal_cases)
  case (1 r m')
  let ?x = "(''wg'', [''show'', tpIdentifier p, ''public-key''], r)"
  show ?case
  proof (cases "showsKey (wbCrypto b) p ?x")
    case True
    with assms(3) [of ?x m'] show ?thesis by (auto simp: wp_return showsKey_def)
  next
    case False
    with assms(2) [of ?x _ m'] show ?thesis
      by (auto simp: wp_return showsKey_def split: sum.split option.split)
  qed
qed

definition quiet :: "commandLog \<Rightarrow> bool" where
  "quiet log \<longleftrightarrow> (\<forall>x\<in>set log. fst x = ''wg'')"

lemma quiet_simps [simp]: "quiet []" "quiet (x # xs) = (fst x = ''wg'' \<and> quiet xs)"
  "quiet (xs @ ys) = (quiet xs \<and> quiet ys)"
  by (auto simp: quiet_def)

text \<open>A wait that ends without an error ends with the proof it waited for.\<close>

lemma waitForProfile_wp:
  assumes L: "logs b"
    and "\<And>e new m'. quiet new \<Longrightarrow> Q (Some e) (m', log @ new)"
    and "\<And>new m'. quiet new \<Longrightarrow>
      (if present then provesPresent (wbCrypto b) p (log @ new) else provesAbsent p (log @ new)) \<Longrightarrow>
      Q None (m', log @ new)"
  shows "wp (waitForProfile b ticks p present) Q (m, log)"
proof -
  have waited: "wp (if seen = present then (if \<not> present then return None else requireIdentity b p)
       else if wbPollInterval b \<le> 0
       then return (Some (ErrText ''WireGuard interface did not reach expected state''))
       else again) Q (m', log @ new @ [x])"
    if x: "showsInterface (tpIdentifier p) seen x" "fst x = ''wg''" and new: "quiet new"
      and again: "wp again Q (m', log @ new @ [x])" for seen x again m' new
  proof -
    have identity: "wp (requireIdentity b p) Q (m', log @ new @ [x])" if "present" "seen"
      unfolding requireIdentity_def wp_openE
    proof (rule identityMatches_wp [OF L], goal_cases)
      case (1 r y u)
      with assms(2) [of "new @ [x, y]"] x new show ?case
        by (auto simp: wp_return split: sum.split)
    next
      case (2 y u)
      with assms(3) [of "new @ [x, y]"] x new that show ?case
        by (auto simp: wp_return provesPresent_def)
    qed
    show ?thesis
      using again identity assms(2) [of "new @ [x]"] assms(3) [of "new @ [x]"] x new
      by (auto simp: wp_return provesAbsent_def)
  qed
  have "wp (waitForProfile b ticks p present) Q (m', log @ new)" if "quiet new" for new m'
    using that
  proof (induction ticks arbitrary: new m')
    case 0
    show ?case
      unfolding waitForProfile.simps [of b 0] wp_openE
    proof (rule interfacePresent_wp [OF L], goal_cases)
      case (1 e r u)
      with assms(2) [of "new @ [_]"] 0 show ?case by simp
    next
      case (2 seen x u)
      with waited [OF 2 0] assms(2) [of "new @ [x]"] 0 show ?case by (simp add: wp_return)
    qed
  next
    case (Suc ticks)
    show ?case
      unfolding waitForProfile.simps [of b "Suc ticks"] wp_openE
    proof (rule interfacePresent_wp [OF L], goal_cases)
      case (1 e r u)
      with assms(2) [of "new @ [_]"] Suc.prems show ?case by simp
    next
      case (2 seen x u)
      with waited [OF 2 Suc.prems] Suc.IH [of "new @ [x]"] Suc.prems show ?case by simp
    qed
  qed
  from this [of "[]"] show ?thesis by simp
qed

text \<open>\<open>wg-quick up\<close> is in the log.\<close>

definition broughtUp :: "commandLog \<Rightarrow> bool" where
  "broughtUp log \<longleftrightarrow> (\<exists>x\<in>set log. fst x = ''wg-quick'' \<and> hd (fst (snd x)) = ''up'')"

lemma quiet_broughtUp: "quiet log \<Longrightarrow> \<not> broughtUp log"
  by (auto simp: quiet_def broughtUp_def)

lemma bringDown_wp:
  assumes L: "logs b"
    and "\<And>e new m'. Q (Some e) (m', log @ new)"
    and "\<And>new m'. provesAbsent p (log @ new) \<Longrightarrow> Q None (m', log @ new)"
  shows "wp (bringDown b p) Q (m, log)"
  unfolding bringDown_def wp_bind
proof (rule wp_runCommand [OF L], goal_cases)
  case (1 r m')
  show ?case
  proof (cases r)
    case (Inl e)
    with assms(2) show ?thesis by (simp add: wp_return)
  next
    case (Inr out)
    let ?x = "(''wg-quick'', [''down'', tpPath p], r)"
    show ?thesis
      unfolding Inr sum.case
    proof (rule waitForProfile_wp [OF L], goal_cases)
      case (1 e new u)
      with assms(2) [of e u "?x # new"] Inr show ?case by simp
    next
      case (2 new u)
      with assms(3) [of "?x # new" u] Inr show ?case by simp
    qed
  qed
qed

text \<open>The cause alone is returned only when the interface was last seen to be absent.\<close>

lemma cleanupFailedStart_wp:
  assumes L: "logs b"
    and unproved: "\<And>e new m'. errorsIs e ErrCleanupUnproved \<Longrightarrow> Q (Some e) (m', log @ new)"
    and absent: "\<And>new m'. provesAbsent p (log @ new) \<Longrightarrow> Q (Some cause) (m', log @ new)"
  shows "wp (cleanupFailedStart b p cause) Q (m, log)"
  unfolding cleanupFailedStart_def wp_bind [of "interfacePresent _ _"]
proof (rule interfacePresent_wp [OF L], goal_cases)
  case (1 e r m')
  show ?case by (auto simp: wp_return map_filter_simps errorsJoin_def Let_def intro!: unproved)
next
  case (2 seen x m')
  show ?case
  proof (cases seen)
    case False
    with 2 absent [of "[x]"] show ?thesis by (auto simp: wp_return provesAbsent_def)
  next
    case True
    have failed: "wp (return (errorsJoin [Some cause, Some (Sentinel ErrCleanupUnproved), y])) Q
        (u, log @ new)" for y new u
      using unproved by (auto simp: wp_return errorsJoin_def map_filter_simps)
    have down: "wp (do {
           downErr \<leftarrow> bringDown b p;
           return (case downErr of
               Some e \<Rightarrow> errorsJoin [Some cause, Some (Sentinel ErrCleanupUnproved),
                 Some (Wrapf ''cleanup failed'' e)]
             | None \<Rightarrow> Some cause) }) Q (u, log @ [x, y])" for y u
      unfolding wp_bind
    proof (rule bringDown_wp [OF L], goal_cases)
      case (1 e new v)
      with failed [of _ v "x # y # new"] show ?case by (simp add: wp_return)
    next
      case (2 new v)
      with absent [of "x # y # new" v] show ?case by (simp add: wp_return)
    qed
    show ?thesis
    proof (simp only: True sum.case bool.case wp_bind [of "identityMatches _ _"],
        rule identityMatches_wp [OF L], goal_cases)
      case (1 r y u)
      with failed [of _ u "[x, y]"] show ?case by simp
    next
      case (2 y u)
      with down [of u y] show ?case by simp
    qed
  qed
qed

lemma wg_Start_wp:
  fixes b :: "('m \<times> commandLog) wireGuardBackend"
  assumes L: "logs b"
  shows "wp (wg_Start b p) (\<lambda>r (m', log). case r of
      None \<Rightarrow> provesPresent (wbCrypto b) p log
    | Some e \<Rightarrow> errorsIs e ErrCleanupUnproved \<or> \<not> broughtUp log \<or> provesAbsent p log) (m, [])"
    (is "wp _ ?Q _")
proof -
  have cleanup: "wp (cleanupFailedStart b p cause) ?Q (u, log)" for cause log and u :: 'm
    by (rule cleanupFailedStart_wp [OF L]) auto
  have ready: "wp (do {
         w \<leftarrow> waitForProfile b (wbTicks b) p True;
         case w of
           Some e \<Rightarrow> cleanupFailedStart b p (Wrapf ''prove WireGuard profile ready'' e)
         | None \<Rightarrow> return None }) ?Q (u, log)" for log and u :: 'm
    unfolding wp_bind
    by (rule waitForProfile_wp [OF L]) (auto simp: wp_return cleanup)
  have start: "wp (do {
        r \<leftarrow> runCommand b ''wg-quick'' [''up'', tpPath p];
        case r of
          Inl e \<Rightarrow> cleanupFailedStart b p (Wrapf ''start WireGuard profile'' e)
        | Inr _ \<Rightarrow> do {
            w \<leftarrow> waitForProfile b (wbTicks b) p True;
            case w of
              Some e \<Rightarrow> cleanupFailedStart b p (Wrapf ''prove WireGuard profile ready'' e)
            | None \<Rightarrow> return None } }) ?Q (u, log)" for log and u :: 'm
    unfolding wp_bind [of "runCommand _ _ _"]
    by (rule wp_runCommand [OF L]) (auto simp: cleanup ready split: sum.split)
  have look: "wp (openE (interfacePresent b (tpIdentifier p)) (\<lambda>present.
          if present
          then return (Some (Wrapf ''WireGuard runtime name is already present'' (Sentinel ErrIdentityConflict)))
          else do {
            r \<leftarrow> runCommand b ''wg-quick'' [''up'', tpPath p];
            case r of
              Inl e \<Rightarrow> cleanupFailedStart b p (Wrapf ''start WireGuard profile'' e)
            | Inr _ \<Rightarrow> do {
                w \<leftarrow> waitForProfile b (wbTicks b) p True;
                case w of
                  Some e \<Rightarrow> cleanupFailedStart b p (Wrapf ''prove WireGuard profile ready'' e)
                | None \<Rightarrow> return None
              }
          })) ?Q (m, [])"
    unfolding wp_openE
  proof (rule interfacePresent_wp [OF L], goal_cases)
    case (1 e r u)
    show ?case by (simp add: broughtUp_def)
  next
    case (2 seen x u)
    with start [of u "[x]"] show ?case by (auto simp: wp_return broughtUp_def)
  qed
  then show ?thesis
    unfolding wg_Start_def
    by (auto simp: wp_return wp_thenE broughtUp_def split: option.split)
qed

text \<open>A tunnel reported as stopped was last seen to be absent.\<close>

lemma wg_Stop_wp:
  fixes b :: "('m \<times> commandLog) wireGuardBackend"
  assumes L: "logs b"
  shows "wp (wg_Stop b p) (\<lambda>r (m', log). r = None \<longrightarrow> provesAbsent p log) (m, [])" (is "wp _ ?Q _")
proof -
  have wait: "wp (wrapErr msg (waitForProfile b (wbTicks b) p False)) ?Q (u, log)" for msg log and u :: 'm
    unfolding wp_wrapErr by (rule waitForProfile_wp [OF L]) auto
  have down: "wp (openE (wrapE msg (runCommand b name args)) (\<lambda>_.
      wrapErr msg' (waitForProfile b (wbTicks b) p False))) ?Q (u, log)" for msg msg' name args log and u :: 'm
    unfolding wp_openE wp_wrapE
    by (rule wp_runCommand [OF L]) (auto simp: wait split: sum.split)
  have identity: "wp (openE (identityMatches b p) (\<lambda>matches.
       if \<not> matches then return (Some e)
       else openE (wrapE msg (runCommand b name args)) (\<lambda>_.
         wrapErr msg' (waitForProfile b (wbTicks b) p False)))) ?Q (u, log)"
    for e msg msg' name args log and u :: 'm
    unfolding wp_openE [of "identityMatches _ _"]
    by (rule identityMatches_wp [OF L]) (auto simp: wp_return down split: sum.split)
  have look: "wp (openE (wrapE msg0 (interfacePresent b (tpIdentifier p))) (\<lambda>present.
       if \<not> present then return None
       else openE (identityMatches b p) (\<lambda>matches.
         if \<not> matches then return (Some e)
         else openE (wrapE msg (runCommand b name args)) (\<lambda>_.
           wrapErr msg' (waitForProfile b (wbTicks b) p False))))) ?Q (m, [])"
    for msg0 e msg msg' name args
    unfolding wp_openE [of "wrapE _ _"] wp_wrapE
  proof (rule interfacePresent_wp [OF L], goal_cases)
    case (1 e r u)
    show ?case by simp
  next
    case (2 seen x u)
    with identity [of e msg name args msg' u "[x]"] show ?case by (auto simp: wp_return provesAbsent_def)
  qed
  then show ?thesis
    unfolding wg_Stop_def
    by (auto simp: wp_return wp_thenE split: option.split)
qed

end
