(* ===== verification/WireGuardProperties.thy ===== *)
theory WireGuardProperties
  imports WireGuardLaws
begin

text \<open>
  The properties of the WireGuard backend: what an observation reports, what a start, a failed start and
  a stop have seen, and the counters of a status.
\<close>

section \<open>Observing\<close>

definition observationOf :: "tunnelProfile \<Rightarrow> observation" where
  "observationOf p = \<lparr>obProfileID = tpID p, obProtocol = tpProtocol p, obIdentifier = tpIdentifier p\<rparr>"

lemma indexProfiles_Inr:
  "indexProfiles m ps = Inr m' \<Longrightarrow>
     (\<forall>i p. map_of m i = Some p \<longrightarrow> map_of m' i = Some p) \<and>
     (\<forall>p\<in>set ps. tpProtocol p = ProtocolWireGuard \<longrightarrow> map_of m' (tpIdentifier p) = Some p) \<and>
     (\<forall>i p. map_of m' i = Some p \<longrightarrow> map_of m i = Some p \<or> p \<in> set ps \<and> i = tpIdentifier p)"
proof (induction ps arbitrary: m)
  case (Cons q ps)
  show ?case
  proof (cases "tpProtocol q = ProtocolWireGuard")
    case False
    with Cons.IH [of m] Cons.prems show ?thesis by fastforce
  next
    case True
    with Cons.prems have new: "map_of m (tpIdentifier q) = None"
      and rest: "indexProfiles (m @ [(tpIdentifier q, q)]) ps = Inr m'"
      by (auto split: if_splits)
    have old: "map_of m i = Some p \<Longrightarrow> map_of (m @ [(tpIdentifier q, q)]) i = Some p" for i p
      by (simp add: map_add_def split: option.split)
    have both: "map_of (m @ [(tpIdentifier q, q)]) i = Some p \<Longrightarrow>
        map_of m i = Some p \<or> p = q \<and> i = tpIdentifier q" for i p
      by (auto simp: map_add_def split: option.splits if_splits)
    have "map_of (m @ [(tpIdentifier q, q)]) (tpIdentifier q) = Some q"
      using new by (simp add: map_add_def)
    with Cons.IH [OF rest] have "map_of m' (tpIdentifier q) = Some q" by blast
    with Cons.IH [OF rest] have
        "\<forall>i p. map_of m i = Some p \<longrightarrow> map_of m' i = Some p"
        "\<forall>p\<in>set (q # ps). tpProtocol p = ProtocolWireGuard \<longrightarrow> map_of m' (tpIdentifier p) = Some p"
        "\<forall>i p. map_of m' i = Some p \<longrightarrow> map_of m i = Some p \<or> p \<in> set (q # ps) \<and> i = tpIdentifier p"
      using old both by (blast, simp, metis set_ConsD list.set_intros)
    then show ?thesis by blast
  qed
qed simp

lemma observeInterfaces_wp:
  fixes b :: "('m \<times> commandLog) wireGuardBackend" and m :: 'm
  assumes L: "logs b"
  shows "wp (observeInterfaces b index active names) (\<lambda>r (m', log'). \<exists>new. log' = log @ new \<and>
     (\<forall>obs. r = Inr obs \<longrightarrow> set active \<subseteq> set obs \<and>
        (\<forall>n\<in>set names. \<forall>p. map_of index n = Some p \<longrightarrow> observationOf p \<in> set obs) \<and>
        (\<forall>x\<in>set obs. x \<in> set active \<or> (\<exists>n\<in>set names. \<exists>p. map_of index n = Some p \<and>
           x = observationOf p \<and> (\<exists>y\<in>set new. showsKey (wbCrypto b) p y))))) (m, log)"
proof (induction names arbitrary: active m log)
  case Nil
  then show ?case by (simp add: wp_return)
next
  case (Cons n names)
  show ?case
  proof (cases "map_of index n")
    case None
    show ?thesis
      unfolding observeInterfaces.simps None option.case
      by (rule wp_mono [OF Cons.IH]) (use None in fastforce)
  next
    case (Some p)
    show ?thesis
      unfolding observeInterfaces.simps Some option.case wp_tryE
    proof (rule identityMatches_wp [OF L], goal_cases)
      case (1 r y m')
      then show ?case by (auto simp: wp_return split: sum.split)
    next
      case (2 y m')
      from Cons.IH [where active = "active @ [observationOf p]" and m = m' and log = "log @ [y]"]
      show ?case
        unfolding sum.case not_True_eq_False if_False observationOf_def [symmetric]
      proof (rule wp_mono, goal_cases)
        case (1 r s)
        obtain u log' where s: "s = (u, log')" by (cases s)
        from 1 s obtain new where "log' = log @ [y] @ new" and
          "\<forall>obs. r = Inr obs \<longrightarrow> set (active @ [observationOf p]) \<subseteq> set obs \<and>
            (\<forall>n\<in>set names. \<forall>p. map_of index n = Some p \<longrightarrow> observationOf p \<in> set obs) \<and>
            (\<forall>x\<in>set obs. x \<in> set (active @ [observationOf p]) \<or> (\<exists>n\<in>set names. \<exists>p. map_of index n = Some p \<and>
               x = observationOf p \<and> (\<exists>y\<in>set new. showsKey (wbCrypto b) p y)))"
          by auto
        with Some 2 show ?case
          unfolding s prod.case by (intro exI [of _ "y # new"]) fastforce
      qed
    qed
  qed
qed

abbreviation watched :: "'m wireGuardBackend \<Rightarrow> ('m \<times> commandLog) commandRunner \<Rightarrow> ('m \<times> commandLog) wireGuardBackend" where
  "watched b run \<equiv> \<lparr>wbRunner = Some run, wbPollInterval = wbPollInterval b,
     wbCleanupTimeout = wbCleanupTimeout b, wbCanActivate = wbCanActivate b, wbTicks = wbTicks b,
     wbCrypto = wbCrypto b\<rparr>"

lemma watched_logs: "logs (watched b (loggedRunner run))"
  by (auto simp: logs_def)

text \<open>A machine for the concrete instances: one interface of another program, and ours while \<open>True\<close>.\<close>

definition sampleRunner :: "bool commandRunner" where
  "sampleRunner name args = State (\<lambda>u.
     if name = ''wg-quick'' then (Inr [], hd args = ''up'')
     else if args = [''show'', ''interfaces''] then (Inr (if u then ''wg9 tf0'' else ''wg9''), u)
     else (Inr (base64StdEncode (replicate 32 (CHR ''k''))), u))"

definition sampleTunnel :: tunnelProfile where
  "sampleTunnel = \<lparr>tpID = ''p'', tpProtocol = ProtocolWireGuard, tpIdentifier = ''tf0'', tpPath = ''/run/tf0.conf'',
     tpWireGuardPublicKeySHA256 = hexEncode (sha256 sampleCrypto (replicate 32 (CHR ''k'')))\<rparr>"

definition sampleWireGuard :: "bool wireGuardBackend" where
  "sampleWireGuard = NewWireGuardBackend sampleCrypto 0 (Some sampleRunner) 0"

text \<open>C14: an observation without an error reports exactly the profiles whose interface was listed, each
  after the key of that interface was read and found to be the profile's.\<close>

theorem wireguard_observation_exact:
  "wp (wg_Observe (watched b (loggedRunner run)) ps) (\<lambda>r (m', log). case r of Inl e \<Rightarrow> True
    | Inr obs \<Rightarrow> \<exists>out rest. log = (''wg'', [''show'', ''interfaces''], Inr out) # rest \<and>
        (\<forall>p. p \<in> set ps \<and> tpProtocol p = ProtocolWireGuard \<and> tpIdentifier p \<in> set (stringFields out) \<longrightarrow>
           observationOf p \<in> set obs) \<and>
        (\<forall>x\<in>set obs. \<exists>p\<in>set ps. x = observationOf p \<and> tpIdentifier p \<in> set (stringFields out) \<and>
           (\<exists>y\<in>set rest. showsKey (wbCrypto b) p y))) (m, [])"
    (is "wp _ ?Q _")
proof -
  let ?b = "watched b (loggedRunner run)"
  have "wp (case indexProfiles [] ps of Inl e \<Rightarrow> return (Inl e)
      | Inr index \<Rightarrow> observeInterfaces ?b index [] (stringFields out)) ?Q
      (u, [(''wg'', [''show'', ''interfaces''], Inr out)])" for out u
  proof (cases "indexProfiles [] ps")
    case (Inl e)
    then show ?thesis by (simp add: wp_return)
  next
    case (Inr index)
    note i = indexProfiles_Inr [OF Inr]
    show ?thesis
      unfolding Inr sum.case
    proof (rule wp_mono [OF observeInterfaces_wp [OF watched_logs]], goal_cases)
      case (1 r s)
      obtain m' log where s: "s = (m', log)" by (cases s)
      show ?case
      proof (cases r)
        case (Inr obs)
        with 1 s obtain new where log: "log = (''wg'', [''show'', ''interfaces''], Inr out) # new"
          and seen: "\<forall>n\<in>set (stringFields out). \<forall>p. map_of index n = Some p \<longrightarrow> observationOf p \<in> set obs"
          and only: "\<forall>x\<in>set obs. \<exists>n\<in>set (stringFields out). \<exists>p. map_of index n = Some p \<and>
            x = observationOf p \<and> (\<exists>y\<in>set new. showsKey (wbCrypto b) p y)"
          by auto
        have "map_of index n = Some p \<Longrightarrow> p \<in> set ps \<and> n = tpIdentifier p" for n p
          using i by auto
        with only have "\<forall>x\<in>set obs. \<exists>p\<in>set ps. x = observationOf p \<and>
            tpIdentifier p \<in> set (stringFields out) \<and> (\<exists>y\<in>set new. showsKey (wbCrypto b) p y)"
          by blast
        moreover have "\<forall>p. p \<in> set ps \<and> tpProtocol p = ProtocolWireGuard \<and>
            tpIdentifier p \<in> set (stringFields out) \<longrightarrow> observationOf p \<in> set obs"
          using i seen by auto
        ultimately show ?thesis using log Inr s by simp
      qed (simp add: s)
    qed
  qed
  then show ?thesis
    unfolding wg_Observe_def wp_bind
    by (intro wp_runCommand [OF watched_logs]) (auto simp: wp_return split: sum.split)
qed

theorem wireguard_observation_exact_witness:
  "\<exists>log. \<exists>y\<in>set log. showsKey sampleCrypto sampleTunnel y"
proof -
  let ?run = "run_state (wg_Observe (watched sampleWireGuard (loggedRunner sampleRunner)) [sampleTunnel]) (True, [])"
  obtain r u log where run: "?run = (r, u, log)" by (cases ?run) auto
  have "fst ?run = Inr [observationOf sampleTunnel]" by code_simp
  then have r: "r = Inr [observationOf sampleTunnel]" unfolding run by simp
  have C: "wbCrypto sampleWireGuard = sampleCrypto" by (simp add: sampleWireGuard_def NewWireGuardBackend_def)
  from wp_runD [OF wireguard_observation_exact run] obtain rest p where
      "p \<in> set [sampleTunnel]" and "\<exists>y\<in>set rest. showsKey (wbCrypto sampleWireGuard) p y"
    unfolding r by auto
  then show ?thesis unfolding C by auto
qed

text \<open>C13: a start that reports success has last seen the interface and then the profile's own key on it;
  one that fails without admitting that cleanup is unproved either never ran \<open>wg-quick up\<close> or has last
  seen the interface to be absent.  A stop that reports success has last seen it to be absent.\<close>

theorem wireguard_start_stop_proved:
  "wp (wg_Start (watched b (loggedRunner run)) p) (\<lambda>r (m', log). case r of
      None \<Rightarrow> provesPresent (wbCrypto b) p log
    | Some e \<Rightarrow> errorsIs e ErrCleanupUnproved \<or> \<not> broughtUp log \<or> provesAbsent p log) (m, []) \<and>
   wp (wg_Stop (watched b (loggedRunner run)) p) (\<lambda>r (m', log). r = None \<longrightarrow> provesAbsent p log) (m, [])"
  using wg_Start_wp [OF watched_logs [of run b], of p m] wg_Stop_wp [OF watched_logs [of run b], of p m]
  unfolding wireGuardBackend.simps by (rule conjI)

theorem wireguard_start_stop_proved_witness:
  "case run_state (wg_Stop (watched sampleWireGuard (loggedRunner sampleRunner)) sampleTunnel) (False, []) of
     (r, u, log) \<Rightarrow> provesAbsent sampleTunnel log"
proof -
  let ?run = "run_state (wg_Stop (watched sampleWireGuard (loggedRunner sampleRunner)) sampleTunnel) (False, [])"
  obtain r u log where run: "?run = (r, u, log)" by (cases ?run) auto
  have "fst ?run = None" by code_simp
  then have r: "r = None" unfolding run by simp
  from wp_runD [OF wireguard_start_stop_proved [THEN conjunct2] run] have "provesAbsent sampleTunnel log"
    unfolding r prod.case by simp
  then show ?thesis unfolding run prod.case .
qed

section \<open>Status\<close>

definition countersExact :: "protocolStatus \<Rightarrow> bool" where
  "countersExact st \<longleftrightarrow>
     unat (psReceivedBytes st) = sum_list (map (unat \<circ> wpReceivedBytes) (psPeers st)) \<and>
     unat (psSentBytes st) = sum_list (map (unat \<circ> wpSentBytes) (psPeers st)) \<and>
     (\<forall>p\<in>set (psPeers st). 0 \<le> wpLatestHandshake p)"

lemma room_add:
  fixes a r :: "64 word"
  assumes "\<not> - 1 - a < r"
  shows "unat (a + r) = unat a + unat r"
proof -
  have "unat r \<le> unat (- 1 - a)" using assms by (simp add: word_le_nat_alt not_less)
  also have "\<dots> = unat (- 1 :: 64 word) - unat a" by (rule unat_sub) simp
  also have "unat (- 1 :: 64 word) = 2 ^ LENGTH(64) - 1" by code_simp
  finally have "unat a + unat r < 2 ^ LENGTH(64)"
    using unsigned_less [where ?'a = nat, of a] by simp
  then show ?thesis by (rule unat_add_lem [THEN iffD1])
qed

lemma peerRow_exact:
  "peerRow st line = Inr st' \<Longrightarrow> countersExact st \<Longrightarrow>
     countersExact st' \<and> length (psPeers st') = length (psPeers st) + 1"
  by (auto simp: peerRow_def Let_def countersExact_def room_add split: if_splits option.splits)

lemma peerRows_exact:
  "peerRows st lines = Inr st' \<Longrightarrow> countersExact st \<Longrightarrow>
     countersExact st' \<and> length (psPeers st') = length (psPeers st) + length lines"
proof (induction lines arbitrary: st)
  case (Cons line lines)
  then show ?case by (fastforce split: sum.splits dest: peerRow_exact)
qed simp

text \<open>C15: the totals of a status are the exact sums of the counters of its peers, of which there are at
  most 32; a dump whose sums would wrap around is refused.\<close>

theorem dump_counters_exact:
  assumes "parseWireGuardDump dump = Inr st"
  shows "unat (psReceivedBytes st) = sum_list (map (unat \<circ> wpReceivedBytes) (psPeers st)) \<and>
     unat (psSentBytes st) = sum_list (map (unat \<circ> wpSentBytes) (psPeers st)) \<and>
     length (psPeers st) \<le> 32 \<and> (\<forall>p\<in>set (psPeers st). 0 \<le> wpLatestHandshake p)"
proof -
  have "countersExact (stateOnly ''interface_active'')" by (simp add: countersExact_def stateOnly_def)
  with assms show ?thesis
    by (auto simp: parseWireGuardDump_def countersExact_def stateOnly_def
        split: list.splits if_splits dest!: peerRows_exact)
qed

definition sampleDump :: string where
  "sampleDump = (let tab = CHR 0x09; row = (\<lambda>fields. concat (map (\<lambda>f. f @ [tab]) (butlast fields)) @ last fields)
     in row [''priv'', ''pub'', ''51820'', ''off''] @ [CHR 0x0A] @
        row [''peer'', ''psk'', ''192.0.2.1:51820'', ''0.0.0.0/0'', ''1700000000'', ''18446744073709551000'', ''5'', ''25''] @
        [CHR 0x0A] @ row [''peer2'', ''psk'', ''(none)'', ''0.0.0.0/0'', ''0'', ''615'', ''7'', ''off''])"

theorem dump_counters_exact_witness:
  "case parseWireGuardDump sampleDump of Inl e \<Rightarrow> False
   | Inr st \<Rightarrow> unat (psReceivedBytes st) = sum_list (map (unat \<circ> wpReceivedBytes) (psPeers st))"
proof -
  have "case parseWireGuardDump sampleDump of Inl e \<Rightarrow> False | Inr st \<Rightarrow> length (psPeers st) = 2" by code_simp
  then obtain st where "parseWireGuardDump sampleDump = Inr st" by (auto split: sum.splits)
  with dump_counters_exact [OF this] show ?thesis by simp
qed

end
