(* ===== verification/Import.thy ===== *)
theory Import
  imports Store GoTime
begin

text \<open>
  The import service, \<open>internal/profiles/import.go\<close>: inspecting files, signing what was found in a
  receipt, and committing the files with the receipt.  The service record holds what never changes, its
  key included; the state is the store, the token of the service's gate and the environment \<open>'n\<close> that
  the commit admission acts on.  The clock, the entropy source, the WireGuard compatibility check and the
  lookup of runtime names act on the machine \<open>'w\<close> of the store.  \<open>Inspect\<close> and \<open>Commit\<close> hold the gate
  from start to end.
\<close>

section \<open>HMAC\<close>

definition xorByte :: "nat \<Rightarrow> char \<Rightarrow> char" where
  "xorByte n c = char_of (Bit_Operations.xor n (byteOf c))"

text \<open>RFC 2104 over SHA-256, whose block has 64 bytes.\<close>

definition hmacSHA256 :: "crypto \<Rightarrow> bytes \<Rightarrow> bytes \<Rightarrow> bytes" where
  "hmacSHA256 C key msg =
     (let k = (if length key > 64 then sha256 C key else key);
          block = k @ replicate (64 - length k) (CHR 0x00)
      in sha256 C (map (xorByte 0x5C) block @ sha256 C (map (xorByte 0x36) block @ msg)))"

section \<open>Names\<close>

text \<open>\<open>filepath.Ext\<close>\<close>

definition pathExt :: "string \<Rightarrow> string" where
  "pathExt path =
     (let element = rev (takeWhile (\<lambda>c. c \<noteq> CHR ''/'') (rev path))
      in if CHR ''.'' \<in> set element then CHR ''.'' # rev (takeWhile (\<lambda>c. c \<noteq> CHR ''.'') (rev element)) else [])"

definition toUpper :: "utab \<Rightarrow> string \<Rightarrow> string" where
  "toUpper U s = concat (map (\<lambda>r. encodeRune (upperRune U r)) (runes s))"

definition upperFirst :: "utab \<Rightarrow> string \<Rightarrow> string" where
  "upperFirst U word =
     (case decodeRune word of (first, width) \<Rightarrow> toUpper U (encodeRune first) @ drop width word)"

text \<open>The mapping of \<open>strings.Map\<close>; a dropped rune is \<open>None\<close>.\<close>

definition nameRune :: "nat \<Rightarrow> nat option" where
  "nameRune r = (if r = 95 \<or> r = 45 then Some 32 else if isControl r then None else Some r)"

lemma lastRuneStart_le: "lastRuneStart k s i \<le> i"
  by (induction k s i rule: lastRuneStart.induct) auto

lemma decodeLastRune_pos: "s \<noteq> [] \<Longrightarrow> 0 < snd (decodeLastRune s)"
proof -
  assume "s \<noteq> []"
  then have "lastRuneStart 3 s (length s - 1) < length s"
    using lastRuneStart_le [of 3 s "length s - 1"] by (cases s) auto
  then show ?thesis
    using \<open>s \<noteq> []\<close> by (auto simp: decodeLastRune_def Let_def split: prod.splits)
qed

function truncateName :: "string \<Rightarrow> string" where
  "truncateName result =
     (if runeCount result > MaxDisplayNameRunes \<or> length result > MaxDisplayNameBytes
      then truncateName (take (length result - snd (decodeLastRune result)) result)
      else result)"
  by pat_completeness auto
termination
proof (relation "measure length")
  fix result :: string
  assume "runeCount result > MaxDisplayNameRunes \<or> length result > MaxDisplayNameBytes"
  then have "result \<noteq> []" by (auto simp: runeCount_def)
  with decodeLastRune_pos [of result] show "(take (length result - snd (decodeLastRune result)) result, result) \<in> measure length"
    by simp
qed simp

declare truncateName.simps [simp del]

definition suggestedDisplayName :: "utab \<Rightarrow> string \<Rightarrow> string" where
  "suggestedDisplayName U name =
     (let base = trimSuffix name (pathExt name);
          base = trimSpace (concat (map encodeRune (List.map_filter nameRune (runes base))))
      in if base = [] then ''Imported profile''
         else trimSpace (truncateName (joinWith '' '' (map (upperFirst U) (stringFields base)))))"

section \<open>Files and records\<close>

definition MaxImportFiles :: nat where "MaxImportFiles = 100"
definition MaxImportRequest :: nat where "MaxImportRequest = 32 * 2 ^ 20"
definition receiptVersion :: nat where "receiptVersion = 1"
definition receiptTTL :: int where "receiptTTL = 3600"

record importFile =
  ifName :: string
  ifBytes :: string
  ifProtocolOverride :: string

record policyIssue =
  piField :: string
  piCode :: string
  piMessage :: string

record inspectionRecord =
  irOrdinal :: int
  irID :: string
  irProtocol :: string
  irIdentifier :: string
  irDisposition :: string
  irIssues :: "policyIssue list"
  irDigest :: string
  irWireGuardPublicKeyDigest :: string
  irProtocolOverride :: string

record metadataSuggestion =
  msOrdinal :: int
  msDisplayName :: string
  msGroup :: string
  msLocation :: string

record inspection =
  inLibraryRevision :: "64 word"
  inRecords :: "inspectionRecord list"
  inSuggestions :: "metadataSuggestion list"
  inReceipt :: string
  inExpiresAt :: "goTime option"
  inCommitReady :: bool

record commitRequest =
  crFiles :: "importFile list"
  crLibraryRevision :: "64 word"
  crRecords :: "inspectionRecord list"
  crMetadata :: "(int \<times> metadata) list"
  crReceipt :: string
  crTrustProfilePolicy :: bool

record importResult =
  rsOrdinal :: int
  rsResult :: string
  rsProfile :: profile

record commitResult =
  cmRecords :: "importResult list"
  cmReplayed :: bool
  cmRevision :: "64 word"

record ('w, 'n) importService =
  isStore :: "'w store"
  isRandom :: "nat \<Rightarrow> ('w, goerr + string) state"
  isNow :: "('w, goTime) state"
  isChecker :: "string \<Rightarrow> ('w, err) state"
  isRuntimeNameAvailable :: "(string \<Rightarrow> ('w, goerr + bool) state) option"
  isCommitAdmission :: "('n, goerr + ('n, unit) state option) state option"
  isKey :: bytes

record ('w, 'n) istate =
  iStore :: "'w sstate"
  iEnv :: 'n
  iGate :: bool

definition onStore :: "('w sstate, 'a) state \<Rightarrow> (('w, 'n) istate, 'a) state" where
  "onStore = zoom iStore (\<lambda>t s. s\<lparr>iStore := t\<rparr>)"

definition onMachine :: "('w, 'a) state \<Rightarrow> (('w, 'n) istate, 'a) state" where
  "onMachine m = onStore (onWorld m)"

definition onEnv :: "('n, 'a) state \<Rightarrow> (('w, 'n) istate, 'a) state" where
  "onEnv = zoom iEnv (\<lambda>t s. s\<lparr>iEnv := t\<rparr>)"

abbreviation isCrypto :: "('w, 'n) importService \<Rightarrow> crypto" where
  "isCrypto I \<equiv> sCrypto (isStore I)"

abbreviation isTables :: "('w, 'n) importService \<Rightarrow> utab" where
  "isTables I \<equiv> sTables (isStore I)"

definition NewImportService ::
    "'w store option \<Rightarrow> (nat \<Rightarrow> ('w, goerr + string) state) \<Rightarrow> ('w, goTime) state \<Rightarrow>
     (string \<Rightarrow> ('w, err) state) option \<Rightarrow> (string \<Rightarrow> ('w, goerr + bool) state) option \<Rightarrow>
     ('n, goerr + ('n, unit) state option) state option \<Rightarrow> ('w, goerr + ('w, 'n) importService) state" where
  "NewImportService st random now checker nameAvailable admission =
     (case st of
        None \<Rightarrow> return (Inl (ErrText ''profile store is required''))
      | Some S \<Rightarrow>
          (case checker of
             None \<Rightarrow> return (Inl (ErrText ''WireGuard compatibility checker is required''))
           | Some accepts \<Rightarrow>
               tryE (wrapE ''generate import receipt key'' (random 32)) (\<lambda>key.
                 return (Inr \<lparr>isStore = S, isRandom = random, isNow = now, isChecker = accepts,
                   isRuntimeNameAvailable = nameAvailable, isCommitAdmission = admission, isKey = key\<rparr>))))"

section \<open>Checks on the files\<close>

fun envelopeFiles :: "nat \<Rightarrow> importFile list \<Rightarrow> err" where
  "envelopeFiles acc [] = None"
| "envelopeFiles acc (f # fs) =
     (if ifBytes f = [] \<or> length (ifBytes f) > MaxProfileBytes
      then Some (ErrText ''profile file is outside its size limit'')
      else if acc + length (ifBytes f) > MaxImportRequest
      then Some (ErrText ''import request exceeds 32 MiB'')
      else if ifProtocolOverride f \<noteq> [] \<and> \<not> ValidProtocol (ifProtocolOverride f)
      then Some (ErrText ''invalid protocol override'')
      else envelopeFiles (acc + length (ifBytes f)) fs)"

definition validateImportEnvelope :: "importFile list \<Rightarrow> err" where
  "validateImportEnvelope files =
     (if length files = 0 then Some (ErrText ''at least one profile file is required'')
      else if length files > MaxImportFiles then Some (Sentinel ErrCapacity)
      else envelopeFiles 0 files)"

definition issue :: "string \<Rightarrow> string \<Rightarrow> string \<Rightarrow> policyIssue" where
  "issue field code message = \<lparr>piField = field, piCode = code, piMessage = message\<rparr>"

text \<open>\<open>errors.As(err, &policyErr)\<close>: the first policy error of the tree.\<close>

fun asPolicyErr :: "goerr \<Rightarrow> (string \<times> string) option"
  and asPolicyErrs :: "goerr list \<Rightarrow> (string \<times> string) option" where
  "asPolicyErr (PolicyErr line code message) = Some (code, message)"
| "asPolicyErr (Wrapf _ e) = asPolicyErr e"
| "asPolicyErr (ImportMetadataErr _ e) = asPolicyErr e"
| "asPolicyErr (Joined es) = asPolicyErrs es"
| "asPolicyErr (Sentinel _) = None"
| "asPolicyErr (ErrText _) = None"
| "asPolicyErr (MetadataErr _ _) = None"
| "asPolicyErrs [] = None"
| "asPolicyErrs (e # es) = (case asPolicyErr e of Some x \<Rightarrow> Some x | None \<Rightarrow> asPolicyErrs es)"

definition policyIssueOf :: "goerr \<Rightarrow> policyIssue" where
  "policyIssueOf e =
     (case asPolicyErr e of
        Some (code, message) \<Rightarrow> issue ''file'' code message
      | None \<Rightarrow> issue ''file'' ''policy_rejected'' ''The profile is outside the supported import policy.'')"

definition protocolSignals :: "utab \<Rightarrow> string \<Rightarrow> bool \<times> bool" where
  "protocolSignals U data =
     (let text = toLower U data
      in (contains text ''[interface]'' \<or> contains text ''privatekey'',
          contains text ''client'' \<or> contains text ''remote '' \<or> contains text ''<ca>''))"

definition detectConf :: "utab \<Rightarrow> crypto \<Rightarrow> string \<Rightarrow> policyIssue + string" where
  "detectConf U C data =
     (let wireGuardErr = resultErr (ValidateWireGuardImport U C data);
          openVPNErr = ValidateOpenVPNImport U data
      in if wireGuardErr = None \<and> openVPNErr \<noteq> None then Inr ProtocolWireGuard
         else if openVPNErr = None \<and> wireGuardErr \<noteq> None then Inr ProtocolOpenVPN
         else case protocolSignals U data of (wireGuardSignal, openVPNSignal) \<Rightarrow>
           if wireGuardSignal \<noteq> openVPNSignal
           then if wireGuardSignal then Inr ProtocolWireGuard else Inr ProtocolOpenVPN
           else Inl (issue ''protocol'' ''protocol_ambiguous''
             ''Choose OpenVPN or WireGuard, then inspect the file again.''))"

definition detectProtocol :: "utab \<Rightarrow> crypto \<Rightarrow> importFile \<Rightarrow> policyIssue + string" where
  "detectProtocol U C f =
     (let extension = toLower U (pathExt (ifName f))
      in if extension = ''.ovpn''
         then if ifProtocolOverride f \<noteq> [] \<and> ifProtocolOverride f \<noteq> ProtocolOpenVPN
              then Inl (issue ''protocol'' ''protocol_mismatch'' ''.ovpn files are inspected as OpenVPN profiles.'')
              else Inr ProtocolOpenVPN
         else if extension \<noteq> ''.conf''
         then Inl (issue ''file'' ''unsupported_extension'' ''Choose a self-contained .ovpn or .conf profile.'')
         else if ifProtocolOverride f \<noteq> [] then Inr (ifProtocolOverride f)
         else detectConf U C (ifBytes f))"

section \<open>Receipts\<close>

text \<open>The conversion of a Go \<open>int\<close> to \<open>uint64\<close>.\<close>

definition asUint64 :: "int \<Rightarrow> nat" where
  "asUint64 i = nat (i mod 2 ^ 64)"

definition writeString :: "string \<Rightarrow> bytes" where
  "writeString value = putUint64 (length value) @ value"

definition receiptFields :: "inspectionRecord \<Rightarrow> string list" where
  "receiptFields r = [irDigest r, irID r, irProtocol r, irIdentifier r, irDisposition r,
     irWireGuardPublicKeyDigest r, irProtocolOverride r]"

definition receiptRecord :: "inspectionRecord \<Rightarrow> bytes" where
  "receiptRecord r = putUint64 (asUint64 (irOrdinal r)) @ concat (map writeString (receiptFields r))"

definition canonicalReceiptInput :: "64 word \<Rightarrow> int \<Rightarrow> inspectionRecord list \<Rightarrow> bytes" where
  "canonicalReceiptInput revision expiry records =
     putUint64 ImportPolicyVersion @ putUint64 (unat revision) @ putUint64 (asUint64 expiry) @
     putUint64 (length records) @ concat (map receiptRecord records)"

definition receiptMAC :: "('w, 'n) importService \<Rightarrow> 64 word \<Rightarrow> goTime \<Rightarrow> inspectionRecord list \<Rightarrow> bytes" where
  "receiptMAC I revision expiry records =
     hmacSHA256 (isCrypto I) (isKey I) (canonicalReceiptInput revision (tSeconds expiry) records)"

definition sign :: "('w, 'n) importService \<Rightarrow> 64 word \<Rightarrow> goTime \<Rightarrow> inspectionRecord list \<Rightarrow> string" where
  "sign I revision expiry records =
     base64RawURLEncode (char_of receiptVersion # putUint64 (asUint64 (tSeconds expiry)) @
       receiptMAC I revision expiry records)"

text \<open>The last second of the year 9999.\<close>

definition maxReceiptSeconds :: nat where
  "maxReceiptSeconds = 253402300799"

definition decodeReceipt :: "string \<Rightarrow> goerr + goTime \<times> bytes" where
  "decodeReceipt receipt =
     (case base64RawURLDecode receipt of
        None \<Rightarrow> Inl (Sentinel ErrInvalidReceipt)
      | Some data \<Rightarrow>
          if length data \<noteq> 41 \<or> byteOf (hd data) \<noteq> receiptVersion then Inl (Sentinel ErrInvalidReceipt)
          else if base64RawURLEncode data \<noteq> receipt then Inl (Sentinel ErrInvalidReceipt)
          else let seconds = getUint64 (take 8 (drop 1 data))
               in if seconds > maxReceiptSeconds then Inl (Sentinel ErrInvalidReceipt)
                  else Inr (\<lparr>tSeconds = int seconds, tNanos = 0, tUTC = True\<rparr>, drop 9 data))"

definition timeAfter :: "goTime \<Rightarrow> goTime \<Rightarrow> bool" where
  "timeAfter t u \<longleftrightarrow> tSeconds u < tSeconds t \<or> tSeconds t = tSeconds u \<and> tNanos u < tNanos t"

text \<open>\<open>UTC().Add(receiptTTL).Truncate(time.Second)\<close>\<close>

definition receiptExpiry :: "goTime \<Rightarrow> goTime" where
  "receiptExpiry t = (UTC t)\<lparr>tSeconds := tSeconds t + receiptTTL, tNanos := 0\<rparr>"

section \<open>Inspecting\<close>

fun generateIdentity ::
    "('w, 'n) importService \<Rightarrow> nat \<Rightarrow> string \<Rightarrow> string list \<Rightarrow> ('w, goerr + string \<times> string) state" where
  "generateIdentity I 0 protocol used =
     return (Inl (ErrText ''could not allocate a unique profile identity''))"
| "generateIdentity I (Suc attempts) protocol used =
     tryE (isRandom I 16) (\<lambda>raw.
       let i = GenerateID raw; identifier = RuntimeIdentifier (sha256 (isCrypto I)) i
       in if identifier \<in> set used then generateIdentity I attempts protocol used
          else if protocol = ProtocolWireGuard
          then (case isRuntimeNameAvailable I of
                  None \<Rightarrow> return (Inr (i, identifier))
                | Some nameAvailable \<Rightarrow>
                    tryE (nameAvailable identifier) (\<lambda>free.
                      if \<not> free then generateIdentity I attempts protocol used
                      else return (Inr (i, identifier))))
          else return (Inr (i, identifier)))"

definition freshRecord :: "nat \<Rightarrow> importFile \<Rightarrow> inspectionRecord" where
  "freshRecord ordinal f = \<lparr>irOrdinal = int ordinal, irID = [], irProtocol = [], irIdentifier = [],
     irDisposition = [], irIssues = [], irDigest = [], irWireGuardPublicKeyDigest = [],
     irProtocolOverride = ifProtocolOverride f\<rparr>"

definition withIssue :: "inspectionRecord \<Rightarrow> policyIssue \<Rightarrow> inspectionRecord" where
  "withIssue r x = r\<lparr>irIssues := irIssues r @ [x]\<rparr>"

definition contentDigest :: "crypto \<Rightarrow> string \<Rightarrow> string" where
  "contentDigest C data = hexEncode (sha256 C data)"

text \<open>The checks on one file; \<open>Inl\<close> is a record with an issue, which makes the inspection unready.\<close>

definition inspectContent ::
    "('w, 'n) importService \<Rightarrow> nat \<Rightarrow> importFile \<Rightarrow> ('w, inspectionRecord + inspectionRecord) state" where
  "inspectContent I ordinal f =
     (let r = freshRecord ordinal f
      in if ValidateOriginalFilename (ifName f) \<noteq> None
         then return (Inl (withIssue r (issue ''file'' ''invalid_filename''
           ''The filename must be valid UTF-8 without path separators or control characters.'')))
         else let r = r\<lparr>irDigest := contentDigest (isCrypto I) (ifBytes f)\<rparr>
           in case detectProtocol (isTables I) (isCrypto I) f of
             Inl x \<Rightarrow> return (Inl (withIssue r x))
           | Inr protocol \<Rightarrow>
               let r = r\<lparr>irProtocol := protocol\<rparr>
               in case ValidateImportedProfile (isTables I) (isCrypto I) protocol (ifBytes f) of
                 Inl e \<Rightarrow> return (Inl (withIssue r (policyIssueOf e)))
               | Inr policy \<Rightarrow>
                   if protocol = ProtocolWireGuard then do {
                     e \<leftarrow> isChecker I (ifBytes f);
                     return (if e \<noteq> None
                       then Inl (withIssue r (issue ''file'' ''wg_quick_incompatible''
                         ''The installed WireGuard tooling did not accept this profile.''))
                       else Inr (r\<lparr>irWireGuardPublicKeyDigest := prWireGuardPublicKeySHA256 policy\<rparr>))
                   }
                   else return (Inr r))"

definition knownRecord :: "inspectionRecord \<Rightarrow> profile \<Rightarrow> inspectionRecord" where
  "knownRecord r existing = r\<lparr>irID := pID existing, irProtocol := pProtocol existing,
     irIdentifier := pIdentifier existing, irDisposition := ''already_imported'',
     irWireGuardPublicKeyDigest := pWireGuardPublicKeySHA256 existing\<rparr>"

definition newRecord :: "inspectionRecord \<Rightarrow> string \<Rightarrow> string \<Rightarrow> inspectionRecord" where
  "newRecord r i identifier =
     r\<lparr>irID := i, irIdentifier := identifier, irDisposition := ''new''\<rparr>"

text \<open>The zero value of \<open>Profile\<close>, whose time is the first instant of the year 1, and the profile that
  stands for a file until its metadata is known.\<close>

definition zeroProfile :: profile where
  "zeroProfile = \<lparr>pID = [], pProtocol = [], pDisplayName = [], pGroup = [], pLocation = [], pEmoji = [],
     pIdentifier = [], pOriginalFilename = [],
     pImportedAt = \<lparr>tSeconds = - 62135596800, tNanos = 0, tUTC = True\<rparr>,
     pContentSHA256 = [], pWireGuardPublicKeySHA256 = []\<rparr>"

definition plannedProfile :: "inspectionRecord \<Rightarrow> profile" where
  "plannedProfile r = zeroProfile\<lparr>pID := irID r, pProtocol := irProtocol r, pIdentifier := irIdentifier r,
     pContentSHA256 := irDigest r, pWireGuardPublicKeySHA256 := irWireGuardPublicKeyDigest r\<rparr>"

text \<open>The loop over the files: the records, and whether all of them passed.\<close>

fun inspectFiles ::
    "('w, 'n) importService \<Rightarrow> nat \<Rightarrow> (string \<times> profile) list \<Rightarrow> string list \<Rightarrow> importFile list \<Rightarrow>
     ('w, goerr + inspectionRecord list \<times> bool) state" where
  "inspectFiles I ordinal byDigest identifiers [] = return (Inr ([], True))"
| "inspectFiles I ordinal byDigest identifiers (f # fs) = do {
     content \<leftarrow> inspectContent I ordinal f;
     case content of
       Inl r \<Rightarrow>
         tryE (inspectFiles I (Suc ordinal) byDigest identifiers fs)
           (\<lambda>(rs, ready). return (Inr (r # rs, False)))
     | Inr r \<Rightarrow>
         (case map_of byDigest (irDigest r) of
            Some existing \<Rightarrow>
              tryE (inspectFiles I (Suc ordinal) byDigest identifiers fs)
                (\<lambda>(rs, ready). return (Inr (knownRecord r existing # rs, ready)))
          | None \<Rightarrow>
              tryE (generateIdentity I 128 (irProtocol r) identifiers) (\<lambda>(i, identifier).
                let r = newRecord r i identifier
                in tryE (inspectFiles I (Suc ordinal) ((irDigest r, plannedProfile r) # byDigest)
                       (identifier # identifiers) fs)
                     (\<lambda>(rs, ready). return (Inr (r # rs, ready)))))
   }"

fun suggestions :: "utab \<Rightarrow> nat \<Rightarrow> importFile list \<Rightarrow> metadataSuggestion list" where
  "suggestions U ordinal [] = []"
| "suggestions U ordinal (f # fs) =
     \<lparr>msOrdinal = int ordinal, msDisplayName = suggestedDisplayName U (ifName f), msGroup = ''Unsorted'',
      msLocation = []\<rparr> # suggestions U (Suc ordinal) fs"

definition acquireService :: "(('w, 'n) istate, bool) state" where
  "acquireService = do {
     token \<leftarrow> gets iGate;
     if token then do { modify (\<lambda>s. s\<lparr>iGate := False\<rparr>); return True } else return False
   }"

definition releaseService :: "(('w, 'n) istate, unit) state" where
  "releaseService = modify (\<lambda>s. s\<lparr>iGate := True\<rparr>)"

definition withGate ::
    "(('w, 'n) istate, goerr + 'a) state \<Rightarrow> (('w, 'n) istate, goerr + 'a) state" where
  "withGate body = do {
     acquired \<leftarrow> acquireService;
     if \<not> acquired then return (Inl (Sentinel ErrImportBusy)) else deferE releaseService body
   }"

definition inspectManifest ::
    "('w, 'n) importService \<Rightarrow> importFile list \<Rightarrow> manifest \<Rightarrow> ('w, goerr + inspection) state" where
  "inspectManifest I files m =
     tryE (inspectFiles I 0 (rev (map (\<lambda>p. (pContentSHA256 p, p)) (mProfiles m)))
         (map pIdentifier (mProfiles m)) files)
       (\<lambda>(records, ready). do {
          let r = \<lparr>inLibraryRevision = mLibraryRevision m, inRecords = records,
            inSuggestions = suggestions (isTables I) 0 files, inReceipt = [], inExpiresAt = None,
            inCommitReady = ready\<rparr>;
          if \<not> ready then return (Inr r)
          else do {
            now \<leftarrow> isNow I;
            let expiresAt = receiptExpiry now;
            return (Inr (r\<lparr>inReceipt := sign I (mLibraryRevision m) expiresAt records,
              inExpiresAt := Some expiresAt\<rparr>))
          }
        })"

definition Inspect ::
    "('w, 'n) importService \<Rightarrow> importFile list \<Rightarrow> (('w, 'n) istate, goerr + inspection) state" where
  "Inspect I files =
     withGate (checkE (return (validateImportEnvelope files)) (do {
       m \<leftarrow> onStore Snapshot;
       onMachine (inspectManifest I files m)
     }))"

section \<open>Committing\<close>

text \<open>The fields of the record the client sends back that the client can see.\<close>

definition boundRecordOk :: "crypto \<Rightarrow> nat \<Rightarrow> inspectionRecord \<Rightarrow> bool" where
  "boundRecordOk C index bound \<longleftrightarrow>
     irOrdinal bound = int index \<and> idPattern (irID bound) \<and> ValidProtocol (irProtocol bound) \<and>
     irIdentifier bound = RuntimeIdentifier (sha256 C) (irID bound) \<and>
     (irDisposition bound = ''new'' \<or> irDisposition bound = ''already_imported'') \<and> irIssues bound = []"

definition reboundRecord :: "crypto \<Rightarrow> importFile \<Rightarrow> inspectionRecord \<Rightarrow> policyResult \<Rightarrow> inspectionRecord" where
  "reboundRecord C f bound policy = bound\<lparr>irDigest := contentDigest C (ifBytes f),
     irWireGuardPublicKeyDigest := prWireGuardPublicKeySHA256 policy,
     irProtocolOverride := ifProtocolOverride f, irIssues := []\<rparr>"

text \<open>The checks on one file of \<open>reinspectBound\<close>, and the compatibility check where it applies.\<close>

definition reinspectOne ::
    "('w, 'n) importService \<Rightarrow> nat \<Rightarrow> importFile \<Rightarrow> inspectionRecord \<Rightarrow>
     ('w, goerr + inspectionRecord) state" where
  "reinspectOne I index f bound =
     (if \<not> boundRecordOk (isCrypto I) index bound then return (Inl (Sentinel ErrInvalidReceipt))
      else if ValidateOriginalFilename (ifName f) \<noteq> None then return (Inl (Sentinel ErrInvalidReceipt))
      else if detectProtocol (isTables I) (isCrypto I) f \<noteq> Inr (irProtocol bound)
      then return (Inl (Sentinel ErrInvalidReceipt))
      else case ValidateImportedProfile (isTables I) (isCrypto I) (irProtocol bound) (ifBytes f) of
        Inl e \<Rightarrow> return (Inl (Sentinel ErrInvalidReceipt))
      | Inr policy \<Rightarrow> do {
          e \<leftarrow> (if irProtocol bound = ProtocolWireGuard then isChecker I (ifBytes f) else return None);
          return (if e \<noteq> None then Inl (Sentinel ErrInvalidReceipt)
                  else Inr (reboundRecord (isCrypto I) f bound policy))
        })"

fun reinspectLoop ::
    "('w, 'n) importService \<Rightarrow> nat \<Rightarrow> importFile list \<Rightarrow> inspectionRecord list \<Rightarrow>
     ('w, goerr + inspectionRecord list) state" where
  "reinspectLoop I index (f # fs) (bound # supplied) =
     tryE (reinspectOne I index f bound) (\<lambda>r.
       tryE (reinspectLoop I (Suc index) fs supplied) (\<lambda>rs. return (Inr (r # rs))))"
| "reinspectLoop I index _ _ = return (Inr [])"

definition reinspectBound ::
    "('w, 'n) importService \<Rightarrow> importFile list \<Rightarrow> inspectionRecord list \<Rightarrow>
     ('w, goerr + inspectionRecord list) state" where
  "reinspectBound I files supplied = reinspectLoop I 0 files supplied"

definition recordMatchesProfile :: "inspectionRecord \<Rightarrow> profile \<Rightarrow> bool" where
  "recordMatchesProfile r p \<longleftrightarrow> irID r = pID p \<and> irProtocol r = pProtocol p \<and>
     irIdentifier r = pIdentifier p \<and> irDigest r = pContentSHA256 p \<and>
     irWireGuardPublicKeyDigest r = pWireGuardPublicKeySHA256 p"

fun replayLoop :: "manifest \<Rightarrow> nat \<Rightarrow> inspectionRecord list \<Rightarrow> importResult list option" where
  "replayLoop m index [] = Some []"
| "replayLoop m index (r # rs) =
     (case manifestProfile m (irID r) of
        None \<Rightarrow> None
      | Some p \<Rightarrow>
          if \<not> recordMatchesProfile r p then None
          else map_option (\<lambda>results. \<lparr>rsOrdinal = int index, rsResult = ''already_imported'', rsProfile = p\<rparr> # results)
            (replayLoop m (Suc index) rs))"

definition exactReplay :: "manifest \<Rightarrow> inspectionRecord list \<Rightarrow> importResult list option" where
  "exactReplay m records = replayLoop m 0 records"

text \<open>One metadata record for each file, and each of them valid.\<close>

fun checkMetadata :: "(int \<times> metadata) list \<Rightarrow> nat list \<Rightarrow> err" where
  "checkMetadata md [] = None"
| "checkMetadata md (ordinal # ordinals) =
     (case map_of md (int ordinal) of
        None \<Rightarrow> Some (ErrText ''file metadata is required'')
      | Some x \<Rightarrow>
          (case ValidateMetadata x of
             Some e \<Rightarrow> Some (ImportMetadataErr ordinal e)
           | None \<Rightarrow> checkMetadata md ordinals))"

definition checkRequest :: "commitRequest \<Rightarrow> err" where
  "checkRequest req =
     (case validateImportEnvelope (crFiles req) of
        Some e \<Rightarrow> Some e
      | None \<Rightarrow>
          if length (crRecords req) \<noteq> length (crFiles req) then Some (Sentinel ErrInvalidReceipt)
          else if length (crMetadata req) \<noteq> length (crFiles req)
          then Some (ErrText ''metadata must contain exactly one record per file'')
          else checkMetadata (crMetadata req) [0..<length (crFiles req)])"

definition emptyMetadata :: metadata where
  "emptyMetadata = \<lparr>mdDisplayName = [], mdGroup = [], mdLocation = [], mdEmoji = []\<rparr>"

definition importedProfile :: "importFile \<Rightarrow> metadata \<Rightarrow> goTime \<Rightarrow> inspectionRecord \<Rightarrow> profile" where
  "importedProfile f md now r = \<lparr>pID = irID r, pProtocol = irProtocol r,
     pDisplayName = mdDisplayName md, pGroup = mdGroup md, pLocation = mdLocation md, pEmoji = mdEmoji md,
     pIdentifier = irIdentifier r, pOriginalFilename = ifName f, pImportedAt = UTC now,
     pContentSHA256 = irDigest r, pWireGuardPublicKeySHA256 = irWireGuardPublicKeyDigest r\<rparr>"

text \<open>The profiles planned so far, by identifier, and the objects to publish.\<close>

fun planRecords ::
    "('w, 'n) importService \<Rightarrow> commitRequest \<Rightarrow> manifest \<Rightarrow> nat \<Rightarrow> (string \<times> profile) list \<Rightarrow>
     newObject list \<Rightarrow> inspectionRecord list \<Rightarrow>
     ('w, goerr + newObject list \<times> (string \<times> profile) list) state" where
  "planRecords I req m index planned objs [] = return (Inr (objs, planned))"
| "planRecords I req m index planned objs (r # rs) =
     (case manifestProfile m (irID r) of
        Some existing \<Rightarrow>
          if irDisposition r \<noteq> ''already_imported'' \<or> \<not> recordMatchesProfile r existing
          then return (Inl (Sentinel ErrStaleInspection))
          else planRecords I req m (Suc index) ((irID r, existing) # planned) objs rs
      | None \<Rightarrow>
          if irDisposition r = ''already_imported'' then
            (case map_of planned (irID r) of
               None \<Rightarrow> return (Inl (Sentinel ErrStaleInspection))
             | Some prior \<Rightarrow>
                 if recordMatchesProfile r prior then planRecords I req m (Suc index) planned objs rs
                 else return (Inl (Sentinel ErrStaleInspection)))
          else do {
            now \<leftarrow> isNow I;
            let f = crFiles req ! index;
            let md = (case map_of (crMetadata req) (int index) of None \<Rightarrow> emptyMetadata | Some x \<Rightarrow> x);
            let p = importedProfile f md now r;
            planRecords I req m (Suc index) ((irID r, p) # planned)
              (objs @ [\<lparr>noProfile = p, noBytes = ifBytes f\<rparr>]) rs
          })"

fun assembleResults ::
    "manifest \<Rightarrow> (string \<times> profile) list \<Rightarrow> nat \<Rightarrow> inspectionRecord list \<Rightarrow> importResult list" where
  "assembleResults m planned index [] = []"
| "assembleResults m planned index (r # rs) =
     \<lparr>rsOrdinal = int index,
      rsResult = (if irDisposition r = ''already_imported'' then ''already_imported'' else ''imported''),
      rsProfile = (case manifestProfile m (irID r) of
          Some p \<Rightarrow> p
        | None \<Rightarrow> (case map_of planned (irID r) of Some p \<Rightarrow> p | None \<Rightarrow> zeroProfile))\<rparr>
     # assembleResults m planned (Suc index) rs"

text \<open>The library has moved on since the inspection: an exact replay, or a stale inspection.\<close>

definition replayCommit ::
    "('w, 'n) importService \<Rightarrow> inspectionRecord list \<Rightarrow> ('w sstate, goerr + commitResult) state" where
  "replayCommit I records =
     checkE (RepairDurability (isStore I)) (do {
       m \<leftarrow> Snapshot;
       return (case exactReplay m records of
           Some replay \<Rightarrow> Inr \<lparr>cmRecords = replay, cmReplayed = True, cmRevision = mLibraryRevision m\<rparr>
         | None \<Rightarrow> Inl (Sentinel ErrStaleInspection))
     })"

definition publishImport ::
    "('w, 'n) importService \<Rightarrow> commitRequest \<Rightarrow> manifest \<Rightarrow> inspectionRecord list \<Rightarrow>
     ('w sstate, goerr + commitResult) state" where
  "publishImport I req m records =
     tryE (onWorld (planRecords I req m 0 [] [] records)) (\<lambda>(objs, planned). do {
       (publication, e) \<leftarrow> Publish (isStore I) (crLibraryRevision req) objs;
       return (case e of
           Some x \<Rightarrow> Inl x
         | None \<Rightarrow>
             (case publication of
                None \<Rightarrow> Inl (ErrText ''no publication'')
              | Some pub \<Rightarrow> Inr \<lparr>cmRecords = assembleResults (pubManifest pub) planned 0 records,
                  cmReplayed = False, cmRevision = mLibraryRevision (pubManifest pub)\<rparr>))
     })"

definition commitVerified ::
    "('w, 'n) importService \<Rightarrow> commitRequest \<Rightarrow> inspectionRecord list \<Rightarrow>
     ('w sstate, goerr + commitResult) state" where
  "commitVerified I req records = do {
     m \<leftarrow> Snapshot;
     if mLibraryRevision m \<noteq> crLibraryRevision req then replayCommit I records
     else publishImport I req m records
   }"

definition commitAdmitted ::
    "('w, 'n) importService \<Rightarrow> commitRequest \<Rightarrow> ('w sstate, goerr + commitResult) state" where
  "commitAdmitted I req =
     checkE (return (checkRequest req))
     (tryE (return (decodeReceipt (crReceipt req))) (\<lambda>(expiry, signature). do {
        now \<leftarrow> onWorld (isNow I);
        if timeAfter (UTC now) expiry then return (Inl (Sentinel ErrExpiredReceipt))
        else tryE (onWorld (reinspectBound I (crFiles req) (crRecords req))) (\<lambda>records.
          if signature \<noteq> receiptMAC I (crLibraryRevision req) expiry records
          then return (Inl (Sentinel ErrInvalidReceipt))
          else commitVerified I req records)
      }))"

definition admitCommit ::
    "('w, 'n) importService \<Rightarrow> (('w, 'n) istate, goerr + 'a) state \<Rightarrow> (('w, 'n) istate, goerr + 'a) state" where
  "admitCommit I body =
     (case isCommitAdmission I of
        None \<Rightarrow> body
      | Some admission \<Rightarrow>
          tryE (onEnv admission) (\<lambda>r.
            case r of
              None \<Rightarrow> return (Inl (ErrText ''commit admission returned no release function''))
            | Some free \<Rightarrow> deferE (onEnv free) body))"

definition Commit ::
    "('w, 'n) importService \<Rightarrow> commitRequest \<Rightarrow> (('w, 'n) istate, goerr + commitResult) state" where
  "Commit I req =
     withGate (if \<not> crTrustProfilePolicy req
       then return (Inl (ErrText ''profile policy trust acknowledgement is required''))
       else admitCommit I (onStore (commitAdmitted I req)))"

section \<open>The metadata document\<close>

text \<open>\<open>decode\<close> is the JSON decoder with unknown fields refused: the members of the object, and whether
  nothing follows it.\<close>

fun metadataOrdinals :: "(string \<times> metadata) list \<Rightarrow> string list \<Rightarrow> goerr + (int \<times> metadata) list" where
  "metadataOrdinals raw [] = Inr []"
| "metadataOrdinals raw (key # keys) =
     (case parseInt64 key of
        None \<Rightarrow> Inl (ErrText ''metadata keys must be canonical file ordinals'')
      | Some ordinal \<Rightarrow>
          if ordinal < 0 \<or> itoa ordinal \<noteq> key
          then Inl (ErrText ''metadata keys must be canonical file ordinals'')
          else case metadataOrdinals raw keys of
            Inl e \<Rightarrow> Inl e
          | Inr rest \<Rightarrow>
              Inr ((ordinal, case map_of raw key of Some x \<Rightarrow> x | None \<Rightarrow> emptyMetadata) # rest))"

definition DecodeMetadataDocument ::
    "(string \<Rightarrow> goerr + (string \<times> metadata) list \<times> bool) \<Rightarrow> string \<Rightarrow> goerr + (int \<times> metadata) list" where
  "DecodeMetadataDocument decode data =
     (case decode data of
        Inl e \<Rightarrow> Inl e
      | Inr (raw, atEnd) \<Rightarrow>
          if \<not> atEnd then Inl (ErrText ''metadata must contain exactly one JSON value'')
          else metadataOrdinals raw (sort (map fst raw)))"

end
