(* ===== verification/ReceiptLaws.thy ===== *)
theory ReceiptLaws
  imports Import
begin

text \<open>
  The laws of import receipts: the receipt of an inspection decodes to the expiry and the code that were
  put into it, and the input of the code can be read back, so that two inspections with the same code
  agree on everything a receipt binds unless HMAC collides.
\<close>

section \<open>Reading the input of the code back\<close>

lemma append_length_eq: "length a = length b \<Longrightarrow> a @ x = b @ y \<longleftrightarrow> a = b \<and> x = y"
  by auto

lemma putUint64_append: "putUint64 m @ x = putUint64 n @ y \<longleftrightarrow> putUint64 m = putUint64 n \<and> x = y"
  by (rule append_length_eq) simp

lemma putUint64_eq: "m < 2 ^ 64 \<Longrightarrow> n < 2 ^ 64 \<Longrightarrow> putUint64 m = putUint64 n \<longleftrightarrow> m = n"
  by (auto dest: putUint64_inj)

definition short :: "string \<Rightarrow> bool" where
  "short s \<longleftrightarrow> length s < 2 ^ 64"

lemma writeString_append:
  "short s \<Longrightarrow> short t \<Longrightarrow> writeString s @ x = writeString t @ y \<longleftrightarrow> s = t \<and> x = y"
  by (auto simp: writeString_def putUint64_append putUint64_eq short_def)

lemma writeStrings_append:
  assumes "length ss = length ts" and "list_all short ss" and "list_all short ts"
  shows "concat (map writeString ss) @ x = concat (map writeString ts) @ y \<longleftrightarrow> ss = ts \<and> x = y"
  using assms by (induction ss ts rule: list_induct2) (auto simp: writeString_append)

lemma asUint64_bound: "asUint64 i < 2 ^ 64"
  by (simp add: asUint64_def nat_less_iff)

lemma asUint64_eq: "0 \<le> i \<Longrightarrow> i < 2 ^ 64 \<Longrightarrow> 0 \<le> j \<Longrightarrow> j < 2 ^ 64 \<Longrightarrow> asUint64 i = asUint64 j \<longleftrightarrow> i = j"
  by (auto simp: asUint64_def)

text \<open>What a receipt binds of a record: its ordinal and the seven strings.\<close>

definition boundFields :: "inspectionRecord \<Rightarrow> nat \<times> string list" where
  "boundFields r = (asUint64 (irOrdinal r), [irDigest r, irID r, irProtocol r, irIdentifier r,
     irDisposition r, irWireGuardPublicKeyDigest r, irProtocolOverride r])"

definition boundable :: "inspectionRecord \<Rightarrow> bool" where
  "boundable r \<longleftrightarrow> list_all short (snd (boundFields r))"

lemma boundFields_receipt: "boundFields r = (asUint64 (irOrdinal r), receiptFields r)"
  by (simp add: boundFields_def receiptFields_def)

lemma receiptRecord_append:
  assumes "boundable r" and "boundable s"
  shows "receiptRecord r @ x = receiptRecord s @ y \<longleftrightarrow> boundFields r = boundFields s \<and> x = y"
proof -
  have "length (receiptFields r) = length (receiptFields s)"
    by (simp add: receiptFields_def)
  from writeStrings_append [OF this, of x y] assms show ?thesis
    by (auto simp: receiptRecord_def boundFields_receipt boundable_def putUint64_append
        putUint64_eq [OF asUint64_bound asUint64_bound])
qed

lemma receiptRecords_inject:
  assumes "length rs = length ss" and "list_all boundable rs" and "list_all boundable ss"
  shows "concat (map receiptRecord rs) = concat (map receiptRecord ss) \<longleftrightarrow>
    map boundFields rs = map boundFields ss"
  using assms by (induction rs ss rule: list_induct2) (auto simp: receiptRecord_append)

lemma canonicalReceiptInput_inject:
  assumes "length rs < 2 ^ 64" and "length ss < 2 ^ 64" and "list_all boundable rs" and "list_all boundable ss"
    and "canonicalReceiptInput u e rs = canonicalReceiptInput v f ss"
  shows "u = v \<and> asUint64 e = asUint64 f \<and> map boundFields rs = map boundFields ss"
proof -
  have "unat u < 2 ^ 64" "unat v < 2 ^ 64"
    using unsigned_less [where ?'a = nat, of u] unsigned_less [where ?'a = nat, of v] by simp_all
  with assms(1,2,5) have same: "unat u = unat v" "asUint64 e = asUint64 f" "length rs = length ss"
    and "concat (map receiptRecord rs) = concat (map receiptRecord ss)"
    by (simp_all add: canonicalReceiptInput_def putUint64_append putUint64_eq
        putUint64_eq [OF asUint64_bound asUint64_bound])
  with receiptRecords_inject [OF same(3) assms(3,4)] show ?thesis
    by (simp add: word_unat_eq_iff)
qed

section \<open>Decoding\<close>

definition hashes :: "crypto \<Rightarrow> bool" where
  "hashes C \<longleftrightarrow> (\<forall>m. length (sha256 C m) = 32)"

lemma length_hmac: "hashes C \<Longrightarrow> length (hmacSHA256 C k m) = 32"
  by (simp add: hmacSHA256_def Let_def hashes_def)

lemma decodeReceipt_sign:
  assumes "hashes (isCrypto I)" and "0 \<le> tSeconds expiry" and "tSeconds expiry \<le> 253402300799"
    and "tNanos expiry = 0" and "tUTC expiry"
  shows "decodeReceipt (sign I revision expiry records) = Inr (expiry, receiptMAC I revision expiry records)"
proof -
  have "length (receiptMAC I revision expiry records) = 32"
    using assms(1) by (simp add: receiptMAC_def length_hmac)
  moreover have "getUint64 (putUint64 (asUint64 (tSeconds expiry))) = nat (tSeconds expiry)"
    using assms(2,3) by (simp add: getUint64_putUint64 asUint64_def nat_mod_distrib)
  ultimately show ?thesis
    using assms by (simp add: decodeReceipt_def sign_def base64RawURL_roundtrip receiptVersion_def
        maxReceiptSeconds_def Let_def)
qed

end
