(* ===== verification/ImportLaws.thy ===== *)
theory ImportLaws
  imports ReceiptLaws StoreSteps
begin

text \<open>
  What an inspection finds and what a commit does: the loops over the files characterised file by file,
  and a commit as a change of the library.
\<close>

lemma wp_onStore [wp_simps]: "wp (onStore m) Q = (\<lambda>s. wp m (\<lambda>a t. Q a (s\<lparr>iStore := t\<rparr>)) (iStore s))"
  by (simp add: onStore_def wp_simps)

lemma wp_onEnv [wp_simps]: "wp (onEnv m) Q = (\<lambda>s. wp m (\<lambda>a t. Q a (s\<lparr>iEnv := t\<rparr>)) (iEnv s))"
  by (simp add: onEnv_def wp_simps)

section \<open>Inspecting again\<close>

text \<open>The record of one file of a commit: what the client sent is well-formed, the file passes, and the
  hidden fields are those of the file.\<close>

definition rebound ::
    "('w, 'n) importService \<Rightarrow> nat \<Rightarrow> importFile \<Rightarrow> inspectionRecord \<Rightarrow> inspectionRecord \<Rightarrow> bool" where
  "rebound I k f bound r \<longleftrightarrow>
     boundRecordOk (isCrypto I) k bound \<and> ValidateOriginalFilename (ifName f) = None \<and>
     detectProtocol (isTables I) (isCrypto I) f = Inr (irProtocol bound) \<and>
     (case ValidateImportedProfile (isTables I) (isCrypto I) (irProtocol bound) (ifBytes f) of
        Inl e \<Rightarrow> False
      | Inr policy \<Rightarrow> r = reboundRecord (isCrypto I) f bound policy)"

fun reboundAll ::
    "('w, 'n) importService \<Rightarrow> nat \<Rightarrow> importFile list \<Rightarrow> inspectionRecord list \<Rightarrow> inspectionRecord list \<Rightarrow> bool" where
  "reboundAll I k (f # fs) (b # bounds) (r # rs) = (rebound I k f b r \<and> reboundAll I (Suc k) fs bounds rs)"
| "reboundAll I k [] [] [] = True"
| "reboundAll I k _ _ _ = False"

lemma reboundAll_length: "reboundAll I k fs bounds rs \<Longrightarrow> length rs = length fs"
  by (induction I k fs bounds rs rule: reboundAll.induct) auto

lemma reboundAll_nth:
  "reboundAll I k fs bounds rs \<Longrightarrow> j < length fs \<Longrightarrow> rebound I (k + j) (fs ! j) (bounds ! j) (rs ! j)"
proof (induction I k fs bounds rs arbitrary: j rule: reboundAll.induct)
  case (1 I k f fs b bounds r rs)
  then show ?case by (cases j) auto
qed auto

lemma reinspectOne_wp:
  "wp (reinspectOne I k f b) (\<lambda>r _. case r of
      Inl e \<Rightarrow> e = Sentinel ErrInvalidReceipt
    | Inr x \<Rightarrow> rebound I k f b x) w"
  by (auto simp: reinspectOne_def rebound_def wp_simps split: sum.split intro!: wp_any)

lemma reinspectLoop_wp:
  "length fs = length bounds \<Longrightarrow>
   wp (reinspectLoop I k fs bounds) (\<lambda>r _. case r of
      Inl e \<Rightarrow> e = Sentinel ErrInvalidReceipt
    | Inr rs \<Rightarrow> reboundAll I k fs bounds rs) w"
proof (induction I k fs bounds arbitrary: w rule: reinspectLoop.induct)
  case (1 I k f fs b bounds)
  have "wp (tryE (reinspectLoop I (Suc k) fs bounds) (\<lambda>rs. return (Inr (x # rs)))) (\<lambda>r _. case r of
      Inl e \<Rightarrow> e = Sentinel ErrInvalidReceipt
    | Inr rs \<Rightarrow> reboundAll I k (f # fs) (b # bounds) rs) u" if "rebound I k f b x" for x u
    unfolding wp_tryE
    by (rule wp_mono [OF "1.IH" [of u]]) (use 1 that in \<open>auto simp: wp_return split: sum.splits\<close>)
  then show ?case
    unfolding reinspectLoop.simps wp_tryE [of "reinspectOne _ _ _ _"]
    by - (rule wp_mono [OF reinspectOne_wp], auto split: sum.splits)
qed (auto simp: wp_return)

section \<open>Planning\<close>

lemma importedProfile_matches: "recordMatchesProfile r (importedProfile f md now r)"
  by (simp add: recordMatchesProfile_def importedProfile_def)

abbreviation isNew :: "inspectionRecord \<Rightarrow> bool" where
  "isNew r \<equiv> irDisposition r \<noteq> ''already_imported''"

text \<open>The new objects are those of the new records, in order, and every record has its profile in the
  library or among the objects.\<close>

definition planOutcome ::
    "manifest \<Rightarrow> newObject list \<Rightarrow> inspectionRecord list \<Rightarrow>
     goerr + newObject list \<times> (string \<times> profile) list \<Rightarrow> bool" where
  "planOutcome m objs rs result \<longleftrightarrow>
     (case result of
        Inl e \<Rightarrow> e = Sentinel ErrStaleInspection
      | Inr (objs', known) \<Rightarrow>
          \<exists>new. objs' = objs @ new \<and>
            list_all2 (\<lambda>r obj. recordMatchesProfile r (noProfile obj)) (filter isNew rs) new \<and>
            (\<forall>r\<in>set rs. \<exists>p\<in>set (mProfiles m) \<union> noProfile ` set objs'. recordMatchesProfile r p))"

lemma planOutcome_known:
  assumes "planOutcome m objs rs result" and "\<not> isNew r"
    and "p \<in> set (mProfiles m) \<union> noProfile ` set objs" and "recordMatchesProfile r p"
  shows "planOutcome m objs (r # rs) result"
  using assms by (fastforce simp: planOutcome_def split: sum.splits prod.splits)

lemma planOutcome_new:
  assumes "planOutcome m (objs @ [obj]) rs result" and "isNew r"
    and "recordMatchesProfile r (noProfile obj)"
  shows "planOutcome m objs (r # rs) result"
proof (cases result)
  case (Inl e)
  with assms show ?thesis by (simp add: planOutcome_def)
next
  case (Inr x)
  then obtain objs' known where x: "result = Inr (objs', known)" by (cases x) auto
  with assms(1) obtain new where "objs' = objs @ obj # new"
    and "list_all2 (\<lambda>r obj. recordMatchesProfile r (noProfile obj)) (filter isNew rs) new"
    and "\<forall>r\<in>set rs. \<exists>p\<in>set (mProfiles m) \<union> noProfile ` set objs'. recordMatchesProfile r p"
    by (auto simp: planOutcome_def)
  with assms(2,3) x show ?thesis
    by (auto simp: planOutcome_def intro!: exI [of _ "obj # new"])
qed

lemma planRecords_wp:
  "snd ` set known \<subseteq> set (mProfiles m) \<union> noProfile ` set objs \<Longrightarrow>
   wp (planRecords I req m k known objs rs) (\<lambda>r _. planOutcome m objs rs r) w"
proof (induction rs arbitrary: k known objs w)
  case Nil
  then show ?case by (simp add: wp_return planOutcome_def)
next
  case (Cons r rs k known objs w)
  have stale: "wp (return (Inl (Sentinel ErrStaleInspection))) (\<lambda>x _. planOutcome m objs (r # rs) x) w"
    by (simp add: wp_return planOutcome_def)
  show ?case
  proof (cases "manifestProfile m (irID r)")
    case (Some p)
    then have p: "p \<in> set (mProfiles m)" by (simp add: manifestProfile_Some)
    have "wp (planRecords I req m (Suc k) ((irID r, p) # known) objs rs) (\<lambda>x _. planOutcome m objs (r # rs) x) w"
      if "\<not> isNew r" "recordMatchesProfile r p"
      by (rule wp_mono [OF Cons.IH planOutcome_known]) (use Cons.prems p that in auto)
    with stale show ?thesis by (simp add: Some)
  next
    case None
    show ?thesis
    proof (cases "isNew r")
      case False
      show ?thesis
      proof (cases "map_of known (irID r)")
        case None
        with stale False \<open>manifestProfile m (irID r) = None\<close> show ?thesis by simp
      next
        case (Some prior)
        then have prior: "prior \<in> set (mProfiles m) \<union> noProfile ` set objs"
          using Cons.prems by (force dest: map_of_SomeD)
        have "wp (planRecords I req m (Suc k) known objs rs) (\<lambda>x _. planOutcome m objs (r # rs) x) w"
          if "recordMatchesProfile r prior"
          by (rule wp_mono [OF Cons.IH [OF Cons.prems] planOutcome_known [OF _ False prior that]])
        with stale False Some \<open>manifestProfile m (irID r) = None\<close> show ?thesis by simp
      qed
    next
      case True
      have step: "wp (planRecords I req m (Suc k) ((irID r, p) # known) (objs @ [\<lparr>noProfile = p, noBytes = data\<rparr>]) rs)
          (\<lambda>x _. planOutcome m objs (r # rs) x) u" if "recordMatchesProfile r p" for p data u
        by (rule wp_mono [OF Cons.IH planOutcome_new]) (use Cons.prems True that in auto)
      show ?thesis
        unfolding planRecords.simps None option.case if_not_P [OF True] wp_bind
        by (rule wp_any) (simp add: Let_def step importedProfile_matches)
    qed
  qed
qed

section \<open>A verified commit\<close>

text \<open>Every record has its profile in the library, and the result names it.\<close>

definition imported :: "manifest \<Rightarrow> inspectionRecord \<Rightarrow> importResult \<Rightarrow> bool" where
  "imported m r res \<longleftrightarrow>
     manifestProfile m (irID r) = Some (rsProfile res) \<and> recordMatchesProfile r (rsProfile res)"

lemma replayLoop_Some:
  "replayLoop m k rs = Some results \<Longrightarrow> list_all2 (imported m) rs results"
  by (induction rs arbitrary: k results) (auto simp: imported_def split: option.splits if_splits)

lemma assembleResults_imported:
  assumes "wellFormed m" and "\<forall>r\<in>set rs. \<exists>p\<in>set (mProfiles m). recordMatchesProfile r p"
  shows "list_all2 (imported m) rs (assembleResults m known k rs)"
  using assms(2)
proof (induction rs arbitrary: k)
  case (Cons r rs)
  then obtain p where p: "p \<in> set (mProfiles m)" "recordMatchesProfile r p" by auto
  then have "manifestProfile m (irID r) = Some p"
    using manifestProfile_member [OF assms(1) p(1)] by (simp add: recordMatchesProfile_def)
  with Cons p show ?case by (simp add: imported_def)
qed simp

definition commitDone ::
    "commitRequest \<Rightarrow> inspectionRecord list \<Rightarrow> 'w sstate \<Rightarrow> commitResult \<Rightarrow> 'w sstate \<Rightarrow> bool" where
  "commitDone req records s res s' \<longleftrightarrow>
     list_all2 (imported (sManifest s')) records (cmRecords res) \<and>
     cmRevision res = mLibraryRevision (sManifest s') \<and> \<not> sDurabilityUnknown s' \<and>
     (if cmReplayed res then base s (sManifest s') \<and> mLibraryRevision (sManifest s) \<noteq> crLibraryRevision req
      else \<exists>m (objs :: newObject list). base s m \<and> mLibraryRevision m = crLibraryRevision req \<and>
        mProfiles (sManifest s') = mProfiles m @ map noProfile objs \<and>
        list_all2 (\<lambda>r obj. recordMatchesProfile r (noProfile obj)) (filter isNew records) objs)"

text \<open>What a failed commit leaves behind: the manifest in memory, a repaired one, or a new one whose
  durability is unknown, and then the error says so.\<close>

definition commitFailed :: "'w sstate \<Rightarrow> goerr \<Rightarrow> 'w sstate \<Rightarrow> bool" where
  "commitFailed s e s' \<longleftrightarrow> memory s' = memory s \<or>
     sDurabilityUnknown s \<and> memory s' = (sManifest s', False, sCleaned s) \<or>
     errorsIs e ErrOutcomeAmbiguous \<and> sDurabilityUnknown s'"

lemma editFailed_commit: "editFailed edit s e s' \<Longrightarrow> commitFailed s e s'"
  by (auto simp: editFailed_def commitFailed_def memory_def)

lemma replayCommit_wp:
  assumes "mLibraryRevision (sManifest s) \<noteq> crLibraryRevision req"
  shows "wp (replayCommit I records) (\<lambda>r s'. case r of
      Inl e \<Rightarrow> commitFailed s e s'
    | Inr res \<Rightarrow> commitDone req records s res s') s"
  unfolding replayCommit_def wp_checkE RepairDurability_def
  by (rule wp_mono [OF repairDurabilityLocked_outcome])
    (use assms in \<open>auto simp: repairOutcome_def commitFailed_def commitDone_def exactReplay_def Snapshot_def
       wp_simps memory_def base_def dest: replayLoop_Some split: option.splits if_splits\<close>)

lemma publishImport_wp:
  assumes "base s m" and "\<not> sDurabilityUnknown s" and "libraryValid s"
  shows "wp (publishImport I req m records) (\<lambda>r s'. case r of
      Inl e \<Rightarrow> commitFailed s e s'
    | Inr res \<Rightarrow> commitDone req records s res s') s"
proof -
  have m: "m = sManifest s" using assms(1,2) by (simp add: base_def)
  have publish: "wp (Publish (isStore I) (crLibraryRevision req) objs)
      (\<lambda>(publication, e) s'. case e of
           Some x \<Rightarrow> commitFailed s x s'
         | None \<Rightarrow> (case publication of
                None \<Rightarrow> False
              | Some pub \<Rightarrow> commitDone req records s \<lparr>cmRecords = assembleResults (pubManifest pub) known 0 records,
                  cmReplayed = False, cmRevision = mLibraryRevision (pubManifest pub)\<rparr> s')) t"
    if t: "t = s\<lparr>sWorld := w\<rparr>" and plan: "planOutcome m [] records (Inr (objs, known))" for t w objs known
  proof (rule wp_mono [OF Publish_outcome], goal_cases)
    case (1 r s')
    obtain publication e where r: "r = (publication, e)" by (cases r)
    have mem: "memory t = memory s" "sCleaned t = sCleaned s" "sDurabilityUnknown t = sDurabilityUnknown s"
      "\<And>m. base t m = base s m" "sManifest t = sManifest s"
      using t by (simp_all add: base_def)
    show ?case
    proof (cases e)
      case (Some x)
      with 1 r have "editFailed (publishEdit (isStore I) (crLibraryRevision req) objs) s x s'"
        by (simp add: publicationOutcome_def editFailed_def mem)
      with r Some show ?thesis by (simp add: editFailed_commit)
    next
      case None
      from plan have new: "list_all2 (\<lambda>r obj. recordMatchesProfile r (noProfile obj)) (filter isNew records) objs"
        and found: "\<forall>r\<in>set records. \<exists>p\<in>set (mProfiles m) \<union> noProfile ` set objs. recordMatchesProfile r p"
        by (auto simp: planOutcome_def)
      from 1 r None obtain pub where pub: "publication = Some pub" "pubManifest pub = sManifest s'"
        by (auto simp: publicationOutcome_def)
      have final: "wellFormed (sManifest s') \<and> \<not> sDurabilityUnknown s' \<and>
          mProfiles (sManifest s') = mProfiles m @ map noProfile objs \<and> mLibraryRevision m = crLibraryRevision req"
      proof (cases "objs = []")
        case True
        with 1 r None assms m show ?thesis
          by (auto simp: publicationOutcome_def mem memory_def base_def libraryValid_def)
      next
        case False
        with 1 r None assms(2) m show ?thesis
          by (auto simp: publicationOutcome_def editDone_def mem memory_def base_def publishEdit_def bumpRevision_def)
      qed
      then have "list_all2 (imported (sManifest s')) records (assembleResults (sManifest s') known 0 records)"
        by (intro assembleResults_imported) (use found in auto)
      with final new pub r None assms(1) show ?thesis
        by (auto simp: commitDone_def intro!: exI [of _ m] exI [of _ objs])
    qed
  qed
  have published: "wp (case (objs, known) of (objs, known) \<Rightarrow> do {
         (publication, e) \<leftarrow> Publish (isStore I) (crLibraryRevision req) objs;
         return (case e of
             Some x \<Rightarrow> Inl x
           | None \<Rightarrow> (case publication of
                None \<Rightarrow> Inl (ErrText ''no publication'')
              | Some pub \<Rightarrow> Inr \<lparr>cmRecords = assembleResults (pubManifest pub) known 0 records,
                  cmReplayed = False, cmRevision = mLibraryRevision (pubManifest pub)\<rparr>)) })
      (\<lambda>r s'. case r of Inl e \<Rightarrow> commitFailed s e s' | Inr res \<Rightarrow> commitDone req records s res s')
      (s\<lparr>sWorld := w\<rparr>)" if "planOutcome m [] records (Inr (objs, known))" for objs known w
    unfolding prod.case wp_bind
    by (rule wp_mono [OF publish [OF refl that]]) (auto simp: wp_return split: option.splits)
  show ?thesis
    unfolding publishImport_def wp_tryE wp_onWorld
  proof (rule wp_mono [OF planRecords_wp], simp, goal_cases)
    case (1 r w)
    with published show ?case
      by (cases r) (auto simp: commitFailed_def)
  qed
qed

text \<open>The request passed every check: the receipt decodes to the code of the records, which are those of
  the files.\<close>

definition verified :: "('w, 'n) importService \<Rightarrow> commitRequest \<Rightarrow> inspectionRecord list \<Rightarrow> bool" where
  "verified I req records \<longleftrightarrow>
     checkRequest req = None \<and> reboundAll I 0 (crFiles req) (crRecords req) records \<and>
     (\<exists>expiry. decodeReceipt (crReceipt req) =
        Inr (expiry, receiptMAC I (crLibraryRevision req) expiry records))"

definition commitOutcome ::
    "('w, 'n) importService \<Rightarrow> commitRequest \<Rightarrow> 'w sstate \<Rightarrow> goerr + commitResult \<Rightarrow> 'w sstate \<Rightarrow> bool" where
  "commitOutcome I req s r s' \<longleftrightarrow>
     (case r of
        Inl e \<Rightarrow> commitFailed s e s'
      | Inr res \<Rightarrow> \<exists>records. verified I req records \<and> commitDone req records s res s')"

lemma commitVerified_wp:
  assumes "\<not> sDurabilityUnknown s" and "libraryValid s"
  shows "wp (commitVerified I req records) (\<lambda>r s'. case r of
      Inl e \<Rightarrow> commitFailed s e s'
    | Inr res \<Rightarrow> commitDone req records s res s') s"
  using replayCommit_wp [of s req I records] publishImport_wp [OF _ assms, of "sManifest s" I req records] assms(1)
  by (auto simp: commitVerified_def Snapshot_def wp_simps base_def)

lemma commitOutcome_world: "commitOutcome I req (s\<lparr>sWorld := w\<rparr>) r s' \<longleftrightarrow> commitOutcome I req s r s'"
  by (auto simp: commitOutcome_def commitFailed_def commitDone_def base_def memory_def split: sum.split)

lemma checkRequest_lengths: "checkRequest req = None \<Longrightarrow> length (crFiles req) = length (crRecords req)"
  by (auto simp: checkRequest_def split: option.splits if_splits)

lemma commitAdmitted_wp:
  assumes "\<not> sDurabilityUnknown s" and "libraryValid s"
  shows "wp (commitAdmitted I req) (commitOutcome I req s) s"
proof (cases "checkRequest req")
  case (Some e)
  then show ?thesis by (simp add: commitAdmitted_def wp_checkE wp_return commitOutcome_def commitFailed_def)
next
  case None
  note same = checkRequest_lengths [OF None]
  have refused: "commitOutcome I req s (Inl e) (s\<lparr>sWorld := w\<rparr>)" for e w
    by (simp add: commitOutcome_def commitFailed_def)
  have verify: "wp (commitVerified I req records) (commitOutcome I req s) (s\<lparr>sWorld := w\<rparr>)"
    if "verified I req records" for records w
    using that assms
    by (intro wp_mono [OF commitVerified_wp])
      (auto simp: libraryValid_def commitOutcome_def commitFailed_def commitDone_def base_def memory_def
        split: sum.splits)
  have receipt: "wp (tryE (onWorld (reinspectBound I (crFiles req) (crRecords req))) (\<lambda>records.
          if signature \<noteq> receiptMAC I (crLibraryRevision req) expiry records
          then return (Inl (Sentinel ErrInvalidReceipt))
          else commitVerified I req records)) (commitOutcome I req s) (s\<lparr>sWorld := w\<rparr>)"
    if "decodeReceipt (crReceipt req) = Inr (expiry, signature)" for expiry signature w
    unfolding wp_tryE wp_onWorld reinspectBound_def
    by (rule wp_mono [OF reinspectLoop_wp [OF same]])
      (use None that in \<open>auto simp: wp_return refused verified_def intro!: verify split: sum.splits\<close>)
  show ?thesis
  proof (cases "decodeReceipt (crReceipt req)")
    case (Inl e)
    with None show ?thesis
      by (simp add: commitAdmitted_def wp_checkE wp_tryE wp_return commitOutcome_def commitFailed_def)
  next
    case (Inr x)
    obtain expiry signature where x: "x = (expiry, signature)" by (cases x)
    show ?thesis
      unfolding commitAdmitted_def None wp_checkE wp_tryE [of "return _"] wp_return option.case Inr sum.case x
        prod.case wp_bind [of "onWorld _"] wp_onWorld wp_if
      by (rule wp_any) (simp add: wp_return refused receipt [OF Inr [unfolded x]])
  qed
qed

section \<open>The gate\<close>

lemma wp_withGate [wp_simps]:
  "wp (withGate body) Q = (\<lambda>s. if iGate s then wp body (\<lambda>r t. Q r (t\<lparr>iGate := True\<rparr>)) (s\<lparr>iGate := False\<rparr>)
     else Q (Inl (Sentinel ErrImportBusy)) s)"
  by (rule ext) (simp add: withGate_def acquireService_def releaseService_def wp_simps)

lemma Commit_wp:
  assumes "\<not> sDurabilityUnknown (iStore s)" and "libraryValid (iStore s)"
  shows "wp (Commit I req) (\<lambda>r s'. iGate s' = iGate s \<and> commitOutcome I req (iStore s) r (iStore s') \<and>
     (\<forall>x. r = Inr x \<longrightarrow> iGate s \<and> crTrustProfilePolicy req)) s"
    (is "wp _ ?Q _")
proof -
  have refused: "commitOutcome I req (iStore s) (Inl e) (iStore s)" for e
    by (simp add: commitOutcome_def commitFailed_def)
  have body: "wp (onStore (commitAdmitted I req)) K t"
    if "iStore t = iStore s" "\<And>r u. commitOutcome I req (iStore s) r (iStore u) \<Longrightarrow> K r u" for t K
    unfolding wp_onStore by (rule wp_mono [OF commitAdmitted_wp]) (use that assms in simp_all)
  consider "\<not> iGate s" | "iGate s" "\<not> crTrustProfilePolicy req" | "iGate s" "crTrustProfilePolicy req" by blast
  then show ?thesis
  proof cases
    case 1
    then show ?thesis by (simp add: Commit_def wp_withGate refused)
  next
    case 2
    then show ?thesis by (simp add: Commit_def wp_withGate wp_return refused)
  next
    case 3
    have "wp (admitCommit I (onStore (commitAdmitted I req))) (\<lambda>r t. ?Q r (t\<lparr>iGate := True\<rparr>)) (s\<lparr>iGate := False\<rparr>)"
    proof (cases "isCommitAdmission I")
      case None
      show ?thesis
        unfolding admitCommit_def None option.case by (rule body) (use 3 in simp_all)
    next
      case (Some admission)
      have "wp (deferE (onEnv free) (onStore (commitAdmitted I req))) (\<lambda>r t. ?Q r (t\<lparr>iGate := True\<rparr>))
          (s\<lparr>iGate := False, iEnv := n\<rparr>)" for free n
        unfolding wp_deferE by (rule body) (use 3 in \<open>simp_all add: wp_onEnv\<close>)
      then show ?thesis
        unfolding admitCommit_def Some option.case wp_tryE wp_onEnv
        by - (rule wp_any, auto simp: 3 refused wp_return split: sum.split option.split)
    qed
    with 3 show ?thesis by (simp add: Commit_def wp_withGate)
  qed
qed

end
