(* ===== verification/InspectLaws.thy ===== *)
theory InspectLaws
  imports ImportLaws
begin

text \<open>
  The loop of an inspection, characterised file by file, and the second look of a commit at the records
  a client sends back: with nothing changed it finds what the inspection found.
\<close>

section \<open>One file\<close>

text \<open>\<open>accepts\<close> stands for what is known of the compatibility check.\<close>

definition inspectedOk ::
    "('w, 'n) importService \<Rightarrow> (string \<Rightarrow> bool) \<Rightarrow> nat \<Rightarrow> importFile \<Rightarrow> inspectionRecord \<Rightarrow> bool" where
  "inspectedOk I accepts k f r \<longleftrightarrow> ValidateOriginalFilename (ifName f) = None \<and>
     detectProtocol (isTables I) (isCrypto I) f = Inr (irProtocol r) \<and>
     (irProtocol r = ProtocolWireGuard \<longrightarrow> accepts (ifBytes f)) \<and>
     (case ValidateImportedProfile (isTables I) (isCrypto I) (irProtocol r) (ifBytes f) of
        Inl e \<Rightarrow> False
      | Inr policy \<Rightarrow> r = (freshRecord k f)\<lparr>irDigest := contentDigest (isCrypto I) (ifBytes f),
          irProtocol := irProtocol r, irWireGuardPublicKeyDigest := prWireGuardPublicKeySHA256 policy\<rparr>)"

lemma ValidateImportedProfile_protocol:
  "ValidateImportedProfile U C protocol data = Inr policy \<Longrightarrow>
     ValidProtocol protocol \<and> (protocol = ProtocolOpenVPN \<longrightarrow> prWireGuardPublicKeySHA256 policy = [])"
  by (auto simp: ValidateImportedProfile_def ValidProtocol_def split: if_splits option.splits sum.splits)

lemma inspectContent_wp:
  assumes "\<And>d w. wp (isChecker I d) (\<lambda>e _. e = None \<longrightarrow> accepts d) w"
  shows "wp (inspectContent I k f) (\<lambda>r _. case r of
      Inl x \<Rightarrow> irIssues x \<noteq> [] \<and> irDisposition x = []
    | Inr x \<Rightarrow> inspectedOk I accepts k f x) w"
proof -
  have plain: "prWireGuardPublicKeySHA256 policy = []"
    if "ValidateImportedProfile (isTables I) (isCrypto I) protocol (ifBytes f) = Inr policy"
    "protocol \<noteq> ProtocolWireGuard" for protocol policy
    using ValidateImportedProfile_protocol [OF that(1)] that by (simp add: ValidProtocol_def)
  show ?thesis
    unfolding inspectContent_def Let_def
    by (auto simp: wp_simps withIssue_def inspectedOk_def freshRecord_def split: sum.split dest: plain
        intro!: wp_mono [OF assms])
qed

section \<open>Fresh identities\<close>

definition readsExactly :: "('w, 'n) importService \<Rightarrow> bool" where
  "readsExactly I \<longleftrightarrow> (\<forall>n w. wp (isRandom I n) (\<lambda>r _. case r of Inl e \<Rightarrow> True | Inr x \<Rightarrow> length x = n) w)"

lemma GenerateID_pattern: "length raw = 16 \<Longrightarrow> idPattern (GenerateID raw)"
  using base32_digits [of raw] by (simp add: idPattern_def GenerateID_def length_base32 hasPrefix_iff)

abbreviation runtimeID :: "('w, 'n) importService \<Rightarrow> string \<Rightarrow> string" where
  "runtimeID I i \<equiv> RuntimeIdentifier (sha256 (isCrypto I)) i"

definition identityOk :: "('w, 'n) importService \<Rightarrow> string list \<Rightarrow> string \<times> string \<Rightarrow> bool" where
  "identityOk I used x \<longleftrightarrow> (case x of (i, identifier) \<Rightarrow>
     idPattern i \<and> identifier = runtimeID I i \<and> identifier \<notin> set used)"

lemma generateIdentity_wp:
  assumes "readsExactly I"
  shows "wp (generateIdentity I n protocol used) (\<lambda>r _. case r of Inl e \<Rightarrow> True | Inr x \<Rightarrow> identityOk I used x) w"
proof (induction n arbitrary: w)
  case (Suc n)
  have raw: "wp (isRandom I 16) (\<lambda>r _. case r of Inl e \<Rightarrow> True | Inr x \<Rightarrow> length x = 16) w"
    using assms by (simp add: readsExactly_def)
  have name: "wp (tryE (nameAvailable name) (\<lambda>free.
      if \<not> free then generateIdentity I n q used else return (Inr x)))
      (\<lambda>r _. case r of Inl e \<Rightarrow> True | Inr x \<Rightarrow> identityOk I used x) u" if "identityOk I used x" "q = protocol"
    for nameAvailable name x u q
    unfolding wp_tryE by (rule wp_any) (auto simp: wp_return that Suc split: sum.split)
  show ?case
    unfolding generateIdentity.simps wp_tryE Let_def
    by (rule wp_mono [OF raw])
      (auto simp: wp_return Suc identityOk_def GenerateID_pattern split: sum.split option.split intro!: name)
qed (simp add: wp_return)

section \<open>The loop\<close>

fun inspectedAll ::
    "('w, 'n) importService \<Rightarrow> (string \<Rightarrow> bool) \<Rightarrow> nat \<Rightarrow> (string \<times> profile) list \<Rightarrow> string list \<Rightarrow>
     importFile list \<Rightarrow> inspectionRecord list \<Rightarrow> bool \<Rightarrow> bool" where
  "inspectedAll I accepts k known used (f # fs) (r # rs) ready \<longleftrightarrow>
     irIssues r \<noteq> [] \<and> irDisposition r = [] \<and> \<not> ready \<and> (\<exists>rest. inspectedAll I accepts (Suc k) known used fs rs rest) \<or>
     (\<exists>x. inspectedOk I accepts k f x \<and>
        (case map_of known (irDigest x) of
           Some p \<Rightarrow> r = knownRecord x p \<and> inspectedAll I accepts (Suc k) known used fs rs ready
         | None \<Rightarrow> \<exists>i. identityOk I used (i, runtimeID I i) \<and> r = newRecord x i (runtimeID I i) \<and>
             inspectedAll I accepts (Suc k) ((irDigest r, plannedProfile r) # known) (runtimeID I i # used)
               fs rs ready))"
| "inspectedAll I accepts k known used [] [] ready = ready"
| "inspectedAll I accepts k known used _ _ ready = False"

lemma inspectFiles_wp:
  assumes "readsExactly I" and "\<And>d w. wp (isChecker I d) (\<lambda>e _. e = None \<longrightarrow> accepts d) w"
  shows "wp (inspectFiles I k known used fs) (\<lambda>r _. case r of
      Inl e \<Rightarrow> True
    | Inr (rs, ready) \<Rightarrow> inspectedAll I accepts k known used fs rs ready) w"
proof (induction fs arbitrary: k known used w)
  case (Cons f fs k known used w)
  let ?Q = "\<lambda>r _. case r of Inl e \<Rightarrow> True
    | Inr (rs, ready) \<Rightarrow> inspectedAll I accepts k known used (f # fs) rs ready"
  have bad: "wp (tryE (inspectFiles I (Suc k) known used fs) (\<lambda>(rs, ready). return (Inr (r # rs, False)))) ?Q u"
    if "irIssues r \<noteq> []" "irDisposition r = []" for r u
    unfolding wp_tryE
    by (rule wp_mono [OF Cons.IH]) (use that in \<open>auto simp: wp_return split: sum.splits\<close>)
  have old: "wp (tryE (inspectFiles I (Suc k) known used fs) (\<lambda>(rs, ready). return (Inr (knownRecord x p # rs, ready)))) ?Q u"
    if "inspectedOk I accepts k f x" "map_of known (irDigest x) = Some p" for x p u
    unfolding wp_tryE
    by (rule wp_mono [OF Cons.IH]) (use that in \<open>force simp: wp_return split: sum.splits\<close>)
  have new: "wp (let r = newRecord x i (runtimeID I i)
      in tryE (inspectFiles I (Suc k) ((irDigest r, plannedProfile r) # known) (runtimeID I i # used) fs)
        (\<lambda>(rs, ready). return (Inr (r # rs, ready)))) ?Q u"
    if "inspectedOk I accepts k f x" "map_of known (irDigest x) = None" "identityOk I used (i, runtimeID I i)" for x i u
    unfolding wp_tryE Let_def
    by (rule wp_mono [OF Cons.IH]) (use that in \<open>force simp: wp_return split: sum.splits\<close>)
  have fresh: "wp (tryE (generateIdentity I 128 (irProtocol x) used) (\<lambda>(i, identifier).
      let r = newRecord x i identifier
      in tryE (inspectFiles I (Suc k) ((irDigest r, plannedProfile r) # known) (identifier # used) fs)
        (\<lambda>(rs, ready). return (Inr (r # rs, ready))))) ?Q u"
    if "inspectedOk I accepts k f x" "map_of known (irDigest x) = None" for x u
    unfolding wp_tryE [of "generateIdentity _ _ _ _"]
    by (rule wp_mono [OF generateIdentity_wp [OF assms(1)]])
      (use new that in \<open>auto simp: identityOk_def split: sum.splits\<close>)
  show ?case
    unfolding inspectFiles.simps wp_bind
    by (rule wp_mono [OF inspectContent_wp [OF assms(2)]])
      (auto simp: bad old fresh split: sum.splits option.split)
qed (simp add: wp_return)

lemma inspectedOk_fields:
  "inspectedOk I accepts k f x \<Longrightarrow> irIssues x = [] \<and> irOrdinal x = int k \<and>
     irProtocolOverride x = ifProtocolOverride f \<and> irDigest x = contentDigest (isCrypto I) (ifBytes f)"
  by (auto simp: inspectedOk_def freshRecord_def split: sum.splits)
    (metis inspectionRecord.select_convs inspectionRecord.update_convs)+

lemma inspectedAll_cases:
  assumes "inspectedAll I accepts k known used (f # fs) (r # rs) ready"
  obtains
    (bad) rest where "irIssues r \<noteq> []" "irDisposition r = []" "\<not> ready"
      "inspectedAll I accepts (Suc k) known used fs rs rest"
  | (old) x p where "inspectedOk I accepts k f x" "map_of known (irDigest x) = Some p" "r = knownRecord x p"
      "inspectedAll I accepts (Suc k) known used fs rs ready"
  | (new) x i where "inspectedOk I accepts k f x" "map_of known (irDigest x) = None"
      "identityOk I used (i, runtimeID I i)" "r = newRecord x i (runtimeID I i)"
      "inspectedAll I accepts (Suc k) ((irDigest r, plannedProfile r) # known) (runtimeID I i # used) fs rs ready"
proof -
  let ?pass = "\<lambda>x. inspectedOk I accepts k f x \<and>
        (case map_of known (irDigest x) of
           Some p \<Rightarrow> r = knownRecord x p \<and> inspectedAll I accepts (Suc k) known used fs rs ready
         | None \<Rightarrow> \<exists>i. identityOk I used (i, runtimeID I i) \<and> r = newRecord x i (runtimeID I i) \<and>
             inspectedAll I accepts (Suc k) ((irDigest r, plannedProfile r) # known) (runtimeID I i # used)
               fs rs ready)"
  from assms consider rest where "irIssues r \<noteq> []" "irDisposition r = []" "\<not> ready"
      "inspectedAll I accepts (Suc k) known used fs rs rest" | x where "?pass x"
    unfolding inspectedAll.simps by blast
  then show thesis
  proof cases
    case 1
    then show ?thesis by (rule bad)
  next
    case (2 x)
    then show ?thesis
      by (cases "map_of known (irDigest x)") (auto intro: old new)
  qed
qed

declare inspectedAll.simps(1) [simp del]

lemma inspectedAll_length: "inspectedAll I accepts k known used fs rs ready \<Longrightarrow> length rs = length fs"
  by (induction I accepts k known used fs rs ready rule: inspectedAll.induct)
    (auto elim!: inspectedAll_cases)

lemma inspectedAll_ready:
  "inspectedAll I accepts k known used fs rs ready \<Longrightarrow> ready = list_all (\<lambda>r. irIssues r = []) rs"
proof (induction fs arbitrary: k known used rs ready)
  case Nil
  then show ?case by (cases rs) auto
next
  case (Cons f fs)
  then obtain r rs' where rs: "rs = r # rs'" by (cases rs) auto
  from Cons.prems [unfolded rs] show ?case
  proof (cases rule: inspectedAll_cases)
    case bad
    with rs show ?thesis by simp
  next
    case (old x p)
    with Cons.IH [OF old(4)] inspectedOk_fields [OF old(1)] rs show ?thesis by (simp add: knownRecord_def)
  next
    case (new x i)
    with Cons.IH [OF new(5)] inspectedOk_fields [OF new(1)] rs show ?thesis by (simp add: newRecord_def)
  qed
qed

abbreviation freshlyNamed :: "inspectionRecord \<Rightarrow> bool" where
  "freshlyNamed r \<equiv> irDisposition r = ''new''"

definition newNames :: "inspectionRecord list \<Rightarrow> string list" where
  "newNames rs = map irIdentifier (filter freshlyNamed rs)"

lemma newNames_simps [simp]:
  "newNames [] = []" "newNames (r # rs) = (if freshlyNamed r then [irIdentifier r] else []) @ newNames rs"
  by (simp_all add: newNames_def)

text \<open>The runtime names of the new records are new and differ from each other.\<close>

lemma inspectedAll_names:
  "inspectedAll I accepts k known used fs rs ready \<Longrightarrow>
     distinct (newNames rs) \<and> set (newNames rs) \<inter> set used = {} \<and>
     (\<forall>r\<in>set rs. freshlyNamed r \<longrightarrow> idPattern (irID r) \<and> irIdentifier r = runtimeID I (irID r))"
proof (induction fs arbitrary: k known used rs ready)
  case Nil
  then show ?case by (cases rs) auto
next
  case (Cons f fs)
  then obtain r rs' where rs: "rs = r # rs'" by (cases rs) auto
  from Cons.prems [unfolded rs] show ?case
  proof (cases rule: inspectedAll_cases)
    case bad
    with Cons.IH [OF bad(4)] rs show ?thesis by simp
  next
    case (old x p)
    with Cons.IH [OF old(4)] rs show ?thesis by (simp add: knownRecord_def)
  next
    case (new x i)
    with Cons.IH [OF new(5)] rs show ?thesis by (auto simp: newRecord_def identityOk_def)
  qed
qed

section \<open>The second look\<close>

text \<open>What a client gets to see of a record, and sends back.\<close>

definition visible :: "inspectionRecord \<Rightarrow> inspectionRecord" where
  "visible r = r\<lparr>irDigest := [], irWireGuardPublicKeyDigest := [], irProtocolOverride := []\<rparr>"

lemma reinspectOne_unchanged:
  assumes "isChecker I = (\<lambda>d. return (verdict d))" and "idPattern i"
    and "ValidateOriginalFilename (ifName f) = None"
    and "detectProtocol (isTables I) (isCrypto I) f = Inr protocol"
    and p: "ValidateImportedProfile (isTables I) (isCrypto I) protocol (ifBytes f) = Inr policy"
    and "protocol = ProtocolWireGuard \<Longrightarrow> verdict (ifBytes f) = None"
    and "r = newRecord ((freshRecord k f)\<lparr>irDigest := contentDigest (isCrypto I) (ifBytes f),
      irProtocol := protocol, irWireGuardPublicKeyDigest := prWireGuardPublicKeySHA256 policy\<rparr>) i (runtimeID I i)"
  shows "reinspectOne I k f (visible r) = return (Inr r)"
  using assms ValidateImportedProfile_protocol [OF p]
  by (simp add: reinspectOne_def boundRecordOk_def visible_def newRecord_def freshRecord_def reboundRecord_def)

lemma reinspectOne_visible:
  assumes "isChecker I = (\<lambda>d. return (verdict d))"
    and "inspectedOk I (\<lambda>d. verdict d = None) k f x" and "idPattern i"
  shows "reinspectOne I k f (visible (newRecord x i (runtimeID I i))) =
    return (Inr (newRecord x i (runtimeID I i)))"
proof -
  from assms(2) obtain policy where
      "ValidateImportedProfile (isTables I) (isCrypto I) (irProtocol x) (ifBytes f) = Inr policy"
    and x: "x = (freshRecord k f)\<lparr>irDigest := contentDigest (isCrypto I) (ifBytes f),
          irProtocol := irProtocol x, irWireGuardPublicKeyDigest := prWireGuardPublicKeySHA256 policy\<rparr>"
    by (auto simp: inspectedOk_def split: sum.splits)
  then show ?thesis
    by (intro reinspectOne_unchanged [OF assms(1,3), where protocol = "irProtocol x" and policy = policy]
        arg_cong [OF x, of "\<lambda>x. newRecord x i (runtimeID I i)"])
      (use assms(2) in \<open>simp_all add: inspectedOk_def\<close>)
qed

lemma tryE_return: "tryE (return (Inr x)) f = f x"
  by (simp add: tryE_def)

lemma reinspectLoop_visible:
  assumes "isChecker I = (\<lambda>d. return (verdict d))"
    and "inspectedAll I (\<lambda>d. verdict d = None) k known used fs rs True" and "list_all freshlyNamed rs"
  shows "reinspectLoop I k fs (map visible rs) = return (Inr rs)"
  using assms(2,3)
proof (induction fs arbitrary: k known used rs)
  case Nil
  then show ?case by (cases rs) auto
next
  case (Cons f fs)
  then obtain r rs' where rs: "rs = r # rs'" by (cases rs) auto
  with Cons.prems obtain x i where x: "inspectedOk I (\<lambda>d. verdict d = None) k f x"
    and "identityOk I used (i, runtimeID I i)" and r: "r = newRecord x i (runtimeID I i)"
    and rest: "inspectedAll I (\<lambda>d. verdict d = None) (Suc k) ((irDigest r, plannedProfile r) # known)
      (runtimeID I i # used) fs rs' True"
    by (auto simp: knownRecord_def elim!: inspectedAll_cases)
  then have "reinspectOne I k f (visible r) = return (Inr r)"
    using reinspectOne_visible [OF assms(1) x] by (simp add: identityOk_def)
  moreover have "reinspectLoop I (Suc k) fs (map visible rs') = return (Inr rs')"
    using Cons.IH [OF rest] Cons.prems(2) rs by simp
  ultimately show ?case by (simp add: rs tryE_return)
qed

end
