(* ===== verification/ImportProperties.thy ===== *)
theory ImportProperties
  imports InspectLaws SampleKernel
begin

text \<open>
  The properties of the import service: what an inspection promises, what a receipt binds, that a receipt
  is honoured, and what a commit does to the library.
\<close>

section \<open>A service for the concrete instances\<close>

definition sampleImport :: "(unit, unit) importService" where
  "sampleImport = \<lparr>isStore = steadyStore\<lparr>sCrypto := sampleCrypto\<rparr>,
     isRandom = (\<lambda>n. return (Inr (replicate n (CHR ''r'')))),
     isNow = return \<lparr>tSeconds = 1700000000, tNanos = 5, tUTC = False\<rparr>,
     isChecker = (\<lambda>d. return None), isRuntimeNameAvailable = None, isCommitAdmission = None,
     isKey = replicate 32 (CHR ''k'')\<rparr>"

definition sampleImportState :: "(unit, unit) istate" where
  "sampleImportState = \<lparr>iStore = openedState InitialManifest (), iEnv = (), iGate = True\<rparr>"

definition sampleFile :: importFile where
  "sampleFile = \<lparr>ifName = ''home.ovpn'', ifBytes = smallOpenVPN, ifProtocolOverride = []\<rparr>"

lemma sampleImport_simps [simp]:
  "isCrypto sampleImport = sampleCrypto" "isNow sampleImport = return \<lparr>tSeconds = 1700000000, tNanos = 5, tUTC = False\<rparr>"
  "isChecker sampleImport = (\<lambda>d. return None)" "readsExactly sampleImport"
  by (simp_all add: sampleImport_def readsExactly_def wp_return)

lemma sampleCrypto_hashes: "hashes sampleCrypto"
  by (auto simp: hashes_def sampleCrypto_def)

lemma sampleFile_inspected:
  "case fst (run_state (inspectFiles sampleImport 0 [] [] [sampleFile]) ()) of Inl e \<Rightarrow> False
   | Inr (rs, ready) \<Rightarrow> ready \<and> list_all freshlyNamed rs \<and> length rs = 1"
  by code_simp

section \<open>Inspection\<close>

definition inspectionOf ::
    "('w, 'n) importService \<Rightarrow> importFile list \<Rightarrow> manifest \<Rightarrow> goTime \<Rightarrow> inspectionRecord list \<Rightarrow> bool \<Rightarrow> inspection" where
  "inspectionOf I files m now rs ready = \<lparr>inLibraryRevision = mLibraryRevision m, inRecords = rs,
     inSuggestions = suggestions (isTables I) 0 files,
     inReceipt = (if ready then sign I (mLibraryRevision m) (receiptExpiry now) rs else []),
     inExpiresAt = (if ready then Some (receiptExpiry now) else None), inCommitReady = ready\<rparr>"

lemma inspectManifest_wp:
  assumes "readsExactly I" and "\<And>d w. wp (isChecker I d) (\<lambda>e _. e = None \<longrightarrow> accepts d) w"
    and "\<And>w. wp (isNow I) (\<lambda>t _. clock t) w"
  shows "wp (inspectManifest I files m) (\<lambda>r _. case r of
      Inl e \<Rightarrow> True
    | Inr x \<Rightarrow> \<exists>now rs ready. x = inspectionOf I files m now rs ready \<and> (ready \<longrightarrow> clock now) \<and>
        inspectedAll I accepts 0 (rev (map (\<lambda>p. (pContentSHA256 p, p)) (mProfiles m)))
          (map pIdentifier (mProfiles m)) files rs ready) w"
  unfolding inspectManifest_def wp_tryE
  by (rule wp_mono [OF inspectFiles_wp [OF assms(1,2)]])
    (auto simp: wp_simps Let_def inspectionOf_def split: sum.splits intro!: wp_mono [OF assms(3)])

lemma Inspect_wp:
  assumes "readsExactly I" and "\<And>d w. wp (isChecker I d) (\<lambda>e _. e = None \<longrightarrow> accepts d) w"
    and "\<And>w. wp (isNow I) (\<lambda>t _. clock t) w"
  shows "wp (Inspect I files) (\<lambda>r s'. memory (iStore s') = memory (iStore s) \<and> iGate s' = iGate s \<and>
    (case r of
      Inl e \<Rightarrow> True
    | Inr x \<Rightarrow> \<exists>now rs ready. x = inspectionOf I files (sManifest (iStore s)) now rs ready \<and>
        (ready \<longrightarrow> clock now) \<and>
        inspectedAll I accepts 0 (rev (map (\<lambda>p. (pContentSHA256 p, p)) (mProfiles (sManifest (iStore s)))))
          (map pIdentifier (mProfiles (sManifest (iStore s)))) files rs ready)) s"
proof (cases "validateImportEnvelope files")
  case None
  show ?thesis
    unfolding Inspect_def wp_withGate wp_checkE wp_return None option.case wp_bind Snapshot_def wp_onStore wp_gets
      onMachine_def wp_onWorld
    by (simp, intro impI wp_mono [OF inspectManifest_wp [OF assms]]) auto
qed (simp add: Inspect_def wp_withGate wp_checkE wp_return)

text \<open>C12: an inspection leaves the library alone.  It has one record for each file, is ready to be
  committed exactly when no record has an issue, and only then carries a receipt, which binds the
  revision and the records until the expiry; the runtime names it hands out match the pattern, differ
  from each other and from those of the library.\<close>

theorem inspection_contract:
  assumes "readsExactly I"
  shows "wp (Inspect I files) (\<lambda>r s'. sManifest (iStore s') = sManifest (iStore s) \<and> iGate s' = iGate s \<and>
    (case r of
      Inl e \<Rightarrow> True
    | Inr x \<Rightarrow> inLibraryRevision x = mLibraryRevision (sManifest (iStore s)) \<and>
        length (inRecords x) = length files \<and> length (inSuggestions x) = length files \<and>
        inCommitReady x = list_all (\<lambda>r. irIssues r = []) (inRecords x) \<and>
        (case inExpiresAt x of
           None \<Rightarrow> \<not> inCommitReady x \<and> inReceipt x = []
         | Some expiry \<Rightarrow> inCommitReady x \<and> inReceipt x = sign I (inLibraryRevision x) expiry (inRecords x)) \<and>
        distinct (newNames (inRecords x)) \<and>
        set (newNames (inRecords x)) \<inter> pIdentifier ` set (mProfiles (sManifest (iStore s))) = {} \<and>
        list_all (\<lambda>r. freshlyNamed r \<longrightarrow> idPattern (irID r) \<and> irIdentifier r = runtimeID I (irID r)) (inRecords x))) s"
proof -
  have "length (suggestions U k files) = length files" for U k
    by (induction files arbitrary: k) auto
  note suggested = this
  show ?thesis
  proof (rule wp_mono [OF Inspect_wp [OF assms, where accepts = "\<lambda>_. True" and clock = "\<lambda>_. True"]],
      simp, simp, goal_cases)
    case (1 r s')
    then have same: "sManifest (iStore s') = sManifest (iStore s)" by (simp add: memory_def)
    show ?case
    proof (cases r)
      case (Inl e)
      with 1 same show ?thesis by simp
    next
      case (Inr x)
      with 1 obtain now rs ready where x: "x = inspectionOf I files (sManifest (iStore s)) now rs ready"
        and all: "inspectedAll I (\<lambda>_. True) 0 (rev (map (\<lambda>p. (pContentSHA256 p, p)) (mProfiles (sManifest (iStore s)))))
          (map pIdentifier (mProfiles (sManifest (iStore s)))) files rs ready" by auto
      show ?thesis
        using 1 same inspectedAll_length [OF all] inspectedAll_ready [OF all] inspectedAll_names [OF all]
        by (auto simp: Inr x inspectionOf_def suggested list_all_iff)
    qed
  qed
qed

theorem inspection_contract_witness:
  "sManifest (iStore (snd (run_state (Inspect sampleImport [sampleFile]) sampleImportState))) = InitialManifest"
proof -
  have "sManifest (iStore sampleImportState) = InitialManifest"
    by (simp add: sampleImportState_def openedState_def)
  then show ?thesis
    using wp_runD [OF inspection_contract [of sampleImport "[sampleFile]" sampleImportState] prod.collapse [symmetric]]
    by simp
qed

section \<open>Receipts\<close>

lemma receipt_decodes:
  assumes "hashes (isCrypto I)" and "0 \<le> tSeconds now + 3600" and "tSeconds now + 3600 \<le> 253402300799"
  shows "decodeReceipt (sign I revision (receiptExpiry now) records) =
    Inr (receiptExpiry now, receiptMAC I revision (receiptExpiry now) records)"
  using assms by (intro decodeReceipt_sign) (simp_all add: receiptExpiry_def receiptTTL_def UTC_def)

text \<open>C11: the receipt of an inspection decodes to the expiry that was put into it and to the code of
  the revision, the expiry and the records, for every expiry before the year 10000.\<close>

theorem receipt_roundtrip:
  assumes "hashes (isCrypto I)" and "0 \<le> tSeconds now + 3600" and "tSeconds now + 3600 \<le> 253402300799"
  shows "decodeReceipt (sign I revision (receiptExpiry now) records) =
    Inr (receiptExpiry now, receiptMAC I revision (receiptExpiry now) records)"
  by (rule receipt_decodes [OF assms])

theorem receipt_roundtrip_witness:
  "map_sum id fst (decodeReceipt (sign sampleImport 7 (receiptExpiry \<lparr>tSeconds = 1700000000, tNanos = 5, tUTC = False\<rparr>) [])) =
     Inr \<lparr>tSeconds = 1700003600, tNanos = 0, tUTC = True\<rparr>"
  using receipt_roundtrip [of sampleImport "\<lparr>tSeconds = 1700000000, tNanos = 5, tUTC = False\<rparr>" 7 "[]"] sampleCrypto_hashes
  by (simp add: receiptExpiry_def receiptTTL_def UTC_def)



section \<open>Commit\<close>

lemma onWorld_return: "onWorld (return x) = return x"
  by (simp add: onWorld_def zoom_def State_Monad.return_def)

lemma bind_pure: "State_Monad.bind (return x) f = f x"
  by (simp add: State_Monad.bind_def State_Monad.return_def)

lemma checkE_pass: "checkE (return None) m = m"
  by (simp add: checkE_def bind_pure)

lemma reinspectOne_clock: "reinspectOne (I\<lparr>isNow := c\<rparr>) k f bound = reinspectOne I k f bound"
  by (simp add: reinspectOne_def cong: wp_congs)

lemma reinspectLoop_clock: "reinspectLoop (I\<lparr>isNow := c\<rparr>) k fs bounds = reinspectLoop I k fs bounds"
  by (induction I k fs bounds rule: reinspectLoop.induct) (simp_all add: reinspectOne_clock)

text \<open>C9: a receipt is honoured.  When an inspection of new files was ready, then a commit of the same
  files with the records as the client sees them, the same revision and the receipt, at a time not after
  the expiry, passes every check of the receipt and goes on to the library with the records of the
  inspection; that is so for a compatibility check that answers by the content alone.\<close>

theorem receipt_honoured:
  assumes "hashes (isCrypto I)" and "readsExactly I" and "isChecker I = (\<lambda>d. return (verdict d))"
    and "isNow I = return now" and "0 \<le> tSeconds now + 3600" and "tSeconds now + 3600 \<le> 253402300799"
    and "run_state (Inspect I files) s = (Inr x, s')" and "inCommitReady x" and "list_all freshlyNamed (inRecords x)"
    and "checkRequest req = None" and "crFiles req = files" and "crLibraryRevision req = inLibraryRevision x"
    and "crRecords req = map visible (inRecords x)" and "crReceipt req = inReceipt x"
    and "\<not> timeAfter (UTC later) (receiptExpiry now)" and "J = I\<lparr>isNow := return later\<rparr>"
  shows "commitAdmitted J req = commitVerified J req (inRecords x)"
proof -
  let ?m = "sManifest (iStore s)"
  have "wp (isChecker I d) (\<lambda>e _. e = None \<longrightarrow> verdict d = None) w" "wp (isNow I) (\<lambda>t _. t = now) w" for d w
    by (simp_all add: assms(3,4) wp_return)
  note looked = wp_runD [OF Inspect_wp [OF assms(2) this] assms(7)]
  from looked obtain rs where x: "x = inspectionOf I files ?m now rs True"
    and all: "inspectedAll I (\<lambda>d. verdict d = None) 0 (rev (map (\<lambda>p. (pContentSHA256 p, p)) (mProfiles ?m)))
      (map pIdentifier (mProfiles ?m)) files rs True"
    using assms(8) by (auto simp: inspectionOf_def)
  have again: "reinspectBound J files (map visible rs) = return (Inr rs)"
    using reinspectLoop_visible [OF assms(3) all] assms(9,16) x
    by (simp add: reinspectBound_def reinspectLoop_clock inspectionOf_def)
  have code: "receiptMAC (I\<lparr>isNow := return later\<rparr>) revision expiry rs = receiptMAC I revision expiry rs"
    for revision expiry
    by (simp add: receiptMAC_def)
  have "decodeReceipt (crReceipt req) =
      Inr (receiptExpiry now, receiptMAC I (crLibraryRevision req) (receiptExpiry now) rs)"
    using receipt_decodes [OF assms(1,5,6)] assms(12,14) by (simp add: x inspectionOf_def)
  then show ?thesis
    using assms(10-16) again
    by (simp add: commitAdmitted_def checkE_pass tryE_return onWorld_return bind_pure code x inspectionOf_def)
qed

lemma sampleInspection:
  obtains x s' where "run_state (Inspect sampleImport [sampleFile]) sampleImportState = (Inr x, s')"
    and "inCommitReady x" and "list_all freshlyNamed (inRecords x)" and "length (inRecords x) = 1"
proof -
  obtain r where run: "run_state (inspectFiles sampleImport 0 [] [] [sampleFile]) () = (r, ())"
    by (metis (full_types) old.unit.exhaust surj_pair)
  with sampleFile_inspected obtain rs where r: "r = Inr (rs, True)" and fresh: "list_all freshlyNamed rs" "length rs = 1"
    by (auto split: sum.splits)
  have envelope: "validateImportEnvelope [sampleFile] = None" by code_simp
  let ?x = "inspectionOf sampleImport [sampleFile] InitialManifest
        \<lparr>tSeconds = 1700000000, tNanos = 5, tUTC = False\<rparr> rs True"
  have "wp (Inspect sampleImport [sampleFile]) (\<lambda>r s'. r = Inr ?x) sampleImportState"
    unfolding Inspect_def wp_withGate wp_checkE wp_return envelope option.case wp_bind Snapshot_def wp_onStore wp_gets
      onMachine_def wp_onWorld inspectManifest_def wp_tryE
    by (simp add: sampleImportState_def openedState_def InitialManifest_def wp_def [of "inspectFiles _ _ _ _ _"] run r
        inspectionOf_def wp_simps del: inspectFiles.simps suggestions.simps)
  then obtain s' where s': "run_state (Inspect sampleImport [sampleFile]) sampleImportState = (Inr ?x, s')"
    by (cases "run_state (Inspect sampleImport [sampleFile]) sampleImportState") (auto simp: wp_def)
  show ?thesis by (rule that [OF s']) (simp_all add: fresh inspectionOf_def)
qed

definition sampleRequest :: "inspection \<Rightarrow> commitRequest" where
  "sampleRequest x = \<lparr>crFiles = [sampleFile], crLibraryRevision = inLibraryRevision x,
     crRecords = map visible (inRecords x),
     crMetadata = [(0, \<lparr>mdDisplayName = ''Home'', mdGroup = ''Unsorted'', mdLocation = [], mdEmoji = []\<rparr>)],
     crReceipt = inReceipt x, crTrustProfilePolicy = True\<rparr>"

theorem receipt_honoured_witness:
  "case fst (run_state (Inspect sampleImport [sampleFile]) sampleImportState) of
     Inl e \<Rightarrow> False
   | Inr x \<Rightarrow> commitAdmitted sampleImport (sampleRequest x) =
       commitVerified sampleImport (sampleRequest x) (inRecords x)"
proof -
  obtain x s' where x: "run_state (Inspect sampleImport [sampleFile]) sampleImportState = (Inr x, s')"
    "inCommitReady x" "list_all freshlyNamed (inRecords x)" "length (inRecords x) = 1"
    by (rule sampleInspection)
  have "validateImportEnvelope [sampleFile] = None" by code_simp
  moreover have "ValidateMetadata \<lparr>mdDisplayName = ''Home'', mdGroup = ''Unsorted'', mdLocation = [], mdEmoji = []\<rparr> = None"
    by code_simp
  ultimately have "checkRequest (sampleRequest x) = None"
    using x(4) by (simp add: checkRequest_def sampleRequest_def)
  moreover have "sampleImport = sampleImport\<lparr>isNow := return \<lparr>tSeconds = 1700000000, tNanos = 5, tUTC = False\<rparr>\<rparr>"
    by (simp add: sampleImport_def)
  ultimately show ?thesis
    using receipt_honoured [OF _ _ sampleImport_simps(3) sampleImport_simps(2) _ _ x(1-3), of "sampleRequest x"
        "\<lparr>tSeconds = 1700000000, tNanos = 5, tUTC = False\<rparr>" sampleImport]
    by (simp add: x(1) sampleCrypto_hashes sampleRequest_def timeAfter_def receiptExpiry_def receiptTTL_def UTC_def)
qed



section \<open>The metadata document\<close>

lemma metadataOrdinals_Inr:
  "metadataOrdinals raw keys = Inr md \<Longrightarrow> map (itoa \<circ> fst) md = keys \<and>
     list_all (\<lambda>(ordinal, x). 0 \<le> ordinal \<and>
       x = (case map_of raw (itoa ordinal) of Some y \<Rightarrow> y | None \<Rightarrow> emptyMetadata)) md"
proof (induction keys arbitrary: md)
  case (Cons key keys)
  then obtain ordinal rest where "parseInt64 key = Some ordinal" "0 \<le> ordinal" "itoa ordinal = key"
    and "metadataOrdinals raw keys = Inr rest"
    and "md = (ordinal, case map_of raw key of Some y \<Rightarrow> y | None \<Rightarrow> emptyMetadata) # rest"
    by (auto split: option.splits if_splits sum.splits)
  with Cons.IH [of rest] show ?case by (simp split: option.split)
qed simp

text \<open>A metadata document that decodes gives each member once, under the ordinal its key is the
  canonical decimal form of, and nothing else.\<close>

lemma metadata_document_exact:
  assumes "decode data = Inr (raw, True)" and "distinct (map fst raw)"
    and "DecodeMetadataDocument decode data = Inr md"
  shows "distinct (map fst md) \<and> set (map (\<lambda>(ordinal, x). (itoa ordinal, x)) md) = set raw \<and>
     list_all (\<lambda>(ordinal, x). 0 \<le> ordinal) md"
proof -
  from assms(1,3) have "metadataOrdinals raw (sort (map fst raw)) = Inr md"
    by (simp add: DecodeMetadataDocument_def)
  note md = metadataOrdinals_Inr [OF this]
  then have keys: "map (itoa \<circ> fst) md = sort (map fst raw)" by simp
  have "distinct (map (itoa \<circ> fst) md)" unfolding keys using assms(2) by simp
  then have "distinct (map fst md)" by (simp add: distinct_map comp_inj_on_iff inj_on_def)
  moreover have "set (map (\<lambda>(ordinal, x). (itoa ordinal, x)) md) = set raw"
  proof (rule set_eqI, clarify)
    fix key x
    have found: "map_of raw (itoa ordinal) = Some y" if "(ordinal, y) \<in> set md" for ordinal y
    proof -
      have "itoa ordinal \<in> set (sort (map fst raw))" unfolding keys [symmetric] using that by force
      then obtain z where "map_of raw (itoa ordinal) = Some z"
        using assms(2) by (auto simp: map_of_eq_Some_iff)
      with md that show ?thesis by (auto simp: list_all_iff)
    qed
    show "(key, x) \<in> set (map (\<lambda>(ordinal, x). (itoa ordinal, x)) md) \<longleftrightarrow> (key, x) \<in> set raw"
    proof
      assume "(key, x) \<in> set (map (\<lambda>(ordinal, x). (itoa ordinal, x)) md)"
      then show "(key, x) \<in> set raw" using found by (auto dest: map_of_SomeD)
    next
      assume raw: "(key, x) \<in> set raw"
      then have "key \<in> set (map (itoa \<circ> fst) md)" unfolding keys by force
      then obtain ordinal y where y: "(ordinal, y) \<in> set md" "key = itoa ordinal" by auto
      with found [OF y(1)] raw assms(2) have "y = x" by (auto intro: eq_key_imp_eq_value dest: map_of_SomeD)
      with y show "(key, x) \<in> set (map (\<lambda>(ordinal, x). (itoa ordinal, x)) md)" by force
    qed
  qed
  moreover have "list_all (\<lambda>(ordinal, x). 0 \<le> ordinal) md"
    using md by (auto simp: list_all_iff)
  ultimately show ?thesis by blast
qed

end
