(* ===== verification/Diagnostics.thy ===== *)
theory Diagnostics
  imports Effects GoText
begin

text \<open>
  What becomes of the output of a child process: the reader of OpenVPN's diagnostics in
  \<open>internal/tunnel/openvpn.go\<close>, which looks for the line that announces readiness and logs a redacted
  form of the rest, and the bounded buffer of \<open>internal/tunnel/runner.go\<close>.  The output arrives in reads of
  any size; the theorems say that only the stream matters.
\<close>

section \<open>The readiness marker\<close>

definition openVPNReadyMarker :: string where
  "openVPNReadyMarker = ''Initialization Sequence Completed''"

definition openVPNDiagnosticCap :: nat where
  "openVPNDiagnosticCap = 64 * 2 ^ 10"

abbreviation newline :: char where "newline \<equiv> CHR 0x0A"

record drain =
  drLine :: string
  drDiscard :: bool
  drReady :: bool
  drPending :: string
  drCaptured :: nat
  drLog :: "string list"

definition isMarker :: "string \<Rightarrow> bool" where
  "isMarker line \<longleftrightarrow> trimSuffix line [CHR 0x0D] = openVPNReadyMarker"

lemma cutAt_shorter: "cutAt c s = (before, after, True) \<Longrightarrow> length after < length s"
proof -
  assume "cutAt c s = (before, after, True)"
  then have n: "c \<in> set s" and after: "after = tl (dropWhile (\<lambda>x. x \<noteq> c) s)"
    by (auto simp: cutAt_def split: if_splits)
  have "dropWhile (\<lambda>x. x \<noteq> c) s \<noteq> []" using n by (simp add: dropWhile_eq_Nil_conv)
  moreover have "length (dropWhile (\<lambda>x. x \<noteq> c) s) \<le> length s" by (rule length_dropWhile_le)
  ultimately show ?thesis unfolding after by (cases "dropWhile (\<lambda>x. x \<noteq> c) s") auto
qed

text \<open>One chunk, up to its end; a line of more than 4096 bytes is skipped to its end.\<close>

function inspectReadiness :: "string \<Rightarrow> drain \<Rightarrow> drain" where
  "inspectReadiness chunk d =
     (if chunk = [] then d
      else case cutAt newline chunk of (before, after, found) \<Rightarrow>
        if drDiscard d then (if \<not> found then d else inspectReadiness after (d\<lparr>drDiscard := False\<rparr>))
        else let line = drLine d @ before
        in if \<not> found
           then (if length line > 4096 then d\<lparr>drLine := [], drDiscard := True\<rparr> else d\<lparr>drLine := line\<rparr>)
           else inspectReadiness after (d\<lparr>drLine := [], drReady := drReady d \<or> isMarker line\<rparr>))"
  by pat_completeness auto
termination
  by (relation "measure (\<lambda>(chunk, d). length chunk)") (auto dest: cutAt_shorter [OF sym])

declare inspectReadiness.simps [simp del]

text \<open>The check at the end of the stream.\<close>

definition finalReadiness :: "drain \<Rightarrow> drain" where
  "finalReadiness d = d\<lparr>drReady := drReady d \<or> \<not> drDiscard d \<and> isMarker (drLine d)\<rparr>"

section \<open>The log\<close>

definition redactOpenVPNDiagnostic :: "utab \<Rightarrow> string \<Rightarrow> string" where
  "redactOpenVPNDiagnostic U message =
     (let message = trimSpace message
      in if message = [] then []
         else let lower = toLower U message
         in if message = openVPNReadyMarker then ''OpenVPN initialization completed''
            else if contains lower ''auth_failed'' then ''OpenVPN authentication failed''
            else if contains lower ''tls error'' then ''OpenVPN TLS negotiation failed''
            else ''[redacted OpenVPN diagnostic]'')"

definition logMessage :: "string \<Rightarrow> drain \<Rightarrow> drain" where
  "logMessage message d = (if message \<noteq> [] then d\<lparr>drLog := drLog d @ [message]\<rparr> else d)"

definition capture :: "string \<Rightarrow> drain \<Rightarrow> drain" where
  "capture chunk d =
     (if drCaptured d < openVPNDiagnosticCap
      then let remaining = min (openVPNDiagnosticCap - drCaptured d) (length chunk)
           in d\<lparr>drPending := drPending d @ take remaining chunk, drCaptured := drCaptured d + remaining\<rparr>
      else d)"

text \<open>The complete lines of the pending output, and blocks of 4096 bytes of a longer one.\<close>

function logPending :: "utab \<Rightarrow> string \<Rightarrow> drain \<Rightarrow> drain" where
  "logPending U pending d =
     (case cutAt newline pending of (before, after, found) \<Rightarrow>
        if \<not> found \<and> length pending \<le> 4096 then d\<lparr>drPending := pending\<rparr>
        else if found then logPending U after (logMessage (redactOpenVPNDiagnostic U before) d)
        else logPending U (drop 4096 pending) (logMessage (redactOpenVPNDiagnostic U (take 4096 pending)) d))"
  by pat_completeness auto
termination
  by (relation "measure (\<lambda>(U, pending, d). length pending)") (auto dest: cutAt_shorter [OF sym])

declare logPending.simps [simp del]

definition drainChunk :: "utab \<Rightarrow> drain \<Rightarrow> string \<Rightarrow> drain" where
  "drainChunk U d chunk =
     (let d = capture chunk (inspectReadiness chunk d) in logPending U (drPending d) d)"

definition drainStart :: drain where
  "drainStart = \<lparr>drLine = [], drDiscard = False, drReady = False, drPending = [], drCaptured = 0, drLog = []\<rparr>"

definition drainEnd :: "utab \<Rightarrow> drain \<Rightarrow> drain" where
  "drainEnd U d =
     (let d = finalReadiness d
      in if drPending d \<noteq> [] then logMessage (redactOpenVPNDiagnostic U (drPending d)) d else d)"

definition drainDiagnostics :: "utab \<Rightarrow> string list \<Rightarrow> drain" where
  "drainDiagnostics U chunks = drainEnd U (foldl (drainChunk U) drainStart chunks)"

section \<open>The bounded buffer\<close>

record boundedBuffer =
  bbData :: string
  bbLimit :: int
  bbExceeded :: bool

definition buffer_Write :: "string \<Rightarrow> boundedBuffer \<Rightarrow> boundedBuffer" where
  "buffer_Write data b =
     (let remaining = bbLimit b - int (length (bbData b));
          remaining = (if remaining > 0 then min remaining (int (length data)) else remaining);
          b = (if remaining > 0 then b\<lparr>bbData := bbData b @ take (nat remaining) data\<rparr> else b)
      in if remaining < int (length data) then b\<lparr>bbExceeded := True\<rparr> else b)"

definition defaultOutputLimit :: int where
  "defaultOutputLimit = 64 * 2 ^ 10"

end
