(* ===== verification/DiagnosticsProperties.thy ===== *)
theory DiagnosticsProperties
  imports Diagnostics GoPath
begin

text \<open>
  Only the stream matters: however the output is cut into reads, readiness is announced exactly when a
  line of the stream is the marker, only fixed messages are logged, and the bounded buffer holds a prefix
  of the output.
\<close>

section \<open>Lines of a stream\<close>

definition linesOf :: "string \<Rightarrow> string list" where
  "linesOf s = splitOn newline s"

lemma linesOf_Nil [simp]: "linesOf [] = [[]]"
  by (simp add: linesOf_def)

lemma linesOf_ne [simp]: "linesOf s \<noteq> []"
  by (simp add: linesOf_def)

lemma linesOf_line:
  "newline \<notin> set t \<Longrightarrow> linesOf (s @ t) = butlast (linesOf s) @ [last (linesOf s) @ t]"
  unfolding linesOf_def
proof (induction s)
  case Nil
  then show ?case by (simp add: splitOn_self)
next
  case (Cons x cs)
  then show ?case
    by (cases "splitOn newline cs" rule: list.exhaust)
       (auto split: list.splits if_splits simp: Cons_eq_append_conv)
qed

lemma linesOf_newline: "linesOf (s @ [newline]) = linesOf s @ [[]]"
  unfolding linesOf_def
  by (induction s) (auto split: list.splits)

lemma linesOf_break:
  "newline \<notin> set t \<Longrightarrow>
   linesOf (s @ t @ newline # u) = linesOf ((s @ t @ [newline]) @ u)"
  by simp

section \<open>The reader and the stream read so far\<close>

definition announced :: "string \<Rightarrow> bool" where
  "announced s \<longleftrightarrow> list_ex isMarker (butlast (linesOf s))"

definition reads :: "drain \<Rightarrow> string \<Rightarrow> bool" where
  "reads d s \<longleftrightarrow> (drReady d \<longleftrightarrow> announced s) \<and>
     (if drDiscard d then drLine d = [] \<and> 4096 < length (last (linesOf s)) else drLine d = last (linesOf s))"

lemma list_ex_last: "ls \<noteq> [] \<Longrightarrow> list_ex p ls \<longleftrightarrow> list_ex p (butlast ls) \<or> p (last ls)"
  by (induction ls) auto

lemma announced_line: "newline \<notin> set t \<Longrightarrow> announced (s @ t) = announced s"
  by (simp add: announced_def linesOf_line)

lemma announced_newline: "announced (s @ [newline]) \<longleftrightarrow> announced s \<or> isMarker (last (linesOf s))"
  by (simp add: announced_def linesOf_newline list_ex_last [OF linesOf_ne])

lemma isMarker_short: "isMarker l \<Longrightarrow> length l \<le> 4096"
proof -
  assume m: "isMarker l"
  have "length l \<le> Suc (length (trimSuffix l [CHR 0x0D]))" by (cases l) (auto simp: trimSuffix_def)
  with m show ?thesis by (simp add: isMarker_def openVPNReadyMarker_def)
qed

lemma cutAt_found:
  "cutAt c s = (before, after, True) \<Longrightarrow> s = before @ c # after \<and> c \<notin> set before"
proof -
  assume "cutAt c s = (before, after, True)"
  then have n: "c \<in> set s" and b: "before = takeWhile (\<lambda>x. x \<noteq> c) s"
    and a: "after = tl (dropWhile (\<lambda>x. x \<noteq> c) s)" by (auto simp: cutAt_def split: if_splits)
  obtain u v where "s = u @ c # v" "c \<notin> set u" using n by (auto dest: split_list_first)
  then show ?thesis unfolding a b by (simp add: takeWhile_append dropWhile_append) 
qed

lemma cutAt_missing: "cutAt c s = (before, after, False) \<Longrightarrow> c \<notin> set s \<and> before = s"
  by (simp add: cutAt_def split: if_splits)

lemma reads_line:
  assumes "reads d s" "newline \<notin> set t"
  shows "\<not> drDiscard d \<Longrightarrow> drLine d @ t = last (linesOf (s @ t))"
    and "drDiscard d \<Longrightarrow> reads d (s @ t)"
  using assms by (auto simp: reads_def linesOf_line announced_line)

lemma inspectReadiness_reads: "reads d s \<Longrightarrow> reads (inspectReadiness chunk d) (s @ chunk)"
proof (induction chunk d arbitrary: s rule: inspectReadiness.induct)
  case (1 chunk d)
  obtain before after found where c: "cutAt newline chunk = (before, after, found)"
    by (cases "cutAt newline chunk") auto
  show ?case
  proof (cases "chunk = []")
    case True
    then show ?thesis using 1(3) by (simp add: inspectReadiness.simps)
  next
    case ne: False
    show ?thesis
    proof (cases found)
      case False
      then have p: "newline \<notin> set chunk" "before = chunk" using cutAt_missing c by auto
      show ?thesis using 1(3) c False ne p reads_line [OF 1(3) p(1)]
        by (auto simp: inspectReadiness.simps [of chunk] Let_def reads_def announced_line linesOf_line)
    next
      case True
      then have p: "chunk = before @ newline # after" "newline \<notin> set before"
        using cutAt_found c by auto
      let ?t = "s @ before @ [newline]"
      have t: "s @ chunk = ?t @ after" using p by simp
      have last: "last (linesOf ?t) = []" using linesOf_newline [of "s @ before"] by simp
      have ann: "announced ?t \<longleftrightarrow> announced s \<or> isMarker (last (linesOf s) @ before)"
        using announced_newline [of "s @ before"] p(2) by (simp add: announced_line linesOf_line)
      show ?thesis
      proof (cases "drDiscard d")
        case d: True
        have "\<not> isMarker (last (linesOf s) @ before)"
          using isMarker_short [of "last (linesOf s) @ before"] 1(3) d by (auto simp: reads_def)
        then have "reads (d\<lparr>drDiscard := False\<rparr>) ?t"
          using 1(3) d ann last by (simp add: reads_def)
        from 1(1) [OF ne c [symmetric] refl d _ this] d True c ne show ?thesis
          unfolding t by (simp add: inspectReadiness.simps [of chunk])
      next
        case d: False
        have "reads (d\<lparr>drLine := [], drReady := drReady d \<or> isMarker (drLine d @ before)\<rparr>) ?t"
          using 1(3) d ann last by (simp add: reads_def)
        from 1(2) [OF ne c [symmetric] refl d refl _ this] d True c ne show ?thesis
          unfolding t by (simp add: inspectReadiness.simps [of chunk])
      qed
    qed
  qed
qed

section \<open>Logging does not touch the search\<close>

definition sameSearch :: "drain \<Rightarrow> drain \<Rightarrow> bool" where
  "sameSearch d d' \<longleftrightarrow> drLine d' = drLine d \<and> drDiscard d' = drDiscard d \<and> drReady d' = drReady d"

definition fixedMessages :: "string set" where
  "fixedMessages = {''OpenVPN initialization completed'', ''OpenVPN authentication failed'',
     ''OpenVPN TLS negotiation failed'', ''[redacted OpenVPN diagnostic]''}"

definition discreet :: "drain \<Rightarrow> bool" where
  "discreet d \<longleftrightarrow> set (drLog d) \<subseteq> fixedMessages \<and> drCaptured d \<le> openVPNDiagnosticCap"

lemma redact_fixed: "redactOpenVPNDiagnostic U m \<noteq> [] \<Longrightarrow> redactOpenVPNDiagnostic U m \<in> fixedMessages"
  by (simp add: redactOpenVPNDiagnostic_def Let_def fixedMessages_def split: if_splits)

definition aside :: "drain \<Rightarrow> drain \<Rightarrow> bool" where
  "aside d d' \<longleftrightarrow> sameSearch d d' \<and> (discreet d \<longrightarrow> discreet d')"

lemma aside_trans: "aside a b \<Longrightarrow> aside b c \<Longrightarrow> aside a c"
  by (simp add: aside_def sameSearch_def)

lemma logMessage_aside: "aside d (logMessage (redactOpenVPNDiagnostic U m) d)"
  using redact_fixed [of U m] by (auto simp: aside_def sameSearch_def discreet_def logMessage_def)

lemma logPending_aside: "aside d (logPending U pending d)"
proof (induction U pending d rule: logPending.induct)
  case (1 U pending d)
  obtain before after found where c: "cutAt newline pending = (before, after, found)"
    by (cases "cutAt newline pending") auto
  consider "\<not> found \<and> length pending \<le> 4096" | "found" | "\<not> found" "\<not> length pending \<le> 4096" by blast
  then show ?case
  proof cases
    case 1
    then show ?thesis by (simp add: logPending.simps [of U pending] c aside_def sameSearch_def discreet_def)
  next
    case 2
    then have "aside (logMessage (redactOpenVPNDiagnostic U before) d)
        (logPending U after (logMessage (redactOpenVPNDiagnostic U before) d))"
      using "1.IH"(1) [OF c [symmetric] refl] by simp
    with 2 show ?thesis
      using aside_trans [OF logMessage_aside] by (simp add: logPending.simps [of U pending] c)
  next
    case 3
    then have "aside (logMessage (redactOpenVPNDiagnostic U (take 4096 pending)) d)
        (logPending U (drop 4096 pending) (logMessage (redactOpenVPNDiagnostic U (take 4096 pending)) d))"
      using "1.IH"(2) [OF c [symmetric] refl] by simp
    with 3 show ?thesis
      using aside_trans [OF logMessage_aside] by (simp add: logPending.simps [of U pending] c)
  qed
qed

lemma inspectReadiness_discreet: "discreet d \<Longrightarrow> discreet (inspectReadiness chunk d)"
proof (induction chunk d rule: inspectReadiness.induct)
  case (1 chunk d)
  then show ?case
    by (subst inspectReadiness.simps) (auto simp: Let_def discreet_def split: prod.splits)
qed

lemma capture_aside: "aside d (capture chunk d)"
  by (auto simp: capture_def Let_def sameSearch_def discreet_def aside_def)

lemma reads_aside: "aside d d' \<Longrightarrow> reads d s \<Longrightarrow> reads d' s"
  by (simp add: aside_def sameSearch_def reads_def)

lemma discreet_aside: "aside d d' \<Longrightarrow> discreet d \<Longrightarrow> discreet d'"
  by (simp add: aside_def)

lemma drainChunk_aside: "aside (inspectReadiness chunk d) (drainChunk U d chunk)"
  unfolding drainChunk_def Let_def by (rule aside_trans [OF capture_aside logPending_aside])

lemma drainChunks_reads: "reads d s \<Longrightarrow> reads (foldl (drainChunk U) d chunks) (s @ concat chunks)"
proof (induction chunks arbitrary: d s)
  case (Cons chunk chunks)
  from Cons.IH [OF reads_aside [OF drainChunk_aside inspectReadiness_reads [OF Cons.prems]]]
  show ?case by simp
qed simp

lemma drainChunks_discreet: "discreet d \<Longrightarrow> discreet (foldl (drainChunk U) d chunks)"
proof (induction chunks arbitrary: d)
  case (Cons chunk chunks)
  from Cons.IH [OF discreet_aside [OF drainChunk_aside inspectReadiness_discreet [OF Cons.prems]]]
  show ?case by simp
qed simp

lemma drainStart_reads: "reads drainStart []" "discreet drainStart"
  by (simp_all add: reads_def announced_def drainStart_def discreet_def)

lemma finalReadiness_reads:
  assumes "reads d s"
  shows "drReady (finalReadiness d) = list_ex isMarker (linesOf s)"
proof (cases "drDiscard d")
  case True
  then have "\<not> isMarker (last (linesOf s))"
    using assms isMarker_short [of "last (linesOf s)"] unfolding reads_def by auto
  with True assms show ?thesis
    by (simp add: finalReadiness_def reads_def announced_def list_ex_last [OF linesOf_ne])
next
  case False
  with assms show ?thesis
    by (simp add: finalReadiness_def reads_def announced_def list_ex_last [OF linesOf_ne])
qed

section \<open>Readiness and the log\<close>

text \<open>C29: However the output of OpenVPN is cut into reads, readiness is announced exactly when one of the
  lines of the whole stream (the last one without its newline included) is the completion marker, with or
  without a carriage return.\<close>

theorem readiness_is_a_marker_line:
  "drReady (drainDiagnostics U chunks) = list_ex isMarker (linesOf (concat chunks))"
proof -
  have "reads (foldl (drainChunk U) drainStart chunks) (concat chunks)"
    using drainChunks_reads [OF drainStart_reads(1)] by simp
  from finalReadiness_reads [OF this] show ?thesis
    by (simp add: drainDiagnostics_def drainEnd_def Let_def logMessage_def)
qed

text \<open>C30: Whatever OpenVPN prints, each line of the log made of it is one of four fixed messages, and no
  more than 64 KiB of the output is ever considered for it.\<close>

theorem diagnostics_redacted:
  "set (drLog (drainDiagnostics U chunks)) \<subseteq> {''OpenVPN initialization completed'',
     ''OpenVPN authentication failed'', ''OpenVPN TLS negotiation failed'', ''[redacted OpenVPN diagnostic]''} \<and>
   drCaptured (drainDiagnostics U chunks) \<le> openVPNDiagnosticCap"
proof -
  have "discreet (finalReadiness (foldl (drainChunk U) drainStart chunks))"
    using drainChunks_discreet [OF drainStart_reads(2)] by (simp add: discreet_def finalReadiness_def)
  then have "discreet (drainDiagnostics U chunks)"
    using discreet_aside [OF logMessage_aside] by (simp add: drainDiagnostics_def drainEnd_def Let_def)
  then show ?thesis by (simp add: discreet_def fixedMessages_def)
qed

section \<open>The bounded buffer\<close>

lemma buffer_Write_limit: "bbLimit (buffer_Write data b) = bbLimit b"
  by (simp add: buffer_Write_def Let_def)

lemma buffer_Write_prefix:
  "0 \<le> bbLimit b \<Longrightarrow> bbData b = take (nat (bbLimit b)) s \<Longrightarrow> (bbExceeded b \<longleftrightarrow> int (length s) > bbLimit b) \<Longrightarrow>
   bbData (buffer_Write data b) = take (nat (bbLimit b)) (s @ data) \<and>
   (bbExceeded (buffer_Write data b) \<longleftrightarrow> int (length (s @ data)) > bbLimit b)"
  by (auto simp: buffer_Write_def Let_def min_def nat_diff_distrib nat_le_iff le_nat_iff take_all)

text \<open>C31: After any sequence of writes the bounded buffer holds exactly the first \<open>limit\<close> bytes of what was
  written, and it reports an overflow exactly when more than that was written.\<close>

theorem buffer_keeps_prefix:
  assumes "0 \<le> limit"
  shows "foldl (\<lambda>b data. buffer_Write data b) \<lparr>bbData = [], bbLimit = limit, bbExceeded = False\<rparr> writes =
    \<lparr>bbData = take (nat limit) (concat writes), bbLimit = limit,
     bbExceeded = (int (length (concat writes)) > limit)\<rparr>"
proof (induction writes rule: rev_induct)
  case Nil
  then show ?case using assms by simp
next
  case (snoc data writes)
  let ?b = "\<lparr>bbData = take (nat limit) (concat writes), bbLimit = limit,
     bbExceeded = (int (length (concat writes)) > limit)\<rparr>"
  from buffer_Write_prefix [of ?b "concat writes" data] buffer_Write_limit [of data ?b] assms snoc
  show ?case by simp
qed

theorem buffer_keeps_prefix_witness:
  "foldl (\<lambda>b data. buffer_Write data b) \<lparr>bbData = [], bbLimit = 3, bbExceeded = False\<rparr> [''ab'', ''cd''] =
    \<lparr>bbData = ''abc'', bbLimit = 3, bbExceeded = True\<rparr>"
  using buffer_keeps_prefix [of 3 "[''ab'', ''cd'']"] by simp

end
