(* ===== verification/OpenVPNConfig.thy ===== *)
theory OpenVPNConfig
  imports SecureFs OpenVPNPolicy "HOL-Library.Sublist"
begin

text \<open>
  The inspection of an OpenVPN profile just before it is started, \<open>internal/tunnel/openvpn_config.go\<close>:
  the profile and every file it names are private, below the profile's own directory, and no directive
  takes the process out of the program's hands.  The kernel is the record \<open>'w unix\<close>; the effective user,
  the bytes that can be read of an open file and the hook \<open>ValidateFile\<close> are parameters.
\<close>

section \<open>Paths\<close>

text \<open>\<open>filepath.Rel\<close> of two paths that are both absolute or both relative: the segments left of the base
  become \<open>..\<close>.\<close>

definition pathSegments :: "string \<Rightarrow> string list" where
  "pathSegments p = filter (\<lambda>x. x \<noteq> []) (splitOn CHR ''/'' (cleanPath p))"

fun dropCommon :: "string list \<Rightarrow> string list \<Rightarrow> string list \<times> string list" where
  "dropCommon (x # xs) (y # ys) = (if x = y then dropCommon xs ys else (x # xs, y # ys))"
| "dropCommon xs ys = (xs, ys)"

definition relPath :: "string \<Rightarrow> string \<Rightarrow> string option" where
  "relPath base targ =
     (if cleanPath targ = cleanPath base then Some ''.''
      else if isAbs (cleanPath base) \<noteq> isAbs (cleanPath targ) then None
      else case dropCommon (pathSegments base) (pathSegments targ) of (up, down) \<Rightarrow>
        if up \<noteq> [] \<and> down \<noteq> [] \<and> hd up = ''..'' then None
        else Some (joinWith ''/'' (replicate (length up) ''..'' @ down)))"

definition pathWithin :: "string \<Rightarrow> string \<Rightarrow> bool" where
  "pathWithin root candidate =
     (case relPath root candidate of
        None \<Rightarrow> False
      | Some relative \<Rightarrow> relative \<noteq> ''..'' \<and> \<not> hasPrefix relative ''../'')"

section \<open>Length of a cleaned path\<close>

definition weight :: "string list \<Rightarrow> nat" where
  "weight xs = sum_list (map (\<lambda>x. length x + 1) xs)"

lemma weight_simps [simp]: "weight [] = 0" "weight (x # xs) = length x + 1 + weight xs"
  "weight (xs @ ys) = weight xs + weight ys"
  by (simp_all add: weight_def)

lemma weight_rev [simp]: "weight (rev xs) = weight xs"
  by (induction xs) simp_all

lemma weight_splitOn: "weight (splitOn c s) = length s + 1"
  by (induction s) (auto split: list.splits)

lemma length_joinWith_slash: "xs \<noteq> [] \<Longrightarrow> length (joinWith ''/'' xs) = weight xs - 1"
  by (induction "''/''" xs rule: joinWith.induct) simp_all

lemma cleanSegments_weight: "weight (cleanSegments rooted st xs) \<le> weight st + weight xs"
proof (induction xs arbitrary: st)
  case (Cons x xs)
  show ?case
  proof (cases st)
    case Nil
    then show ?thesis using Cons.IH [of "[]"] Cons.IH [of "[x]"] by auto
  next
    case (Cons y ys)
    then show ?thesis using Cons.IH [of st] Cons.IH [of "x # st"] Cons.IH [of ys] by auto
  qed
qed simp

lemma cleanSegments_snoc_Nil [simp]: "cleanSegments rooted st (xs @ [[]]) = cleanSegments rooted st xs"
  by (induction xs arbitrary: st) (auto split: list.splits)

lemma splitOn_snoc_sep: "splitOn c (s @ [c]) = splitOn c s @ [[]]"
  by (induction s) (auto split: list.splits)

lemma cleanPath_shrinks:
  assumes "q \<noteq> []"
  shows "length (cleanPath (q @ ''/'')) < length (q @ ''/'')"
proof -
  define segs where "segs = cleanSegments (isAbs q) [] (splitOn CHR ''/'' q)"
  have abs: "isAbs (q @ ''/'') = isAbs q"
    using assms by (cases q) (auto simp: isAbs_def)
  have c: "cleanPath (q @ ''/'') =
      (if isAbs q then ''/'' @ joinWith ''/'' segs else if joinWith ''/'' segs = [] then ''.''
       else joinWith ''/'' segs)"
    by (simp add: cleanPath_def Let_def abs splitOn_snoc_sep segs_def)
  have w: "weight segs \<le> (if isAbs q then length q else length q + 1)"
  proof (cases "isAbs q")
    case True
    then obtain r where q: "q = CHR ''/'' # r" using assms by (cases q) (auto simp: isAbs_def)
    have "weight (cleanSegments True [] (splitOn CHR ''/'' r)) \<le> length r + 1"
      using cleanSegments_weight [of True "[]" "splitOn CHR ''/'' r"] by (simp add: weight_splitOn)
    with True show ?thesis by (simp add: q segs_def)
  next
    case False
    then show ?thesis
      using cleanSegments_weight [of False "[]" "splitOn CHR ''/'' q"] by (simp add: weight_splitOn segs_def)
  qed
  have l: "length (cleanPath (q @ ''/'')) \<le> max 1 (if isAbs q then weight segs else weight segs - 1)"
    by (cases segs) (simp_all add: c length_joinWith_slash)
  have "1 \<le> length q" using assms by (cases q) simp_all
  with l w show ?thesis by (auto split: if_splits)
qed

text \<open>The walk to the root: the directory of a path is shorter, or it is \<open>.\<close> where it stops.\<close>

definition walkMeasure :: "string \<Rightarrow> nat" where
  "walkMeasure p = (if p = ''.'' then 0 else max 1 (length p))"

lemma pathDir_split: "CHR ''/'' \<in> set p \<Longrightarrow> \<exists>q r. p = q @ ''/'' @ r \<and> pathDir p = cleanPath (q @ ''/'')"
proof -
  assume "CHR ''/'' \<in> set p"
  then obtain q r where p: "p = q @ CHR ''/'' # r" "CHR ''/'' \<notin> set r" by (auto dest: split_list_last)
  then have "rev (dropWhile (\<lambda>c. c \<noteq> CHR ''/'') (rev p)) = q @ ''/''" by (simp add: dropWhile_append)
  with p show ?thesis by (auto simp: pathDir_def)
qed

lemma walk_decreases:
  assumes "pathDir p \<noteq> p"
  shows "walkMeasure (pathDir p) < walkMeasure p"
proof (cases "CHR ''/'' \<in> set p")
  case False
  then have "pathDir p = ''.''" by (simp add: pathDir_def cleanPath_def dropWhile_eq_Nil_conv)
  with assms show ?thesis by (auto simp: walkMeasure_def)
next
  case True
  then obtain q r where p: "p = q @ ''/'' @ r" "pathDir p = cleanPath (q @ ''/'')"
    using pathDir_split by blast
  have ne: "p \<noteq> ''.''" using True by auto
  show ?thesis
  proof (cases q)
    case Nil
    then have "pathDir p = ''/''" using p by (simp add: cleanPath_def isAbs_def Let_def)
    with assms Nil p ne show ?thesis by (cases r) (auto simp: walkMeasure_def)
  next
    case (Cons x xs)
    have "length (pathDir p) < length p" using cleanPath_shrinks [of q] p Cons by simp
    with Cons p(1) ne show ?thesis by (auto simp: walkMeasure_def)
  qed
qed


section \<open>Descriptors\<close>

record 'w inspectorEnv =
  ieUnix :: "'w unix"
  ieEuid :: nat
  ieReadStream :: "fd \<Rightarrow> nat \<Rightarrow> ('w, string \<times> err) state"
  ieTables :: utab

text \<open>\<open>ieReadStream fd n\<close> is what a reader limited to \<open>n\<close> bytes gets from the file and the error that ends
  it, \<open>None\<close> for \<open>io.EOF\<close>.\<close>

record 'w configInspector =
  ciMaxBytes :: int
  ciValidateFile :: "(string \<Rightarrow> ('w, err) state) option"

definition defaultOpenVPNConfigLimit :: nat where
  "defaultOpenVPNConfigLimit = 2 ^ 20"

definition openNoFollow :: "'w inspectorEnv \<Rightarrow> string \<Rightarrow> ('w, goerr + fd) state" where
  "openNoFollow E path = uOpen (ieUnix E) path readFlags"

definition ownedByRoot :: "'w inspectorEnv \<Rightarrow> fstat \<Rightarrow> err" where
  "ownedByRoot E st = (if ieEuid E = 0 \<and> stUid st \<noteq> 0 then Some (ErrText ''must be owned by root'') else None)"

definition privateFileError :: "'w inspectorEnv \<Rightarrow> fstat \<Rightarrow> err" where
  "privateFileError E st =
     (if and (stMode st) S_IFMT \<noteq> S_IFREG then Some (ErrText ''must be a regular file'')
      else if and (stMode st) permissionBits \<noteq> mode600 then Some (ErrText ''permissions must be 0600'')
      else ownedByRoot E st)"

definition privateDirectoryError :: "'w inspectorEnv \<Rightarrow> fstat \<Rightarrow> err" where
  "privateDirectoryError E st =
     (if and (stMode st) S_IFMT \<noteq> S_IFDIR then Some (ErrText ''must be a real directory'')
      else if and (stMode st) permissionBits \<noteq> mode700 then Some (ErrText ''permissions must be 0700'')
      else ownedByRoot E st)"

definition validatePrivateFileDescriptor :: "'w inspectorEnv \<Rightarrow> fd \<Rightarrow> ('w, err) state" where
  "validatePrivateFileDescriptor E file =
     openE (uFstat (ieUnix E) file) (\<lambda>info. return (privateFileError E info))"

definition validatePrivateRegularFile :: "'w inspectorEnv \<Rightarrow> string \<Rightarrow> ('w, err) state" where
  "validatePrivateRegularFile E path =
     openE (openNoFollow E path) (\<lambda>file.
       deferE (uClose (ieUnix E) file) (validatePrivateFileDescriptor E file))"

definition validatePrivateDirectory :: "'w inspectorEnv \<Rightarrow> string \<Rightarrow> ('w, err) state" where
  "validatePrivateDirectory E path =
     openE (uOpen (ieUnix E) path directoryFlags) (\<lambda>fd.
       deferE (uClose (ieUnix E) fd)
         (openE (uFstat (ieUnix E) fd) (\<lambda>info. return (privateDirectoryError E info))))"

text \<open>The loop over the directories between a file and its root; \<open>walk_decreases\<close> is why it ends.\<close>

function validateParents :: "'w inspectorEnv \<Rightarrow> string \<Rightarrow> string \<Rightarrow> ('w, err) state" where
  "validateParents E root directory =
     (if directory = root then return None
      else if \<not> pathWithin root directory \<or> directory = pathDir directory
      then return (Some (ErrText ''file parent escapes provider directory''))
      else thenE (wrapErr ''validate file parent'' (validatePrivateDirectory E directory))
             (validateParents E root (pathDir directory)))"
  by pat_completeness auto
termination
  by (relation "measure (\<lambda>(E, root, directory). walkMeasure directory)") (auto intro: walk_decreases)

declare validateParents.simps [simp del]

definition validateConfinedPrivateFile :: "'w inspectorEnv \<Rightarrow> string \<Rightarrow> string \<Rightarrow> ('w, err) state" where
  "validateConfinedPrivateFile E root path =
     thenE (validateParents E root (pathDir path)) (validatePrivateRegularFile E path)"

section \<open>One logical line\<close>

definition openVPNSecretFileDirectives :: "string list" where
  "openVPNSecretFileDirectives =
     [''auth-user-pass'', ''ca'', ''cert'', ''crl-verify'', ''key'', ''pkcs12'', ''tls-auth'', ''tls-crypt'',
      ''tls-crypt-v2'']"

text \<open>The tokenizer of this package is the one of the import policy, rune by rune.\<close>

definition tokenizeRuntimeLine :: "string \<Rightarrow> goerr + string list" where
  "tokenizeRuntimeLine line = tokenizeOpenVPNLine line"

definition directiveError :: "string \<Rightarrow> nat \<Rightarrow> err" where
  "directiveError directive tokens =
     (if directive \<in> {''config'', ''daemon'', ''writepid'', ''cd'', ''chroot''}
         \<or> hasPrefix directive ''management''
      then Some (ErrText ''directive is not supported'')
      else if directive \<in> {''askpass'', ''auth-gen-token-secret'', ''http-proxy-user-pass'', ''secret''}
      then Some (ErrText ''credential file directive is not supported'')
      else if directive = ''socks-proxy'' \<and> tokens > 3
      then Some (ErrText ''socks-proxy credential files are not supported'') else None)"

definition secretPath :: "string \<Rightarrow> string \<Rightarrow> string" where
  "secretPath profileDir token =
     cleanPath (if isAbs token then token else pathJoin [profileDir, token])"

definition runHook :: "(string \<Rightarrow> ('w, err) state) option \<Rightarrow> string \<Rightarrow> ('w, err) state" where
  "runHook hook path = (case hook of None \<Rightarrow> return None | Some f \<Rightarrow> f path)"

definition inspectSecretFile ::
    "'w inspectorEnv \<Rightarrow> 'w configInspector \<Rightarrow> string \<Rightarrow> string \<Rightarrow> string list \<Rightarrow> ('w, err) state" where
  "inspectSecretFile E I profileDir directive args =
     (case args of
        [token] \<Rightarrow>
          if directive = ''auth-user-pass'' \<and> token = ''stdin''
          then return (Some (ErrText ''auth-user-pass must name a non-interactive credential file''))
          else let path = secretPath profileDir token
          in if \<not> pathWithin profileDir path
             then return (Some (ErrText ''directive references a file outside its profile directory''))
             else thenE (wrapErr ''validate file'' (validateConfinedPrivateFile E profileDir path))
                    (wrapErr ''validate file'' (runHook (ciValidateFile I) path))
      | _ \<Rightarrow> return (Some (ErrText ''directive requires exactly one file argument'')))"

definition inspectLogicalLine ::
    "'w inspectorEnv \<Rightarrow> 'w configInspector \<Rightarrow> string \<Rightarrow> string \<Rightarrow> ('w, err) state" where
  "inspectLogicalLine E I profileDir line =
     (case tokenizeRuntimeLine line of
        Inl e \<Rightarrow> return (Some e)
      | Inr [] \<Rightarrow> return None
      | Inr (first # args) \<Rightarrow>
          if first = [] then return (Some (ErrText ''empty directive''))
          else let directive = directiveName (ieTables E) first
          in case directiveError directive (length (first # args)) of
               Some e \<Rightarrow> return (Some e)
             | None \<Rightarrow>
                 if directive \<notin> set openVPNSecretFileDirectives then return None
                 else inspectSecretFile E I profileDir directive args)"

section \<open>The file\<close>

text \<open>The scan of the import policy, with the control characters refused on the way; \<open>None\<close> is that
  refusal.\<close>

fun runtimeScan ::
    "string \<Rightarrow> bool \<Rightarrow> bool \<Rightarrow> bool \<Rightarrow> (nat \<times> nat \<times> nat) list \<Rightarrow> (bool \<times> bool \<times> bool \<times> nat option) option" where
  "runtimeScan line inSingle inDouble escaped [] = Some (inSingle, inDouble, escaped, None)"
| "runtimeScan line inSingle inDouble escaped ((index, char, n) # rs) =
     (if char < 32 \<and> char \<noteq> 9 then None
      else if escaped then runtimeScan line inSingle inDouble False rs
      else if char = backslash \<and> \<not> inSingle then runtimeScan line inSingle inDouble True rs
      else if char = singleQuote \<and> \<not> inDouble then runtimeScan line (\<not> inSingle) inDouble escaped rs
      else if char = doubleQuote \<and> \<not> inSingle then runtimeScan line inSingle (\<not> inDouble) escaped rs
      else if \<not> inSingle \<and> \<not> inDouble \<and> commentStart line index char
      then Some (inSingle, inDouble, escaped, Some index)
      else runtimeScan line inSingle inDouble escaped rs)"

definition runtimeContinuation :: "string \<Rightarrow> goerr + bool \<times> string" where
  "runtimeContinuation line =
     (case runtimeScan line False False False (runesFrom 0 line) of
        None \<Rightarrow> Inl (ErrText ''control character in directive'')
      | Some scan \<Rightarrow> continuationEnd line scan)"

text \<open>The physical lines, with the running total of bytes; the last one has no line feed and carries the
  error of the reader.\<close>

fun inspectLines ::
    "'w inspectorEnv \<Rightarrow> 'w configInspector \<Rightarrow> string \<Rightarrow> nat \<Rightarrow> err \<Rightarrow> string \<Rightarrow> nat \<Rightarrow> string list \<Rightarrow>
     ('w, err) state" where
  "inspectLines E I profileDir limit readErr logical seen [] = return None"
| "inspectLines E I profileDir limit readErr logical seen (physical # rest) =
     (let final = (rest = []);
          seen = seen + length physical + (if final then 0 else 1);
          next = (\<lambda>logical. if final then return (map_option (Wrapf ''read OpenVPN profile'') readErr)
                            else inspectLines E I profileDir limit readErr logical seen rest)
      in if seen > limit then return (Some (ErrText ''OpenVPN profile exceeds its limit''))
         else case runtimeContinuation (trimSuffix physical [CHR 0x0D]) of
           Inl e \<Rightarrow> return (Some (Wrapf ''OpenVPN config line'' e))
         | Inr (continued, fragment) \<Rightarrow>
             if continued
             then if final \<and> readErr = None
                  then return (Some (ErrText ''OpenVPN config line: dangling continuation''))
                  else next (logical @ fragment)
             else thenE (wrapErr ''OpenVPN config line''
                          (inspectLogicalLine E I profileDir (logical @ fragment)))
                    (next []))"

definition configLimit :: "'w configInspector \<Rightarrow> nat" where
  "configLimit I = (if ciMaxBytes I \<le> 0 then defaultOpenVPNConfigLimit else nat (ciMaxBytes I))"

definition inspectOpened ::
    "'w inspectorEnv \<Rightarrow> 'w configInspector \<Rightarrow> string \<Rightarrow> string \<Rightarrow> fd \<Rightarrow> ('w, err) state" where
  "inspectOpened E I profileDir profilePath file =
     thenE (wrapErr ''validate OpenVPN profile'' (validatePrivateFileDescriptor E file))
       (thenE (wrapErr ''validate OpenVPN profile'' (runHook (ciValidateFile I) profilePath)) (do {
          (data, readErr) \<leftarrow> ieReadStream E file (configLimit I + 1);
          inspectLines E I profileDir (configLimit I) readErr [] 0 (splitOn CHR 0x0A data)
        }))"

definition config_Inspect :: "'w inspectorEnv \<Rightarrow> 'w configInspector \<Rightarrow> string \<Rightarrow> string \<Rightarrow> ('w, err) state" where
  "config_Inspect E I profilePath profileDir =
     openE (wrapE ''resolve profile directory'' (absPath (ieUnix E) profileDir)) (\<lambda>profileDir.
     openE (wrapE ''resolve OpenVPN profile'' (absPath (ieUnix E) profilePath)) (\<lambda>profilePath.
       if \<not> pathWithin profileDir profilePath
       then return (Some (ErrText ''OpenVPN profile is outside its profile directory''))
       else thenE (wrapErr ''validate OpenVPN profile directory'' (validatePrivateDirectory E profileDir))
         (openE (wrapE ''open OpenVPN profile'' (openNoFollow E profilePath)) (\<lambda>file.
            deferE (uClose (ieUnix E) file) (inspectOpened E I profileDir profilePath file)))))"

end
