(* ===== verification/OpenVPNConfigProperties.thy ===== *)
theory OpenVPNConfigProperties
  imports OpenVPNConfig
begin

text \<open>
  What a passed inspection says of the files of a profile.  Absolute clean paths are lists of proper
  segments; one path is within another when its segments extend the other's, and the walk from a secret
  file to its root meets every directory between them.
\<close>

section \<open>Absolute clean paths as lists of segments\<close>

definition rooted :: "string list \<Rightarrow> string" where
  "rooted segs = ''/'' @ joinWith ''/'' segs"

lemma cleanSegments_proper: "list_all properSegment xs \<Longrightarrow> cleanSegments r st xs = rev st @ xs"
  by (induction xs arbitrary: st) (simp_all add: properSegment_def)

lemma proper_no_sep: "list_all properSegment xs \<Longrightarrow> \<forall>x\<in>set xs. CHR ''/'' \<notin> set x"
  by (auto simp: list_all_iff properSegment_def)

lemma splitOn_rooted:
  "list_all properSegment xs \<Longrightarrow>
   splitOn CHR ''/'' (rooted xs) = (if xs = [] then [[], []] else [] # xs)"
  using splitOn_joinWith [of xs "CHR ''/''"] proper_no_sep by (auto simp: rooted_def)

lemma isAbs_rooted [simp]: "isAbs (rooted xs)"
  by (simp add: isAbs_def rooted_def)

lemma cleanPath_rooted: "list_all properSegment xs \<Longrightarrow> cleanPath (rooted xs) = rooted xs"
  using cleanSegments_proper [of xs True "[]"]
  by (auto simp: cleanPath_def Let_def splitOn_rooted) (simp_all add: rooted_def)

lemma pathSegments_rooted: "list_all properSegment xs \<Longrightarrow> pathSegments (rooted xs) = xs"
  by (auto simp: pathSegments_def cleanPath_rooted splitOn_rooted filter_id_conv list_all_iff properSegment_def)

lemma rooted_inject:
  "list_all properSegment xs \<Longrightarrow> list_all properSegment ys \<Longrightarrow> rooted xs = rooted ys \<longleftrightarrow> xs = ys"
  using pathSegments_rooted by metis

lemma cleanPath_absolute:
  assumes "isAbs p"
  obtains segs where "list_all properSegment segs" "cleanPath p = rooted segs"
proof
  show "list_all properSegment (cleanSegments True [] (splitOn CHR ''/'' p))"
    using cleanSegments_rooted [of "[]" "splitOn CHR ''/'' p"] splitOn_no_sep [of _ "CHR ''/''" p]
    by (auto simp: list_all_iff)
  show "cleanPath p = rooted (cleanSegments True [] (splitOn CHR ''/'' p))"
    using assms by (auto simp: cleanPath_def Let_def rooted_def isAbs_def)
qed

lemma joinWith_snoc: "xs \<noteq> [] \<Longrightarrow> joinWith sep (xs @ [x]) = joinWith sep xs @ sep @ x"
  by (induction sep xs rule: joinWith.induct) simp_all

lemma pathDir_rooted:
  assumes "list_all properSegment (xs @ [x])"
  shows "pathDir (rooted (xs @ [x])) = rooted xs"
proof -
  have x: "CHR ''/'' \<notin> set x" and xs: "list_all properSegment xs" using assms by (auto simp: properSegment_def)
  have upto: "rev (dropWhile (\<lambda>c. c \<noteq> CHR ''/'') (rev (q @ CHR ''/'' # x))) = q @ ''/''" for q
    using x by (simp add: dropWhile_append)
  show ?thesis
  proof (cases "xs = []")
    case True
    then show ?thesis using upto [of "[]"] by (simp add: pathDir_def rooted_def cleanPath_def isAbs_def Let_def)
  next
    case False
    have "cleanPath (rooted xs @ ''/'') = rooted xs"
      using cleanSegments_proper [OF xs, of True "[]"] False
      by (simp add: cleanPath_def Let_def splitOn_snoc_sep splitOn_rooted [OF xs] isAbs_def)
         (simp add: rooted_def)
    moreover have "rooted (xs @ [x]) = rooted xs @ CHR ''/'' # x"
      using False by (simp add: rooted_def joinWith_snoc)
    ultimately show ?thesis using upto [of "rooted xs"] by (simp add: pathDir_def)
  qed
qed

lemma pathDir_root: "pathDir (rooted []) = rooted []"
  by (simp add: pathDir_def rooted_def cleanPath_def isAbs_def Let_def)

lemma dropCommon_prefix: "dropCommon xs ys = ([], zs) \<Longrightarrow> ys = xs @ zs"
  by (induction xs ys rule: dropCommon.induct) (auto split: if_splits)

lemma dropCommon_extend [simp]: "dropCommon xs (xs @ zs) = ([], zs)"
  by (induction xs) (cases zs; simp)+

lemma dropCommon_proper:
  "dropCommon xs ys = (us, vs) \<Longrightarrow> list_all properSegment xs \<Longrightarrow> list_all properSegment ys \<Longrightarrow>
   list_all properSegment us \<and> list_all properSegment vs"
  by (induction xs ys rule: dropCommon.induct) (auto split: if_splits)

lemma hasPrefix_iff_prefix: "hasPrefix s p \<longleftrightarrow> (\<exists>r. s = p @ r)"
  by (auto simp: hasPrefix_iff) (metis append_take_drop_id)

lemma downwards:
  assumes "list_all properSegment vs"
  shows "joinWith ''/'' vs \<noteq> ''..'' \<and> \<not> hasPrefix (joinWith ''/'' vs) ''../''"
proof (cases "vs = []")
  case False
  then have s: "splitOn CHR ''/'' (joinWith ''/'' vs) = vs"
    using splitOn_joinWith [of vs] proper_no_sep [OF assms] by simp
  have hd: "hd vs \<noteq> ''..''" using False assms by (cases vs) (auto simp: properSegment_def)
  have "splitOn CHR ''/'' ''..'' = [''..'']" "splitOn CHR ''/'' (''../'' @ r) = ''..'' # splitOn CHR ''/'' r" for r
    by simp_all
  with s hd show ?thesis by (metis hasPrefix_iff_prefix list.sel(1))
qed simp

lemma upwards:
  "us \<noteq> [] \<Longrightarrow> joinWith ''/'' (replicate (length us) ''..'' @ vs) = ''..'' \<or>
   hasPrefix (joinWith ''/'' (replicate (length us) ''..'' @ vs)) ''../''"
  by (cases us; cases "replicate (length us - 1) ''..'' @ vs") (auto simp: hasPrefix_iff)

lemma pathWithin_rooted:
  assumes "list_all properSegment xs" "list_all properSegment ys"
  shows "pathWithin (rooted xs) (rooted ys) \<longleftrightarrow> prefix xs ys"
proof (cases "xs = ys")
  case True
  then show ?thesis by (simp add: pathWithin_def relPath_def)
next
  case False
  obtain us vs where d: "dropCommon xs ys = (us, vs)" by (cases "dropCommon xs ys") auto
  have proper: "list_all properSegment us" "list_all properSegment vs"
    using dropCommon_proper [OF d assms] by auto
  have hd: "us \<noteq> [] \<Longrightarrow> hd us \<noteq> ''..''" using proper(1) by (cases us) (auto simp: properSegment_def)
  have rel: "relPath (rooted xs) (rooted ys) = Some (joinWith ''/'' (replicate (length us) ''..'' @ vs))"
    using False assms d hd
    by (auto simp: relPath_def cleanPath_rooted rooted_inject pathSegments_rooted)
  show ?thesis
  proof (cases "us = []")
    case True
    then have "ys = xs @ vs" using dropCommon_prefix d by simp
    with True rel downwards [OF proper(2)] show ?thesis by (simp add: pathWithin_def)
  next
    case ne: False
    have "\<not> prefix xs ys" using d ne by (auto simp: prefix_def)
    with ne rel upwards [OF ne] show ?thesis by (auto simp: pathWithin_def)
  qed
qed

section \<open>What the kernel answers\<close>

text \<open>Opening gives a descriptor of the path, \<open>fstat\<close> tells the state of the file it names, and a read that
  ends without an error has the file's bytes up to its limit.\<close>

definition fileLaws ::
    "'w inspectorEnv \<Rightarrow> 'w configInspector \<Rightarrow> (string \<Rightarrow> fstat option) \<Rightarrow> (string \<Rightarrow> string) \<Rightarrow>
     ('w \<Rightarrow> fd \<Rightarrow> string option) \<Rightarrow> bool" where
  "fileLaws E I tree content names \<longleftrightarrow>
     (\<forall>p flags s. wp (uOpen (ieUnix E) p flags) (\<lambda>r s'. \<forall>fd. r = Inr fd \<longrightarrow> names s' fd = Some p) s) \<and>
     (\<forall>fd p s. names s fd = Some p \<longrightarrow>
        wp (uFstat (ieUnix E) fd) (\<lambda>r s'. names s' fd = Some p \<and> (\<forall>st. r = Inr st \<longrightarrow> tree p = Some st)) s) \<and>
     (\<forall>hook fd p q s. ciValidateFile I = Some hook \<longrightarrow> names s fd = Some p \<longrightarrow>
        wp (hook q) (\<lambda>_ s'. names s' fd = Some p) s) \<and>
     (\<forall>fd p n s. names s fd = Some p \<longrightarrow>
        wp (ieReadStream E fd n) (\<lambda>r _. snd r = None \<longrightarrow> fst r = take n (content p)) s)"

definition ownedAt :: "'w inspectorEnv \<Rightarrow> fstat \<Rightarrow> bool" where
  "ownedAt E st \<longleftrightarrow> ieEuid E = 0 \<longrightarrow> stUid st = 0"

definition privateDirAt :: "'w inspectorEnv \<Rightarrow> (string \<Rightarrow> fstat option) \<Rightarrow> string \<Rightarrow> bool" where
  "privateDirAt E tree p \<longleftrightarrow> (\<exists>st. tree p = Some st \<and> and (stMode st) S_IFMT = S_IFDIR \<and>
     and (stMode st) permissionBits = mode700 \<and> ownedAt E st)"

definition privateFileAt :: "'w inspectorEnv \<Rightarrow> (string \<Rightarrow> fstat option) \<Rightarrow> string \<Rightarrow> bool" where
  "privateFileAt E tree p \<longleftrightarrow> (\<exists>st. tree p = Some st \<and> and (stMode st) S_IFMT = S_IFREG \<and>
     and (stMode st) permissionBits = mode600 \<and> ownedAt E st)"

lemma privateDirectoryError_None:
  "privateDirectoryError E st = None \<longleftrightarrow> and (stMode st) S_IFMT = S_IFDIR \<and>
     and (stMode st) permissionBits = mode700 \<and> ownedAt E st"
  by (auto simp: privateDirectoryError_def ownedByRoot_def ownedAt_def)

lemma privateFileError_None:
  "privateFileError E st = None \<longleftrightarrow> and (stMode st) S_IFMT = S_IFREG \<and>
     and (stMode st) permissionBits = mode600 \<and> ownedAt E st"
  by (auto simp: privateFileError_def ownedByRoot_def ownedAt_def)

lemma validatePrivateDirectory_wp:
  assumes "fileLaws E I tree content names"
  shows "wp (validatePrivateDirectory E p) (\<lambda>r _. r = None \<longrightarrow> privateDirAt E tree p) s"
proof -
  have "wp (uOpen (ieUnix E) p directoryFlags) (\<lambda>r s'. \<forall>fd. r = Inr fd \<longrightarrow> names s' fd = Some p) s"
    using assms by (simp add: fileLaws_def)
  then show ?thesis
    unfolding validatePrivateDirectory_def wp_simps
  proof (rule wp_mono, goal_cases)
    case (1 r s')
    show ?case
    proof (cases r)
      case (Inr fd)
      then have "wp (uFstat (ieUnix E) fd) (\<lambda>r s'. names s' fd = Some p \<and> (\<forall>st. r = Inr st \<longrightarrow> tree p = Some st)) s'"
        using 1 assms by (simp add: fileLaws_def)
      then show ?thesis unfolding Inr sum.case
        by (rule wp_mono)
           (auto split: sum.splits intro!: wp_runI simp: privateDirectoryError_None privateDirAt_def)
    qed simp
  qed
qed

lemma validateDescriptor_wp:
  assumes "fileLaws E I tree content names" "names s fd = Some p"
  shows "wp (validatePrivateFileDescriptor E fd)
    (\<lambda>r s'. names s' fd = Some p \<and> (r = None \<longrightarrow> privateFileAt E tree p)) s"
proof -
  have "wp (uFstat (ieUnix E) fd) (\<lambda>r s'. names s' fd = Some p \<and> (\<forall>st. r = Inr st \<longrightarrow> tree p = Some st)) s"
    using assms by (simp add: fileLaws_def)
  then show ?thesis unfolding validatePrivateFileDescriptor_def wp_simps
    by (rule wp_mono) (auto split: sum.splits simp: privateFileError_None privateFileAt_def)
qed

lemma validateRegular_wp:
  assumes "fileLaws E I tree content names"
  shows "wp (validatePrivateRegularFile E p) (\<lambda>r _. r = None \<longrightarrow> privateFileAt E tree p) s"
proof -
  have "wp (uOpen (ieUnix E) p readFlags) (\<lambda>r s'. \<forall>fd. r = Inr fd \<longrightarrow> names s' fd = Some p) s"
    using assms by (simp add: fileLaws_def)
  then show ?thesis
    unfolding validatePrivateRegularFile_def openNoFollow_def wp_simps
  proof (rule wp_mono, goal_cases)
    case (1 r s')
    show ?case
    proof (cases r)
      case (Inr fd)
      then have "names s' fd = Some p" using 1 by simp
      from validateDescriptor_wp [OF assms this] show ?thesis unfolding Inr sum.case
        by (rule wp_mono) (auto intro!: wp_runI)
    qed simp
  qed
qed

lemma validateParents_wp:
  assumes "fileLaws E I tree content names" "list_all properSegment xs"
  shows "list_all properSegment ys \<Longrightarrow>
    wp (validateParents E (rooted xs) (rooted ys)) (\<lambda>r _. r = None \<longrightarrow> prefix xs ys \<and>
      (\<forall>us. strict_prefix xs us \<longrightarrow> prefix us ys \<longrightarrow> privateDirAt E tree (rooted us))) s"
proof (induction ys arbitrary: s rule: rev_induct)
  case Nil
  then show ?case using assms(2)
    by (subst validateParents.simps)
       (auto simp: wp_simps rooted_inject pathWithin_rooted pathDir_root)
next
  case (snoc y ys s)
  show ?case
  proof (cases "xs = ys @ [y]")
    case True
    then show ?thesis
      by (subst validateParents.simps) (auto simp: wp_simps dest!: prefix_length_le prefix_length_less)
  next
    case ne: False
    then have ne': "rooted (ys @ [y]) \<noteq> rooted xs" using rooted_inject assms(2) snoc.prems by metis
    show ?thesis
    proof (cases "prefix xs (ys @ [y])")
      case False
      then show ?thesis using ne' pathWithin_rooted [OF assms(2) snoc.prems]
        by (subst validateParents.simps) (simp add: wp_simps)
    next
      case True
      have IH: "wp (validateParents E (rooted xs) (rooted ys)) (\<lambda>r _. r = None \<longrightarrow> prefix xs ys \<and>
          (\<forall>us. strict_prefix xs us \<longrightarrow> prefix us ys \<longrightarrow> privateDirAt E tree (rooted us))) s'" for s'
        using snoc by simp
      have up: "pathDir (rooted (ys @ [y])) = rooted ys" using pathDir_rooted snoc.prems by simp
      have moved: "rooted ys \<noteq> rooted (ys @ [y])" using rooted_inject [of ys "ys @ [y]"] snoc.prems by simp
      have step: "validateParents E (rooted xs) (rooted (ys @ [y])) =
          thenE (wrapErr ''validate file parent'' (validatePrivateDirectory E (rooted (ys @ [y]))))
            (validateParents E (rooted xs) (rooted ys))"
        using ne' True moved pathWithin_rooted [OF assms(2) snoc.prems]
        by (subst validateParents.simps) (simp add: up)
      show ?thesis unfolding step wp_simps
      proof (rule wp_mono [OF validatePrivateDirectory_wp [OF assms(1)]], goal_cases)
        case (1 r s')
        then show ?case by (cases r) (auto intro!: wp_mono [OF IH])
      qed
    qed
  qed
qed

section \<open>Lines\<close>

text \<open>The logical lines of a file whose continuations are well formed.\<close>

fun configLines :: "string \<Rightarrow> string list \<Rightarrow> string list" where
  "configLines acc [] = []"
| "configLines acc (physical # rest) =
     (case runtimeContinuation (trimSuffix physical [CHR 0x0D]) of
        Inl _ \<Rightarrow> []
      | Inr (True, fragment) \<Rightarrow> configLines (acc @ fragment) rest
      | Inr (False, fragment) \<Rightarrow> (acc @ fragment) # configLines [] rest)"

definition secretContained ::
    "'w inspectorEnv \<Rightarrow> (string \<Rightarrow> fstat option) \<Rightarrow> string \<Rightarrow> string list \<Rightarrow> bool" where
  "secretContained E tree root args \<longleftrightarrow>
     (\<exists>token segs. args = [token] \<and> secretPath root token = rooted segs \<and> prefix (pathSegments root) segs \<and>
        privateFileAt E tree (rooted segs) \<and>
        (\<forall>dir. strict_prefix (pathSegments root) dir \<longrightarrow> strict_prefix dir segs \<longrightarrow>
           privateDirAt E tree (rooted dir)))"

definition lineContained ::
    "'w inspectorEnv \<Rightarrow> (string \<Rightarrow> fstat option) \<Rightarrow> string \<Rightarrow> string \<Rightarrow> bool" where
  "lineContained E tree root line \<longleftrightarrow>
     (\<exists>tokens. tokenizeRuntimeLine line = Inr tokens \<and>
        (case tokens of
           [] \<Rightarrow> True
         | first # args \<Rightarrow>
             let directive = directiveName (ieTables E) first
             in first \<noteq> [] \<and> directiveError directive (length tokens) = None \<and>
                (directive \<in> set openVPNSecretFileDirectives \<longrightarrow> secretContained E tree root args)))"

lemma secretPath_rooted:
  assumes "list_all properSegment xs"
  obtains segs where "list_all properSegment segs" "secretPath (rooted xs) token = rooted segs"
proof -
  have "isAbs (if isAbs token then token else pathJoin [rooted xs, token])"
  proof (cases "isAbs token")
    case False
    have "isAbs (joinWith ''/'' [rooted xs, token])" by (simp add: isAbs_def rooted_def)
    then obtain segs where "cleanPath (joinWith ''/'' [rooted xs, token]) = rooted segs"
      using cleanPath_absolute by blast
    moreover have "pathJoin [rooted xs, token] = cleanPath (joinWith ''/'' [rooted xs, token])"
      by (simp add: pathJoin_def rooted_def)
    ultimately show ?thesis using False by (metis isAbs_rooted)
  qed simp
  from cleanPath_absolute [OF this] show ?thesis using that unfolding secretPath_def by blast
qed

lemma strict_prefix_butlast:
  "strict_prefix us (ys @ [y]) \<longleftrightarrow> prefix us ys"
  by (auto simp: strict_prefix_def)

lemma validateConfined_wp:
  assumes "fileLaws E I tree content names" "list_all properSegment xs" "list_all properSegment ys"
    "prefix xs ys"
  shows "wp (validateConfinedPrivateFile E (rooted xs) (rooted ys)) (\<lambda>r _. r = None \<longrightarrow>
    privateFileAt E tree (rooted ys) \<and>
    (\<forall>us. strict_prefix xs us \<longrightarrow> strict_prefix us ys \<longrightarrow> privateDirAt E tree (rooted us))) s"
proof (cases ys rule: rev_cases)
  case Nil
  show ?thesis
    unfolding Nil validateConfinedPrivateFile_def pathDir_root wp_simps
    by (rule wp_any) (auto split: option.splits intro!: wp_mono [OF validateRegular_wp [OF assms(1)]])
next
  case (snoc zs z)
  have zs: "list_all properSegment zs" using assms(3) snoc by simp
  have up: "pathDir (rooted ys) = rooted zs" using pathDir_rooted assms(3) snoc by simp
  show ?thesis
    using validateParents_wp [OF assms(1,2) zs, of s]
    unfolding validateConfinedPrivateFile_def up wp_simps
  proof (rule wp_mono, goal_cases)
    case (1 r s')
    then show ?case
      by (cases r) (auto simp: snoc strict_prefix_butlast intro!: wp_mono [OF validateRegular_wp [OF assms(1)]])
  qed
qed

lemma inspectSecretFile_wp:
  assumes "fileLaws E I tree content names" "list_all properSegment xs"
  shows "wp (inspectSecretFile E I (rooted xs) directive args)
    (\<lambda>r _. r = None \<longrightarrow> secretContained E tree (rooted xs) args) s"
proof (cases "\<exists>token. args = [token]")
  case False
  then show ?thesis by (auto simp: inspectSecretFile_def wp_simps split: list.splits)
next
  case True
  then obtain token where token: "args = [token]" by auto
  obtain segs where segs: "list_all properSegment segs" "secretPath (rooted xs) token = rooted segs"
    using secretPath_rooted [OF assms(2)] by blast
  show ?thesis
  proof (cases "prefix xs segs")
    case False
    then show ?thesis using segs token pathWithin_rooted [OF assms(2) segs(1)]
      by (simp add: inspectSecretFile_def Let_def wp_simps)
  next
    case True
    have contained: "privateFileAt E tree (rooted segs) \<Longrightarrow>
        (\<forall>us. strict_prefix xs us \<longrightarrow> strict_prefix us segs \<longrightarrow> privateDirAt E tree (rooted us)) \<Longrightarrow>
        secretContained E tree (rooted xs) args"
      using True token segs pathSegments_rooted [OF assms(2)] unfolding secretContained_def by auto
    let ?path = "rooted segs"
    have "wp (thenE (wrapErr ''validate file'' (validateConfinedPrivateFile E (rooted xs) ?path))
        (wrapErr ''validate file'' (runHook (ciValidateFile I) ?path)))
        (\<lambda>r _. r = None \<longrightarrow> secretContained E tree (rooted xs) args) s"
      unfolding wp_thenE wp_wrapErr
    proof (rule wp_mono [OF validateConfined_wp [OF assms segs(1) True]], goal_cases)
      case (1 r s')
      then show ?case by (cases r) (auto intro!: wp_any contained)
    qed
    then show ?thesis using True token segs pathWithin_rooted [OF assms(2) segs(1)]
      by (simp add: inspectSecretFile_def Let_def wp_simps)
  qed
qed

lemma inspectLogicalLine_wp:
  assumes "fileLaws E I tree content names" "list_all properSegment xs"
  shows "wp (inspectLogicalLine E I (rooted xs) line)
    (\<lambda>r _. r = None \<longrightarrow> lineContained E tree (rooted xs) line) s"
  by (auto simp: inspectLogicalLine_def lineContained_def Let_def wp_simps
           split: sum.splits list.splits option.splits
           intro!: wp_mono [OF inspectSecretFile_wp [OF assms]])

lemma inspectLines_wp:
  assumes "fileLaws E I tree content names" "list_all properSegment xs"
  shows "wp (inspectLines E I (rooted xs) limit None acc seen ls) (\<lambda>r _. r = None \<longrightarrow> ls \<noteq> [] \<longrightarrow>
    seen + weight ls \<le> limit + 1 \<and> list_all (lineContained E tree (rooted xs)) (configLines acc ls)) s"
proof (induction ls arbitrary: acc seen s)
  case (Cons l ls acc seen s)
  let ?seen = "seen + length l + (if ls = [] then 0 else 1)"
  let ?next = "\<lambda>acc. if ls = [] then return (map_option (Wrapf ''read OpenVPN profile'') None)
    else inspectLines E I (rooted xs) limit None acc ?seen ls"
  let ?good = "\<lambda>r _. r = None \<longrightarrow> l # ls \<noteq> [] \<longrightarrow> seen + weight (l # ls) \<le> limit + 1 \<and>
      list_all (lineContained E tree (rooted xs)) (configLines acc (l # ls))"
  have next_wp: "?seen \<le> limit \<Longrightarrow> wp (?next acc)
      (\<lambda>r _. r = None \<longrightarrow> seen + weight (l # ls) \<le> limit + 1 \<and>
         list_all (lineContained E tree (rooted xs)) (configLines acc ls)) s" for acc s
    using Cons.IH [of acc ?seen s] by (auto simp: wp_simps elim!: wp_mono)
  have step: "inspectLines E I (rooted xs) limit None acc seen (l # ls) =
      (if limit < ?seen then return (Some (ErrText ''OpenVPN profile exceeds its limit''))
       else case runtimeContinuation (trimSuffix l [CHR 0x0D]) of
           Inl e \<Rightarrow> return (Some (Wrapf ''OpenVPN config line'' e))
         | Inr (continued, fragment) \<Rightarrow>
             if continued
             then if ls = []
                  then return (Some (ErrText ''OpenVPN config line: dangling continuation''))
                  else ?next (acc @ fragment)
             else thenE (wrapErr ''OpenVPN config line'' (inspectLogicalLine E I (rooted xs) (acc @ fragment)))
                    (?next []))"
    by (simp add: Let_def cong: wp_congs)
  show ?case
  proof (cases "limit < ?seen")
    case fits: False
    show ?thesis
    proof (cases "runtimeContinuation (trimSuffix l [CHR 0x0D])")
      case (Inr p)
      obtain continued fragment where p: "p = (continued, fragment)" by (cases p) auto
      show ?thesis
      proof (cases continued)
        case True
        have "wp (?next (acc @ fragment)) ?good s"
          by (rule wp_mono [OF next_wp]) (use fits in \<open>simp_all add: Inr p True\<close>)
        then show ?thesis unfolding step if_not_P [OF fits] using True by (cases "ls = []") (simp_all add: Inr p wp_return)
      next
        case False
        have "wp (thenE (wrapErr ''OpenVPN config line'' (inspectLogicalLine E I (rooted xs) (acc @ fragment)))
            (?next [])) ?good s"
          unfolding wp_thenE wp_wrapErr
        proof (rule wp_mono [OF inspectLogicalLine_wp [OF assms]], goal_cases)
          case (1 r s')
          then have "r = None \<Longrightarrow> wp (?next []) ?good s'"
            by (intro wp_mono [OF next_wp]) (use fits in \<open>simp_all add: Inr p False\<close>)
          then show ?case by (cases r) simp_all
        qed
        then show ?thesis unfolding step if_not_P [OF fits] using False by (simp add: Inr p)
      qed
    qed (simp add: step wp_simps)
  qed (simp add: step wp_simps)
qed simp


lemma readError_stops:
  "readErr \<noteq> None \<Longrightarrow>
   wp (inspectLines E I dir limit readErr acc seen ls) (\<lambda>r _. ls \<noteq> [] \<longrightarrow> r \<noteq> None) s"
proof (induction ls arbitrary: acc seen s)
  case (Cons l ls acc seen s)
  show ?case
  proof (cases "ls = []")
    case True
    then show ?thesis using Cons.prems
      by (auto simp: Let_def wp_simps split: sum.splits option.splits intro!: wp_any)
  next
    case False
    have IH: "wp (inspectLines E I dir limit readErr acc seen ls) (\<lambda>r _. \<exists>e. r = Some e) s" for acc seen s
      using Cons.IH [OF Cons.prems, of acc seen s] False by (auto elim: wp_mono)
    show ?thesis using False
      by (auto simp: Let_def wp_simps split: sum.splits option.splits intro!: wp_any IH)
  qed
qed simp

section \<open>A passed inspection\<close>

definition inspectionSound ::
    "'w inspectorEnv \<Rightarrow> 'w configInspector \<Rightarrow> (string \<Rightarrow> fstat option) \<Rightarrow> (string \<Rightarrow> string) \<Rightarrow>
     string \<Rightarrow> string \<Rightarrow> bool" where
  "inspectionSound E I tree content path root \<longleftrightarrow>
     prefix (pathSegments root) (pathSegments path) \<and> privateDirAt E tree root \<and> privateFileAt E tree path \<and>
     length (content path) \<le> configLimit I \<and>
     list_all (lineContained E tree root) (configLines [] (splitOn CHR 0x0A (content path)))"

lemma inspectOpened_wp:
  assumes "fileLaws E I tree content names" "list_all properSegment xs" "names s fd = Some path"
  shows "wp (inspectOpened E I (rooted xs) path fd) (\<lambda>r _. r = None \<longrightarrow>
    privateFileAt E tree path \<and> length (content path) \<le> configLimit I \<and>
    list_all (lineContained E tree (rooted xs)) (configLines [] (splitOn CHR 0x0A (content path)))) s"
    (is "wp _ ?sound s")
proof -
  let ?lines = "do {
      (data, readErr) \<leftarrow> ieReadStream E fd (configLimit I + 1);
      inspectLines E I (rooted xs) (configLimit I) readErr [] 0 (splitOn CHR 0x0A data)
    }"
  have lines: "wp ?lines ?sound s'" if n: "names s' fd = Some path" and f: "privateFileAt E tree path" for s'
  proof -
    have "wp (ieReadStream E fd (configLimit I + 1))
        (\<lambda>r _. snd r = None \<longrightarrow> fst r = take (configLimit I + 1) (content path)) s'"
      using n assms(1) unfolding fileLaws_def by blast
    then show ?thesis unfolding wp_bind
    proof (rule wp_mono, goal_cases)
      case (1 r s'')
      obtain data readErr where r: "r = (data, readErr)" by (cases r)
      have "wp (inspectLines E I (rooted xs) (configLimit I) None [] 0 (splitOn CHR 0x0A data)) ?sound s''"
        if "readErr = None"
        using 1 that f unfolding r
        by (intro wp_mono [OF inspectLines_wp [OF assms(1,2)]])
           (auto simp: weight_splitOn min_def split: if_splits)
      moreover have "wp (inspectLines E I (rooted xs) (configLimit I) readErr [] 0 (splitOn CHR 0x0A data)) ?sound s''"
        if "readErr \<noteq> None"
        using readError_stops [OF that] by (rule wp_mono) auto
      ultimately show ?case unfolding r by (cases readErr) (simp_all add: wp_simps)
    qed
  qed
  show ?thesis unfolding inspectOpened_def wp_thenE wp_wrapErr
  proof (rule wp_mono [OF validateDescriptor_wp [OF assms(1,3)]], goal_cases)
    case (1 r s')
    have hook: "r = None \<Longrightarrow> wp (runHook (ciValidateFile I) path) (\<lambda>_ s''. names s'' fd = Some path) s'"
      using 1 assms(1) by (cases "ciValidateFile I") (auto simp: runHook_def wp_return fileLaws_def)
    have rest: "r = None \<Longrightarrow> names s'' fd = Some path \<Longrightarrow>
        (case map_option (Wrapf ''validate OpenVPN profile'') h of None \<Rightarrow> wp ?lines ?sound
         | Some e \<Rightarrow> ?sound (Some e)) s''" for h s''
      using lines [of s''] 1 by (cases h) simp_all
    show ?case
    proof (cases r)
      case None
      show ?thesis unfolding None option.map option.case
        by (rule wp_mono [OF hook [OF None]]) (rule rest [OF None])
    qed simp
  qed
qed

text \<open>C32: When the inspection of a profile passes, the profile is a private file of at most the limit's size
  inside its private directory, and for each logical line of it that names a secret file that file is a
  private file below the directory, with every directory between them private; no line holds a directive
  that would take the process out of the program's hands.\<close>

theorem passed_inspection_contained:
  assumes "fileLaws E I tree content names" and "isAbs path" and "isAbs root"
    and "fst (run_state (config_Inspect E I path root) s) = None"
  shows "inspectionSound E I tree content (cleanPath path) (cleanPath root)"
proof -
  obtain xs where xs: "list_all properSegment xs" "cleanPath root = rooted xs"
    using cleanPath_absolute assms(3) by blast
  obtain ys where ys: "list_all properSegment ys" "cleanPath path = rooted ys"
    using cleanPath_absolute assms(2) by blast
  let ?opened = "openE (wrapE ''open OpenVPN profile'' (openNoFollow E (rooted ys))) (\<lambda>file.
      deferE (uClose (ieUnix E) file) (inspectOpened E I (rooted xs) (rooted ys) file))"
  let ?sound = "\<lambda>r _. r = None \<longrightarrow> prefix xs ys \<longrightarrow> privateDirAt E tree (rooted xs) \<longrightarrow>
      inspectionSound E I tree content (rooted ys) (rooted xs)"
  have opened: "wp ?opened ?sound s'" for s'
  proof -
    have "wp (uOpen (ieUnix E) (rooted ys) readFlags) (\<lambda>r s'. \<forall>fd. r = Inr fd \<longrightarrow> names s' fd = Some (rooted ys)) s'"
      using assms(1) by (simp add: fileLaws_def)
    then show ?thesis unfolding openNoFollow_def wp_openE wp_wrapE wp_deferE
    proof (rule wp_mono, goal_cases)
      case (1 r s'')
      show ?case
      proof (cases r)
        case (Inr fd)
        then have "names s'' fd = Some (rooted ys)" using 1 by simp
        from inspectOpened_wp [OF assms(1) xs(1) this] show ?thesis unfolding Inr map_sum.simps sum.case id_apply
          by (rule wp_mono) (auto simp: inspectionSound_def pathSegments_rooted xs(1) ys(1) intro!: wp_any)
      qed simp
    qed
  qed
  have "wp (config_Inspect E I path root) (\<lambda>r _. r = None \<longrightarrow>
      inspectionSound E I tree content (rooted ys) (rooted xs)) s"
  proof (cases "prefix xs ys")
    case False
    then show ?thesis using assms(2,3) xs ys
      by (simp add: config_Inspect_def absPath_def wp_simps pathWithin_rooted)
  next
    case True
    have "wp (thenE (wrapErr ''validate OpenVPN profile directory'' (validatePrivateDirectory E (rooted xs))) ?opened)
        (\<lambda>r _. r = None \<longrightarrow> inspectionSound E I tree content (rooted ys) (rooted xs)) s"
      unfolding wp_thenE [of _ ?opened] wp_wrapErr
    proof (rule wp_mono [OF validatePrivateDirectory_wp [OF assms(1)]], goal_cases)
      case (1 r s')
      then show ?case using True by (cases r) (auto intro!: wp_mono [OF opened])
    qed
    then show ?thesis using assms(2,3) xs ys True
      by (simp add: config_Inspect_def absPath_def wp_simps pathWithin_rooted)
  qed
  then show ?thesis using assms(4) xs ys by (auto simp: wp_def split: prod.splits)
qed

section \<open>The walk to the root ends\<close>

text \<open>The loop as it is written, with a bound on its rounds.\<close>

fun parentsLoop :: "nat \<Rightarrow> 'w inspectorEnv \<Rightarrow> string \<Rightarrow> string \<Rightarrow> ('w, err) state option" where
  "parentsLoop 0 E root directory = None"
| "parentsLoop (Suc n) E root directory =
     (if directory = root then Some (return None)
      else if \<not> pathWithin root directory \<or> directory = pathDir directory
      then Some (return (Some (ErrText ''file parent escapes provider directory'')))
      else map_option (thenE (wrapErr ''validate file parent'' (validatePrivateDirectory E directory)))
             (parentsLoop n E root (pathDir directory)))"

lemma parentsLoop_enough:
  "walkMeasure directory < n \<Longrightarrow> parentsLoop n E root directory = Some (validateParents E root directory)"
proof (induction n arbitrary: directory)
  case (Suc n)
  have "directory \<noteq> pathDir directory \<Longrightarrow> walkMeasure (pathDir directory) < n"
    using walk_decreases [of directory] Suc.prems by simp
  with Suc.IH show ?case by (auto simp: validateParents.simps [of E root directory])
qed simp

text \<open>C33: Whatever path it starts from, absolute, relative or unclean, and whatever the root, the walk from a
  secret file towards the root ends within as many rounds as the path has bytes, and one.\<close>

theorem confined_walk_terminates:
  "parentsLoop (length directory + 2) E root directory = Some (validateParents E root directory)"
  by (rule parentsLoop_enough) (simp add: walkMeasure_def)

section \<open>A directory that passes\<close>

definition sampleStat :: "32 word \<Rightarrow> fstat" where
  "sampleStat mode = \<lparr>stMode = mode, stUid = 0, stSize = 0\<rparr>"

definition sampleTree :: "string \<Rightarrow> fstat option" where
  "sampleTree p =
     (if p = ''/p'' \<or> p = ''/p/k'' then Some (sampleStat 0x41C0)
      else if p \<in> {''/p/a'', ''/p/b'', ''/p/k/c''} then Some (sampleStat 0x8180) else None)"

definition inlineProfile :: string where
  "inlineProfile = ''client'' @ [CHR 0x0A] @ ''remote h'' @ [CHR 0x0A] @ ''ca [inline]'' @ [CHR 0x0A]"

definition sampleContent :: "string \<Rightarrow> string" where
  "sampleContent p = (if p = ''/p/a'' then ''ca k/c'' else if p = ''/p/b'' then inlineProfile else [])"

definition sampleInspectorUnix :: "string unix" where
  "sampleInspectorUnix =
     \<lparr>uGetwd = return (Inr ''/''), uOpen = \<lambda>p _. State (\<lambda>_. (Inr 3, p)),
      uOpenat = \<lambda>_ _ _ _. return (Inl (Sentinel ENOENT)), uMkdirat = \<lambda>_ _ _. return (Some (Sentinel EPERM)),
      uFstat = \<lambda>fd. gets (\<lambda>s. case sampleTree s of None \<Rightarrow> Inl (Sentinel ENOENT) | Some st \<Rightarrow> Inr st),
      uFstatat = \<lambda>_ _. return (Inl (Sentinel ENOENT)), uFlock = \<lambda>_ _. return None,
      uReadAll = \<lambda>_ _. return (Inr []), uWrite = \<lambda>_ _. return (0, Some (Sentinel EPERM)),
      uFsync = \<lambda>_. return None, uClose = \<lambda>_. return None, uUnlinkat = \<lambda>_ _ _. return None,
      uRenameat = \<lambda>_ _ _ _. return None, uRenameNoReplace = \<lambda>_ _ _ _. return None,
      uReadDir = \<lambda>_. return (Inr []), uRandom = \<lambda>_. return (Inr []), uMaxOpen = 8\<rparr>"

definition sampleInspectorEnv :: "string inspectorEnv" where
  "sampleInspectorEnv =
     \<lparr>ieUnix = sampleInspectorUnix, ieEuid = 0,
      ieReadStream = \<lambda>fd n. gets (\<lambda>s. (take n (sampleContent s), None)), ieTables = plainTables\<rparr>"

definition sampleInspector :: "string configInspector" where
  "sampleInspector = \<lparr>ciMaxBytes = 64, ciValidateFile = None\<rparr>"

lemma sampleInspector_laws:
  "fileLaws sampleInspectorEnv sampleInspector sampleTree sampleContent (\<lambda>s fd. if fd = 3 then Some s else None)"
  by (auto simp: fileLaws_def sampleInspectorEnv_def sampleInspectorUnix_def sampleInspector_def wp_simps wp_def
      split: option.splits)

lemma sampleInspector_passes: "fst (run_state (config_Inspect sampleInspectorEnv sampleInspector ''/p/a'' ''/p'') []) = None"
  by code_simp

theorem passed_inspection_contained_witness:
  "inspectionSound sampleInspectorEnv sampleInspector sampleTree sampleContent (cleanPath ''/p/a'') (cleanPath ''/p'')"
  by (rule passed_inspection_contained [OF sampleInspector_laws _ _ sampleInspector_passes])
     (simp_all add: isAbs_def)

text \<open>The import policy accepts the older form of an inline reference, \<open>ca [inline]\<close>; the inspection before a
  start takes \<open>[inline]\<close> for the name of a file, so a profile that was imported can never be started.\<close>

lemma inline_reference_imported: "ValidateOpenVPNImport plainTables inlineProfile = None"
  by code_simp

lemma inline_reference_refused_at_start:
  "ValidateOpenVPNImport plainTables inlineProfile = None \<and> sampleContent ''/p/b'' = inlineProfile \<and>
   fst (run_state (config_Inspect sampleInspectorEnv sampleInspector ''/p/b'' ''/p'') []) \<noteq> None"
  using inline_reference_imported by code_simp

end
