(* ===== verification/OpenVPNProcess.thy ===== *)
theory OpenVPNProcess
  imports OpenVPNConfig Diagnostics Tunnel
begin

text \<open>
  The OpenVPN backend, \<open>internal/tunnel/openvpn.go\<close>: one child process that leads a session of its own, known
  again by its process id, session and start time, and stopped by signals to the members of that session.
  The operating system is the record \<open>'o procOS\<close> of the calls the code makes.  Processes live in a store and
  are referred to by their number, as the code refers to them by pointer.

  The two goroutines of a process, the one that waits for it and the one that reads its output, run where
  another part of the program looks at what they do: \<open>observeWait\<close> performs the first half of \<open>wait\<close> once the
  child has ended, \<open>observeDrain\<close> the reads that have happened; what the reader logs stays with the process.  Timers and contexts are counts of looks.
\<close>

section \<open>The operating system\<close>

datatype signal = SIGINT | SIGTERM | SIGKILL

datatype waitError = ExitStatus int | WaitFailed

record spawnRequest =
  spCommand :: string
  spArgs :: "string list"
  spDir :: string
  spOutput :: fd
  spEnv :: "string list option"

record 'o procOS =
  poReadDir :: "string \<Rightarrow> ('o, goerr + string list) state"
  poReadFile :: "string \<Rightarrow> ('o, goerr + string) state"
  poLstat :: "string \<Rightarrow> ('o, goerr + fstat) state"
  poPidfdOpen :: "int \<Rightarrow> ('o, goerr + fd) state"
  poPidfdSend :: "fd \<Rightarrow> signal \<Rightarrow> ('o, err) state"
  poClose :: "fd \<Rightarrow> ('o, err) state"
  poPipe :: "('o, goerr + fd \<times> fd) state"
  poSpawn :: "spawnRequest \<Rightarrow> ('o, goerr + int) state"
  poKill :: "int \<Rightarrow> signal \<Rightarrow> ('o, err) state"
  poWait :: "int \<Rightarrow> ('o, waitError option) state"
  poEnded :: "int \<Rightarrow> ('o, waitError option option) state"
  poReads :: "fd \<Rightarrow> ('o, string list \<times> bool) state"
  poEuid :: nat

text \<open>A child is spawned with \<open>Setsid\<close> and \<open>Pdeathsig\<close>.  \<open>poEnded pid\<close> tells whether \<open>cmd.Wait\<close> would return, and
  with what, \<open>poReads\<close> what the reading goroutine got since it was last asked, and whether it met the end.\<close>

section \<open>Process identities\<close>

record processIdentity =
  piPid :: int
  piProcessGroup :: int
  piSessionID :: int
  piStartTime :: nat

definition lastIndexByte :: "string \<Rightarrow> char \<Rightarrow> nat option" where
  "lastIndexByte s c =
     (if c \<in> set s then Some (length s - Suc (length (takeWhile (\<lambda>x. x \<noteq> c) (rev s)))) else None)"

definition parseProcessStat :: "int \<Rightarrow> string \<Rightarrow> goerr + processIdentity" where
  "parseProcessStat pid data =
     (case lastIndexByte data CHR '')'' of
        None \<Rightarrow> Inl (ErrText ''malformed process stat'')
      | Some closing \<Rightarrow>
          if closing + 2 \<ge> length data then Inl (ErrText ''malformed process stat'')
          else let fields = stringFields (drop (closing + 2) data)
          in if length fields < 20 then Inl (ErrText ''incomplete process stat'')
             else case (parseInt64 (fields ! 2), parseInt64 (fields ! 3), parseUint64 (fields ! 19)) of
               (Some pgrp, Some session, Some start) \<Rightarrow>
                 Inr \<lparr>piPid = pid, piProcessGroup = pgrp, piSessionID = session, piStartTime = start\<rparr>
             | _ \<Rightarrow> Inl (ErrText ''invalid number in process stat''))"

definition readProcessIdentity :: "'o procOS \<Rightarrow> int \<Rightarrow> ('o, goerr + processIdentity) state" where
  "readProcessIdentity Os pid =
     tryE (poReadFile Os (pathJoin [''/proc'', itoa pid, ''stat''])) (\<lambda>data. return (parseProcessStat pid data))"

section \<open>Processes and the backend\<close>

record openVPNProcess =
  opPid :: int
  opSessionID :: int
  opLeaderStart :: nat
  opReader :: fd
  opDrain :: drain
  opDrained :: bool
  opWaitErr :: "waitError option"
  opExited :: bool
  opDone :: bool
  opStopping :: bool
  opAccepted :: bool
  opUnexpected :: bool

record 'o vpnState =
  vOS :: 'o
  vProcs :: "openVPNProcess list"
  vProc :: "nat option"
  vLastExitError :: string
  vUnexpectedExit :: bool
  vLog :: "string list"
  vExitHandler :: bool
  vCurrent :: tunnelProfile
  vHandler :: bool

record 'o openVPNOptions =
  voCommand :: string
  voEnv :: "string list option"
  voReadyTimeout :: int
  voInterruptWait :: int
  voTerminateWait :: int
  voKillWait :: int
  voOS :: "'o procOS"
  voInspectorEnv :: "'o inspectorEnv"
  voInspector :: "'o configInspector"
  voReadIdentity :: "int \<Rightarrow> ('o, goerr + processIdentity) state"
  voReadyLooks :: nat
  voCanceled :: "string option"
  voStopLooks :: "nat \<Rightarrow> nat"

text \<open>\<open>vExitHandler\<close> says that the backend's \<open>exitHandler\<close> is set, \<open>vHandler\<close> that the adapter's is; \<open>vCurrent\<close> is the
  adapter's \<open>current\<close>.  \<open>voReadyLooks\<close> is the number of looks at a starting process before its timer fires or its context ends,
  \<open>voCanceled\<close> the text of the context's error when it is the context, and \<open>voStopLooks i\<close> the number of polls in
  the \<open>i\<close>-th stage of stopping before its deadline or the end of its context.\<close>

definition second :: int where "second = 1000000000"

definition orDefault :: "int \<Rightarrow> int \<Rightarrow> int" where
  "orDefault d x = (if x \<le> 0 then d else x)"

definition onOS :: "('o, 'a) state \<Rightarrow> ('o vpnState, 'a) state" where
  "onOS m = zoom vOS (\<lambda>x s. s\<lparr>vOS := x\<rparr>) m"

definition procAt :: "nat \<Rightarrow> ('o vpnState, openVPNProcess) state" where
  "procAt p = gets (\<lambda>s. vProcs s ! p)"

definition updateProc :: "nat \<Rightarrow> (openVPNProcess \<Rightarrow> openVPNProcess) \<Rightarrow> ('o vpnState, unit) state" where
  "updateProc p f = modify (\<lambda>s. s\<lparr>vProcs := (vProcs s)[p := f (vProcs s ! p)]\<rparr>)"

definition backend_log :: "string \<Rightarrow> ('o vpnState, unit) state" where
  "backend_log message = modify (\<lambda>s. if message \<noteq> [] then s\<lparr>vLog := vLog s @ [message]\<rparr> else s)"

definition safeProcessError :: "waitError option \<Rightarrow> string" where
  "safeProcessError e =
     (case e of None \<Rightarrow> [] | Some (ExitStatus n) \<Rightarrow> ''exit status '' @ itoa n
      | Some WaitFailed \<Rightarrow> ''process wait failed'')"

section \<open>The session of a process\<close>

definition belongsToOwnedSession :: "openVPNProcess \<Rightarrow> processIdentity \<Rightarrow> goerr + bool" where
  "belongsToOwnedSession proc i =
     (if piPid i = opPid proc \<and> piStartTime i \<noteq> opLeaderStart proc
      then Inl (ErrText ''OpenVPN session leader identity was reused'')
      else Inr (piSessionID i = opSessionID proc))"

fun sessionMembers ::
    "'o procOS \<Rightarrow> openVPNProcess \<Rightarrow> processIdentity list \<Rightarrow> string list \<Rightarrow> ('o, goerr + processIdentity list) state" where
  "sessionMembers Os proc members [] = return (Inr members)"
| "sessionMembers Os proc members (name # names) =
     (case parseInt64 name of
        None \<Rightarrow> sessionMembers Os proc members names
      | Some pid \<Rightarrow> do {
          r \<leftarrow> readProcessIdentity Os pid;
          case r of
            Inl e \<Rightarrow> if errorsIs e FsErrNotExist then sessionMembers Os proc members names else return (Inl e)
          | Inr i \<Rightarrow>
              case belongsToOwnedSession proc i of
                Inl e \<Rightarrow> return (Inl e)
              | Inr member \<Rightarrow>
                  sessionMembers Os proc (if member then members @ [i] else members) names
        })"

definition ownedProcessGroupMembers ::
    "'o procOS \<Rightarrow> openVPNProcess \<Rightarrow> ('o, goerr + processIdentity list) state" where
  "ownedProcessGroupMembers Os proc = tryE (poReadDir Os ''/proc'') (sessionMembers Os proc [])"

definition ownedProcessGroupPresent :: "'o procOS \<Rightarrow> openVPNProcess \<Rightarrow> ('o, bool) state" where
  "ownedProcessGroupPresent Os proc = do {
     r \<leftarrow> ownedProcessGroupMembers Os proc;
     return (case r of Inl _ \<Rightarrow> True | Inr members \<Rightarrow> members \<noteq> [])
   }"

text \<open>A signal goes through a descriptor of the process, and only when the process that has the number after
  the descriptor was opened is still the one that was listed.\<close>

definition signalMember :: "'o procOS \<Rightarrow> signal \<Rightarrow> processIdentity \<Rightarrow> ('o, err) state" where
  "signalMember Os sig member = do {
     r \<leftarrow> poPidfdOpen Os (piPid member);
     case r of
       Inl e \<Rightarrow> return (if errorsIs e ESRCH then None else Some e)
     | Inr pidfd \<Rightarrow> do {
         current \<leftarrow> readProcessIdentity Os (piPid member);
         e \<leftarrow> (if current = Inr member then poPidfdSend Os pidfd sig else return None);
         _ \<leftarrow> poClose Os pidfd;
         return (if errIs e ESRCH then None else e)
       }
   }"

fun signalMembers :: "'o procOS \<Rightarrow> signal \<Rightarrow> err \<Rightarrow> processIdentity list \<Rightarrow> ('o, err) state" where
  "signalMembers Os sig result [] = return result"
| "signalMembers Os sig result (m # ms) = do {
     e \<leftarrow> signalMember Os sig m;
     signalMembers Os sig (if e = None then result else errorsJoin [result, e]) ms
   }"

definition signalOwnedProcessGroup :: "'o procOS \<Rightarrow> openVPNProcess \<Rightarrow> signal \<Rightarrow> ('o, err) state" where
  "signalOwnedProcessGroup Os proc sig =
     openE (ownedProcessGroupMembers Os proc) (signalMembers Os sig None)"

section \<open>What the goroutines of a process do\<close>

text \<open>The first half of \<open>wait\<close>, once the child has ended.\<close>

definition observeWait :: "'o openVPNOptions \<Rightarrow> nat \<Rightarrow> ('o vpnState, unit) state" where
  "observeWait V p = do {
     proc \<leftarrow> procAt p;
     if opExited proc then return () else do {
       r \<leftarrow> onOS (poEnded (voOS V) (opPid proc));
       case r of
         None \<Rightarrow> return ()
       | Some waitErr \<Rightarrow> do {
           _ \<leftarrow> onOS (poClose (voOS V) (opReader proc));
           updateProc p (\<lambda>x. x\<lparr>opWaitErr := waitErr, opExited := True,
             opUnexpected := opAccepted x \<and> \<not> opStopping x, opDone := True\<rparr>)
         }
     }
   }"

definition observeDrain :: "'o openVPNOptions \<Rightarrow> nat \<Rightarrow> ('o vpnState, unit) state" where
  "observeDrain V p = do {
     proc \<leftarrow> procAt p;
     if opDrained proc then return () else do {
       (chunks, ended) \<leftarrow> onOS (poReads (voOS V) (opReader proc));
       updateProc p (\<lambda>x. x\<lparr>opDrain := (let d = foldl (drainChunk (ieTables (voInspectorEnv V))) (opDrain x) chunks
           in if ended then drainEnd (ieTables (voInspectorEnv V)) d else d), opDrained := ended\<rparr>)
     }
   }"

definition processReady :: "openVPNProcess \<Rightarrow> bool" where
  "processReady proc = drReady (opDrain proc)"

section \<open>Stopping\<close>

definition processStopped :: "'o openVPNOptions \<Rightarrow> nat \<Rightarrow> ('o vpnState, bool) state" where
  "processStopped V p = do {
     observeWait V p;
     proc \<leftarrow> procAt p;
     if \<not> opDone proc then return False else do {
       present \<leftarrow> onOS (ownedProcessGroupPresent (voOS V) proc);
       return (\<not> present)
     }
   }"

fun waitForProcessStopped :: "'o openVPNOptions \<Rightarrow> nat \<Rightarrow> nat \<Rightarrow> ('o vpnState, bool) state" where
  "waitForProcessStopped V p 0 = do {
     stopped \<leftarrow> processStopped V p;
     if stopped then return True else processStopped V p
   }"
| "waitForProcessStopped V p (Suc looks) = do {
     stopped \<leftarrow> processStopped V p;
     if stopped then return True else waitForProcessStopped V p looks
   }"

definition releaseProcess :: "nat \<Rightarrow> ('o vpnState, err) state" where
  "releaseProcess p = do {
     modify (\<lambda>s. if vProc s = Some p then s\<lparr>vProc := None\<rparr> else s);
     return None
   }"

definition stopStages :: "(nat \<times> signal) list" where
  "stopStages = [(0, SIGINT), (1, SIGTERM), (2, SIGKILL)]"

fun stopStage :: "'o openVPNOptions \<Rightarrow> nat \<Rightarrow> err \<Rightarrow> (nat \<times> signal) list \<Rightarrow> ('o vpnState, err) state" where
  "stopStage V p signalErr [] = do {
     stopped \<leftarrow> processStopped V p;
     if stopped then releaseProcess p
     else return (Some (case signalErr of
         Some e \<Rightarrow> Wrapf ''stop OpenVPN process group'' e
       | None \<Rightarrow> ErrText ''OpenVPN process group was not absent and reaped before cleanup deadline''))
   }"
| "stopStage V p signalErr ((index, sig) # stages) = do {
     stopped \<leftarrow> processStopped V p;
     if stopped then releaseProcess p
     else do {
       proc \<leftarrow> procAt p;
       e \<leftarrow> onOS (signalOwnedProcessGroup (voOS V) proc sig);
       stopped \<leftarrow> waitForProcessStopped V p (voStopLooks V index);
       if stopped then releaseProcess p
       else stopStage V p (if signalErr = None then e else signalErr) stages
     }
   }"

definition stopProcess :: "'o openVPNOptions \<Rightarrow> nat \<Rightarrow> ('o vpnState, err) state" where
  "stopProcess V p = do {
     updateProc p (\<lambda>x. x\<lparr>opStopping := True\<rparr>);
     stopStage V p None stopStages
   }"

definition Deactivate :: "'o openVPNOptions \<Rightarrow> ('o vpnState, err) state" where
  "Deactivate V = do {
     proc \<leftarrow> gets vProc;
     case proc of None \<Rightarrow> return None | Some p \<Rightarrow> stopProcess V p
   }"

definition openVPN_Shutdown :: "'o openVPNOptions \<Rightarrow> ('o vpnState, err) state" where
  "openVPN_Shutdown V = Deactivate V"

section \<open>The command\<close>

definition worldWritable :: "32 word" where "worldWritable = 0x12"
definition executable :: "32 word" where "executable = 0x49"

definition fsType :: "fstat \<Rightarrow> 32 word" where
  "fsType st = and (stMode st) S_IFMT"

definition commandFileError :: "'o procOS \<Rightarrow> fstat \<Rightarrow> err" where
  "commandFileError Os st =
     (if fsType st \<noteq> S_IFREG \<or> and (stMode st) executable = 0
      then Some (ErrText ''must be a real executable file'')
      else if and (stMode st) worldWritable \<noteq> 0 then Some (ErrText ''must not be writable by group or world'')
      else if poEuid Os = 0 \<and> stUid st \<noteq> 0 then Some (ErrText ''must be owned by root'') else None)"

definition commandAncestorError :: "'o procOS \<Rightarrow> fstat \<Rightarrow> err" where
  "commandAncestorError Os st =
     (if fsType st \<noteq> S_IFDIR then Some (ErrText ''command ancestor must be a real directory'')
      else if and (stMode st) worldWritable \<noteq> 0
      then Some (ErrText ''command ancestor must not be writable by group or world'')
      else if poEuid Os = 0 \<and> stUid st \<noteq> 0 then Some (ErrText ''command ancestor must be owned by root'') else None)"

text \<open>The walk over the directories of the command ends at the root.  From a relative path the walk of the
  code would stay at \<open>.\<close> for ever; that is the second branch, which the constructor rules out.\<close>

function commandAncestors :: "'o procOS \<Rightarrow> string \<Rightarrow> ('o, err) state" where
  "commandAncestors Os ancestor =
     openE (poLstat Os ancestor) (\<lambda>info.
       thenE (return (commandAncestorError Os info))
         (if ancestor = ''/'' then return None
          else if pathDir ancestor = ancestor then return (Some (ErrText ''the walk stays here''))
          else commandAncestors Os (pathDir ancestor)))"
  by pat_completeness auto
termination
  by (relation "measure (\<lambda>(Os, ancestor). walkMeasure ancestor)") (auto intro: walk_decreases)

declare commandAncestors.simps [simp del]

definition validateOpenVPNCommand :: "'o procOS \<Rightarrow> string \<Rightarrow> ('o, err) state" where
  "validateOpenVPNCommand Os path =
     openE (poLstat Os path) (\<lambda>info.
       thenE (return (commandFileError Os info)) (commandAncestors Os (pathDir path)))"

definition defaultedOptions :: "'o openVPNOptions \<Rightarrow> 'o openVPNOptions" where
  "defaultedOptions V = V\<lparr>
     voReadyTimeout := orDefault (30 * second) (voReadyTimeout V),
     voInterruptWait := orDefault (3 * second) (voInterruptWait V),
     voTerminateWait := orDefault (2 * second) (voTerminateWait V),
     voKillWait := orDefault (2 * second) (voKillWait V)\<rparr>"

definition NewOpenVPNBackend ::
    "'o openVPNOptions \<Rightarrow> (string \<Rightarrow> ('o, err) state) option \<Rightarrow> ('o, goerr + 'o openVPNOptions) state" where
  "NewOpenVPNBackend V validateCommand =
     (if voCommand V = [] then return (Inl (ErrText ''OpenVPN command path is required''))
      else if \<not> hasPrefix (voCommand V) ''/'' then return (Inl (ErrText ''OpenVPN command path must be absolute''))
      else checkE (wrapErr ''validate OpenVPN command'' (case validateCommand of
               Some f \<Rightarrow> f (voCommand V)
             | None \<Rightarrow> validateOpenVPNCommand (voOS V) (voCommand V)))
        (return (Inr (defaultedOptions V))))"

section \<open>Starting\<close>

definition processResult :: "nat \<Rightarrow> ('o vpnState, waitError option) state" where
  "processResult p = gets (\<lambda>s. opWaitErr (vProcs s ! p))"

definition startFailure :: "'o openVPNOptions \<Rightarrow> nat \<Rightarrow> string \<Rightarrow> ('o vpnState, err) state" where
  "startFailure V p reason = do {
     cleanupErr \<leftarrow> stopProcess V p;
     waitErr \<leftarrow> processResult p;
     let text = (if waitErr = None then reason else reason @ '': '' @ safeProcessError waitErr);
     return (case cleanupErr of
         None \<Rightarrow> Some (ErrText text)
       | Some e \<Rightarrow> errorsJoin [Some (Sentinel ErrCleanupUnproved), Some (Wrapf text e)])
   }"

definition acceptProcess :: "'o openVPNOptions \<Rightarrow> nat \<Rightarrow> ('o vpnState, err) state" where
  "acceptProcess V p = do {
     observeWait V p;
     proc \<leftarrow> procAt p;
     if opExited proc then startFailure V p ''OpenVPN exited during readiness''
     else do {
       updateProc p (\<lambda>x. x\<lparr>opAccepted := True\<rparr>);
       modify (\<lambda>s. s\<lparr>vLastExitError := [], vUnexpectedExit := False\<rparr>);
       return None
     }
   }"

text \<open>The \<open>select\<close> on readiness, the end of the process, the timer and the context.\<close>

fun awaitReady :: "'o openVPNOptions \<Rightarrow> nat \<Rightarrow> nat \<Rightarrow> ('o vpnState, err) state" where
  "awaitReady V p 0 = startFailure V p (case voCanceled V of
     None \<Rightarrow> ''OpenVPN readiness timed out'' | Some reason \<Rightarrow> ''OpenVPN startup canceled: '' @ reason)"
| "awaitReady V p (Suc looks) = do {
     observeDrain V p;
     proc \<leftarrow> procAt p;
     if processReady proc then acceptProcess V p
     else do {
       observeWait V p;
       proc \<leftarrow> procAt p;
       if opDone proc then startFailure V p ''OpenVPN exited before readiness'' else awaitReady V p looks
     }
   }"

definition newProcess :: "int \<Rightarrow> processIdentity \<Rightarrow> fd \<Rightarrow> openVPNProcess" where
  "newProcess pid i reader = \<lparr>opPid = pid, opSessionID = piSessionID i, opLeaderStart = piStartTime i,
     opReader = reader, opDrain = drainStart, opDrained = False, opWaitErr = None, opExited = False,
     opDone = False, opStopping = False, opAccepted = False, opUnexpected = False\<rparr>"

definition spawnOf :: "'o openVPNOptions \<Rightarrow> string \<Rightarrow> string \<Rightarrow> fd \<Rightarrow> spawnRequest" where
  "spawnOf V profilePath providerDir writer =
     \<lparr>spCommand = voCommand V,
      spArgs = [''--config'', profilePath, ''--verb'', ''3'', ''--suppress-timestamps''],
      spDir = providerDir, spOutput = writer, spEnv = voEnv V\<rparr>"

text \<open>A child that is not the leader of its own group and session is killed and reaped at once.\<close>

definition abandonSpawn :: "'o procOS \<Rightarrow> int \<Rightarrow> fd \<Rightarrow> fd \<Rightarrow> ('o, unit) state" where
  "abandonSpawn Os pid reader writer = do {
     _ \<leftarrow> poKill Os (- pid) SIGKILL;
     _ \<leftarrow> poKill Os pid SIGKILL;
     _ \<leftarrow> poWait Os pid;
     _ \<leftarrow> poClose Os writer;
     _ \<leftarrow> poClose Os reader;
     return ()
   }"

definition spawnOwned ::
    "'o openVPNOptions \<Rightarrow> string \<Rightarrow> string \<Rightarrow> ('o, goerr + openVPNProcess) state" where
  "spawnOwned V profilePath providerDir =
     tryE (wrapE ''create OpenVPN diagnostic pipe'' (poPipe (voOS V))) (\<lambda>(reader, writer). do {
       r \<leftarrow> poSpawn (voOS V) (spawnOf V profilePath providerDir writer);
       case r of
         Inl e \<Rightarrow> do {
           _ \<leftarrow> poClose (voOS V) writer;
           _ \<leftarrow> poClose (voOS V) reader;
           return (Inl (Wrapf ''start OpenVPN'' e))
         }
       | Inr pid \<Rightarrow> do {
           identity \<leftarrow> voReadIdentity V pid;
           case identity of
             Inl e \<Rightarrow> do {
               abandonSpawn (voOS V) pid reader writer;
               return (Inl (Wrapf ''capture OpenVPN process identity'' e))
             }
           | Inr i \<Rightarrow>
               if piProcessGroup i \<noteq> pid \<or> piSessionID i \<noteq> pid then do {
                 abandonSpawn (voOS V) pid reader writer;
                 return (Inl (ErrText ''capture OpenVPN process identity: unexpected process group''))
               }
               else do {
                 _ \<leftarrow> poClose (voOS V) writer;
                 return (Inr (newProcess pid i reader))
               }
         }
     })"

definition Activate :: "'o openVPNOptions \<Rightarrow> string \<Rightarrow> string \<Rightarrow> ('o vpnState, err) state" where
  "Activate V profilePath providerDir =
     thenE (onOS (config_Inspect (voInspectorEnv V) (voInspector V) profilePath providerDir)) (do {
       owned \<leftarrow> gets vProc;
       if owned \<noteq> None then return (Some (ErrText ''an OpenVPN process is already owned''))
       else openE (onOS (spawnOwned V profilePath providerDir)) (\<lambda>proc. do {
         p \<leftarrow> gets (\<lambda>s. length (vProcs s));
         modify (\<lambda>s. s\<lparr>vProcs := vProcs s @ [proc], vProc := Some p\<rparr>);
         awaitReady V p (voReadyLooks V)
       })
     })"

section \<open>The state, and an exit nobody asked for\<close>

record openVPNProcessState =
  stRunning :: bool
  stReady :: bool
  stGroupPresent :: bool
  stUnexpectedExit :: bool
  stLastError :: string

definition stateOf :: "openVPNProcess \<Rightarrow> bool \<Rightarrow> openVPNProcessState" where
  "stateOf proc present =
     (let lastError = safeProcessError (opWaitErr proc)
      in \<lparr>stRunning = \<not> opExited proc, stReady = processReady proc \<and> \<not> opExited proc,
          stGroupPresent = present, stUnexpectedExit = opUnexpected proc,
          stLastError = (if opUnexpected proc \<and> lastError = [] then ''process exited unexpectedly''
                         else lastError)\<rparr>)"

definition process_State :: "'o openVPNOptions \<Rightarrow> ('o vpnState, openVPNProcessState) state" where
  "process_State V = do {
     owned \<leftarrow> gets vProc;
     case owned of
       None \<Rightarrow> gets (\<lambda>s. \<lparr>stRunning = False, stReady = False, stGroupPresent = False,
           stUnexpectedExit = vUnexpectedExit s, stLastError = vLastExitError s\<rparr>)
     | Some p \<Rightarrow> do {
         observeDrain V p;
         observeWait V p;
         proc \<leftarrow> procAt p;
         present \<leftarrow> onOS (ownedProcessGroupPresent (voOS V) proc);
         return (stateOf proc present)
       }
   }"

text \<open>The second half of \<open>wait\<close>: an exit that was not asked for is recorded, the rest of the session is
  stopped, and the handler is told whether that was proved.\<close>

definition waitUnexpected :: "'o openVPNOptions \<Rightarrow> nat \<Rightarrow> ('o vpnState, bool option) state" where
  "waitUnexpected V p = do {
     proc \<leftarrow> procAt p;
     if \<not> opUnexpected proc then return None
     else do {
       let safe = safeProcessError (opWaitErr proc);
       let message = (if safe = [] then ''process exited unexpectedly'' else safe);
       modify (\<lambda>s. s\<lparr>vLastExitError := message, vUnexpectedExit := True\<rparr>);
       exitHandler \<leftarrow> gets vExitHandler;
       backend_log (''OpenVPN process exited unexpectedly: '' @ message);
       cleanupErr \<leftarrow> stopProcess V p;
       (if cleanupErr = None then return () else backend_log ''OpenVPN unexpected-exit cleanup failed'');
       return (if exitHandler then Some (cleanupErr = None) else None)
     }
   }"

definition cleanupBudget :: "'o openVPNOptions \<Rightarrow> int" where
  "cleanupBudget V = voInterruptWait V + voTerminateWait V + voKillWait V + second"

definition setUnexpectedExitHandler :: "('o vpnState, unit) state" where
  "setUnexpectedExitHandler = modify (\<lambda>s. s\<lparr>vExitHandler := True\<rparr>)"

text \<open>\<open>probe\<close> is \<open>syscall.Kill\<close> with the null signal.\<close>

definition processGroupPresent :: "(int \<Rightarrow> ('o, err) state) \<Rightarrow> int \<Rightarrow> ('o, bool) state" where
  "processGroupPresent probe pid = do {
     e \<leftarrow> probe (- pid);
     return (e = None \<or> errIs e EPERM)
   }"

section \<open>The adapter\<close>

text \<open>\<open>internal/tunnel/openvpn_adapter.go\<close>: the interface of a backend over the process, with the profile it was
  started for.\<close>

definition noTunnelProfile :: tunnelProfile where
  "noTunnelProfile = \<lparr>tpID = [], tpProtocol = [], tpIdentifier = [], tpPath = [], tpWireGuardPublicKeySHA256 = []\<rparr>"

definition NewOpenVPNAdapter :: "'o openVPNOptions option \<Rightarrow> ('o vpnState, goerr + 'o openVPNOptions) state" where
  "NewOpenVPNAdapter backend =
     (case backend of
        None \<Rightarrow> return (Inl (ErrText ''OpenVPN backend is required''))
      | Some V \<Rightarrow> do { setUnexpectedExitHandler; return (Inr V) })"

definition SetUnexpectedExitHandler :: "bool \<Rightarrow> ('o vpnState, unit) state" where
  "SetUnexpectedExitHandler handler = modify (\<lambda>s. s\<lparr>vHandler := handler\<rparr>)"

definition adapter_Available :: "('o vpnState, err) state" where
  "adapter_Available = return None"

definition unsettled :: "openVPNProcessState \<Rightarrow> bool" where
  "unsettled st \<longleftrightarrow> stGroupPresent st \<and> (\<not> stRunning st \<or> \<not> stReady st)"

definition adapter_Observe ::
    "'o openVPNOptions \<Rightarrow> tunnelProfile list \<Rightarrow> ('o vpnState, goerr + observation list) state" where
  "adapter_Observe V ps = do {
     st \<leftarrow> process_State V;
     if unsettled st
     then return (Inl (Joined [Sentinel ErrObservationFailed,
       ErrText ''OpenVPN process is in an unsettled lifecycle state'']))
     else if \<not> stRunning st \<or> \<not> stReady st then return (Inr [])
     else do {
       current \<leftarrow> gets vCurrent;
       return (if tpID current = []
         then Inl (Joined [Sentinel ErrIdentityConflict,
           ErrText ''OpenVPN process is active without an owned profile identity''])
         else case find (\<lambda>p. tpID p = tpID current \<and> tpProtocol p = ProtocolOpenVPN) ps of
           Some p \<Rightarrow> Inr [\<lparr>obProfileID = tpID p, obProtocol = tpProtocol p, obIdentifier = tpIdentifier p\<rparr>]
         | None \<Rightarrow> Inl (Joined [Sentinel ErrIdentityConflict, ErrText ''OpenVPN process profile no longer exists'']))
     }
   }"

definition adapter_Start :: "'o openVPNOptions \<Rightarrow> tunnelProfile \<Rightarrow> ('o vpnState, err) state" where
  "adapter_Start V p =
     (if tpID p = [] \<or> tpProtocol p \<noteq> ProtocolOpenVPN \<or> tpPath p = []
      then return (Some (ErrText ''invalid OpenVPN profile''))
      else do {
        current \<leftarrow> gets vCurrent;
        if tpID current \<noteq> [] then return (Some (ErrText ''an OpenVPN profile is already owned''))
        else do {
          modify (\<lambda>s. s\<lparr>vCurrent := p\<rparr>);
          e \<leftarrow> Activate V (tpPath p) (pathDir (tpPath p));
          (if e \<noteq> None
           then modify (\<lambda>s. if tpPath (vCurrent s) = tpPath p then s\<lparr>vCurrent := noTunnelProfile\<rparr> else s)
           else return ());
          return e
        }
      })"

definition adapter_Stop :: "'o openVPNOptions \<Rightarrow> tunnelProfile \<Rightarrow> ('o vpnState, err) state" where
  "adapter_Stop V p = do {
     current \<leftarrow> gets vCurrent;
     if tpID current \<noteq> [] \<and> tpID current \<noteq> tpID p
     then return (Some (Joined [Sentinel ErrIdentityConflict, ErrText ''refusing to stop a different OpenVPN profile'']))
     else thenE (Deactivate V) (do {
       modify (\<lambda>s. s\<lparr>vCurrent := noTunnelProfile\<rparr>);
       return None
     })
   }"

definition adapter_Status :: "'o openVPNOptions \<Rightarrow> ('o vpnState, goerr + protocolStatus) state" where
  "adapter_Status V = do {
     st \<leftarrow> process_State V;
     return (Inr (stateOnly
       (if stRunning st \<and> stReady st then ''active''
        else if stRunning st then ''starting''
        else if stUnexpectedExit st \<or> stLastError st \<noteq> [] then ''failed''
        else ''inactive'')))
   }"

definition adapter_Shutdown :: "'o openVPNOptions \<Rightarrow> ('o vpnState, err) state" where
  "adapter_Shutdown V = do {
     e \<leftarrow> openVPN_Shutdown V;
     (if e = None then modify (\<lambda>s. s\<lparr>vCurrent := noTunnelProfile\<rparr>) else return ());
     return e
   }"

text \<open>What the handler of the manager is told, if it is told anything.\<close>

definition adapter_unexpectedExit :: "bool \<Rightarrow> ('o vpnState, unexpectedExit option) state" where
  "adapter_unexpectedExit cleanupProved = do {
     p \<leftarrow> gets vCurrent;
     modify (\<lambda>s. s\<lparr>vCurrent := noTunnelProfile\<rparr>);
     handler \<leftarrow> gets vHandler;
     return (if \<not> handler \<or> tpID p = [] then None
             else Some \<lparr>ueProfileID = tpID p, ueExecutionPath = tpPath p, ueCleanupProved = cleanupProved\<rparr>)
   }"

definition handleProcessExit :: "'o openVPNOptions \<Rightarrow> nat \<Rightarrow> ('o vpnState, unexpectedExit option) state" where
  "handleProcessExit V p = do {
     observeWait V p;
     r \<leftarrow> waitUnexpected V p;
     case r of None \<Rightarrow> return None | Some cleanupProved \<Rightarrow> adapter_unexpectedExit cleanupProved
   }"

text \<open>The backend the manager is given, on the machine of the manager.\<close>

definition openVPNAdapter :: "'o openVPNOptions \<Rightarrow> ('w \<times> 'o vpnState) backend" where
  "openVPNAdapter V = \<lparr>
     bkProtocol = ProtocolOpenVPN, bkExitSource = True,
     bkAvailable = zoom snd (\<lambda>n (w, _). (w, n)) adapter_Available,
     bkObserve = (\<lambda>ps. zoom snd (\<lambda>n (w, _). (w, n)) (adapter_Observe V ps)),
     bkStart = (\<lambda>p. zoom snd (\<lambda>n (w, _). (w, n)) (adapter_Start V p)),
     bkStop = (\<lambda>p. zoom snd (\<lambda>n (w, _). (w, n)) (adapter_Stop V p)),
     bkStatus = (\<lambda>_. zoom snd (\<lambda>n (w, _). (w, n)) (adapter_Status V)),
     bkShutdown = zoom snd (\<lambda>n (w, _). (w, n)) (adapter_Shutdown V)\<rparr>"

end
