(* ===== verification/OpenVPNSignals.thy ===== *)
theory OpenVPNSignals
  imports OpenVPNProcess
begin

text \<open>
  Whom the OpenVPN backend signals.  The calls of the operating system that matter are kept in a log behind
  its state; the theorem holds for any operating system, whatever happens to processes between two calls.
\<close>

datatype osEvent =
    FileRead string "goerr + string"
  | PidfdOpened int "goerr + fd"
  | Signalled fd signal

definition behind :: "('o, 'a) state \<Rightarrow> ('o \<times> osEvent list, 'a) state" where
  "behind m = zoom fst (\<lambda>x (_, log). (x, log)) m"

definition noting :: "('a \<Rightarrow> osEvent) \<Rightarrow> ('o, 'a) state \<Rightarrow> ('o \<times> osEvent list, 'a) state" where
  "noting ev m = do { r \<leftarrow> behind m; modify (\<lambda>(x, log). (x, log @ [ev r])); return r }"

definition watchedOS :: "'o procOS \<Rightarrow> ('o \<times> osEvent list) procOS" where
  "watchedOS Os = \<lparr>
     poReadDir = (\<lambda>d. behind (poReadDir Os d)),
     poReadFile = (\<lambda>f. noting (FileRead f) (poReadFile Os f)),
     poLstat = (\<lambda>f. behind (poLstat Os f)),
     poPidfdOpen = (\<lambda>pid. noting (PidfdOpened pid) (poPidfdOpen Os pid)),
     poPidfdSend = (\<lambda>fd sig. noting (\<lambda>_. Signalled fd sig) (poPidfdSend Os fd sig)),
     poClose = (\<lambda>fd. behind (poClose Os fd)),
     poPipe = behind (poPipe Os),
     poSpawn = (\<lambda>r. behind (poSpawn Os r)),
     poKill = (\<lambda>pid sig. behind (poKill Os pid sig)),
     poWait = (\<lambda>pid. behind (poWait Os pid)),
     poEnded = (\<lambda>pid. behind (poEnded Os pid)),
     poReads = (\<lambda>fd. behind (poReads Os fd)),
     poEuid = poEuid Os\<rparr>"

text \<open>A state of the log that grew from \<open>log\<close> by events of \<open>new\<close> with \<open>P\<close>.\<close>

lemma wp_behind: "(\<And>r o'. Q r (o', log)) \<Longrightarrow> wp (behind m) Q (x, log)"
  by (simp add: behind_def wp_zoom wp_any)

lemma wp_noting: "(\<And>r o'. Q r (o', log @ [ev r])) \<Longrightarrow> wp (noting ev m) Q (x, log)"
  unfolding noting_def wp_simps by (rule wp_behind) simp

section \<open>What justifies a signal\<close>

abbreviation statFile :: "int \<Rightarrow> string" where
  "statFile pid \<equiv> pathJoin [''/proc'', itoa pid, ''stat'']"

definition readAs :: "osEvent list \<Rightarrow> processIdentity \<Rightarrow> bool" where
  "readAs log i \<longleftrightarrow>
     (\<exists>data. FileRead (statFile (piPid i)) (Inr data) \<in> set log \<and> parseProcessStat (piPid i) data = Inr i)"

definition ownMember :: "openVPNProcess \<Rightarrow> processIdentity \<Rightarrow> bool" where
  "ownMember proc i \<longleftrightarrow> piSessionID i = opSessionID proc \<and>
     (piPid i = opPid proc \<longrightarrow> piStartTime i = opLeaderStart proc)"

definition justified :: "openVPNProcess \<Rightarrow> signal \<Rightarrow> osEvent list \<Rightarrow> bool" where
  "justified proc sig log \<longleftrightarrow> (\<forall>before after fd sig'. log = before @ Signalled fd sig' # after \<longrightarrow>
     sig' = sig \<and> (\<exists>earlier i data. ownMember proc i \<and> readAs earlier i \<and>
       before = earlier @ [PidfdOpened (piPid i) (Inr fd), FileRead (statFile (piPid i)) (Inr data)] \<and>
       parseProcessStat (piPid i) data = Inr i))"

definition silent :: "osEvent list \<Rightarrow> bool" where
  "silent log \<longleftrightarrow> (\<forall>fd sig. Signalled fd sig \<notin> set log)"

lemma justified_silent: "justified proc sig log \<Longrightarrow> silent new \<Longrightarrow> justified proc sig (log @ new)"
  unfolding justified_def
proof (intro allI impI, goal_cases)
  case (1 before after fd sig')
  have "Signalled fd sig' \<notin> set new" using 1(2) by (simp add: silent_def)
  with 1(3) obtain us where "log = before @ Signalled fd sig' # us"
    by (auto simp: append_eq_append_conv2 append_eq_Cons_conv)
  with 1(1) show ?case by blast
qed

lemma justified_send:
  assumes "justified proc sig log" "ownMember proc i" "readAs log i" "parseProcessStat (piPid i) data = Inr i"
  shows "justified proc sig (log @ [PidfdOpened (piPid i) (Inr fd), FileRead (statFile (piPid i)) (Inr data),
    Signalled fd sig])"
  unfolding justified_def
proof (intro allI impI, goal_cases)
  case (1 before after fd' sig')
  show ?case
  proof (cases after rule: rev_cases)
    case Nil
    with 1 have "before = log @ [PidfdOpened (piPid i) (Inr fd), FileRead (statFile (piPid i)) (Inr data)]"
      "fd' = fd" "sig' = sig" by auto
    with assms(2-4) show ?thesis by blast
  next
    case (snoc us u)
    with 1 have "log @ [PidfdOpened (piPid i) (Inr fd), FileRead (statFile (piPid i)) (Inr data)]
        = before @ Signalled fd' sig' # us" by simp
    moreover have "justified proc sig (log @ [PidfdOpened (piPid i) (Inr fd), FileRead (statFile (piPid i)) (Inr data)])"
      using justified_silent [OF assms(1)] by (simp add: silent_def)
    ultimately show ?thesis unfolding justified_def by blast
  qed
qed

lemma silent_append [simp]: "silent (xs @ ys) \<longleftrightarrow> silent xs \<and> silent ys"
  by (auto simp: silent_def)

lemma readAs_mono: "readAs log i \<Longrightarrow> readAs (log @ new) i"
  by (auto simp: readAs_def)

section \<open>The loops\<close>

lemma readIdentity_wp:
  assumes "\<And>r o' data. (\<And>i. r = Inr i \<Longrightarrow> \<exists>d. data = Inr d \<and> parseProcessStat pid d = Inr i) \<Longrightarrow>
    Q r (o', log @ [FileRead (statFile pid) data])"
  shows "wp (readProcessIdentity (watchedOS Os) pid) Q (x, log)"
  unfolding readProcessIdentity_def wp_tryE
proof (simp add: watchedOS_def, rule wp_noting, goal_cases)
  case (1 r o')
  show ?case by (cases r) (auto simp: wp_return intro!: assms)
qed

lemma parseProcessStat_pid: "parseProcessStat pid data = Inr i \<Longrightarrow> piPid i = pid"
  by (auto simp: parseProcessStat_def Let_def split: option.splits if_splits)

lemma sessionMembers_wp:
  "wp (sessionMembers (watchedOS Os) proc members names) (\<lambda>r (_, log'). \<exists>new. log' = log @ new \<and> silent new \<and>
     (\<forall>ms. r = Inr ms \<longrightarrow> (\<forall>i\<in>set ms. i \<in> set members \<or> ownMember proc i \<and> readAs new i))) (x, log)"
proof (induction names arbitrary: members x log)
  case Nil
  then show ?case by (simp add: wp_return silent_def)
next
  case (Cons n names members x log)
  show ?case
  proof (cases "parseInt64 n")
    case None
    then show ?thesis using Cons.IH by simp
  next
    case (Some pid)
    let ?Q = "\<lambda>r (_, log'). \<exists>new. log' = log @ new \<and> silent new \<and>
      (\<forall>ms. r = Inr ms \<longrightarrow> (\<forall>i\<in>set ms. i \<in> set members \<or> ownMember proc i \<and> readAs new i))"
    show ?thesis unfolding sessionMembers.simps Some option.case wp_bind
    proof (rule readIdentity_wp, goal_cases)
      case (1 r o' data)
      let ?ev = "FileRead (statFile pid) data"
      have later: "wp (sessionMembers (watchedOS Os) proc members' names) ?Q (o', log @ [?ev])"
        if "\<And>i. i \<in> set members' \<Longrightarrow> i \<in> set members \<or> ownMember proc i \<and> readAs [?ev] i" for members'
      proof (rule wp_mono [OF Cons.IH [where members = members' and x = o' and log = "log @ [?ev]"]], goal_cases)
        case (1 r s)
        then obtain u log' new where "s = (u, log')" "log' = log @ [?ev] @ new" "silent new"
          "\<forall>ms. r = Inr ms \<longrightarrow> (\<forall>i\<in>set ms. i \<in> set members' \<or> ownMember proc i \<and> readAs new i)"
          by (cases s) auto
        then show ?case using that by (auto simp: silent_def readAs_def intro!: exI [of _ "?ev # new"]) blast+
      qed
      show ?case
      proof (cases r)
        case (Inl e)
        then show ?thesis using later [of members]
          by (auto simp: wp_return silent_def intro: exI [of _ "[?ev]"])
      next
        case (Inr i)
        with 1 obtain d where d: "data = Inr d" "parseProcessStat pid d = Inr i" by blast
        then have pid: "piPid i = pid" by (simp add: parseProcessStat_pid)
        have own: "ownMember proc i" "readAs [?ev] i" if "belongsToOwnedSession proc i = Inr True"
          using that d pid by (auto simp: belongsToOwnedSession_def ownMember_def readAs_def split: if_splits)
        show ?thesis
          using later [of members] later [of "members @ [i]"] own
          by (auto simp: Inr wp_return silent_def intro: exI [of _ "[?ev]"] split: sum.split)
      qed
    qed
  qed
qed

lemma signalMember_wp:
  assumes "justified proc sig log" "ownMember proc i" "readAs log i"
  shows "wp (signalMember (watchedOS Os) sig i) (\<lambda>_ (_, log'). justified proc sig log' \<and> (\<exists>new. log' = log @ new)) (x, log)"
  unfolding signalMember_def wp_bind
proof (simp add: watchedOS_def, rule wp_noting, goal_cases)
  case (1 r o')
  let ?open = "PidfdOpened (piPid i) r"
  have send: "poPidfdSend (watchedOS Os) fd s = noting (\<lambda>_. Signalled fd s) (poPidfdSend Os fd s)" for fd s
    by (simp add: watchedOS_def)
  have quietly: "justified proc sig (log @ new)" if "silent new" for new
    using justified_silent [OF assms(1) that] .
  show ?case
  proof (cases r)
    case (Inl e)
    then show ?thesis using quietly [of "[?open]"] by (simp add: wp_return silent_def)
  next
    case (Inr pidfd)
    show ?thesis unfolding Inr sum.case wp_bind watchedOS_def [symmetric]
    proof (rule readIdentity_wp, goal_cases)
      case (1 current o' data)
      let ?read = "FileRead (statFile (piPid i)) data"
      have closing: "wp (poClose (watchedOS Os) pidfd) (\<lambda>_. wp (return a) (\<lambda>_ (_, log').
          justified proc sig log' \<and> (\<exists>new. log' = log @ new))) (y, log @ new)"
        if "justified proc sig (log @ new)" for a y new
        using that by (simp add: watchedOS_def wp_return) (rule wp_behind, auto)
      show ?case
      proof (cases "current = Inr i")
        case False
        then show ?thesis
          using closing [of "[?open, ?read]"] quietly [of "[?open, ?read]"]
          by (simp add: wp_return Inr silent_def)
      next
        case True
        with 1 obtain d where "data = Inr d" "parseProcessStat (piPid i) d = Inr i" by blast
        then have "justified proc sig (log @ [?open, ?read, Signalled pidfd sig])"
          using justified_send [OF assms] by (simp add: Inr)
        note closed = closing [OF this]
        have "wp (poPidfdSend (watchedOS Os) pidfd sig) (\<lambda>e. wp (poClose (watchedOS Os) pidfd)
            (\<lambda>_. wp (return (if errIs e ESRCH then None else e)) (\<lambda>_ (_, log').
              justified proc sig log' \<and> (\<exists>new. log' = log @ new)))) (o', log @ [?open, ?read])"
          unfolding send by (intro wp_noting) (simp only: append_assoc append.simps, rule closed)
        then show ?thesis using True by (simp add: Inr)
      qed
    qed
  qed
qed

lemma signalMembers_wp:
  "justified proc sig log \<Longrightarrow> \<forall>i\<in>set ms. ownMember proc i \<and> readAs log i \<Longrightarrow>
   wp (signalMembers (watchedOS Os) sig e ms) (\<lambda>_ (_, log'). justified proc sig log') (x, log)"
proof (induction ms arbitrary: e x log)
  case Nil
  then show ?case by (simp add: wp_return)
next
  case (Cons i ms e x log)
  show ?case unfolding signalMembers.simps wp_bind
  proof (rule wp_mono [OF signalMember_wp [OF Cons.prems(1)]], goal_cases)
    case (3 r s)
    then obtain u new where s: "s = (u, log @ new)" "justified proc sig (log @ new)" by (cases s) auto
    have "\<forall>i\<in>set ms. ownMember proc i \<and> readAs (log @ new) i" using Cons.prems(2) readAs_mono by auto
    from Cons.IH [OF s(2) this] show ?case unfolding s(1) .
  qed (use Cons.prems(2) in auto)
qed


end
