(* ===== verification/OpenVPNSession.thy ===== *)
theory OpenVPNSession
  imports OpenVPNProcess
begin

text \<open>
  The session of a process: \<open>members\<close> is the set of the living processes of the sessions this program has
  started; the laws of the operating system say that only a spawn adds to it, that a listing of \<open>/proc\<close> shows
  all of it, and that a process that is there can be read.  A process that is said to be stopped has no
  member of its session left.
\<close>

section \<open>The operating system\<close>

definition quietCall :: "('o \<Rightarrow> processIdentity set) \<Rightarrow> ('o, 'a) state \<Rightarrow> bool" where
  "quietCall members m \<longleftrightarrow> (\<forall>U. keeps (\<lambda>x. members x \<subseteq> U) m)"

named_theorems quiet_intros "introduction rules for quiet calls"

lemma quietCallD: "quietCall members m \<Longrightarrow> keeps (\<lambda>x. members x \<subseteq> U) m"
  by (simp add: quietCall_def)

lemma quietCall_return [quiet_intros]: "quietCall members (return a)"
  by (simp add: quietCall_def keeps_return)

lemma quietCall_bind [quiet_intros]:
  "quietCall members m \<Longrightarrow> (\<And>a. quietCall members (f a)) \<Longrightarrow> quietCall members (State_Monad.bind m f)"
  by (simp add: quietCall_def keeps_bind)

lemma quietCall_if [quiet_intros]:
  "(b \<Longrightarrow> quietCall members m) \<Longrightarrow> (\<not> b \<Longrightarrow> quietCall members n) \<Longrightarrow> quietCall members (if b then m else n)"
  by simp

lemma quietCall_option [quiet_intros]:
  "quietCall members m \<Longrightarrow> (\<And>y. x = Some y \<Longrightarrow> quietCall members (f y)) \<Longrightarrow>
   quietCall members (case x of None \<Rightarrow> m | Some y \<Rightarrow> f y)"
  by (cases x) auto

lemma quietCall_sum [quiet_intros]:
  "(\<And>y. quietCall members (f y)) \<Longrightarrow> (\<And>z. quietCall members (g z)) \<Longrightarrow>
   quietCall members (case x of Inl y \<Rightarrow> f y | Inr z \<Rightarrow> g z)"
  by (cases x) auto

lemma quietCall_prod [quiet_intros]:
  "(\<And>y z. quietCall members (f y z)) \<Longrightarrow> quietCall members (case x of (y, z) \<Rightarrow> f y z)"
  by (cases x) auto

lemma quietCall_list [quiet_intros]:
  "quietCall members m \<Longrightarrow> (\<And>y ys. quietCall members (f y ys)) \<Longrightarrow>
   quietCall members (case x of [] \<Rightarrow> m | y # ys \<Rightarrow> f y ys)"
  by (cases x) auto

lemma quietCall_let [quiet_intros]: "quietCall members (f e) \<Longrightarrow> quietCall members (let x = e in f x)"
  by simp

lemma quietCall_effects [quiet_intros]:
  "quietCall members m \<Longrightarrow> (\<And>a. quietCall members (f a)) \<Longrightarrow> quietCall members (openE m f)"
  "quietCall members m \<Longrightarrow> (\<And>a. quietCall members (g a)) \<Longrightarrow> quietCall members (tryE m g)"
  "quietCall members n \<Longrightarrow> quietCall members k \<Longrightarrow> quietCall members (thenE n k)"
  "quietCall members n \<Longrightarrow> quietCall members (wrapErr msg n)"
  "quietCall members m \<Longrightarrow> quietCall members (wrapE msg m)"
  "quietCall members d \<Longrightarrow> quietCall members l \<Longrightarrow> quietCall members (deferE d l)"
  by (simp_all add: quietCall_def keeps_intros)

definition quietSystem :: "'o openVPNOptions \<Rightarrow> ('o \<Rightarrow> processIdentity set) \<Rightarrow> bool" where
  "quietSystem V members \<longleftrightarrow>
     (let Os = voOS V; K = ieUnix (voInspectorEnv V) in
      (\<forall>d. quietCall members (poReadDir Os d)) \<and> (\<forall>f. quietCall members (poReadFile Os f)) \<and>
      (\<forall>pid. quietCall members (poPidfdOpen Os pid)) \<and> (\<forall>fd sig. quietCall members (poPidfdSend Os fd sig)) \<and>
      (\<forall>fd. quietCall members (poClose Os fd)) \<and> quietCall members (poPipe Os) \<and>
      (\<forall>pid. quietCall members (poEnded Os pid)) \<and> (\<forall>fd. quietCall members (poReads Os fd)) \<and>
      (\<forall>pid. quietCall members (voReadIdentity V pid)) \<and> quietCall members (uGetwd K) \<and>
      (\<forall>p fl. quietCall members (uOpen K p fl)) \<and> (\<forall>fd. quietCall members (uFstat K fd)) \<and>
      (\<forall>fd. quietCall members (uClose K fd)) \<and>
      (\<forall>fd n. quietCall members (ieReadStream (voInspectorEnv V) fd n)) \<and>
      (\<forall>hook p. ciValidateFile (voInspector V) = Some hook \<longrightarrow> quietCall members (hook p)))"

definition shownMembers :: "'o openVPNOptions \<Rightarrow> ('o \<Rightarrow> processIdentity set) \<Rightarrow> bool" where
  "shownMembers V members \<longleftrightarrow>
     (\<forall>x. wp (poReadDir (voOS V) ''/proc'') (\<lambda>r y. \<forall>names. r = Inr names \<longrightarrow>
        (\<forall>i\<in>members y. itoa (piPid i) \<in> set names)) x) \<and>
     (\<forall>pid x. wp (poReadFile (voOS V) (pathJoin [''/proc'', itoa pid, ''stat''])) (\<lambda>r y.
        \<forall>i\<in>members y. piPid i = pid \<longrightarrow>
          (case r of Inl e \<Rightarrow> \<not> errorsIs e FsErrNotExist | Inr data \<Rightarrow> parseProcessStat pid data = Inr i)) x) \<and>
     (\<forall>x. \<forall>i\<in>members x. 0 \<le> piPid i \<and> piPid i < 2 ^ 31)"

text \<open>A spawn starts a session of its own or nothing; a child that is killed with its group right after its
  spawn, and waited for, is gone.\<close>

definition spawnLaws :: "'o openVPNOptions \<Rightarrow> ('o \<Rightarrow> processIdentity set) \<Rightarrow> bool" where
  "spawnLaws V members \<longleftrightarrow>
     (\<forall>req x. members x = {} \<longrightarrow> wp (poSpawn (voOS V) req) (\<lambda>r y.
        case r of Inl _ \<Rightarrow> members y = {} | Inr pid \<Rightarrow> \<forall>i\<in>members y. piSessionID i = pid) x) \<and>
     (\<forall>pid reader writer x. (\<forall>i\<in>members x. piSessionID i = pid) \<longrightarrow>
        wp (abandonSpawn (voOS V) pid reader writer) (\<lambda>_ y. members y = {}) x)"

definition systemLaws :: "'o openVPNOptions \<Rightarrow> ('o \<Rightarrow> processIdentity set) \<Rightarrow> bool" where
  "systemLaws V members \<longleftrightarrow> quietSystem V members \<and> shownMembers V members \<and> spawnLaws V members"

lemma quiet_calls:
  assumes "quietSystem V members"
  shows "quietCall members (poReadDir (voOS V) d)" "quietCall members (poReadFile (voOS V) f)"
    "quietCall members (poPidfdOpen (voOS V) pid)" "quietCall members (poPidfdSend (voOS V) fd sig)"
    "quietCall members (poClose (voOS V) fd)" "quietCall members (poPipe (voOS V))"
    "quietCall members (poEnded (voOS V) pid)" "quietCall members (poReads (voOS V) fd)"
    "quietCall members (voReadIdentity V pid)" "quietCall members (uGetwd (ieUnix (voInspectorEnv V)))"
    "quietCall members (uOpen (ieUnix (voInspectorEnv V)) p fl)"
    "quietCall members (uFstat (ieUnix (voInspectorEnv V)) fd)"
    "quietCall members (uClose (ieUnix (voInspectorEnv V)) fd)"
    "quietCall members (ieReadStream (voInspectorEnv V) fd n)"
  using assms by (simp_all add: quietSystem_def Let_def)

section \<open>The inspection and the listing add no process\<close>

lemma quiet_hook:
  "quietSystem V members \<Longrightarrow> quietCall members (runHook (ciValidateFile (voInspector V)) p)"
  by (cases "ciValidateFile (voInspector V)") (auto simp: runHook_def quietSystem_def Let_def quiet_intros)

lemma quiet_validate:
  assumes "quietSystem V members"
  shows "quietCall members (validatePrivateFileDescriptor (voInspectorEnv V) fd)"
    "quietCall members (validatePrivateRegularFile (voInspectorEnv V) p)"
    "quietCall members (validatePrivateDirectory (voInspectorEnv V) p)"
  unfolding validatePrivateFileDescriptor_def validatePrivateRegularFile_def validatePrivateDirectory_def
    openNoFollow_def
  by (intro quiet_intros quiet_calls [OF assms])+

lemma quiet_parents:
  "quietSystem V members \<Longrightarrow> quietCall members (validateParents (voInspectorEnv V) root directory)"
proof (induction "voInspectorEnv V" root directory rule: validateParents.induct)
  case (1 root directory)
  then show ?case
    by (subst validateParents.simps) (auto intro!: quiet_intros quiet_validate)
qed

lemma quiet_logicalLine:
  assumes "quietSystem V members"
  shows "quietCall members (inspectLogicalLine (voInspectorEnv V) (voInspector V) dir line)"
  unfolding inspectLogicalLine_def inspectSecretFile_def validateConfinedPrivateFile_def Let_def
  by (intro quiet_intros quiet_validate [OF assms] quiet_parents [OF assms] quiet_hook [OF assms])

lemma quiet_lines:
  assumes "quietSystem V members"
  shows "quietCall members (inspectLines (voInspectorEnv V) (voInspector V) dir limit e acc seen ls)"
proof (induction ls arbitrary: acc seen)
  case (Cons l ls)
  then show ?case unfolding inspectLines.simps Let_def
    by (intro quiet_intros quiet_logicalLine [OF assms])
qed (simp add: quiet_intros)

lemma quiet_Inspect:
  assumes "quietSystem V members"
  shows "quietCall members (config_Inspect (voInspectorEnv V) (voInspector V) path dir)"
  unfolding config_Inspect_def inspectOpened_def absPath_def openNoFollow_def
  by (intro quiet_intros quiet_validate [OF assms] quiet_lines [OF assms] quiet_hook [OF assms]
      quiet_calls [OF assms])

lemma quiet_identity:
  "quietSystem V members \<Longrightarrow> quietCall members (readProcessIdentity (voOS V) pid)"
  unfolding readProcessIdentity_def by (intro quiet_intros quiet_calls)

lemma quiet_sessionMembers:
  assumes "quietSystem V members"
  shows "quietCall members (sessionMembers (voOS V) proc ms names)"
proof (induction names arbitrary: ms)
  case (Cons n names)
  then show ?case unfolding sessionMembers.simps by (intro quiet_intros quiet_identity [OF assms])
qed (simp add: quiet_intros)

lemma quiet_listing:
  assumes "quietSystem V members"
  shows "quietCall members (ownedProcessGroupMembers (voOS V) proc)"
    "quietCall members (ownedProcessGroupPresent (voOS V) proc)"
  unfolding ownedProcessGroupMembers_def ownedProcessGroupPresent_def
  by (intro quiet_intros quiet_sessionMembers [OF assms] quiet_calls [OF assms])+

lemma quiet_signalMembers:
  assumes "quietSystem V members"
  shows "quietCall members (signalMembers (voOS V) sig e ms)"
proof (induction ms arbitrary: e)
  case (Cons m ms)
  then show ?case unfolding signalMembers.simps signalMember_def
    by (intro quiet_intros quiet_identity [OF assms] quiet_calls [OF assms])
qed (simp add: quiet_intros)

lemma quiet_signals:
  assumes "quietSystem V members"
  shows "quietCall members (signalOwnedProcessGroup (voOS V) proc sig)"
  unfolding signalOwnedProcessGroup_def by (intro quiet_intros quiet_listing [OF assms] quiet_signalMembers [OF assms])

section \<open>A listing misses no member\<close>

lemma parseInt64_itoa: "0 \<le> n \<Longrightarrow> n < 2 ^ 31 \<Longrightarrow> parseInt64 (itoa n) = Some n"
proof -
  assume n: "0 \<le> n" "n < 2 ^ 31"
  have d: "itoaNat (nat n) \<noteq> []" "list_all isDigit (itoaNat (nat n))" "decimal (itoaNat (nat n)) = nat n"
    using itoaNat_digits by auto
  then obtain c cs where c: "itoaNat (nat n) = c # cs" by (cases "itoaNat (nat n)") auto
  then have "isDigit c" using d(2) by simp
  then have "c \<noteq> CHR ''-''" "c \<noteq> CHR ''+''" by (auto simp: isDigit_def)
  then have "parseInt64 (c # cs) = (if list_all isDigit (c # cs) \<and> decimal (c # cs) < 2 ^ 63
      then Some (int (decimal (c # cs))) else None)"
    unfolding parseInt64_def by (cases c) (auto simp del: list.pred_inject split: bool.splits)
  with n d c show ?thesis by (simp add: itoa_def)
qed

lemma wp_quiet:
  assumes "quietCall members m" "wp m Q x"
  shows "wp m (\<lambda>a y. Q a y \<and> members y \<subseteq> members x) x"
  using wp_conj [OF assms(2) keepsD [OF quietCallD [OF assms(1)]]] by simp

lemma sessionMembers_shows:
  assumes "quietSystem V members" "shownMembers V members"
  shows "wp (sessionMembers (voOS V) proc ms names) (\<lambda>r y. \<forall>ms'. r = Inr ms' \<longrightarrow> set ms \<subseteq> set ms' \<and>
    (\<forall>i\<in>members y. itoa (piPid i) \<in> set names \<longrightarrow> piSessionID i = opSessionID proc \<longrightarrow> i \<in> set ms')) x"
proof (induction names arbitrary: ms x)
  case Nil
  then show ?case by (simp add: wp_return)
next
  case (Cons n names ms x)
  let ?Q = "\<lambda>r y. \<forall>ms'. r = Inr ms' \<longrightarrow> set ms \<subseteq> set ms' \<and>
    (\<forall>i\<in>members y. itoa (piPid i) \<in> set (n # names) \<longrightarrow> piSessionID i = opSessionID proc \<longrightarrow> i \<in> set ms')"
  have pids: "\<And>y i. i \<in> members y \<Longrightarrow> 0 \<le> piPid i \<and> piPid i < 2 ^ 31"
    using assms(2) by (auto simp: shownMembers_def)
  have rest: "wp (sessionMembers (voOS V) proc ms' names) ?Q y"
    if "set ms \<subseteq> set ms'"
      "\<And>i. i \<in> members y \<Longrightarrow> itoa (piPid i) = n \<Longrightarrow> piSessionID i = opSessionID proc \<Longrightarrow> i \<in> set ms'" for ms' y
    by (rule wp_mono [OF wp_quiet [OF quiet_sessionMembers [OF assms(1)] Cons.IH]]) (use that in fastforce)
  show ?case
  proof (cases "parseInt64 n")
    case None
    then have "\<And>y i. i \<in> members y \<Longrightarrow> itoa (piPid i) \<noteq> n" using pids parseInt64_itoa by fastforce
    then show ?thesis using rest [of ms] None by simp
  next
    case (Some pid)
    then have same: "\<And>y i. i \<in> members y \<Longrightarrow> itoa (piPid i) = n \<Longrightarrow> piPid i = pid"
      using pids parseInt64_itoa by fastforce
    have read: "wp (readProcessIdentity (voOS V) pid) (\<lambda>r y. \<forall>i\<in>members y. piPid i = pid \<longrightarrow>
        (case r of Inl e \<Rightarrow> \<not> errorsIs e FsErrNotExist \<or> False | Inr j \<Rightarrow> j = i)) x"
    proof -
      have "wp (poReadFile (voOS V) (pathJoin [''/proc'', itoa pid, ''stat''])) (\<lambda>r y.
        \<forall>i\<in>members y. piPid i = pid \<longrightarrow>
          (case r of Inl e \<Rightarrow> \<not> errorsIs e FsErrNotExist | Inr data \<Rightarrow> parseProcessStat pid data = Inr i)) x"
        using assms(2) unfolding shownMembers_def by blast
      then show ?thesis unfolding readProcessIdentity_def wp_tryE
        by (rule wp_mono) (auto split: sum.splits simp: wp_return)
    qed
    show ?thesis unfolding sessionMembers.simps Some option.case wp_bind
    proof (rule wp_mono [OF read], goal_cases)
      case (1 r y)
      show ?case
      proof (cases r)
        case (Inl e)
        have "wp (sessionMembers (voOS V) proc ms names) ?Q y" if "errorsIs e FsErrNotExist"
          by (rule rest) (use 1 same Inl that in auto)
        then show ?thesis unfolding Inl sum.case by (simp add: wp_if wp_return)
      next
        case (Inr j)
        then have "\<And>i. i \<in> members y \<Longrightarrow> itoa (piPid i) = n \<Longrightarrow> i = j" using 1 same by fastforce
        note only = this
        show ?thesis
        proof (cases "belongsToOwnedSession proc j")
          case (Inr member)
          then have "member = (piSessionID j = opSessionID proc)"
            by (auto simp: belongsToOwnedSession_def split: if_splits)
          then have "wp (sessionMembers (voOS V) proc (if member then ms @ [j] else ms) names) ?Q y"
            by (intro rest) (use only in auto)
          then show ?thesis by (simp add: \<open>r = Inr j\<close> Inr)
        qed (simp add: \<open>r = Inr j\<close> wp_return)
      qed
    qed
  qed
qed

definition sessionGone :: "('o \<Rightarrow> processIdentity set) \<Rightarrow> int \<Rightarrow> 'o \<Rightarrow> bool" where
  "sessionGone members session x \<longleftrightarrow> (\<forall>i\<in>members x. piSessionID i \<noteq> session)"

lemma absent_gone:
  assumes "quietSystem V members" "shownMembers V members"
  shows "wp (ownedProcessGroupPresent (voOS V) proc)
    (\<lambda>r y. members y \<subseteq> members x \<and> (\<not> r \<longrightarrow> sessionGone members (opSessionID proc) y)) x"
proof -
  have names: "wp (poReadDir (voOS V) ''/proc'') (\<lambda>r y. \<forall>names. r = Inr names \<longrightarrow>
        (\<forall>i\<in>members y. itoa (piPid i) \<in> set names)) x"
    using assms(2) unfolding shownMembers_def by blast
  have "wp (ownedProcessGroupPresent (voOS V) proc) (\<lambda>r y. \<not> r \<longrightarrow> sessionGone members (opSessionID proc) y) x"
    unfolding ownedProcessGroupPresent_def ownedProcessGroupMembers_def wp_bind wp_tryE
  proof (rule wp_mono [OF names], goal_cases)
    case (1 r y)
    show ?case
    proof (cases r)
      case (Inr names)
      show ?thesis unfolding Inr sum.case
        by (rule wp_mono [OF wp_quiet [OF quiet_sessionMembers [OF assms(1)] sessionMembers_shows [OF assms]]])
           (use 1 Inr in \<open>auto simp: wp_return sessionGone_def split: sum.splits\<close>)
    qed (simp add: wp_return)
  qed
  from wp_quiet [OF quiet_listing(2) [OF assms(1)] this] show ?thesis
    by (rule wp_mono) auto
qed

section \<open>What changes and what does not\<close>

definition frame :: "'o vpnState \<Rightarrow> nat option \<times> int list \<times> tunnelProfile" where
  "frame n = (vProc n, map opSessionID (vProcs n), vCurrent n)"

definition settles :: "('o \<Rightarrow> processIdentity set) \<Rightarrow> 'o vpnState \<Rightarrow> 'o vpnState \<Rightarrow> bool" where
  "settles members n n' \<longleftrightarrow> frame n' = frame n \<and> members (vOS n') \<subseteq> members (vOS n)"

definition still :: "('o \<Rightarrow> processIdentity set) \<Rightarrow> ('o vpnState, 'a) state \<Rightarrow> bool" where
  "still members m \<longleftrightarrow> (\<forall>n. wp m (\<lambda>_ n'. settles members n n') n)"

named_theorems still_intros "introduction rules for computations that only let processes end"

lemma settles_refl [simp]: "settles members n n"
  by (simp add: settles_def)

lemma settles_trans: "settles members n k \<Longrightarrow> settles members k l \<Longrightarrow> settles members n l"
  by (auto simp: settles_def)

lemma settles_session:
  "settles members n n' \<Longrightarrow> p < length (vProcs n) \<Longrightarrow>
   p < length (vProcs n') \<and> opSessionID (vProcs n' ! p) = opSessionID (vProcs n ! p)"
  unfolding settles_def frame_def by (metis length_map nth_map prod.inject)

lemma still_return [still_intros]: "still members (return a)"
  by (simp add: still_def wp_return)

lemma still_bind [still_intros]:
  "still members m \<Longrightarrow> (\<And>a. still members (f a)) \<Longrightarrow> still members (State_Monad.bind m f)"
  unfolding still_def wp_bind by (blast intro: wp_mono settles_trans)

lemma still_if [still_intros]:
  "(b \<Longrightarrow> still members m) \<Longrightarrow> (\<not> b \<Longrightarrow> still members k) \<Longrightarrow> still members (if b then m else k)"
  by simp

lemma still_option [still_intros]:
  "still members m \<Longrightarrow> (\<And>y. still members (f y)) \<Longrightarrow> still members (case x of None \<Rightarrow> m | Some y \<Rightarrow> f y)"
  by (cases x) auto

lemma still_prod [still_intros]:
  "(\<And>y z. still members (f y z)) \<Longrightarrow> still members (case x of (y, z) \<Rightarrow> f y z)"
  by (cases x) auto

lemma still_gets [still_intros]: "still members (gets f)"
  by (simp add: still_def wp_gets)

lemma still_onOS [still_intros]: "quietCall members m \<Longrightarrow> still members (onOS m)"
  unfolding still_def onOS_def wp_zoom
proof (intro allI)
  fix n :: "'a vpnState"
  assume "quietCall members m"
  from keepsD [OF quietCallD [OF this], of "vOS n" "members (vOS n)"]
  have "wp m (\<lambda>_ y. members y \<subseteq> members (vOS n)) (vOS n)" by simp
  then show "wp m (\<lambda>a t. settles members n (n\<lparr>vOS := t\<rparr>)) (vOS n)"
    by (rule wp_mono) (simp add: settles_def frame_def)
qed

lemma map_session_update:
  "(\<And>x. opSessionID (f x) = opSessionID x) \<Longrightarrow> map opSessionID (xs[p := f (xs ! p)]) = map opSessionID xs"
  by (rule nth_equalityI) (simp, simp, metis nth_list_update_eq nth_list_update_neq)

lemma still_updateProc [still_intros]:
  "(\<And>x. opSessionID (f x) = opSessionID x) \<Longrightarrow> still members (updateProc p f)"
  by (simp add: still_def updateProc_def wp_modify settles_def frame_def map_session_update)

lemma still_procAt [still_intros]: "still members (procAt p)"
  unfolding procAt_def by (rule still_gets)

lemma still_modify: "(\<And>n. frame (f n) = frame n \<and> vOS (f n) = vOS n) \<Longrightarrow> still members (modify f)"
  by (simp add: still_def wp_modify settles_def)

lemma still_log [still_intros]: "still members (backend_log message)"
  unfolding backend_log_def by (rule still_modify) (simp add: frame_def)

lemma still_observe [still_intros]:
  assumes "quietSystem V members"
  shows "still members (observeWait V p)" "still members (observeDrain V p)"
  unfolding observeWait_def observeDrain_def
  by (intro still_intros quiet_calls [OF assms]; simp)+

lemma wp_still:
  assumes "still members m" "wp m Q n"
  shows "wp m (\<lambda>a k. Q a k \<and> settles members n k) n"
  using wp_conj [OF assms(2)] assms(1) unfolding still_def by blast

section \<open>Stopping\<close>

definition goneAt :: "('o \<Rightarrow> processIdentity set) \<Rightarrow> nat \<Rightarrow> 'o vpnState \<Rightarrow> bool" where
  "goneAt members p n \<longleftrightarrow> sessionGone members (opSessionID (vProcs n ! p)) (vOS n)"

lemma processStopped_wp:
  assumes "quietSystem V members" "shownMembers V members" "p < length (vProcs n)"
  shows "wp (processStopped V p) (\<lambda>r k. settles members n k \<and> (r \<longrightarrow> goneAt members p k)) n"
proof -
  have "still members (processStopped V p)"
    unfolding processStopped_def by (intro still_intros quiet_listing [OF assms(1)] assms(1))
  moreover have "wp (processStopped V p) (\<lambda>r k. r \<longrightarrow> goneAt members p k) n"
    unfolding processStopped_def procAt_def onOS_def wp_simps
    by (rule wp_any) (auto intro!: wp_mono [OF absent_gone [OF assms(1,2)]] simp: goneAt_def)
  ultimately show ?thesis using wp_still by (fastforce elim: wp_mono)
qed

lemma waitForProcessStopped_wp:
  assumes "quietSystem V members" "shownMembers V members"
  shows "p < length (vProcs n) \<Longrightarrow>
    wp (waitForProcessStopped V p looks) (\<lambda>r k. settles members n k \<and> (r \<longrightarrow> goneAt members p k)) n"
proof (induction looks arbitrary: n)
  case (0 n)
  show ?case unfolding waitForProcessStopped.simps wp_bind
  proof (rule wp_mono [OF processStopped_wp [OF assms 0]], goal_cases)
    case (1 r k)
    then have "p < length (vProcs k)" using settles_session 0 by blast
    from processStopped_wp [OF assms this] 1 show ?case
      by (auto simp: wp_return elim!: wp_mono intro: settles_trans)
  qed
next
  case (Suc looks n)
  show ?case unfolding waitForProcessStopped.simps wp_bind
  proof (rule wp_mono [OF processStopped_wp [OF assms Suc.prems]], goal_cases)
    case (1 r k)
    then have "p < length (vProcs k)" using settles_session Suc.prems by blast
    from Suc.IH [OF this] 1 show ?case
      by (auto simp: wp_return elim!: wp_mono intro: settles_trans)
  qed
qed

definition released :: "('o \<Rightarrow> processIdentity set) \<Rightarrow> nat \<Rightarrow> 'o vpnState \<Rightarrow> 'o vpnState \<Rightarrow> bool" where
  "released members p n k \<longleftrightarrow> map opSessionID (vProcs k) = map opSessionID (vProcs n) \<and> vCurrent k = vCurrent n \<and>
     members (vOS k) \<subseteq> members (vOS n) \<and> vProc k = (if vProc n = Some p then None else vProc n) \<and>
     goneAt members p k"

definition stopped :: "('o \<Rightarrow> processIdentity set) \<Rightarrow> nat \<Rightarrow> 'o vpnState \<Rightarrow> err \<Rightarrow> 'o vpnState \<Rightarrow> bool" where
  "stopped members p n e k \<longleftrightarrow> (if e = None then released members p n k else settles members n k)"

lemma releaseProcess_wp:
  "settles members n k \<Longrightarrow> goneAt members p k \<Longrightarrow> wp (releaseProcess p) (stopped members p n) k"
  unfolding releaseProcess_def wp_simps
  by (auto simp: stopped_def released_def settles_def frame_def goneAt_def)

lemma stopStage_wp:
  assumes "quietSystem V members" "shownMembers V members"
  shows "p < length (vProcs n) \<Longrightarrow> wp (stopStage V p e stages) (stopped members p n) n"
proof (induction stages arbitrary: e n)
  case (Nil e n)
  show ?case unfolding stopStage.simps wp_bind
    by (rule wp_mono [OF processStopped_wp [OF assms Nil]])
       (auto simp: wp_if wp_return stopped_def intro: releaseProcess_wp)
next
  case (Cons stage stages e n)
  obtain index sig where stage: "stage = (index, sig)" by (cases stage)
  have again: "wp (stopStage V p e' stages) (stopped members p n) k" if "settles members n k" for e' k
  proof -
    have "p < length (vProcs k)" using settles_session [OF that] Cons.prems by blast
    from Cons.IH [OF this, of e'] show ?thesis
      by (rule wp_mono) (use that in \<open>auto simp: stopped_def released_def settles_def frame_def split: if_splits\<close>)
  qed
  have signal: "still members (onOS (signalOwnedProcessGroup (voOS V) proc sig))" for proc
    by (intro still_intros quiet_signals [OF assms(1)])
  have wait: "wp (waitForProcessStopped V p looks) (\<lambda>r l. settles members n l \<and> (r \<longrightarrow> goneAt members p l)) k"
    if "settles members n k" for looks k
  proof -
    have "p < length (vProcs k)" using settles_session [OF that Cons.prems] ..
    from waitForProcessStopped_wp [OF assms this] show ?thesis
      by (rule wp_mono) (use that settles_trans in blast)
  qed
  show ?case unfolding stage stopStage.simps wp_bind
  proof (rule wp_mono [OF processStopped_wp [OF assms Cons.prems]], goal_cases)
    case (1 r k)
    have "wp (onOS (signalOwnedProcessGroup (voOS V) (vProcs k ! p) sig)) (\<lambda>_ l. settles members n l) k"
      using signal [of "vProcs k ! p"] 1 unfolding still_def by (blast intro: wp_mono settles_trans)
    then show ?case using 1
      by (auto simp: wp_simps procAt_def elim!: wp_mono intro: releaseProcess_wp again wait
          intro!: wp_mono [OF wait])
  qed
qed

lemma stopProcess_wp:
  assumes "quietSystem V members" "shownMembers V members" "p < length (vProcs n)"
  shows "wp (stopProcess V p) (stopped members p n) n"
proof -
  let ?n = "n\<lparr>vProcs := (vProcs n)[p := (vProcs n ! p)\<lparr>opStopping := True\<rparr>]\<rparr>"
  have "settles members n ?n" "p < length (vProcs ?n)"
    using assms(3) map_session_update [where f = "\<lambda>x. x\<lparr>opStopping := True\<rparr>"]
    by (auto simp: settles_def frame_def)
  from stopStage_wp [OF assms(1,2) this(2), of None stopStages] this(1) show ?thesis
    unfolding stopProcess_def updateProc_def wp_simps
    by (auto simp: stopped_def released_def settles_def frame_def elim!: wp_mono split: if_splits)
qed

end
