(* ===== verification/OpenVPNContract.thy ===== *)
theory OpenVPNContract
  imports OpenVPNSession ManagerLaws
begin

text \<open>
  The OpenVPN adapter keeps the contract the manager rests on, under the laws of \<open>OpenVPNSession\<close>: the tunnel is
  up while a process of a session of this program lives.
\<close>

section \<open>What the backend owns\<close>

text \<open>The living processes belong to the session of the owned process.\<close>

definition owns :: "('o \<Rightarrow> processIdentity set) \<Rightarrow> 'o vpnState \<Rightarrow> bool" where
  "owns members n \<longleftrightarrow>
     (\<forall>p. vProc n = Some p \<longrightarrow> p < length (vProcs n)) \<and>
     (\<forall>i\<in>members (vOS n). \<exists>p. vProc n = Some p \<and> piSessionID i = opSessionID (vProcs n ! p))"

lemma owns_settles: "owns members n \<Longrightarrow> settles members n k \<Longrightarrow> owns members k"
  unfolding owns_def using settles_session [of members n k]
  by (auto simp: settles_def frame_def dest!: subsetD)

lemma owns_unowned: "owns members n \<Longrightarrow> vProc n = None \<Longrightarrow> members (vOS n) = {}"
  by (auto simp: owns_def)

lemma owns_gone: "owns members n \<Longrightarrow> vProc n = Some p \<Longrightarrow> goneAt members p n \<Longrightarrow> members (vOS n) = {}"
  by (auto simp: owns_def goneAt_def sessionGone_def)

lemma owns_released:
  assumes "owns members n" "vProc n = Some p" "released members p n k"
  shows "members (vOS k) = {}" "vProc k = None" "owns members k"
proof -
  have "p < length (vProcs n)" using assms by (simp add: owns_def)
  then have "opSessionID (vProcs k ! p) = opSessionID (vProcs n ! p)"
    using assms(3) unfolding released_def by (metis length_map nth_map)
  then show "members (vOS k) = {}"
    using assms by (auto simp: released_def goneAt_def sessionGone_def owns_def)
  then show "vProc k = None" "owns members k" using assms by (auto simp: released_def owns_def)
qed

lemma Deactivate_wp:
  assumes "quietSystem V members" "shownMembers V members" "owns members n"
  shows "wp (Deactivate V) (\<lambda>e k. owns members k \<and> vCurrent k = vCurrent n \<and> members (vOS k) \<subseteq> members (vOS n) \<and>
    (e = None \<longrightarrow> members (vOS k) = {} \<and> vProc k = None)) n"
proof (cases "vProc n")
  case None
  then show ?thesis using assms(3) owns_unowned by (simp add: Deactivate_def wp_simps)
next
  case (Some p)
  then have "p < length (vProcs n)" using assms(3) by (simp add: owns_def)
  from stopProcess_wp [OF assms(1,2) this] have "wp (stopProcess V p) (\<lambda>e k. owns members k \<and>
      vCurrent k = vCurrent n \<and> members (vOS k) \<subseteq> members (vOS n) \<and>
      (e = None \<longrightarrow> members (vOS k) = {} \<and> vProc k = None)) n"
  proof (rule wp_mono, goal_cases)
    case (1 e k)
    show ?case
    proof (cases e)
      case None
      with 1 have r: "released members p n k" by (simp add: stopped_def)
      with None owns_released [OF assms(3) Some r] show ?thesis by (simp add: released_def)
    next
      case (Some x)
      with 1 have "settles members n k" by (simp add: stopped_def)
      with Some owns_settles [OF assms(3) this] show ?thesis by (simp add: settles_def frame_def)
    qed
  qed
  then show ?thesis using Some by (simp add: Deactivate_def wp_simps)
qed

section \<open>Starting\<close>

text \<open>An error of a start that does not say that the cleanup is unproved leaves nothing behind.\<close>

definition startOutcome :: "('o \<Rightarrow> processIdentity set) \<Rightarrow> 'o vpnState \<Rightarrow> err \<Rightarrow> 'o vpnState \<Rightarrow> bool" where
  "startOutcome members n e k \<longleftrightarrow> owns members k \<and> vCurrent k = vCurrent n \<and>
     (e \<noteq> None \<and> \<not> errIs e ErrCleanupUnproved \<longrightarrow> members (vOS k) = {})"

lemma startFailure_wp:
  assumes "quietSystem V members" "shownMembers V members" "owns members n" "vProc n = Some p"
  shows "wp (startFailure V p reason) (startOutcome members n) n"
proof -
  have "p < length (vProcs n)" using assms(3,4) by (simp add: owns_def)
  from stopProcess_wp [OF assms(1,2) this] show ?thesis
    unfolding startFailure_def processResult_def wp_simps
  proof (rule wp_mono, goal_cases)
    case (1 e k)
    show ?case
    proof (cases e)
      case None
      with 1 have r: "released members p n k" by (simp add: stopped_def)
      then have "vCurrent k = vCurrent n" by (simp add: released_def)
      with None owns_released [OF assms(3,4) r] show ?thesis by (simp add: startOutcome_def)
    next
      case (Some x)
      with 1 have st: "settles members n k" by (simp add: stopped_def)
      then have "vCurrent k = vCurrent n" by (simp add: settles_def frame_def)
      with Some owns_settles [OF assms(3) st] show ?thesis by (simp add: startOutcome_def err_simps)
    qed
  qed
qed

lemma startOutcome_settles:
  "settles members n k \<Longrightarrow> startOutcome members k e l \<Longrightarrow> startOutcome members n e l"
  by (auto simp: startOutcome_def settles_def frame_def)

lemma acceptProcess_wp:
  assumes "quietSystem V members" "shownMembers V members" "owns members n" "vProc n = Some p"
  shows "wp (acceptProcess V p) (startOutcome members n) n"
proof -
  have later: "wp (startFailure V p reason) (startOutcome members n) k" if "settles members n k" for reason k
  proof -
    have "vProc k = Some p" using that assms(4) by (simp add: settles_def frame_def)
    from startFailure_wp [OF assms(1,2) owns_settles [OF assms(3) that] this] show ?thesis
      by (rule wp_mono) (rule startOutcome_settles [OF that])
  qed
  have accepted: "startOutcome members n None
      (k\<lparr>vProcs := (vProcs k)[p := f (vProcs k ! p)], vLastExitError := [], vUnexpectedExit := False\<rparr>)"
    if "settles members n k" "\<And>x. opSessionID (f x) = opSessionID x" for k f
  proof -
    have "settles members k (k\<lparr>vProcs := (vProcs k)[p := f (vProcs k ! p)], vLastExitError := [],
        vUnexpectedExit := False\<rparr>)"
      using map_session_update [OF that(2)] by (simp add: settles_def frame_def)
    from owns_settles [OF assms(3) settles_trans [OF that(1) this]] that(1) show ?thesis
      by (auto simp: startOutcome_def settles_def frame_def)
  qed
  have "wp (observeWait V p) (\<lambda>_ k. settles members n k) n"
    using still_observe(1) [OF assms(1)] by (simp add: still_def)
  then show ?thesis unfolding acceptProcess_def procAt_def updateProc_def wp_simps
    by (rule wp_mono) (auto intro: later accepted)
qed

lemma awaitReady_wp:
  assumes "quietSystem V members" "shownMembers V members"
  shows "owns members n \<Longrightarrow> vProc n = Some p \<Longrightarrow> wp (awaitReady V p looks) (startOutcome members n) n"
proof (induction looks arbitrary: n)
  case (0 n)
  then show ?case using startFailure_wp [OF assms] by simp
next
  case (Suc looks n)
  have owned: "owns members k \<and> vProc k = Some p" if "settles members n k" for k
    using owns_settles [OF Suc.prems(1) that] Suc.prems(2) that by (simp add: settles_def frame_def)
  have fail: "wp (startFailure V p reason) (startOutcome members n) k" if "settles members n k" for reason k
    using startFailure_wp [OF assms] owned [OF that] that by (blast intro: wp_mono startOutcome_settles)
  have accept: "wp (acceptProcess V p) (startOutcome members n) k" if "settles members n k" for k
    using acceptProcess_wp [OF assms] owned [OF that] that by (blast intro: wp_mono startOutcome_settles)
  have again: "wp (awaitReady V p looks) (startOutcome members n) k" if "settles members n k" for k
    using Suc.IH owned [OF that] that by (blast intro: wp_mono startOutcome_settles)
  have wait: "wp (observeWait V p) (\<lambda>_ l. settles members n l) k" if "settles members n k" for k
    using still_observe(1) [OF assms(1)] that unfolding still_def by (blast intro: wp_mono settles_trans)
  have "wp (observeDrain V p) (\<lambda>_ k. settles members n k) n"
    using still_observe(2) [OF assms(1)] by (simp add: still_def)
  then show ?case unfolding awaitReady.simps procAt_def wp_simps
    by (rule wp_mono) (auto simp: wp_simps intro: accept fail again intro!: wp_mono [OF wait])
qed

lemma spawnOwned_wp:
  assumes "quietSystem V members" "spawnLaws V members" "members x = {}"
  shows "wp (spawnOwned V path dir) (\<lambda>r y. case r of Inl _ \<Rightarrow> members y = {}
    | Inr proc \<Rightarrow> \<forall>i\<in>members y. piSessionID i = opSessionID proc) x"
proof -
  have quiet: "wp m (\<lambda>_ z. \<forall>i\<in>members z. piSessionID i = pid) y"
    if "quietCall members m" "\<forall>i\<in>members y. piSessionID i = pid" for m :: "('a, 'b) state" and y pid
    by (rule wp_mono [OF keepsD [OF quietCallD [OF that(1)], of y "members y"]]) (use that(2) in auto)
  have empty: "wp m (\<lambda>_ z. members z = {}) y" if "quietCall members m" "members y = {}"
    for m :: "('a, 'c) state" and y
    using keepsD [OF quietCallD [OF that(1)], of y "{}"] that(2) by simp
  have abandon: "wp (abandonSpawn (voOS V) pid reader writer) (\<lambda>_ y. members y = {}) y"
    if "\<forall>i\<in>members y. piSessionID i = pid" for pid reader writer y
    using assms(2) that by (simp add: spawnLaws_def)
  have spawn: "wp (poSpawn (voOS V) req) (\<lambda>r y. case r of Inl _ \<Rightarrow> members y = {}
      | Inr pid \<Rightarrow> \<forall>i\<in>members y. piSessionID i = pid) y" if "members y = {}" for req y
    using assms(2) that by (simp add: spawnLaws_def)
  note calls = quiet_calls [OF assms(1)]
  have "wp (poPipe (voOS V)) (\<lambda>_ y. members y = {}) x"
    using keepsD [OF quietCallD [OF calls(6)], of x "{}"] assms(3) by simp
  then show ?thesis unfolding spawnOwned_def wp_tryE wp_wrapE
  proof (rule wp_mono, goal_cases)
    case (1 r y)
    show ?case
    proof (cases r)
      case (Inr pipe)
      obtain reader writer where pipe: "pipe = (reader, writer)" by (cases pipe)
      have closeE: "wp (poClose (voOS V) fd) (\<lambda>_ z. members z = {}) y'" if "members y' = {}" for fd y'
        using keepsD [OF quietCallD [OF calls(5)], of y' "{}"] that by simp
      have closeS: "wp (poClose (voOS V) fd) (\<lambda>_ z. \<forall>i\<in>members z. piSessionID i = pid) y'"
        if "\<forall>i\<in>members y'. piSessionID i = pid" for fd y' pid
        by (rule wp_mono [OF keepsD [OF quietCallD [OF calls(5)], of y' "members y'"]]) (use that in auto)
      have identity: "wp (voReadIdentity V pid) (\<lambda>_ z. \<forall>i\<in>members z. piSessionID i = pid) y'"
        if "\<forall>i\<in>members y'. piSessionID i = pid" for y' pid
        by (rule wp_mono [OF keepsD [OF quietCallD [OF calls(9)], of y' "members y'"]]) (use that in auto)
      show ?thesis unfolding Inr map_sum.simps sum.case id_apply pipe prod.case wp_bind
      proof (rule wp_mono [OF spawn [OF 1]], goal_cases)
        case (1 r z)
        then show ?case
          by (cases r)
            (auto simp: wp_simps newProcess_def intro!: wp_mono [OF closeE] wp_mono [OF identity] closeE
              split: sum.split elim!: wp_mono [OF abandon] wp_mono [OF closeS])
      qed
    qed (use 1 in simp)
  qed
qed

lemma Activate_wp:
  assumes L: "systemLaws V members" and n: "owns members n" "members (vOS n) = {}"
  shows "wp (Activate V path dir) (startOutcome members n) n"
proof -
  note q = L [unfolded systemLaws_def, THEN conjunct1]
  note shown = L [unfolded systemLaws_def, THEN conjunct2, THEN conjunct1]
  note spawn = L [unfolded systemLaws_def, THEN conjunct2, THEN conjunct2]
  let ?spawned = "openE (onOS (spawnOwned V path dir)) (\<lambda>proc. do {
         p \<leftarrow> gets (\<lambda>s. length (vProcs s));
         modify (\<lambda>s. s\<lparr>vProcs := vProcs s @ [proc], vProc := Some p\<rparr>);
         awaitReady V p (voReadyLooks V)
       })"
  have spawned: "wp ?spawned (startOutcome members n) k" if k: "settles members n k" "vProc k = None" for k
  proof -
    have empty: "members (vOS k) = {}" using k(1) n(2) by (auto simp: settles_def)
    have cur: "vCurrent k = vCurrent n" using k(1) by (simp add: settles_def frame_def)
    show ?thesis unfolding wp_openE onOS_def wp_zoom
    proof (rule wp_mono [OF spawnOwned_wp [OF q spawn empty]], goal_cases)
      case (1 r y)
      show ?case
      proof (cases r)
        case (Inl e)
        then show ?thesis using 1 k(2) cur by (simp add: startOutcome_def owns_def)
      next
        case (Inr proc)
        let ?n = "(k\<lparr>vOS := y\<rparr>)\<lparr>vProcs := vProcs k @ [proc], vProc := Some (length (vProcs k))\<rparr>"
        have "owns members ?n" "vProc ?n = Some (length (vProcs k))"
          using 1 Inr by (auto simp: owns_def nth_append)
        from awaitReady_wp [OF q shown this, of "voReadyLooks V"]
        have "wp (awaitReady V (length (vProcs k)) (voReadyLooks V)) (startOutcome members n) ?n"
          by (rule wp_mono) (use cur in \<open>simp add: startOutcome_def\<close>)
        then show ?thesis by (simp add: Inr wp_simps)
      qed
    qed
  qed
  have refused: "startOutcome members n (Some (ErrText msg)) k" if "settles members n k" for msg k
    using owns_settles [OF n(1) that] that n(2) by (auto simp: startOutcome_def settles_def frame_def)
  have "still members (onOS (config_Inspect (voInspectorEnv V) (voInspector V) path dir))"
    by (intro still_intros quiet_Inspect [OF q])
  then have "wp (onOS (config_Inspect (voInspectorEnv V) (voInspector V) path dir)) (\<lambda>_ k. settles members n k) n"
    by (simp add: still_def)
  then show ?thesis unfolding Activate_def wp_thenE wp_bind wp_gets wp_if wp_return
  proof (rule wp_mono, goal_cases)
    case (1 r k)
    show ?case
    proof (cases r)
      case None
      then show ?thesis using spawned [OF 1] refused [OF 1] by (cases "vProc k") simp_all
    next
      case (Some e)
      then show ?thesis using owns_settles [OF n(1) 1] 1 n(2)
        by (auto simp: startOutcome_def settles_def frame_def)
    qed
  qed
qed

section \<open>The contract on the states the adapter reaches\<close>

text \<open>The contract of \<open>backendLaws\<close>, promised on the states of \<open>ok\<close>, which every operation keeps.\<close>

definition contractOn :: "('n \<Rightarrow> bool) \<Rightarrow> ('n \<Rightarrow> string set) \<Rightarrow> ('w \<times> 'n) backend \<Rightarrow> bool" where
  "contractOn ok up b \<longleftrightarrow> (\<forall>x. ok (snd x) \<longrightarrow>
     wp (bkAvailable b) (\<lambda>_ y. ok (snd y) \<and> up (snd y) \<subseteq> up (snd x)) x \<and>
     wp (bkShutdown b) (\<lambda>_ y. ok (snd y) \<and> up (snd y) \<subseteq> up (snd x)) x \<and>
     (\<forall>p. wp (bkStatus b p) (\<lambda>_ y. ok (snd y) \<and> up (snd y) \<subseteq> up (snd x)) x) \<and>
     (\<forall>ps. wp (bkObserve b ps) (\<lambda>r y. ok (snd y) \<and> up (snd y) \<subseteq> up (snd x) \<and>
        (\<forall>obs. r = Inr obs \<longrightarrow> up (snd y) \<inter> tpID ` set ps \<subseteq> obProfileID ` set obs)) x) \<and>
     (\<forall>p. wp (bkStop b p) (\<lambda>e y. ok (snd y) \<and> up (snd y) \<subseteq> up (snd x) \<and>
        (e = None \<longrightarrow> tpID p \<notin> up (snd y))) x) \<and>
     (\<forall>p. up (snd x) = {} \<longrightarrow> wp (bkStart b p) (\<lambda>e y. ok (snd y) \<and> up (snd y) \<subseteq> {tpID p} \<and>
        (e \<noteq> None \<and> \<not> errIs e ErrCleanupUnproved \<longrightarrow> up (snd y) = {})) x))"

text \<open>An auxiliary variable, read by no operation, keeps the profile the adapter last took on.\<close>

definition alongside :: "('w \<times> 'n, 'a) state \<Rightarrow> ('w \<times> 'n \<times> string, 'a) state" where
  "alongside m = zoom (\<lambda>(w, n, g). (w, n)) (\<lambda>(w, n) (_, _, g). (w, n, g)) m"

definition noteOwner :: "tunnelProfile \<Rightarrow> ('w \<times> 'o vpnState \<times> string, unit) state" where
  "noteOwner p = modify (\<lambda>(w, n, g). (w, n, if tpID (vCurrent n) = [] then tpID p else g))"

definition trackedAdapter :: "'o openVPNOptions \<Rightarrow> ('w \<times> 'o vpnState \<times> string) backend" where
  "trackedAdapter V = (let b = openVPNAdapter V in
     \<lparr>bkProtocol = bkProtocol b, bkExitSource = bkExitSource b, bkAvailable = alongside (bkAvailable b),
      bkObserve = (\<lambda>ps. alongside (bkObserve b ps)),
      bkStart = (\<lambda>p. do { noteOwner p; alongside (bkStart b p) }),
      bkStop = (\<lambda>p. alongside (bkStop b p)), bkStatus = (\<lambda>p. alongside (bkStatus b p)),
      bkShutdown = alongside (bkShutdown b)\<rparr>)"

definition adapterOk :: "('o \<Rightarrow> processIdentity set) \<Rightarrow> 'o vpnState \<times> string \<Rightarrow> bool" where
  "adapterOk members = (\<lambda>(n, g). owns members n \<and> (tpID (vCurrent n) \<noteq> [] \<longrightarrow> tpID (vCurrent n) = g))"

definition tunnelUp :: "('o \<Rightarrow> processIdentity set) \<Rightarrow> 'o vpnState \<times> string \<Rightarrow> string set" where
  "tunnelUp members = (\<lambda>(n, g). if members (vOS n) = {} then {} else {g})"

lemma wp_alongside:
  "wp (alongside (zoom snd (\<lambda>n (w, _). (w, n)) m)) Q (w, n, g) = wp m (\<lambda>a k. Q a (w, k, g)) n"
  by (simp add: alongside_def wp_zoom)

lemma current_kept:
  "adapterOk members (n, g) \<Longrightarrow> owns members k \<Longrightarrow> vCurrent k = vCurrent n \<or> vCurrent k = noTunnelProfile \<Longrightarrow>
   members (vOS k) \<subseteq> members (vOS n) \<Longrightarrow>
   adapterOk members (k, g) \<and> tunnelUp members (k, g) \<subseteq> tunnelUp members (n, g)"
  by (auto simp: adapterOk_def tunnelUp_def noTunnelProfile_def)

lemma process_State_wp:
  assumes "systemLaws V members" "owns members n"
  shows "wp (process_State V) (\<lambda>st k. settles members n k \<and>
    (\<not> stGroupPresent st \<longrightarrow> members (vOS k) = {})) n"
proof -
  note q = assms(1) [unfolded systemLaws_def, THEN conjunct1]
  note shown = assms(1) [unfolded systemLaws_def, THEN conjunct2, THEN conjunct1]
  show ?thesis
  proof (cases "vProc n")
    case None
    then show ?thesis using owns_unowned [OF assms(2)] by (simp add: process_State_def wp_simps)
  next
    case (Some p)
    have still: "wp (observeWait V p) (\<lambda>_ l. settles members n l) k" if "settles members n k" for k
      using still_observe(1) [OF q] that unfolding still_def by (blast intro: wp_mono settles_trans)
    have scan: "wp (onOS (ownedProcessGroupPresent (voOS V) (vProcs k ! p))) (\<lambda>r l. settles members n l \<and>
        (\<not> r \<longrightarrow> members (vOS l) = {})) k" if k: "settles members n k" for k
      unfolding onOS_def wp_zoom
    proof (rule wp_mono [OF absent_gone [OF q shown]], goal_cases)
      case (1 r y)
      have "settles members k (k\<lparr>vOS := y\<rparr>)" using 1 by (simp add: settles_def frame_def)
      with k have st: "settles members n (k\<lparr>vOS := y\<rparr>)" by (rule settles_trans)
      have "vProc (k\<lparr>vOS := y\<rparr>) = Some p" using st Some by (simp add: settles_def frame_def)
      moreover have "\<not> r \<Longrightarrow> goneAt members p (k\<lparr>vOS := y\<rparr>)" using 1 by (simp add: goneAt_def)
      ultimately show ?case using owns_gone [OF owns_settles [OF assms(2) st]] st by auto
    qed
    have "wp (observeDrain V p) (\<lambda>_ k. settles members n k) n"
      using still_observe(2) [OF q] by (simp add: still_def)
    then show ?thesis unfolding process_State_def wp_bind wp_gets Some option.case
      by (rule wp_mono, intro wp_mono [OF still])
         (auto simp: wp_simps procAt_def stateOf_def Let_def intro!: wp_mono [OF scan])
  qed
qed

lemma adapterOk_settles:
  "adapterOk members (n, g) \<Longrightarrow> settles members n k \<Longrightarrow>
   adapterOk members (k, g) \<and> tunnelUp members (k, g) \<subseteq> tunnelUp members (n, g)"
  using owns_settles [of members n k] by (intro current_kept) (auto simp: adapterOk_def settles_def frame_def)

lemma adapter_Observe_wp:
  assumes "systemLaws V members" "adapterOk members (n, g)"
  shows "wp (adapter_Observe V ps) (\<lambda>r k. settles members n k \<and>
    (\<forall>obs. r = Inr obs \<longrightarrow> tunnelUp members (k, g) \<inter> tpID ` set ps \<subseteq> obProfileID ` set obs)) n"
proof -
  have "owns members n" using assms(2) by (simp add: adapterOk_def)
  from process_State_wp [OF assms(1) this] show ?thesis
    unfolding adapter_Observe_def wp_simps
  proof (rule wp_mono, goal_cases)
    case (1 st k)
    then have "adapterOk members (k, g)" using adapterOk_settles [OF assms(2)] by blast
    then have "tpID (vCurrent k) \<noteq> [] \<Longrightarrow> tpID (vCurrent k) = g" by (simp add: adapterOk_def)
    with 1 show ?case
      by (auto simp: unsettled_def tunnelUp_def split: option.splits dest!: find_Some_iff [THEN iffD1])
  qed
qed

lemma adapter_Status_wp:
  assumes "systemLaws V members" "adapterOk members (n, g)"
  shows "wp (adapter_Status V) (\<lambda>_ k. settles members n k) n"
proof -
  have "owns members n" using assms(2) by (simp add: adapterOk_def)
  from process_State_wp [OF assms(1) this] show ?thesis
    unfolding adapter_Status_def wp_simps by (rule wp_mono) simp
qed

lemma Deactivate_adapter:
  assumes "systemLaws V members" "adapterOk members (n, g)"
  shows "wp (Deactivate V) (\<lambda>e k. owns members k \<and> vCurrent k = vCurrent n \<and>
    members (vOS k) \<subseteq> members (vOS n) \<and> (e = None \<longrightarrow> members (vOS k) = {})) n"
  using Deactivate_wp [of V members n] assms by (auto simp: systemLaws_def adapterOk_def elim!: wp_mono)

text \<open>Forgetting the profile of a stopped process.\<close>

definition forgotten :: "('o \<Rightarrow> processIdentity set) \<Rightarrow> 'o vpnState \<Rightarrow> string \<Rightarrow> err \<Rightarrow> 'o vpnState \<Rightarrow> bool" where
  "forgotten members n g e k \<longleftrightarrow> adapterOk members (k, g) \<and> tunnelUp members (k, g) \<subseteq> tunnelUp members (n, g) \<and>
     (e = None \<longrightarrow> tunnelUp members (k, g) = {})"

lemma forgotten_clear:
  "adapterOk members (n, g) \<Longrightarrow> owns members k \<Longrightarrow> members (vOS k) = {} \<Longrightarrow>
   forgotten members n g e (k\<lparr>vCurrent := noTunnelProfile\<rparr>)"
  by (simp add: forgotten_def adapterOk_def tunnelUp_def noTunnelProfile_def owns_def)

lemma forgotten_failed:
  "adapterOk members (n, g) \<Longrightarrow> owns members k \<Longrightarrow> vCurrent k = vCurrent n \<Longrightarrow> members (vOS k) \<subseteq> members (vOS n) \<Longrightarrow>
   forgotten members n g (Some x) k"
  using current_kept [of members n g k] by (simp add: forgotten_def)

lemma adapter_Stop_wp:
  assumes "systemLaws V members" "adapterOk members (n, g)"
  shows "wp (adapter_Stop V p) (forgotten members n g) n" "wp (adapter_Shutdown V) (forgotten members n g) n"
proof -
  note stop = Deactivate_adapter [OF assms]
  have "wp (thenE (Deactivate V) (do { modify (\<lambda>s. s\<lparr>vCurrent := noTunnelProfile\<rparr>); return None }))
      (forgotten members n g) n"
    unfolding wp_simps
  proof (rule wp_mono [OF stop], goal_cases)
    case (1 e k)
    then show ?case using forgotten_clear [OF assms(2)] forgotten_failed [OF assms(2)] by (cases e) auto
  qed
  moreover have "forgotten members n g (Some x) n" for x
    using forgotten_failed [OF assms(2)] assms(2) by (simp add: adapterOk_def)
  ultimately show "wp (adapter_Stop V p) (forgotten members n g) n"
    by (simp add: adapter_Stop_def wp_bind wp_gets wp_if wp_return)
  show "wp (adapter_Shutdown V) (forgotten members n g) n"
    unfolding adapter_Shutdown_def openVPN_Shutdown_def wp_simps
  proof (rule wp_mono [OF stop], goal_cases)
    case (1 e k)
    then show ?case using forgotten_clear [OF assms(2)] forgotten_failed [OF assms(2)] by (cases e) auto
  qed
qed

definition took :: "('o \<Rightarrow> processIdentity set) \<Rightarrow> string \<Rightarrow> tunnelProfile \<Rightarrow> err \<Rightarrow> 'o vpnState \<Rightarrow> bool" where
  "took members g p e k \<longleftrightarrow> adapterOk members (k, g) \<and> tunnelUp members (k, g) \<subseteq> {tpID p} \<and>
     (e \<noteq> None \<and> \<not> errIs e ErrCleanupUnproved \<longrightarrow> tunnelUp members (k, g) = {})"

lemma adapter_Start_wp:
  assumes "systemLaws V members" "adapterOk members (n, g)" "members (vOS n) = {}"
  shows "wp (adapter_Start V p) (took members (if tpID (vCurrent n) = [] then tpID p else g) p) n"
proof -
  have owns: "owns members n" and same: "tpID (vCurrent n) \<noteq> [] \<Longrightarrow> tpID (vCurrent n) = g"
    using assms(2) by (simp_all add: adapterOk_def)
  have refused: "took members (if tpID (vCurrent n) = [] then tpID p else g) p (Some x) n" for x
    using owns same assms(3) by (simp add: took_def adapterOk_def tunnelUp_def)
  let ?n = "n\<lparr>vCurrent := p\<rparr>"
  have n: "owns members ?n" "members (vOS ?n) = {}" using owns assms(3) by (simp_all add: owns_def)
  have "wp (do {
          e \<leftarrow> Activate V (tpPath p) (pathDir (tpPath p));
          (if e \<noteq> None
           then modify (\<lambda>s. if tpPath (vCurrent s) = tpPath p then s\<lparr>vCurrent := noTunnelProfile\<rparr> else s)
           else return ());
          return e
        }) (took members (tpID p) p) ?n"
    unfolding wp_bind
  proof (rule wp_mono [OF Activate_wp [OF assms(1) n]], goal_cases)
    case (1 e k)
    then show ?case
      by (auto simp: wp_simps startOutcome_def took_def adapterOk_def tunnelUp_def noTunnelProfile_def owns_def)
  qed
  then show ?thesis using refused by (auto simp: adapter_Start_def wp_simps)
qed

section \<open>An exit nobody asked for\<close>

lemma owns_stopped:
  assumes "owns members n" "stopped members p n e k"
  shows "owns members k" "vCurrent k = vCurrent n" "members (vOS k) \<subseteq> members (vOS n)"
    "e = None \<Longrightarrow> vProc n = Some p \<Longrightarrow> members (vOS k) = {}"
proof -
  have "owns members k \<and> vCurrent k = vCurrent n \<and> members (vOS k) \<subseteq> members (vOS n) \<and>
      (e = None \<longrightarrow> vProc n = Some p \<longrightarrow> members (vOS k) = {})"
  proof (cases "e = None \<and> vProc n = Some p")
    case True
    then have r: "released members p n k" using assms(2) by (simp add: stopped_def)
    with owns_released [OF assms(1) _ r] True show ?thesis by (auto simp: released_def)
  next
    case False
    then have "settles members n k"
      using assms(2) by (auto simp: stopped_def released_def settles_def frame_def split: if_splits)
    with owns_settles [OF assms(1) this] False show ?thesis by (auto simp: settles_def frame_def)
  qed
  then show "owns members k" "vCurrent k = vCurrent n" "members (vOS k) \<subseteq> members (vOS n)"
    "e = None \<Longrightarrow> vProc n = Some p \<Longrightarrow> members (vOS k) = {}" by auto
qed

definition exitHandled ::
    "('o \<Rightarrow> processIdentity set) \<Rightarrow> nat \<Rightarrow> 'o vpnState \<Rightarrow> bool option \<Rightarrow> 'o vpnState \<Rightarrow> bool" where
  "exitHandled members p n r k \<longleftrightarrow> owns members k \<and> vCurrent k = vCurrent n \<and>
     members (vOS k) \<subseteq> members (vOS n) \<and> (r = Some True \<and> vProc n = Some p \<longrightarrow> members (vOS k) = {})"

lemma waitUnexpected_wp:
  assumes "quietSystem V members" "shownMembers V members" "owns members n" "p < length (vProcs n)"
  shows "wp (waitUnexpected V p) (exitHandled members p n) n"
proof -
  have log: "exitHandled members p n r (k\<lparr>vLog := l\<rparr>) = exitHandled members p n r k" for r k l
    by (simp add: exitHandled_def owns_def)
  have stop: "wp (stopProcess V p) (\<lambda>e k. exitHandled members p n (Some (e = None)) k \<and>
      exitHandled members p n None k) m"
    if "settles members n m" for m
  proof -
    have m: "owns members m" "p < length (vProcs m)" "vProc m = vProc n" "vCurrent m = vCurrent n"
      "members (vOS m) \<subseteq> members (vOS n)"
      using owns_settles [OF assms(3) that] settles_session [OF that assms(4)] that
      by (auto simp: settles_def frame_def)
    from stopProcess_wp [OF assms(1,2) m(2)] show ?thesis
    proof (rule wp_mono, goal_cases)
      case (1 e k)
      from owns_stopped [OF m(1) 1] m show ?case by (auto simp: exitHandled_def)
    qed
  qed
  show ?thesis
  proof (cases "opUnexpected (vProcs n ! p)")
    case False
    then show ?thesis using assms(3) by (simp add: waitUnexpected_def procAt_def wp_simps exitHandled_def)
  next
    case True
    show ?thesis
      unfolding waitUnexpected_def backend_log_def procAt_def wp_simps Let_def
      by (simp only: True simp_thms if_False, rule wp_mono [OF stop])
         (auto simp: settles_def frame_def wp_simps log)
  qed
qed

lemma handleProcessExit_wp:
  assumes "systemLaws V members" "adapterOk members (n, g)" "p < length (vProcs n)"
  shows "wp (handleProcessExit V p) (\<lambda>r k. adapterOk members (k, g) \<and>
    tunnelUp members (k, g) \<subseteq> tunnelUp members (n, g) \<and>
    (\<forall>u. r = Some u \<longrightarrow> ueCleanupProved u \<longrightarrow> vProc n = Some p \<longrightarrow> tunnelUp members (k, g) = {})) n"
proof -
  note q = assms(1) [unfolded systemLaws_def, THEN conjunct1]
  note shown = assms(1) [unfolded systemLaws_def, THEN conjunct2, THEN conjunct1]
  have "wp (observeWait V p) (\<lambda>_ k. settles members n k) n"
    using still_observe(1) [OF q] by (simp add: still_def)
  then show ?thesis unfolding handleProcessExit_def wp_bind
  proof (rule wp_mono, goal_cases)
    case (1 u m)
    have m: "owns members m" "p < length (vProcs m)" "vProc m = vProc n" "vCurrent m = vCurrent n"
      "members (vOS m) \<subseteq> members (vOS n)"
      using owns_settles [of members n m] settles_session [OF 1 assms(3)] 1 assms(2)
      by (auto simp: settles_def frame_def adapterOk_def)
    show ?case
    proof (rule wp_mono [OF waitUnexpected_wp [OF q shown m(1,2)]], goal_cases)
      case (1 r k)
      then have k: "owns members k" "vCurrent k = vCurrent n" "members (vOS k) \<subseteq> members (vOS n)"
        "r = Some True \<Longrightarrow> vProc n = Some p \<Longrightarrow> members (vOS k) = {}"
        using m by (auto simp: exitHandled_def)
      have cleared: "owns members (k\<lparr>vCurrent := noTunnelProfile\<rparr>)" using k(1) by (simp add: owns_def)
      show ?case
      proof (cases r)
        case None
        then show ?thesis using current_kept [OF assms(2) k(1) _ k(3)] k(2) by (simp add: wp_return)
      next
        case (Some proved)
        then show ?thesis
          using current_kept [OF assms(2) cleared] k(3,4)
          by (auto simp: adapter_unexpectedExit_def wp_simps tunnelUp_def)
      qed
    qed
  qed
qed

section \<open>The contract\<close>

lemma adapter_contract:
  assumes "systemLaws V members"
  shows "contractOn (adapterOk members) (tunnelUp members) (trackedAdapter V :: ('w \<times> 'o vpnState \<times> string) backend)"
proof (unfold contractOn_def, intro allI impI)
  fix x :: "'w \<times> 'o vpnState \<times> string"
  assume ok': "adapterOk members (snd x)"
  obtain w n g where x: "x = (w, n, g)" by (cases x)
  then have ok: "adapterOk members (n, g)" using ok' by simp
  have settled: "adapterOk members (k, g) \<and> tunnelUp members (k, g) \<subseteq> tunnelUp members (n, g)"
    if "settles members n k" for k using adapterOk_settles [OF ok that] .
  have calls: "bkAvailable (trackedAdapter V) = alongside (zoom snd (\<lambda>n (w, _). (w, n)) adapter_Available)"
    "bkShutdown (trackedAdapter V) = alongside (zoom snd (\<lambda>n (w, _). (w, n)) (adapter_Shutdown V))"
    "bkStatus (trackedAdapter V) p = alongside (zoom snd (\<lambda>n (w, _). (w, n)) (adapter_Status V))"
    "bkObserve (trackedAdapter V) ps = alongside (zoom snd (\<lambda>n (w, _). (w, n)) (adapter_Observe V ps))"
    "bkStop (trackedAdapter V) p = alongside (zoom snd (\<lambda>n (w, _). (w, n)) (adapter_Stop V p))"
    "bkStart (trackedAdapter V) p =
       do { noteOwner p; alongside (zoom snd (\<lambda>n (w, _). (w, n)) (adapter_Start V p)) }" for p ps
    by (simp_all add: trackedAdapter_def openVPNAdapter_def Let_def)
  let ?keep = "\<lambda>_ y. adapterOk members (snd y) \<and> tunnelUp members (snd y) \<subseteq> tunnelUp members (snd x)"
  have available: "wp (bkAvailable (trackedAdapter V)) ?keep x"
    using ok by (simp add: calls x wp_alongside adapter_Available_def wp_return)
  have shutdown: "wp (bkShutdown (trackedAdapter V)) ?keep x"
    unfolding calls x wp_alongside snd_conv
    by (rule wp_mono [OF adapter_Stop_wp(2) [OF assms ok]]) (simp add: forgotten_def)
  have status: "wp (bkStatus (trackedAdapter V) p) ?keep x" for p
    unfolding calls x wp_alongside snd_conv
    by (rule wp_mono [OF adapter_Status_wp [OF assms ok]]) (simp add: settled)
  have observe: "wp (bkObserve (trackedAdapter V) ps) (\<lambda>r y. adapterOk members (snd y) \<and>
      tunnelUp members (snd y) \<subseteq> tunnelUp members (snd x) \<and>
      (\<forall>obs. r = Inr obs \<longrightarrow> tunnelUp members (snd y) \<inter> tpID ` set ps \<subseteq> obProfileID ` set obs)) x" for ps
    unfolding calls x wp_alongside snd_conv
    by (rule wp_mono [OF adapter_Observe_wp [OF assms ok]]) (simp add: settled)
  have stop: "wp (bkStop (trackedAdapter V) p) (\<lambda>e y. adapterOk members (snd y) \<and>
      tunnelUp members (snd y) \<subseteq> tunnelUp members (snd x) \<and> (e = None \<longrightarrow> tpID p \<notin> tunnelUp members (snd y))) x" for p
    unfolding calls x wp_alongside snd_conv
    by (rule wp_mono [OF adapter_Stop_wp(1) [OF assms ok]]) (auto simp: forgotten_def)
  have start: "wp (bkStart (trackedAdapter V) p) (\<lambda>e y. adapterOk members (snd y) \<and>
      tunnelUp members (snd y) \<subseteq> {tpID p} \<and>
      (e \<noteq> None \<and> \<not> errIs e ErrCleanupUnproved \<longrightarrow> tunnelUp members (snd y) = {})) x"
    if "tunnelUp members (snd x) = {}" for p
  proof -
    have "members (vOS n) = {}" using that x by (simp add: tunnelUp_def split: if_splits)
    from adapter_Start_wp [OF assms ok this, of p] show ?thesis
      unfolding calls noteOwner_def x wp_bind wp_modify prod.case wp_alongside snd_conv
      by (rule wp_mono) (simp add: took_def)
  qed
  from available shutdown status observe stop start show "wp (bkAvailable (trackedAdapter V)) ?keep x \<and>
     wp (bkShutdown (trackedAdapter V)) ?keep x \<and> (\<forall>p. wp (bkStatus (trackedAdapter V) p) ?keep x) \<and>
     (\<forall>ps. wp (bkObserve (trackedAdapter V) ps) (\<lambda>r y. adapterOk members (snd y) \<and>
        tunnelUp members (snd y) \<subseteq> tunnelUp members (snd x) \<and>
        (\<forall>obs. r = Inr obs \<longrightarrow> tunnelUp members (snd y) \<inter> tpID ` set ps \<subseteq> obProfileID ` set obs)) x) \<and>
     (\<forall>p. wp (bkStop (trackedAdapter V) p) (\<lambda>e y. adapterOk members (snd y) \<and>
        tunnelUp members (snd y) \<subseteq> tunnelUp members (snd x) \<and> (e = None \<longrightarrow> tpID p \<notin> tunnelUp members (snd y))) x) \<and>
     (\<forall>p. tunnelUp members (snd x) = {} \<longrightarrow> wp (bkStart (trackedAdapter V) p) (\<lambda>e y. adapterOk members (snd y) \<and>
        tunnelUp members (snd y) \<subseteq> {tpID p} \<and>
        (e \<noteq> None \<and> \<not> errIs e ErrCleanupUnproved \<longrightarrow> tunnelUp members (snd y) = {})) x)"
    by blast
qed

section \<open>The contract as the manager states it\<close>

definition guardedBy :: "('n \<Rightarrow> bool) \<Rightarrow> 'a \<Rightarrow> ('w \<times> 'n, 'a) state \<Rightarrow> ('w \<times> 'n, 'a) state" where
  "guardedBy ok refusal m = State (\<lambda>x. if ok (snd x) then run_state m x else (refusal, x))"

definition guardBackend :: "('n \<Rightarrow> bool) \<Rightarrow> ('w \<times> 'n) backend \<Rightarrow> ('w \<times> 'n) backend" where
  "guardBackend ok b = (let refusal = ErrText ''unreachable state'' in
     \<lparr>bkProtocol = bkProtocol b, bkExitSource = bkExitSource b,
      bkAvailable = guardedBy ok (Some refusal) (bkAvailable b),
      bkObserve = (\<lambda>ps. guardedBy ok (Inl refusal) (bkObserve b ps)),
      bkStart = (\<lambda>p. guardedBy ok (Some refusal) (bkStart b p)),
      bkStop = (\<lambda>p. guardedBy ok (Some refusal) (bkStop b p)),
      bkStatus = (\<lambda>p. guardedBy ok (Inl refusal) (bkStatus b p)),
      bkShutdown = guardedBy ok (Some refusal) (bkShutdown b)\<rparr>)"

lemma wp_guardedBy:
  "wp (guardedBy ok refusal m) Q x = (if ok (snd x) then wp m Q x else Q refusal x)"
  by (simp add: guardedBy_def wp_def)

text \<open>On the states of \<open>ok\<close> the guard is the backend, and those states are never left, so a backend that keeps
  the contract on them is a backend as the manager's theorems want it.\<close>

lemma contract_gives_laws:
  assumes "contractOn ok up b"
  shows "backendLaws up (guardBackend ok b)"
proof -
  note c = assms [unfolded contractOn_def, rule_format]
  have guard: "wp (guardedBy ok refusal m) R x"
    if "ok (snd x) \<Longrightarrow> wp m Q x" "\<And>a y. Q a y \<Longrightarrow> R a y" "R refusal x" for refusal m Q R x
    using that by (auto simp: wp_guardedBy intro: wp_mono)
  show ?thesis
    unfolding backendLaws_def shrinks_def guardBackend_def Let_def backend.simps
  proof (intro conjI allI impI, goal_cases)
    case (1 x)
    show ?case by (rule guard, erule c [THEN conjunct1]) auto
  next
    case (2 x)
    show ?case by (rule guard, erule c [THEN conjunct2, THEN conjunct1]) auto
  next
    case (3 p x)
    show ?case by (rule guard, erule c [THEN conjunct2, THEN conjunct2, THEN conjunct1, rule_format]) auto
  next
    case (4 ps x)
    show ?case
      by (rule guard, erule c [THEN conjunct2, THEN conjunct2, THEN conjunct2, THEN conjunct1, rule_format]) auto
  next
    case (5 p x)
    show ?case
      by (rule guard, erule c [THEN conjunct2, THEN conjunct2, THEN conjunct2, THEN conjunct2, THEN conjunct1,
            rule_format]) auto
  next
    case (6 p x)
    show ?case
      by (rule guard, erule c [THEN conjunct2, THEN conjunct2, THEN conjunct2, THEN conjunct2, THEN conjunct2,
            rule_format], rule 6) (use 6 in auto)
  qed
qed

text \<open>C34: Under the laws of the operating system the OpenVPN adapter keeps the contract the manager rests on, on
  the states it can reach: no operation but a start makes a tunnel come up, an observation without an error
  reports the profile whose process lives, a stop without an error leaves no process of the session, and a
  start that fails without saying that its cleanup is unproved leaves none either.  An unexpected exit that
  is reported as cleaned up has left none.\<close>

theorem openvpn_adapter_keeps_contract:
  assumes "systemLaws V members"
  shows "contractOn (adapterOk members) (tunnelUp members) (trackedAdapter V :: ('w \<times> 'o vpnState \<times> string) backend) \<and>
    (\<forall>n g p. adapterOk members (n, g) \<and> p < length (vProcs n) \<longrightarrow>
       wp (handleProcessExit V p) (\<lambda>r k. adapterOk members (k, g) \<and>
         tunnelUp members (k, g) \<subseteq> tunnelUp members (n, g) \<and>
         (\<forall>u. r = Some u \<longrightarrow> ueCleanupProved u \<longrightarrow> vProc n = Some p \<longrightarrow> tunnelUp members (k, g) = {})) n)"
  using adapter_contract [OF assms] handleProcessExit_wp [OF assms] by blast

section \<open>A system that keeps the laws\<close>

text \<open>The state is whether the child, process 7, lives; a signal ends it.\<close>

definition sampleChild :: processIdentity where
  "sampleChild = \<lparr>piPid = 7, piProcessGroup = 7, piSessionID = 7, piStartTime = 5\<rparr>"

definition sampleMembers :: "bool \<Rightarrow> processIdentity set" where
  "sampleMembers alive = (if alive then {sampleChild} else {})"

definition sampleStatLine :: "string \<Rightarrow> string" where
  "sampleStatLine pid = pid @ '' (openvpn) S 1 '' @ pid @ '' '' @ pid @ '' 0 0 0 0 0 0 0 0 0 0 0 0 0 0 0 5''"

definition sampleProcOS :: "bool procOS" where
  "sampleProcOS = \<lparr>
     poReadDir = (\<lambda>_. gets (\<lambda>alive. Inr (if alive then [''1'', ''7'', ''self''] else [''1'', ''self'']))),
     poReadFile = (\<lambda>f. gets (\<lambda>alive. if f = ''/proc/7/stat'' then
        if alive then Inr (sampleStatLine ''7'') else Inl (Sentinel ENOENT) else Inr (sampleStatLine ''1''))),
     poLstat = (\<lambda>_. return (Inl (Sentinel ENOENT))),
     poPidfdOpen = (\<lambda>_. return (Inr 9)),
     poPidfdSend = (\<lambda>_ _. State (\<lambda>_. (None, False))),
     poClose = (\<lambda>_. return None), poPipe = return (Inr (5, 6)),
     poSpawn = (\<lambda>_. State (\<lambda>_. (Inr 7, True))),
     poKill = (\<lambda>_ _. State (\<lambda>_. (None, False))),
     poWait = (\<lambda>_. return None),
     poEnded = (\<lambda>_. gets (\<lambda>alive. if alive then None else Some (Some (ExitStatus 0)))),
     poReads = (\<lambda>_. return ([openVPNReadyMarker, [newline]], False)),
     poEuid = 0\<rparr>"

definition sampleVpnUnix :: "bool unix" where
  "sampleVpnUnix =
     \<lparr>uGetwd = return (Inr ''/''), uOpen = \<lambda>_ flags. return (Inr (if flags = directoryFlags then 3 else 4)),
      uOpenat = \<lambda>_ _ _ _. return (Inl (Sentinel ENOENT)), uMkdirat = \<lambda>_ _ _. return (Some (Sentinel EPERM)),
      uFstat = \<lambda>fd. return (Inr \<lparr>stMode = (if fd = 3 then 0x41C0 else 0x8180), stUid = 0, stSize = 0\<rparr>),
      uFstatat = \<lambda>_ _. return (Inl (Sentinel ENOENT)), uFlock = \<lambda>_ _. return None,
      uReadAll = \<lambda>_ _. return (Inr []), uWrite = \<lambda>_ _. return (0, Some (Sentinel EPERM)),
      uFsync = \<lambda>_. return None, uClose = \<lambda>_. return None, uUnlinkat = \<lambda>_ _ _. return None,
      uRenameat = \<lambda>_ _ _ _. return None, uRenameNoReplace = \<lambda>_ _ _ _. return None,
      uReadDir = \<lambda>_. return (Inr []), uRandom = \<lambda>_. return (Inr []), uMaxOpen = 8\<rparr>"

definition sampleVpn :: "bool openVPNOptions" where
  "sampleVpn = \<lparr>voCommand = ''/usr/sbin/openvpn'', voEnv = None, voReadyTimeout = 0, voInterruptWait = 0,
     voTerminateWait = 0, voKillWait = 0, voOS = sampleProcOS,
     voInspectorEnv = \<lparr>ieUnix = sampleVpnUnix, ieEuid = 0, ieReadStream = \<lambda>_ _. return (''client'', None),
       ieTables = plainTables\<rparr>,
     voInspector = \<lparr>ciMaxBytes = 0, ciValidateFile = None\<rparr>,
     voReadIdentity = readProcessIdentity sampleProcOS, voReadyLooks = 2, voCanceled = None,
     voStopLooks = \<lambda>_. 1\<rparr>"

lemma sample_stat: "parseProcessStat 7 (sampleStatLine ''7'') = Inr sampleChild"
  by code_simp

lemma sample_path: "pathJoin [''/proc'', itoa 7, ''stat''] = ''/proc/7/stat''" "itoa 7 = ''7''"
  by code_simp+

lemma sample_quiet: "quietSystem sampleVpn sampleMembers"
  unfolding quietSystem_def sampleVpn_def sampleProcOS_def sampleVpnUnix_def Let_def readProcessIdentity_def
  by (auto simp: quietCall_def keeps_def wp_simps sampleMembers_def split: sum.splits intro!: wp_runI)

lemma sample_laws: "systemLaws sampleVpn sampleMembers"
proof -
  have "shownMembers sampleVpn sampleMembers"
    using sample_stat sample_path
    by (auto simp: shownMembers_def sampleVpn_def sampleProcOS_def wp_simps sampleMembers_def sampleChild_def)
  moreover have "spawnLaws sampleVpn sampleMembers"
    by (auto simp: spawnLaws_def sampleVpn_def sampleProcOS_def wp_simps sampleMembers_def sampleChild_def
        abandonSpawn_def wp_def)
  ultimately show ?thesis using sample_quiet by (simp add: systemLaws_def)
qed

theorem openvpn_adapter_keeps_contract_witness:
  "contractOn (adapterOk sampleMembers) (tunnelUp sampleMembers)
     (trackedAdapter sampleVpn :: (unit \<times> bool vpnState \<times> string) backend) \<and> sampleMembers True \<noteq> {}"
  using openvpn_adapter_keeps_contract [OF sample_laws, where ?'w = unit, THEN conjunct1]
  by (simp add: sampleMembers_def)

end
