(* ===== verification/HttpRequests.thy ===== *)
theory HttpRequests
  imports GoNet Effects Model
begin

text \<open>
  What the HTTP interface accepts, \<open>security.go\<close>, \<open>json.go\<close> and \<open>metadata.go\<close> of \<open>internal/httpapi\<close>: the proof
  that a request came through the trusted proxy, the origin of a mutation, and strict JSON.  \<open>url.Parse\<close>,
  \<open>mime.ParseMediaType\<close> and the decoders of \<open>encoding/json\<close> are parameters.  A \<open>json.Decoder\<close> read by tokens is
  the list of the tokens it gives before its end or its first error.
\<close>

section \<open>Requests\<close>

record parsedURL =
  puScheme :: string
  puHost :: string
  puHasUser :: bool
  puPath :: string
  puRawQuery :: string
  puFragment :: string

text \<open>\<open>rqHeaders\<close> maps a canonical header name to its first value, an absent header reads as the empty string;
  \<open>rqBody\<close> is the body with the error that ends it, \<open>None\<close> for \<open>io.EOF\<close>.\<close>

record request =
  rqMethod :: string
  rqPath :: string
  rqHeaders :: "(string \<times> string) list"
  rqHost :: string
  rqBody :: "string \<times> err"

text \<open>What the standard library parses for the interface; a media type comes with its parameters, and a decoder gives
  the first JSON value of a text with what follows it, unknown fields refused.\<close>

record metadataPatchRequest =
  rawDisplayName :: "string option"
  rawGroup :: "string option"
  rawLocation :: "string option"
  rawEmoji :: "string option"

datatype jsonToken = Delim char | StringToken string | OtherToken

record httpCodec =
  hcMediaType :: "string \<Rightarrow> (string \<times> (string \<times> string) list) option"
  hcParseURL :: "string \<Rightarrow> parsedURL option"
  hcTokens :: "string \<Rightarrow> jsonToken list \<times> err"
  hcString :: "string \<Rightarrow> goerr + string \<times> string"
  hcMetadataPatch :: "string \<Rightarrow> goerr + metadataPatchRequest \<times> string"

definition header :: "request \<Rightarrow> string \<Rightarrow> string" where
  "header c name = (case map_of (rqHeaders c) name of None \<Rightarrow> [] | Some v \<Rightarrow> v)"

section \<open>The proxy and the origin\<close>

definition ProxyTokenHeader :: string where
  "ProxyTokenHeader = ''X-Tunnelfolio-Proxy-Token''"

text \<open>\<open>requireTrustedProxy\<close>: the comparison takes the same time for every token of the right length; its result
  is equality.\<close>

definition trustedProxyRequest :: "string \<Rightarrow> request \<Rightarrow> bool" where
  "trustedProxyRequest expected c \<longleftrightarrow>
     header c ProxyTokenHeader = expected \<and> header c ''X-Forwarded-Proto'' = ''https'' \<and>
     trimSpace (header c ''X-Remote-User'') \<noteq> [] \<and> trimSpace (header c ''X-Forwarded-Host'') \<noteq> []"

definition sameHost :: "utab \<Rightarrow> string \<Rightarrow> string \<Rightarrow> bool" where
  "sameHost U left right =
     (case (splitHostPort left, splitHostPort right) of
        (Some (leftHost, leftPort), Some (rightHost, rightPort)) \<Rightarrow>
          equalFold U leftHost rightHost \<and> leftPort = rightPort
      | _ \<Rightarrow> equalFold U left right)"

definition validMutationOrigin :: "utab \<Rightarrow> httpCodec \<Rightarrow> request \<Rightarrow> bool \<Rightarrow> bool" where
  "validMutationOrigin U H c trustedProxy =
     (let origin = header c ''Origin''
      in if origin = [] then True
         else case hcParseURL H origin of
           None \<Rightarrow> False
         | Some parsed \<Rightarrow>
             if puHost parsed = [] \<or> puHasUser parsed \<or> puPath parsed \<noteq> [] \<or> puRawQuery parsed \<noteq> []
                 \<or> puFragment parsed \<noteq> [] then False
             else let (expectedHost, expectedScheme) =
                   (if trustedProxy then (header c ''X-Forwarded-Host'', ''https'') else (rqHost c, ''http''))
               in puScheme parsed = expectedScheme \<and> sameHost U (puHost parsed) expectedHost)"

definition securityHeaders :: "(string \<times> string) list" where
  "securityHeaders = [
     (''Content-Security-Policy'', ''default-src 'self'; script-src 'self'; style-src 'self'; img-src 'self'; connect-src 'self'; frame-ancestors 'none'; base-uri 'none'; form-action 'self'' @ [CHR 0x27]),
     (''X-Content-Type-Options'', ''nosniff''), (''X-Frame-Options'', ''DENY''),
     (''Referrer-Policy'', ''no-referrer''),
     (''Permissions-Policy'', ''camera=(), microphone=(), geolocation=()'')]"

section \<open>Strict JSON\<close>

abbreviation openObject :: jsonToken where "openObject \<equiv> Delim CHR ''{''"
abbreviation closeObject :: jsonToken where "closeObject \<equiv> Delim CHR 0x7D"
abbreviation openArray :: jsonToken where "openArray \<equiv> Delim CHR ''[''"
abbreviation closeArray :: jsonToken where "closeArray \<equiv> Delim CHR 0x5D"

text \<open>\<open>decoder.More\<close> on the tokens that are left.  Where they end it is false here; in the code it may be true at a
  byte that is no token, and the next \<open>Token\<close> fails instead of the check of the closing delimiter.\<close>

fun moreTokens :: "jsonToken list \<Rightarrow> bool" where
  "moreTokens [] = False"
| "moreTokens (t # ts) = (t \<noteq> closeObject \<and> t \<noteq> closeArray)"

text \<open>\<open>validateJSONValue\<close> and its two loops: the tokens that are left after the value.  Each call reads a token
  before it calls again, so a bound above the number of tokens is never met.\<close>

fun validateJSONValue :: "nat \<Rightarrow> jsonToken list \<Rightarrow> goerr + jsonToken list"
  and validateMembers :: "nat \<Rightarrow> string list \<Rightarrow> jsonToken list \<Rightarrow> goerr + jsonToken list"
  and validateElements :: "nat \<Rightarrow> jsonToken list \<Rightarrow> goerr + jsonToken list" where
  "validateJSONValue 0 ts = Inl (ErrText ''bound'')"
| "validateJSONValue (Suc n) ts =
     (case ts of
        [] \<Rightarrow> Inl (ErrText ''no token'')
      | t # rest \<Rightarrow>
          if t = openObject then validateMembers n [] rest
          else if t = openArray then validateElements n rest
          else (case t of Delim _ \<Rightarrow> Inl (ErrText ''unexpected JSON delimiter'') | _ \<Rightarrow> Inr rest))"
| "validateMembers 0 seen ts = Inl (ErrText ''bound'')"
| "validateMembers (Suc n) seen ts =
     (if moreTokens ts then
        (case ts of
           StringToken key # rest \<Rightarrow>
             if key \<in> set seen then Inl (ErrText ''JSON object contains a duplicate key'')
             else (case validateJSONValue n rest of
                 Inl e \<Rightarrow> Inl e
               | Inr left \<Rightarrow> validateMembers n (key # seen) left)
         | _ \<Rightarrow> Inl (ErrText ''JSON object key must be a string''))
      else (case ts of
          t # rest \<Rightarrow> if t = closeObject then Inr rest else Inl (ErrText ''malformed JSON object'')
        | [] \<Rightarrow> Inl (ErrText ''malformed JSON object'')))"
| "validateElements 0 ts = Inl (ErrText ''bound'')"
| "validateElements (Suc n) ts =
     (if moreTokens ts then
        (case validateJSONValue n ts of Inl e \<Rightarrow> Inl e | Inr left \<Rightarrow> validateElements n left)
      else (case ts of
          t # rest \<Rightarrow> if t = closeArray then Inr rest else Inl (ErrText ''malformed JSON array'')
        | [] \<Rightarrow> Inl (ErrText ''malformed JSON array'')))"

definition rejectDuplicateJSONKeys :: "jsonToken list \<times> err \<Rightarrow> err" where
  "rejectDuplicateJSONKeys decoder =
     (case validateJSONValue (Suc (Suc (length (fst decoder)))) (fst decoder) of
        Inl e \<Rightarrow> Some e
      | Inr left \<Rightarrow>
          if left = [] \<and> snd decoder = None then None
          else Some (ErrText ''request must contain exactly one JSON value''))"

text \<open>\<open>decode\<close> is \<open>Decoder.Decode\<close> with unknown fields refused: the first value and what follows it.\<close>

definition jsonBlank :: "char \<Rightarrow> bool" where
  "jsonBlank c \<longleftrightarrow> byteOf c \<in> {32, 9, 10, 13}"

definition decodeStrictJSON ::
    "httpCodec \<Rightarrow> (string \<Rightarrow> goerr + 'v \<times> string) \<Rightarrow> string \<Rightarrow> bool \<Rightarrow> goerr + 'v" where
  "decodeStrictJSON H decode data requireObject =
     (let trimmed = trimSpace data
      in if trimmed = [] \<or> requireObject \<and> hd trimmed \<noteq> CHR ''{''
         then Inl (ErrText ''request must contain one JSON object'')
         else case rejectDuplicateJSONKeys (hcTokens H trimmed) of
           Some e \<Rightarrow> Inl e
         | None \<Rightarrow>
             case decode trimmed of
               Inl e \<Rightarrow> Inl e
             | Inr (v, rest) \<Rightarrow>
                 if list_all jsonBlank rest then Inr v
                 else Inl (ErrText ''request must contain exactly one JSON value''))"

definition maxJSONBody :: nat where "maxJSONBody = 16 * 2 ^ 10"

definition decodeJSONRequest :: "httpCodec \<Rightarrow> (string \<Rightarrow> goerr + 'v \<times> string) \<Rightarrow> request \<Rightarrow> goerr + 'v" where
  "decodeJSONRequest H decode c =
     (case hcMediaType H (header c ''Content-Type'') of
        None \<Rightarrow> Inl (Sentinel ErrUnsupportedMediaType)
      | Some (mediaType, _) \<Rightarrow>
          if mediaType \<noteq> ''application/json'' then Inl (Sentinel ErrUnsupportedMediaType)
          else if length (fst (rqBody c)) > maxJSONBody then Inl (Sentinel ErrRequestTooLarge)
          else case snd (rqBody c) of
            Some e \<Rightarrow> Inl e
          | None \<Rightarrow> decodeStrictJSON H decode (fst (rqBody c)) True)"

definition requestBodyEmpty :: "request \<Rightarrow> bool" where
  "requestBodyEmpty c \<longleftrightarrow> rqBody c = ([], None)"

section \<open>Metadata patches\<close>

text \<open>\<^typ>\<open>metadataPatchRequest\<close> has the raw members of the object, \<open>None\<close> for an absent one.\<close>

definition requiredString :: "(string \<Rightarrow> goerr + string \<times> string) \<Rightarrow> string \<Rightarrow> goerr + string" where
  "requiredString decode data =
     (case decode data of
        Inl e \<Rightarrow> Inl e
      | Inr (v, rest) \<Rightarrow>
          if list_all jsonBlank rest then Inr v else Inl (ErrText ''field must contain one string''))"

definition optionalString ::
    "(string \<Rightarrow> goerr + string \<times> string) \<Rightarrow> string option \<Rightarrow> goerr + string option" where
  "optionalString decode raw =
     (case raw of None \<Rightarrow> Inr None | Some data \<Rightarrow> map_sum id Some (requiredString decode data))"

text \<open>A member that may be cleared: whether it is, and the new value.\<close>

definition clearableString ::
    "(string \<Rightarrow> goerr + string \<times> string) \<Rightarrow> string option \<Rightarrow> goerr + bool \<times> string option" where
  "clearableString decode raw =
     (case raw of
        None \<Rightarrow> Inr (False, None)
      | Some data \<Rightarrow>
          if trimSpace data = ''null'' then Inr (True, None)
          else map_sum id (\<lambda>v. (False, Some v)) (requiredString decode data))"

definition patchOf ::
    "(string \<Rightarrow> goerr + string \<times> string) \<Rightarrow> metadataPatchRequest \<Rightarrow> goerr + metadataPatch" where
  "patchOf decode raw =
     (case optionalString decode (rawDisplayName raw) of Inl e \<Rightarrow> Inl e | Inr displayName \<Rightarrow>
      case optionalString decode (rawGroup raw) of Inl e \<Rightarrow> Inl e | Inr grp \<Rightarrow>
      case clearableString decode (rawLocation raw) of Inl e \<Rightarrow> Inl e | Inr (clearLocation, location) \<Rightarrow>
      case clearableString decode (rawEmoji raw) of Inl e \<Rightarrow> Inl e | Inr (clearEmoji, emoji) \<Rightarrow>
        if rawDisplayName raw = None \<and> rawGroup raw = None \<and> rawLocation raw = None \<and> rawEmoji raw = None
        then Inl (ErrText ''metadata patch is empty'')
        else Inr \<lparr>mpDisplayName = displayName, mpGroup = grp, mpLocation = location,
               mpClearLocation = clearLocation, mpEmoji = emoji, mpClearEmoji = clearEmoji\<rparr>)"

definition decodeMetadataPatch ::
    "httpCodec \<Rightarrow> request \<Rightarrow> goerr + metadataPatch" where
  "decodeMetadataPatch H c =
     (case decodeJSONRequest H (hcMetadataPatch H) c of
        Inl e \<Rightarrow> Inl (Joined [Sentinel ErrMalformedMetadataPatch, e])
      | Inr raw \<Rightarrow> patchOf (hcString H) raw)"

definition parseRevision :: "string \<Rightarrow> nat option" where
  "parseRevision text = parseUint64 text"

section \<open>Duplicate keys\<close>

text \<open>The values whose tokens a decoder gives.\<close>

datatype jsonTree = Atom "string option" | Elements "jsonTree list" | Members "(string \<times> jsonTree) list"

fun tokensOf :: "jsonTree \<Rightarrow> jsonToken list" where
  "tokensOf (Atom None) = [OtherToken]"
| "tokensOf (Atom (Some s)) = [StringToken s]"
| "tokensOf (Elements vs) = openArray # concat (map tokensOf vs) @ [closeArray]"
| "tokensOf (Members ms) = openObject # concat (map (\<lambda>(k, v). StringToken k # tokensOf v) ms) @ [closeObject]"

fun uniqueKeys :: "jsonTree \<Rightarrow> bool" where
  "uniqueKeys (Atom s) = True"
| "uniqueKeys (Elements vs) = list_all uniqueKeys vs"
| "uniqueKeys (Members ms) = (distinct (map fst ms) \<and> list_all (\<lambda>(k, v). uniqueKeys v) ms)"

lemma tokensOf_more: "moreTokens (tokensOf v @ ts)"
  by (cases v rule: tokensOf.cases) simp_all

lemma validate_sound:
  "validateJSONValue n ts = Inr left \<Longrightarrow> \<exists>v. ts = tokensOf v @ left \<and> uniqueKeys v"
  "validateMembers n seen ts = Inr left \<Longrightarrow> \<exists>ms.
     ts = concat (map (\<lambda>(k, v). StringToken k # tokensOf v) ms) @ closeObject # left \<and>
     distinct (map fst ms) \<and> set seen \<inter> fst ` set ms = {} \<and> list_all (\<lambda>(k, v). uniqueKeys v) ms"
  "validateElements n ts = Inr left \<Longrightarrow> \<exists>vs.
     ts = concat (map tokensOf vs) @ closeArray # left \<and> list_all uniqueKeys vs"
proof (induction n ts and n seen ts and n ts arbitrary: left and left and left
    rule: validateJSONValue_validateMembers_validateElements.induct)
  case (2 n ts)
  then obtain t rest where ts: "ts = t # rest" by (auto split: list.splits)
  show ?case
  proof (cases "t = openObject")
    case True
    with 2 ts obtain ms where
      "rest = concat (map (\<lambda>(k, v). StringToken k # tokensOf v) ms) @ closeObject # left"
      "distinct (map fst ms)" "list_all (\<lambda>(k, v). uniqueKeys v) ms" by fastforce
    with True ts show ?thesis by (intro exI [of _ "Members ms"]) simp
  next
    case noObject: False
    show ?thesis
    proof (cases "t = openArray")
      case True
      with 2 ts obtain vs where "rest = concat (map tokensOf vs) @ closeArray # left" "list_all uniqueKeys vs"
        by fastforce
      with True ts show ?thesis by (intro exI [of _ "Elements vs"]) simp
    next
      case False
      with noObject 2(3) ts show ?thesis
      proof (cases t)
        case (StringToken s)
        with 2(3) ts show ?thesis by (intro exI [of _ "Atom (Some s)"]) simp
      next
        case OtherToken
        with 2(3) ts show ?thesis by (intro exI [of _ "Atom None"]) simp
      qed simp
    qed
  qed
next
  case (4 n seen ts)
  show ?case
  proof (cases "moreTokens ts")
    case False
    with 4(3) show ?thesis by (intro exI [of _ "[]"]) (auto split: list.splits if_splits)
  next
    case True
    with 4(3) obtain key rest mid where ts: "ts = StringToken key # rest" "key \<notin> set seen"
      "validateJSONValue n rest = Inr mid" "validateMembers n (key # seen) mid = Inr left"
      by (auto split: list.splits jsonToken.splits if_splits sum.splits)
    from 4(1) [OF True ts(1) refl ts(2,3)] obtain v where v: "rest = tokensOf v @ mid" "uniqueKeys v" by blast
    from 4(2) [OF True ts(1) refl ts(2,3) ts(4)] obtain ms where
      "mid = concat (map (\<lambda>(k, v). StringToken k # tokensOf v) ms) @ closeObject # left"
      "distinct (map fst ms)" "set (key # seen) \<inter> fst ` set ms = {}" "list_all (\<lambda>(k, v). uniqueKeys v) ms" by blast
    with v ts show ?thesis by (intro exI [of _ "(key, v) # ms"]) auto
  qed
next
  case (6 n ts)
  show ?case
  proof (cases "moreTokens ts")
    case False
    with 6(3) show ?thesis by (intro exI [of _ "[]"]) (auto split: list.splits if_splits)
  next
    case True
    with 6(3) obtain mid where mid: "validateJSONValue n ts = Inr mid" "validateElements n mid = Inr left"
      by (auto split: sum.splits)
    from 6(1) [OF True mid(1)] 6(2) [OF True mid] obtain v vs where
      "ts = tokensOf v @ mid" "uniqueKeys v" "mid = concat (map tokensOf vs) @ closeArray # left"
      "list_all uniqueKeys vs" by blast
    then show ?thesis by (intro exI [of _ "v # vs"]) simp
  qed
qed simp_all

lemma tokensOf_pos: obtains l where "length (tokensOf v) = Suc l"
  by (cases v rule: tokensOf.cases) simp_all

lemma members_complete:
  assumes "\<And>v n left. v \<in> snd ` set ms \<Longrightarrow> length (tokensOf v) \<le> n \<Longrightarrow>
      validateJSONValue n (tokensOf v @ left) = Inr left"
    and "length (concat (map (\<lambda>(k, v). StringToken k # tokensOf v) ms)) < n"
    and "distinct (map fst ms)" "set seen \<inter> fst ` set ms = {}"
  shows "validateMembers n seen (concat (map (\<lambda>(k, v). StringToken k # tokensOf v) ms) @ closeObject # left) = Inr left"
  using assms
proof (induction ms arbitrary: n seen)
  case Nil
  then obtain m where "n = Suc m" by (cases n) auto
  then show ?case by simp
next
  case (Cons kv ms)
  obtain k v where kv: "kv = (k, v)" by (cases kv)
  with Cons.prems obtain m where n: "n = Suc m" by (cases n) auto
  let ?rest = "concat (map (\<lambda>(k, v). StringToken k # tokensOf v) ms) @ closeObject # left"
  have val: "validateJSONValue m (tokensOf v @ ?rest) = Inr ?rest"
    using Cons.prems(2) n kv by (intro Cons.prems(1)) auto
  have rest: "validateMembers m (k # seen) ?rest = Inr left"
    using Cons.prems(2-4) n kv by (intro Cons.IH Cons.prems(1)) auto
  have "k \<notin> set seen" using Cons.prems(4) kv by auto
  with n kv val rest show ?case by simp
qed

lemma elements_complete:
  assumes "\<And>v n left. v \<in> set vs \<Longrightarrow> length (tokensOf v) \<le> n \<Longrightarrow>
      validateJSONValue n (tokensOf v @ left) = Inr left"
    and "length (concat (map tokensOf vs)) < n"
  shows "validateElements n (concat (map tokensOf vs) @ closeArray # left) = Inr left"
  using assms
proof (induction vs arbitrary: n)
  case Nil
  then obtain m where "n = Suc m" by (cases n) auto
  then show ?case by simp
next
  case (Cons v vs)
  then obtain m where n: "n = Suc m" by (cases n) auto
  let ?rest = "concat (map tokensOf vs) @ closeArray # left"
  have val: "validateJSONValue m (tokensOf v @ ?rest) = Inr ?rest"
    using Cons.prems(2) n by (intro Cons.prems(1)) auto
  obtain l where "length (tokensOf v) = Suc l" by (rule tokensOf_pos)
  then have rest: "validateElements m ?rest = Inr left"
    using Cons.prems(2) n by (intro Cons.IH Cons.prems(1)) auto
  show ?case using n val rest tokensOf_more [of v ?rest] by simp
qed

lemma validate_complete:
  assumes "uniqueKeys v" "length (tokensOf v) \<le> n"
  shows "validateJSONValue n (tokensOf v @ left) = Inr left"
  using assms
proof (induction v arbitrary: n left)
  case (Atom s)
  then obtain m where "n = Suc m" by (cases n; cases s) auto
  then show ?case by (cases s) simp_all
next
  case (Elements vs)
  then obtain m where n: "n = Suc m" by (cases n) auto
  have "validateElements m (concat (map tokensOf vs) @ closeArray # left) = Inr left"
    using Elements n by (intro elements_complete) (auto simp: list_all_iff)
  with n show ?case by simp
next
  case (Members ms)
  then obtain m where n: "n = Suc m" by (cases n) auto
  have "validateMembers m [] (concat (map (\<lambda>(k, v). StringToken k # tokensOf v) ms) @ closeObject # left) = Inr left"
    using Members n by (intro members_complete) (fastforce simp: list_all_iff)+
  with n show ?case by simp
qed

text \<open>C38: the strict reader of JSON accepts a body exactly when the decoder reads it to its end as one value in which
  no object, at any depth, has two members of the same name.\<close>
theorem duplicate_keys_decided:
  "rejectDuplicateJSONKeys (ts, e) = None \<longleftrightarrow> e = None \<and> (\<exists>v. ts = tokensOf v \<and> uniqueKeys v)"
proof (cases "validateJSONValue (Suc (Suc (length ts))) ts")
  case (Inl f)
  then have "\<nexists>v. ts = tokensOf v \<and> uniqueKeys v"
    using validate_complete [where left = "[]"] by (metis Inl_Inr_False append_Nil2 le_SucI order_refl)
  with Inl show ?thesis by (simp add: rejectDuplicateJSONKeys_def)
next
  case (Inr left)
  with validate_sound(1) obtain v where v: "ts = tokensOf v @ left" "uniqueKeys v" by blast
  have "left = []" if "ts = tokensOf w" "uniqueKeys w" for w
    using validate_complete [OF that(2), of "Suc (Suc (length ts))" "[]"] that(1) Inr by simp
  with v Inr show ?thesis by (auto simp: rejectDuplicateJSONKeys_def)
qed

end
