(* ===== verification/ImportStaging.thy ===== *)
theory ImportStaging
  imports HttpRequests SecureFs Import
begin

text \<open>
  Staging of an import request, \<open>internal/httpapi/multipart.go\<close>: the parts of the body are written into a private
  directory that exists as long as the request.  \<open>multipart.Reader\<close> is a parameter that turns a boundary and a body
  into the parts it gives and the error that ends them, \<open>None\<close> for \<open>io.EOF\<close>; the content of a part is its bytes
  and the error that ends them.
\<close>

record multipartPart =
  ptFormName :: string
  ptFileName :: string
  ptDisposition :: string
  ptContent :: "string \<times> err"

text \<open>The process the server runs in.\<close>

record 'w httpEnv =
  heKernel :: "'w unix"
  heUID :: int
  heNow :: "('w, goTime) state"
  heTables :: utab
  heCodec :: httpCodec
  heMultipart :: "string \<Rightarrow> string \<times> err \<Rightarrow> multipartPart list \<times> err"
  heOverrides :: "string \<Rightarrow> goerr + (string \<times> string) list \<times> string"
  heRecords :: "string \<Rightarrow> goerr + inspectionRecord list \<times> string"
  heMetadata :: "string \<Rightarrow> goerr + (string \<times> metadata) list \<times> bool"

record stagedMultipart =
  sgFiles :: "importFile list"
  sgFields :: "(string \<times> string) list"
  sgRoot :: fd
  sgDir :: fd
  sgName :: string

definition maxMultipartField :: nat where "maxMultipartField = 2 ^ 20"

definition valueOf :: "(string \<times> string) list \<Rightarrow> string \<Rightarrow> string" where
  "valueOf m key = (case map_of m key of None \<Rightarrow> [] | Some v \<Rightarrow> v)"

text \<open>\<open>http.MaxBytesReader\<close>\<close>

definition MaxBytesReader :: "string \<times> err \<Rightarrow> nat \<Rightarrow> string \<times> err" where
  "MaxBytesReader body n =
     (if length (fst body) > n then (take n (fst body), Some (Sentinel HttpMaxBytesError)) else body)"

definition invalidMultipart :: "string \<Rightarrow> goerr" where
  "invalidMultipart msg = Wrapf msg (Sentinel ErrInvalidMultipart)"

definition stagingFailed :: "string \<Rightarrow> goerr" where
  "stagingFailed msg = Wrapf msg (Sentinel ErrImportStaging)"

text \<open>A read that failed: the limit of the body, or anything else.\<close>

definition readFailed :: "goerr \<Rightarrow> goerr \<Rightarrow> goerr" where
  "readFailed e other = (if errorsIs e HttpMaxBytesError then Sentinel ErrRequestTooLarge else other)"

definition Cleanup :: "'w httpEnv \<Rightarrow> stagedMultipart \<Rightarrow> ('w, unit) state" where
  "Cleanup E staged = do {
     _ \<leftarrow> uClose (heKernel E) (sgDir staged);
     _ \<leftarrow> RemoveTreeAt (heKernel E) (sgRoot staged) (sgName staged) (heUID E);
     _ \<leftarrow> Sync (heKernel E) (sgRoot staged);
     _ \<leftarrow> uClose (heKernel E) (sgRoot staged);
     return ()
   }"

definition profileFileName :: "nat \<Rightarrow> string" where
  "profileFileName n = (let s = itoaNat n in replicate (3 - length s) CHR ''0'' @ s @ ''.profile'')"

definition stageFile ::
    "'w httpEnv \<Rightarrow> stagedMultipart \<Rightarrow> multipartPart \<Rightarrow> ('w, goerr + stagedMultipart) state" where
  "stageFile E staged p =
     (if length (sgFiles staged) = MaxImportFiles then return (Inl (Sentinel ErrRequestTooLarge))
      else case hcMediaType (heCodec E) (ptDisposition p) of
        None \<Rightarrow> return (Inl (invalidMultipart ''malformed file disposition''))
      | Some (_, parameters) \<Rightarrow>
          let filename = valueOf parameters ''filename''; name = profileFileName (length (sgFiles staged))
          in if ValidateOriginalFilename filename \<noteq> None
             then return (Inl (invalidMultipart ''invalid profile filename''))
             else do {
               (written, e) \<leftarrow> WriteExclusiveFrom (heKernel E) (sgDir staged) name (Some (ptContent p))
                 MaxProfileBytes (heUID E);
               if written > MaxProfileBytes then return (Inl (Sentinel ErrRequestTooLarge))
               else case e of
                 Some x \<Rightarrow> return (Inl (readFailed x (stagingFailed ''write profile'')))
               | None \<Rightarrow> do {
                   r \<leftarrow> ReadFileAt (heKernel E) (sgDir staged) name MaxProfileBytes (heUID E);
                   return (case r of
                       Inl _ \<Rightarrow> Inl (stagingFailed ''read staged profile'')
                     | Inr data \<Rightarrow> Inr (staged\<lparr>sgFiles := sgFiles staged @
                         [\<lparr>ifName = filename, ifBytes = data, ifProtocolOverride = []\<rparr>]\<rparr>))
                 }
             })"

text \<open>A part that is not a file; the read stops one byte beyond the limit of a field.\<close>

definition stageField :: "string list \<Rightarrow> stagedMultipart \<Rightarrow> multipartPart \<Rightarrow> goerr + stagedMultipart" where
  "stageField allowed staged p =
     (let field = ptFormName p
      in if field \<notin> set allowed \<or> field = [] \<or> ptFileName p \<noteq> [] then Inl (invalidMultipart ''unknown part'')
         else if map_of (sgFields staged) field \<noteq> None then Inl (invalidMultipart ''duplicate part'')
         else if length (fst (ptContent p)) > maxMultipartField then Inl (Sentinel ErrRequestTooLarge)
         else case snd (ptContent p) of
           Some e \<Rightarrow> Inl (readFailed e (invalidMultipart ''field could not be read''))
         | None \<Rightarrow> Inr (staged\<lparr>sgFields := (field, fst (ptContent p)) # sgFields staged\<rparr>))"

definition abandon :: "'w httpEnv \<Rightarrow> stagedMultipart \<Rightarrow> goerr \<Rightarrow> ('w, goerr + stagedMultipart) state" where
  "abandon E staged e = do { Cleanup E staged; return (Inl e) }"

fun stageParts ::
    "'w httpEnv \<Rightarrow> string list \<Rightarrow> err \<Rightarrow> stagedMultipart \<Rightarrow> multipartPart list \<Rightarrow>
     ('w, goerr + stagedMultipart) state" where
  "stageParts E allowed e staged [] =
     (case e of
        Some x \<Rightarrow> abandon E staged (readFailed x (invalidMultipart ''body could not be read''))
      | None \<Rightarrow> if sgFiles staged = [] then abandon E staged (invalidMultipart ''no profile files'')
          else return (Inr staged))"
| "stageParts E allowed e staged (p # ps) = do {
     r \<leftarrow> (if ptFormName p = ''files'' then stageFile E staged p else return (stageField allowed staged p));
     case r of
       Inl x \<Rightarrow> abandon E staged x
     | Inr staged \<Rightarrow> stageParts E allowed e staged ps
   }"

definition stageImportMultipart ::
    "'w httpEnv \<Rightarrow> string \<Rightarrow> string list \<Rightarrow> request \<Rightarrow> ('w, goerr + stagedMultipart) state" where
  "stageImportMultipart E runtimeDir allowed c =
     (case hcMediaType (heCodec E) (header c ''Content-Type'') of
        None \<Rightarrow> return (Inl (Sentinel ErrUnsupportedMediaType))
      | Some (mediaType, parameters) \<Rightarrow>
          if mediaType \<noteq> ''multipart/form-data'' \<or> valueOf parameters ''boundary'' = []
          then return (Inl (Sentinel ErrUnsupportedMediaType))
          else do {
            prepared \<leftarrow> EnsurePrivateDir (heKernel E) runtimeDir (heUID E);
            if prepared \<noteq> None then return (Inl (stagingFailed ''prepare runtime directory''))
            else do {
              r \<leftarrow> OpenPrivateDir (heKernel E) runtimeDir (heUID E);
              case r of
                Inl _ \<Rightarrow> return (Inl (stagingFailed ''open runtime directory''))
              | Inr root \<Rightarrow> do {
                  r \<leftarrow> uRandom (heKernel E) 16;
                  case r of
                    Inl _ \<Rightarrow> do {
                      _ \<leftarrow> uClose (heKernel E) root;
                      return (Inl (stagingFailed ''name request'')) }
                  | Inr random \<Rightarrow> do {
                      let name = ''request-'' @ hexEncode random;
                      r \<leftarrow> MkdirExclusive (heKernel E) root name (heUID E);
                      case r of
                        Inl _ \<Rightarrow> do {
                          _ \<leftarrow> uClose (heKernel E) root;
                          return (Inl (stagingFailed ''create request directory'')) }
                      | Inr dir \<Rightarrow>
                          (case heMultipart E (valueOf parameters ''boundary'')
                              (MaxBytesReader (rqBody c) MaxImportRequest) of
                             (parts, e) \<Rightarrow> stageParts E allowed e
                               \<lparr>sgFiles = [], sgFields = [], sgRoot = root, sgDir = dir, sgName = name\<rparr> parts)
                    }
                }
            }
          })"

section \<open>The fields\<close>

text \<open>The members of the document come in any order; they name different files, or one of them is refused.\<close>

fun overrideEach :: "importFile list \<Rightarrow> (string \<times> string) list \<Rightarrow> importFile list option" where
  "overrideEach files [] = Some files"
| "overrideEach files ((ordinalText, protocol) # rest) =
     (case parseInt64 ordinalText of
        None \<Rightarrow> None
      | Some ordinal \<Rightarrow>
          if ordinal < 0 \<or> ordinal \<ge> int (length files) \<or> itoa ordinal \<noteq> ordinalText \<or> \<not> ValidProtocol protocol
          then None
          else overrideEach
            (files[nat ordinal := (files ! nat ordinal)\<lparr>ifProtocolOverride := protocol\<rparr>]) rest)"

definition applyOverrides :: "'w httpEnv \<Rightarrow> stagedMultipart \<Rightarrow> goerr + stagedMultipart" where
  "applyOverrides E staged =
     (case map_of (sgFields staged) ''protocol_overrides'' of
        None \<Rightarrow> Inr staged
      | Some data \<Rightarrow>
          case decodeStrictJSON (heCodec E) (heOverrides E) data True of
            Inl _ \<Rightarrow> Inl (ErrText ''protocol overrides are invalid'')
          | Inr overrides \<Rightarrow>
              case overrideEach (sgFiles staged) overrides of
                None \<Rightarrow> Inl (ErrText ''protocol overrides are invalid'')
              | Some files \<Rightarrow> Inr (staged\<lparr>sgFiles := files\<rparr>))"

definition exactTextField :: "(string \<times> string) list \<Rightarrow> string \<Rightarrow> nat \<Rightarrow> goerr + string" where
  "exactTextField given name maximum =
     (case map_of given name of
        None \<Rightarrow> Inl (ErrText ''is required'')
      | Some data \<Rightarrow>
          if data = [] \<or> length data > maximum then Inl (ErrText ''is required'')
          else if trimSpace data \<noteq> data then Inl (ErrText ''is invalid'')
          else Inr data)"

end
