(* ===== verification/HttpServer.thy ===== *)
theory HttpServer
  imports ImportStaging ManagerViews
begin

text \<open>
  The HTTP server, \<open>internal/httpapi/server.go\<close>, with the middleware of \<open>security.go\<close> and the embedded assets of
  \<open>internal/web/embed.go\<close>.  A request that \<open>gin\<close> has routed is a \<open>route\<close> and a \<open>request\<close>; its answer is a
  \<open>response\<close>, whose body holds the value that is marshalled to JSON.  The state is the manager's state with the
  tokens of the two import gates, the sequence number of the requests, and the lines the server has logged.
\<close>

section \<open>Embedded files\<close>

definition scriptAssets :: "string list" where
  "scriptAssets = [''api.js'', ''app.js'', ''connection.js'', ''detail.js'', ''import.js'', ''library.js'',
     ''profile-symbol.js'', ''state.js'']"

definition fontAssets :: "string list" where
  "fontAssets = [''manrope-latin.woff2'', ''noto-color-emoji.woff2'']"

definition licenseAssets :: "string list" where
  "licenseAssets = [''Manrope-OFL.txt'', ''NotoColorEmoji-OFL.txt'', ''Lucide-LICENSE.txt'']"

definition web_Index :: "(string \<Rightarrow> goerr + string) \<Rightarrow> goerr + string" where
  "web_Index files = files ''index.html''"

definition web_Asset :: "(string \<Rightarrow> goerr + string) \<Rightarrow> string \<Rightarrow> goerr + string \<times> string" where
  "web_Asset files name =
     (let kind = (if name = ''app.css'' then ''text/css; charset=utf-8''
            else if name \<in> set scriptAssets then ''text/javascript; charset=utf-8''
            else if name \<in> set fontAssets then ''font/woff2''
            else if name \<in> set licenseAssets then ''text/plain; charset=utf-8'' else [])
      in if kind = [] then Inl (ErrText ''asset not found'')
         else map_sum id (\<lambda>data. (data, kind)) (files (''assets/'' @ name)))"

section \<open>Answers\<close>

record errorDetail =
  edField :: string
  edCode :: string
  edFile :: "nat option"

datatype webBody =
    NoBody
  | FileBody string string
  | ErrorBody string string
  | DetailsBody string string "errorDetail list"
  | HealthBody string bool "(string \<times> availability) list"
  | StatusBody status "string option"
  | ListBody "profileView list"
  | DetailBody profileDetail
  | ProfileBody profileView
  | PreferencesBody preferences
  | ConnectedBody string
  | DisconnectedBody
  | InspectionBody inspection
  | ImportedBody "(int \<times> string \<times> profileView) list" bool "64 word"
  | RemovedBody profileView bool

record response =
  rpStatus :: nat
  rpHeaders :: "(string \<times> string) list"
  rpBody :: webBody
  rpSubject :: string
  rpOutcome :: string

text \<open>\<open>rpSubject\<close> and \<open>rpOutcome\<close> are \<open>audit_subject\<close> and \<open>audit_outcome\<close> of the request's context.\<close>

definition reply :: "nat \<Rightarrow> webBody \<Rightarrow> response" where
  "reply code b = \<lparr>rpStatus = code, rpHeaders = [], rpBody = b, rpSubject = [], rpOutcome = []\<rparr>"

definition succeed :: "string \<Rightarrow> webBody \<Rightarrow> response" where
  "succeed outcome b = (reply 200 b)\<lparr>rpOutcome := outcome\<rparr>"

definition about :: "string \<Rightarrow> response \<Rightarrow> response" where
  "about subject r = r\<lparr>rpSubject := subject\<rparr>"

definition writeError :: "nat \<Rightarrow> string \<Rightarrow> string \<Rightarrow> response" where
  "writeError status code message = (reply status (ErrorBody code message))\<lparr>rpOutcome := code\<rparr>"

definition writeErrorDetails :: "nat \<Rightarrow> string \<Rightarrow> string \<Rightarrow> errorDetail list \<Rightarrow> response" where
  "writeErrorDetails status code message details =
     (reply status (DetailsBody code message details))\<lparr>rpOutcome := code\<rparr>"

text \<open>\<open>errors.As\<close> for the two error structs of the metadata.\<close>

fun asMetadataErr :: "goerr \<Rightarrow> (string \<times> string) option"
  and asMetadataErrs :: "goerr list \<Rightarrow> (string \<times> string) option" where
  "asMetadataErr (MetadataErr field code) = Some (field, code)"
| "asMetadataErr (Wrapf _ e) = asMetadataErr e"
| "asMetadataErr (ImportMetadataErr _ e) = asMetadataErr e"
| "asMetadataErr (Joined es) = asMetadataErrs es"
| "asMetadataErr (Sentinel _) = None"
| "asMetadataErr (ErrText _) = None"
| "asMetadataErr (PolicyErr _ _ _) = None"
| "asMetadataErrs [] = None"
| "asMetadataErrs (e # es) = (case asMetadataErr e of Some x \<Rightarrow> Some x | None \<Rightarrow> asMetadataErrs es)"

fun asImportMetadataErr :: "goerr \<Rightarrow> nat option"
  and asImportMetadataErrs :: "goerr list \<Rightarrow> nat option" where
  "asImportMetadataErr (ImportMetadataErr file _) = Some file"
| "asImportMetadataErr (Wrapf _ e) = asImportMetadataErr e"
| "asImportMetadataErr (Joined es) = asImportMetadataErrs es"
| "asImportMetadataErr (MetadataErr _ _) = None"
| "asImportMetadataErr (Sentinel _) = None"
| "asImportMetadataErr (ErrText _) = None"
| "asImportMetadataErr (PolicyErr _ _ _) = None"
| "asImportMetadataErrs [] = None"
| "asImportMetadataErrs (e # es) =
     (case asImportMetadataErr e of Some x \<Rightarrow> Some x | None \<Rightarrow> asImportMetadataErrs es)"

definition writeMetadataError :: "goerr \<Rightarrow> response" where
  "writeMetadataError e =
     (case asMetadataErr e of
        Some (field, code) \<Rightarrow> writeErrorDetails 422 ''invalid_metadata'' ''Profile metadata is invalid.''
          [\<lparr>edField = field, edCode = code, edFile = asImportMetadataErr e\<rparr>]
      | None \<Rightarrow> writeError 422 ''invalid_metadata'' ''Profile metadata is invalid.'')"

definition writeMappedError :: "goerr \<Rightarrow> response" where
  "writeMappedError e =
     (if errorsIs e ErrNotFound then writeError 404 ''profile_not_found'' ''The profile was not found.''
      else if errorsIs e ErrReadOnly then writeError 403 ''read_only'' ''Mutations are disabled.''
      else if errorsIs e ErrTransitionInProgress
      then writeError 409 ''transition_in_progress'' ''Another tunnel or library operation is in progress.''
      else if errorsIs e ErrActiveProfile
      then writeError 409 ''profile_active'' ''Disconnect this profile before removing it.''
      else if errorsIs e ErrManagedStateConflict \<or> errorsIs e ErrIdentityConflict
      then writeError 409 ''managed_state_conflict'' ''Managed tunnel state is conflicted.''
      else if errorsIs e ErrTransitionFailed
      then writeError 503 ''transition_failed''
        ''The tunnel transition failed. The current state has been reconciled where possible.''
      else if errorsIs e ErrImportBusy
      then writeError 409 ''import_busy'' ''Another import is in progress.''
      else if errorsIs e ErrStaleInspection
      then writeError 409 ''stale_inspection'' ''The library changed. Inspect these files again.''
      else if errorsIs e ErrExpiredReceipt
      then writeError 409 ''inspection_expired'' ''The inspection expired. Inspect these files again.''
      else if errorsIs e ErrInvalidReceipt
      then writeError 400 ''invalid_receipt'' ''The inspection receipt is invalid.''
      else if errorsIs e ErrCapacity
      then writeError 409 ''library_capacity'' ''The profile library has reached its 100-profile limit.''
      else if errorsIs e ErrConflict
      then writeError 409 ''library_conflict'' ''The profile library changed or contains a conflicting record.''
      else if errorsIs e ErrInvalidMetadata then writeMetadataError e
      else if errorsIs e ErrInvalidManifest
      then writeError 400 ''invalid_preferences'' ''Preferences reference an unknown or duplicate profile.''
      else if errorsIs e ErrOutcomeAmbiguous
      then writeError 503 ''outcome_ambiguous''
        ''The durable outcome is unknown. Refresh the library before retrying.''
      else if errorsIs e ErrUnavailable \<or> errorsIs e ErrObservationFailed
      then writeError 503 ''protocol_unavailable'' ''Protocol state or tooling is unavailable.''
      else writeError 500 ''internal_error'' ''The request could not be completed.'')"

definition writeImportEnvelopeError :: "goerr \<Rightarrow> response" where
  "writeImportEnvelopeError e =
     (if errorsIs e ErrUnsupportedMediaType
      then writeError 415 ''unsupported_media_type'' ''The import requires multipart/form-data.''
      else if errorsIs e ErrRequestTooLarge
      then writeError 413 ''import_too_large'' ''The import exceeds its file, count, or request limit.''
      else if errorsIs e ErrImportStaging
      then writeError 500 ''import_staging_failed'' ''The import could not be staged.''
      else writeError 400 ''invalid_multipart'' ''The import request is malformed.'')"

definition writeJSONEnvelopeError :: "goerr \<Rightarrow> response" where
  "writeJSONEnvelopeError e =
     (if errorsIs e ErrUnsupportedMediaType
      then writeError 415 ''unsupported_media_type'' ''The request requires application/json.''
      else if errorsIs e ErrRequestTooLarge
      then writeError 413 ''request_too_large'' ''The request body exceeds its limit.''
      else writeError 400 ''invalid_json'' ''The request body is malformed.'')"

section \<open>The server\<close>

record preferencesRequest =
  qrFavorites :: "string list option"
  qrRecents :: "string list option"
  qrStartupMode :: string

record ('w, 'n) server =
  svManager :: "('w, 'n) manager"
  svImports :: "('w, ('w, 'n) mstate) importService option"
  svRuntimeDir :: string
  svTrustedProxy :: bool
  svProxyToken :: string
  svReadOnly :: bool

record webDecoders =
  wdConnect :: "string \<Rightarrow> goerr + string \<times> string"
  wdPreferences :: "string \<Rightarrow> goerr + preferencesRequest \<times> string"
  wdFiles :: "string \<Rightarrow> goerr + string"

datatype logLine = AuditLine string string string string string | RequestLine string string string nat

record ('w, 'n) webState =
  wsManager :: "('w, 'n) mstate"
  wsImportGate :: bool
  wsServiceGate :: bool
  wsSequence :: "64 word"
  wsLog :: "logLine list"

definition onManager :: "(('w, 'n) mstate, 'a) state \<Rightarrow> (('w, 'n) webState, 'a) state" where
  "onManager = zoom wsManager (\<lambda>t s. s\<lparr>wsManager := t\<rparr>)"

definition onKernel :: "('w, 'a) state \<Rightarrow> (('w, 'n) webState, 'a) state" where
  "onKernel m = onManager (Manager.onStore (onWorld m))"

text \<open>The import service works on the store of the manager's state; what its commit admission acts on is the rest
  of that state.\<close>

definition onImports ::
    "(('w, ('w, 'n) mstate) istate, 'a) state \<Rightarrow> (('w, 'n) webState, 'a) state" where
  "onImports = zoom (\<lambda>s. \<lparr>iStore = gStore (wsManager s), iEnv = wsManager s, iGate = wsServiceGate s\<rparr>)
     (\<lambda>t s. s\<lparr>wsManager := (iEnv t)\<lparr>gStore := iStore t\<rparr>, wsServiceGate := iGate t\<rparr>)"

record ('w, 'n) webOptions =
  woManager :: "('w, 'n) manager option"
  woImports :: "('w, ('w, 'n) mstate) importService option"
  woRuntimeDir :: string
  woTrustedProxy :: bool
  woProxyToken :: string
  woReadOnly :: bool

definition http_New :: "('w, 'n) webOptions \<Rightarrow> goerr + ('w, 'n) server" where
  "http_New options =
     (case woManager options of
        None \<Rightarrow> Inl (ErrText ''manager is required'')
      | Some M \<Rightarrow>
          if woRuntimeDir options = [] then Inl (ErrText ''runtime directory is required'')
          else if woTrustedProxy options \<and> length (woProxyToken options) = 0
          then Inl (ErrText ''trusted proxy token is required'')
          else if \<not> woReadOnly options \<and> woImports options = None
          then Inl (ErrText ''import service is required in mutable mode'')
          else Inr \<lparr>svManager = M, svImports = woImports options, svRuntimeDir = woRuntimeDir options,
            svTrustedProxy = woTrustedProxy options, svProxyToken = woProxyToken options,
            svReadOnly = woReadOnly options\<rparr>)"

definition openedWeb :: "('w, 'n) mstate \<Rightarrow> ('w, 'n) webState" where
  "openedWeb g = \<lparr>wsManager = g, wsImportGate = True, wsServiceGate = True, wsSequence = 0, wsLog = []\<rparr>"

definition addLog :: "logLine \<Rightarrow> (('w, 'n) webState, unit) state" where
  "addLog line = modify (\<lambda>s. s\<lparr>wsLog := line # wsLog s\<rparr>)"

definition acquireImport :: "(('w, 'n) webState, bool) state" where
  "acquireImport = do {
     token \<leftarrow> gets wsImportGate;
     if token then do { modify (\<lambda>s. s\<lparr>wsImportGate := False\<rparr>); return True } else return False
   }"

definition releaseImport :: "(('w, 'n) webState, unit) state" where
  "releaseImport = modify (\<lambda>s. s\<lparr>wsImportGate := True\<rparr>)"

text \<open>\<open>v, err := m; if err != nil { write the error; return }\<close>\<close>

definition answer ::
    "(goerr \<Rightarrow> response) \<Rightarrow> ('s, goerr + 'a) state \<Rightarrow> ('a \<Rightarrow> ('s, response) state) \<Rightarrow> ('s, response) state" where
  "answer failed m f = do { r \<leftarrow> m; case r of Inl e \<Rightarrow> return (failed e) | Inr x \<Rightarrow> f x }"

section \<open>Reading\<close>

definition serveIndex :: "webDecoders \<Rightarrow> response" where
  "serveIndex D =
     (case web_Index (wdFiles D) of
        Inl e \<Rightarrow> writeError 500 ''asset_unavailable'' ''The application interface is unavailable.''
      | Inr data \<Rightarrow> reply 200 (FileBody ''text/html; charset=utf-8'' data))"

definition serveAsset :: "webDecoders \<Rightarrow> string \<Rightarrow> response" where
  "serveAsset D name =
     (case web_Asset (wdFiles D) name of
        Inl e \<Rightarrow> reply 404 NoBody
      | Inr (data, contentType) \<Rightarrow>
          (reply 200 (FileBody contentType data))\<lparr>rpHeaders := [(''Cache-Control'', ''no-cache'')]\<rparr>)"

definition health :: "('w, 'n) server \<Rightarrow> (('w, 'n) webState, response) state" where
  "health sv = do {
     st \<leftarrow> onManager (manager_Status (svManager sv));
     let readiness = (if list_ex (\<lambda>(_, a). avAvailable a) (stBackends st) then ''ready'' else ''degraded'');
     return (reply 200 (HealthBody readiness (svReadOnly sv) (stBackends st)))
   }"

definition serveStatus :: "('w, 'n) server \<Rightarrow> (('w, 'n) webState, response) state" where
  "serveStatus sv = do {
     st \<leftarrow> onManager (manager_Status (svManager sv));
     return (if stLifecycle st = ''state_conflict''
       then reply 409 (StatusBody st (Some ''managed_state_conflict''))
       else if stLifecycle st = ''observation_unavailable''
       then reply 503 (StatusBody st (Some ''observation_unavailable''))
       else reply 200 (StatusBody st None))
   }"

definition listProfiles :: "('w, 'n) server \<Rightarrow> (('w, 'n) webState, response) state" where
  "listProfiles sv = do { vs \<leftarrow> onManager (Profiles (svManager sv)); return (reply 200 (ListBody vs)) }"

definition getProfile :: "('w, 'n) server \<Rightarrow> string \<Rightarrow> (('w, 'n) webState, response) state" where
  "getProfile sv i =
     answer writeMappedError (onManager (ProfileDetail (svManager sv) i)) (\<lambda>d. return (reply 200 (DetailBody d)))"

definition getPreferences :: "(('w, 'n) webState, response) state" where
  "getPreferences = do { p \<leftarrow> onManager manager_Preferences; return (reply 200 (PreferencesBody p)) }"

section \<open>Tunnels and preferences\<close>

definition serveConnect ::
    "'w httpEnv \<Rightarrow> webDecoders \<Rightarrow> ('w, 'n) server \<Rightarrow> request \<Rightarrow> (('w, 'n) webState, response) state" where
  "serveConnect E D sv c =
     (case decodeJSONRequest (heCodec E) (wdConnect D) c of
        Inl e \<Rightarrow> return (writeJSONEnvelopeError e)
      | Inr profile \<Rightarrow>
          if profile = [] then return (writeError 400 ''invalid_request'' ''The request must name one profile.'')
          else do {
            e \<leftarrow> onManager (Connect (svManager sv) profile);
            return (about profile (case e of
                Some x \<Rightarrow> writeMappedError x
              | None \<Rightarrow> succeed ''connected'' (ConnectedBody profile)))
          })"

definition serveDisconnect ::
    "('w, 'n) server \<Rightarrow> request \<Rightarrow> (('w, 'n) webState, response) state" where
  "serveDisconnect sv c =
     (if \<not> requestBodyEmpty c
      then return (writeError 400 ''invalid_request'' ''Disconnect does not accept a request body.'')
      else do {
        e \<leftarrow> onManager (Disconnect (svManager sv));
        return (case e of
            Some x \<Rightarrow> writeMappedError x
          | None \<Rightarrow> succeed ''disconnected'' DisconnectedBody)
      })"

definition putPreferences ::
    "'w httpEnv \<Rightarrow> webDecoders \<Rightarrow> ('w, 'n) server \<Rightarrow> request \<Rightarrow> (('w, 'n) webState, response) state" where
  "putPreferences E D sv c =
     (case decodeJSONRequest (heCodec E) (wdPreferences D) c of
        Inl e \<Rightarrow> return (writeJSONEnvelopeError e)
      | Inr q \<Rightarrow>
          (case (qrFavorites q, qrRecents q) of
             (Some favorites, Some recents) \<Rightarrow>
               answer writeMappedError
                 (onManager (manager_SetPreferences (svManager sv) favorites recents (qrStartupMode q)))
                 (\<lambda>p. return (succeed ''saved'' (PreferencesBody p)))
           | _ \<Rightarrow> return (writeError 400 ''invalid_preferences''
               ''Preferences must provide favorites, recents, and startup mode.'')))"

section \<open>Imports\<close>

text \<open>What the two import handlers share: the gate, the staging, the overrides.\<close>

definition stagedImport ::
    "'w httpEnv \<Rightarrow> ('w, 'n) server \<Rightarrow> string list \<Rightarrow> request \<Rightarrow>
     (stagedMultipart \<Rightarrow> (('w, 'n) webState, response) state) \<Rightarrow> (('w, 'n) webState, response) state" where
  "stagedImport E sv allowed c handler = do {
     acquired \<leftarrow> acquireImport;
     if \<not> acquired then return (writeError 409 ''import_busy'' ''Another import is in progress.'')
     else deferE releaseImport
       (answer writeImportEnvelopeError (onKernel (stageImportMultipart E (svRuntimeDir sv) allowed c)) (\<lambda>staged.
          deferE (onKernel (Cleanup E staged)) (do {
            r \<leftarrow> (case applyOverrides E staged of
                Inl e \<Rightarrow> return (writeError 400 ''invalid_protocol_overrides'' ''Protocol overrides are invalid.'')
              | Inr staged \<Rightarrow> handler staged);
            return (about (''count:'' @ itoa (int (length (sgFiles staged)))) r)
          })))
   }"

text \<open>A server that takes mutations has an import service; without one the call panics, and \<open>gin.Recovery\<close>
  answers.\<close>

definition withImports ::
    "('w, 'n) server \<Rightarrow> (('w, ('w, 'n) mstate) importService \<Rightarrow> (('w, 'n) webState, response) state) \<Rightarrow>
     (('w, 'n) webState, response) state" where
  "withImports sv f = (case svImports sv of None \<Rightarrow> return (reply 500 NoBody) | Some I \<Rightarrow> f I)"

definition inspectImport ::
    "'w httpEnv \<Rightarrow> ('w, 'n) server \<Rightarrow> request \<Rightarrow> (('w, 'n) webState, response) state" where
  "inspectImport E sv c =
     stagedImport E sv [''protocol_overrides''] c (\<lambda>staged. withImports sv (\<lambda>I.
       answer writeMappedError (onImports (Inspect I (sgFiles staged)))
         (\<lambda>x. return (succeed ''inspected'' (InspectionBody x)))))"

definition commitFields :: "string list" where
  "commitFields = [''protocol_overrides'', ''inspection_records'', ''metadata'', ''receipt'',
     ''trust_profile_policy'', ''library_revision'']"

text \<open>The request of the commit, or the refusal of the first field that is wrong.\<close>

definition commitRequestOf :: "'w httpEnv \<Rightarrow> stagedMultipart \<Rightarrow> response + commitRequest" where
  "commitRequestOf E staged =
     (let given = sgFields staged in
      case decodeStrictJSON (heCodec E) (heRecords E) (valueOf given ''inspection_records'') False of
        Inl _ \<Rightarrow> Inl (writeError 400 ''invalid_inspection_records'' ''Inspection records are invalid.'')
      | Inr records \<Rightarrow>
      if rejectDuplicateJSONKeys (hcTokens (heCodec E) (valueOf given ''metadata'')) \<noteq> None
      then Inl (writeError 400 ''invalid_metadata'' ''Import metadata is invalid.'')
      else case DecodeMetadataDocument (heMetadata E) (valueOf given ''metadata'') of
        Inl _ \<Rightarrow> Inl (writeError 422 ''invalid_metadata'' ''Import metadata is invalid.'')
      | Inr md \<Rightarrow>
      case exactTextField given ''receipt'' 128 of
        Inl _ \<Rightarrow> Inl (writeError 400 ''invalid_receipt'' ''The inspection receipt is invalid.'')
      | Inr receipt \<Rightarrow>
      if exactTextField given ''trust_profile_policy'' 5 \<noteq> Inr ''true''
      then Inl (writeError 422 ''trust_required''
        (''Confirm that you trust these profiles to change this host'' @ [CHR 0x27] @ ''s network configuration.''))
      else case exactTextField given ''library_revision'' 20 of
        Inl _ \<Rightarrow> Inl (writeError 400 ''invalid_library_revision'' ''The inspection revision is required.'')
      | Inr revisionText \<Rightarrow>
      case parseRevision revisionText of
        None \<Rightarrow> Inl (writeError 400 ''invalid_library_revision'' ''The inspection revision is invalid.'')
      | Some revision \<Rightarrow> Inr \<lparr>crFiles = sgFiles staged, crLibraryRevision = of_nat revision, crRecords = records,
          crMetadata = md, crReceipt = receipt, crTrustProfilePolicy = True\<rparr>)"

fun importedViews ::
    "('w, 'n) manager \<Rightarrow> importResult list \<Rightarrow>
     (('w, 'n) mstate, goerr + (int \<times> string \<times> profileView) list) state" where
  "importedViews M [] = return (Inr [])"
| "importedViews M (r # rs) =
     tryE (manager_Profile M (pID (rsProfile r))) (\<lambda>v.
       tryE (importedViews M rs) (\<lambda>vs. return (Inr ((rsOrdinal r, rsResult r, v) # vs))))"

definition commitImport ::
    "'w httpEnv \<Rightarrow> ('w, 'n) server \<Rightarrow> request \<Rightarrow> (('w, 'n) webState, response) state" where
  "commitImport E sv c =
     stagedImport E sv commitFields c (\<lambda>staged.
       case commitRequestOf E staged of
         Inl refusal \<Rightarrow> return refusal
       | Inr req \<Rightarrow> withImports sv (\<lambda>I.
           answer writeMappedError (onImports (Commit I req)) (\<lambda>result.
             answer (\<lambda>_. writeError 500 ''outcome_ambiguous'' ''The import result could not be reconciled.'')
               (onManager (importedViews (svManager sv) (cmRecords result))) (\<lambda>vs.
                 return (succeed ''imported''
                   (ImportedBody vs (cmReplayed result) (cmRevision result)))))))"

section \<open>Profiles\<close>

definition servePatch ::
    "'w httpEnv \<Rightarrow> ('w, 'n) server \<Rightarrow> string \<Rightarrow> request \<Rightarrow> (('w, 'n) webState, response) state" where
  "servePatch E sv i c =
     (case decodeMetadataPatch (heCodec E) c of
        Inl e \<Rightarrow>
          return (if errorsIs e ErrMalformedMetadataPatch
            then writeError 400 ''invalid_request'' ''The metadata request is malformed.''
            else writeError 422 ''invalid_metadata'' ''Profile metadata is invalid.'')
      | Inr patch \<Rightarrow> do {
          r \<leftarrow> onManager (manager_UpdateMetadata (svManager sv) i patch);
          return (about i (case r of
              Inl e \<Rightarrow> writeMappedError e
            | Inr v \<Rightarrow> succeed ''updated'' (ProfileBody v)))
        })"

definition serveRemove ::
    "('w, 'n) server \<Rightarrow> string \<Rightarrow> request \<Rightarrow> (('w, 'n) webState, response) state" where
  "serveRemove sv i c =
     (if \<not> requestBodyEmpty c
      then return (writeError 400 ''invalid_request'' ''Profile removal does not accept a request body.'')
      else do {
        r \<leftarrow> onManager (manager_Remove (svManager sv) i);
        return (about i (case r of
            Inl e \<Rightarrow> writeMappedError e
          | Inr x \<Rightarrow> succeed ''removed'' (RemovedBody (rrProfile x) (rrCleanupPending x))))
      })"

section \<open>Routes\<close>

datatype route =
    GetIndex | GetAsset string | GetHealth | GetStatus | GetProfiles | GetProfile string | GetPreferences
  | PostConnect | PostDisconnect | PutPreferences | PostInspect | PostImport
  | PatchProfile string | DeleteProfile string

text \<open>The operation of a route that changes state, as its audit line names it.\<close>

fun mutationName :: "route \<Rightarrow> string option" where
  "mutationName PostConnect = Some ''connect''"
| "mutationName PostDisconnect = Some ''disconnect''"
| "mutationName PutPreferences = Some ''preferences''"
| "mutationName PostInspect = Some ''inspect''"
| "mutationName PostImport = Some ''import''"
| "mutationName (PatchProfile i) = Some ''metadata''"
| "mutationName (DeleteProfile i) = Some ''remove''"
| "mutationName _ = None"

fun handler ::
    "'w httpEnv \<Rightarrow> webDecoders \<Rightarrow> ('w, 'n) server \<Rightarrow> route \<Rightarrow> request \<Rightarrow> (('w, 'n) webState, response) state" where
  "handler E D sv GetIndex c = return (serveIndex D)"
| "handler E D sv (GetAsset name) c = return (serveAsset D name)"
| "handler E D sv GetHealth c = health sv"
| "handler E D sv GetStatus c = serveStatus sv"
| "handler E D sv GetProfiles c = listProfiles sv"
| "handler E D sv (GetProfile i) c = getProfile sv i"
| "handler E D sv GetPreferences c = getPreferences"
| "handler E D sv PostConnect c = serveConnect E D sv c"
| "handler E D sv PostDisconnect c = serveDisconnect sv c"
| "handler E D sv PutPreferences c = putPreferences E D sv c"
| "handler E D sv PostInspect c = inspectImport E sv c"
| "handler E D sv PostImport c = commitImport E sv c"
| "handler E D sv (PatchProfile i) c = servePatch E sv i c"
| "handler E D sv (DeleteProfile i) c = serveRemove sv i c"

definition mutation ::
    "'w httpEnv \<Rightarrow> ('w, 'n) server \<Rightarrow> string \<Rightarrow> string \<Rightarrow> request \<Rightarrow>
     (('w, 'n) webState, response) state \<Rightarrow> (('w, 'n) webState, response) state" where
  "mutation E sv requestID operation c handle =
     (if svReadOnly sv then return (writeError 403 ''read_only'' ''Mutations are disabled.'')
      else if \<not> svTrustedProxy sv
      then return (writeError 401 ''proxy_auth_required'' ''Authenticated proxy mode is required for mutations.'')
      else if \<not> validMutationOrigin (heTables E) (heCodec E) c True
      then return (writeError 403 ''invalid_origin'' ''The request origin is not allowed.'')
      else do {
        r \<leftarrow> handle;
        addLog (AuditLine requestID (header c ''X-Remote-User'') operation (rpSubject r) (rpOutcome r));
        return r
      })"

fun hexNat :: "nat \<Rightarrow> string" where
  "hexNat n = (if n < 16 then [] else hexNat (n div 16)) @ [hexAlphabet ! (n mod 16)]"

declare hexNat.simps [simp del]

text \<open>\<open>UnixNano\<close> is a signed 64-bit count, and \<open>%x\<close> writes a sign.\<close>

definition hexInt :: "int \<Rightarrow> string" where
  "hexInt i = (if i < 0 then ''-'' @ hexNat (nat (- i)) else hexNat (nat i))"

definition unixNano :: "goTime \<Rightarrow> 64 word" where
  "unixNano t = word_of_int (tSeconds t * 10 ^ 9 + int (tNanos t))"

definition requestContext :: "'w httpEnv \<Rightarrow> (('w, 'n) webState, string) state" where
  "requestContext E = do {
     now \<leftarrow> onKernel (heNow E);
     modify (\<lambda>s. s\<lparr>wsSequence := wsSequence s + 1\<rparr>);
     n \<leftarrow> gets wsSequence;
     return (hexInt (sint (unixNano now)) @ ''-'' @ hexNat (unat n))
   }"

text \<open>One request through the middleware and its handler.\<close>

definition serve ::
    "'w httpEnv \<Rightarrow> webDecoders \<Rightarrow> ('w, 'n) server \<Rightarrow> route \<Rightarrow> request \<Rightarrow> (('w, 'n) webState, response) state" where
  "serve E D sv route c = do {
     requestID \<leftarrow> requestContext E;
     r \<leftarrow> (if svTrustedProxy sv \<and> \<not> trustedProxyRequest (svProxyToken sv) c
       then return (writeError 401 ''proxy_auth_required'' ''Authenticated HTTPS proxy access is required.'')
       else case mutationName route of
         None \<Rightarrow> handler E D sv route c
       | Some operation \<Rightarrow> mutation E sv requestID operation c (handler E D sv route c));
     addLog (RequestLine requestID (rqMethod c) (rqPath c) (rpStatus r));
     return (r\<lparr>rpHeaders := (''X-Request-ID'', requestID) # securityHeaders @ rpHeaders r\<rparr>)
   }"

end
