(* ===== verification/HttpLaws.thy ===== *)
theory HttpLaws
  imports HttpServer ManagerSteps
begin

text \<open>
  What a request leaves behind.  \<open>resting\<close> says that the manager's invariant holds and that every gate is free; the
  operations of the manager and of the import service, and the handlers made of them, keep it.
\<close>

section \<open>The manager at rest\<close>

definition rested :: "('n \<Rightarrow> string set) \<Rightarrow> bool \<Rightarrow> ('w, 'n) mstate \<Rightarrow> bool" where
  "rested up g t \<longleftrightarrow> managerInv up t \<and> gGate t = g"

lemma calms_rested:
  fixes m :: "(('w, 'n) mstate, 'a) state"
  assumes "calms up m"
  shows "keeps (rested up g) m"
proof (rule keepsI)
  fix s :: "('w, 'n) mstate"
  assume s: "rested up g s"
  show "wp m (\<lambda>_. rested up g) s"
  proof (rule calms_wp [OF assms])
    show "calm up (control s) (up (gNet s)) s" using s by (simp add: rested_def managerInv_def calm_start)
    fix a t assume "calm up (control s) (up (gNet s)) t"
    with calm_inv [OF _ this] s show "rested up g t"
      by (auto simp: rested_def calm_def control_def)
  qed
qed

lemma guarded_rests:
  assumes "wp (guarded busy body) (\<lambda>_. managerInv up) s" "rested up True s"
  shows "wp (guarded busy body) (\<lambda>_. rested up True) s"
proof -
  have "wp (guarded busy body) (\<lambda>_ t. gGate t) s"
    using assms(2) by (simp add: wp_guarded rested_def)
  from wp_conj [OF assms(1) this] show ?thesis
    by (rule wp_mono) (simp add: rested_def)
qed

lemma connect_rests:
  assumes "lawfulBackends M up" "rested up True s" "covered up s"
  shows "wp (Connect M i) (\<lambda>_. rested up True) s"
proof -
  have "wp (Connect M i) (\<lambda>_. managerInv up) s"
    using assms by (intro connect.operation_keeps) (simp_all add: rested_def)
  then show ?thesis
    unfolding Connect_def wp_if using assms(2) by (auto simp: wp_return intro!: guarded_rests)
qed

lemma disconnect_rests:
  assumes "lawfulBackends M up" "rested up True s" "covered up s"
  shows "wp (Disconnect M) (\<lambda>_. rested up True) s"
proof -
  have "wp (Disconnect M) (\<lambda>_. managerInv up) s"
    using assms by (intro disconnect.operation_keeps) (simp_all add: rested_def)
  then show ?thesis
    unfolding Disconnect_def wp_if using assms(2) by (auto simp: wp_return intro!: guarded_rests)
qed

lemma remove_rests:
  assumes "lawfulBackends M up" "rested up True s" "covered up s"
  shows "wp (manager_Remove M i) (\<lambda>_. rested up True) s"
proof -
  have "wp (manager_Remove M i) (\<lambda>_. managerInv up) s"
    using assms by (intro remove.operation_keeps) (simp_all add: rested_def)
  then show ?thesis
    unfolding manager_Remove_def wp_if using assms(2) by (auto simp: wp_return intro!: guarded_rests)
qed

lemma startup_rests:
  assumes "lawfulBackends M up" "rested up True s" "covered up s"
  shows "wp (ReconcileStartup M) (\<lambda>_. rested up True) s"
proof -
  have "wp (ReconcileStartup M) (\<lambda>_. managerInv up) s"
    using assms by (intro startup.operation_keeps) (simp_all add: rested_def)
  moreover have "wp (ReconcileStartup M) (\<lambda>_ t. gGate t) s"
    by (simp add: ReconcileStartup_def acquire_def release_def wp_bind wp_deferE wp_modify)
  ultimately show ?thesis by - (rule wp_mono [OF wp_conj], auto simp: rested_def)
qed

lemma exit_rests:
  assumes "lawfulBackends M up" "rested up True s" "covered up s"
  shows "wp (handleUnexpectedExit M event) (\<lambda>_. rested up True) s"
proof -
  have "wp (handleUnexpectedExit M event) (\<lambda>_. managerInv up) s"
    using assms by (intro exit.operation_keeps) (simp_all add: rested_def)
  moreover have "wp (handleUnexpectedExit M event) (\<lambda>_ t. gGate t) s"
    by (simp add: handleUnexpectedExit_def acquire_def release_def wp_bind wp_deferE wp_modify)
  ultimately show ?thesis by - (rule wp_mono [OF wp_conj], auto simp: rested_def)
qed

section \<open>The import service on the manager's state\<close>

text \<open>\<open>AcquireLibraryOperation\<close> as the import service is given it.\<close>

definition libraryAdmission ::
    "(('w, 'n) mstate, goerr + (('w, 'n) mstate, unit) state option) state" where
  "libraryAdmission = do {
     e \<leftarrow> AcquireLibraryOperation;
     return (case e of
         Some x \<Rightarrow> Inl x
       | None \<Rightarrow> Inr (Some (do { _ \<leftarrow> releaseLibraryOperation False; return () })))
   }"

definition importing :: "('n \<Rightarrow> string set) \<Rightarrow> bool \<Rightarrow> bool \<Rightarrow> ('w, ('w, 'n) mstate) istate \<Rightarrow> bool" where
  "importing up g h t \<longleftrightarrow> rested up g ((iEnv t)\<lparr>gStore := iStore t\<rparr>) \<and> iGate t = h"

lemma importing_store:
  assumes "keeps libraryValid m"
  shows "keeps (importing up g h) (Import.onStore m)"
  unfolding Import.onStore_def
  by (rule keepsI, unfold wp_zoom)
    (use assms in \<open>auto simp: importing_def rested_def managerInv_def keeps_def elim!: wp_mono\<close>)

lemma keeps_libraryValid_onWorld: "keeps libraryValid (onWorld m)"
  unfolding onWorld_def by (rule keeps_zoom) (simp add: libraryValid_def)

lemma keeps_libraryValid_Snapshot: "keeps libraryValid Snapshot"
  unfolding Snapshot_def by (rule keeps_gets)

lemma commitAdmitted_valid: "keeps libraryValid (commitAdmitted I req)"
  unfolding commitAdmitted_def commitVerified_def replayCommit_def publishImport_def
  by (intro keeps_intros keeps_libraryValid_onWorld keeps_libraryValid_Snapshot
      publication.operation_keeps repair.operation_keeps)

lemma withGate_importing:
  fixes body :: "(('w, ('w, 'n) mstate) istate, goerr + 'a) state"
  assumes "keeps (importing up g False) body"
  shows "keeps (importing up g h) (withGate body)"
proof (rule keepsI)
  fix s :: "('w, ('w, 'n) mstate) istate"
  assume s: "importing up g h s"
  show "wp (withGate body) (\<lambda>_. importing up g h) s"
  proof (cases h)
    case True
    have "importing up g False (s\<lparr>iGate := False\<rparr>)" using s by (simp add: importing_def)
    from keepsD [OF assms this] have "wp body (\<lambda>r t. importing up g h (t\<lparr>iGate := True\<rparr>)) (s\<lparr>iGate := False\<rparr>)"
      by (rule wp_mono) (simp add: importing_def True)
    with s True show ?thesis by (simp add: withGate_def acquireService_def releaseService_def wp_simps importing_def)
  next
    case False
    with s show ?thesis by (simp add: withGate_def acquireService_def releaseService_def wp_simps importing_def)
  qed
qed

lemma Inspect_importing: "keeps (importing up g h) (Inspect I files)"
  unfolding Inspect_def
  by (rule withGate_importing)
    (auto intro!: keeps_intros importing_store keeps_libraryValid_onWorld keeps_libraryValid_Snapshot
      simp: Import.onMachine_def)

lemma managerInv_gate_store [simp]:
  "managerInv up (t\<lparr>gGate := g, gStore := x\<rparr>) = managerInv up (t\<lparr>gStore := x\<rparr>)"
  by (simp add: managerInv_def)

lemma admitted_importing:
  fixes body :: "(('w, ('w, 'n) mstate) istate, goerr + 'a) state"
  assumes body: "\<And>g. keeps (importing up g h) body"
    and admission: "isCommitAdmission I = Some libraryAdmission"
  shows "keeps (importing up True h) (admitCommit I body)"
proof (rule keepsI)
  fix s :: "('w, ('w, 'n) mstate) istate"
  assume s: "importing up True h s"
  have "importing up False h (s\<lparr>iEnv := (iEnv s)\<lparr>gGate := False\<rparr>\<rparr>)"
    using s by (simp add: importing_def rested_def)
  from keepsD [OF body this]
  have "wp body (\<lambda>r t. importing up True h (t\<lparr>iEnv := (iEnv t)\<lparr>gGate := True\<rparr>\<rparr>)) (s\<lparr>iEnv := (iEnv s)\<lparr>gGate := False\<rparr>\<rparr>)"
    by (rule wp_mono) (simp add: importing_def rested_def)
  moreover have "gGate (iEnv s)" using s by (simp add: importing_def rested_def)
  ultimately show "wp (admitCommit I body) (\<lambda>_. importing up True h) s"
    by (simp add: admitCommit_def admission libraryAdmission_def AcquireLibraryOperation_def tryAcquire_def
        releaseLibraryOperation_def release_def onEnv_def wp_simps)
qed

lemma Commit_importing:
  assumes "isCommitAdmission I = Some libraryAdmission"
  shows "keeps (importing up True h) (Commit I req)"
  unfolding Commit_def
  by (intro withGate_importing keeps_if keeps_return admitted_importing importing_store
      commitAdmitted_valid assms)

section \<open>The server at rest\<close>

definition resting :: "('n \<Rightarrow> string set) \<Rightarrow> bool \<Rightarrow> ('w, 'n) webState \<Rightarrow> bool" where
  "resting up g s \<longleftrightarrow> rested up True (wsManager s) \<and> wsImportGate s = g \<and> wsServiceGate s"

text \<open>The server as the program builds it: the import service asks the manager before it commits.\<close>

definition wired :: "('w, 'n) server \<Rightarrow> bool" where
  "wired sv \<longleftrightarrow> (\<forall>I. svImports sv = Some I \<longrightarrow>
     isStore I = mgStore (svManager sv) \<and> isCommitAdmission I = Some libraryAdmission)"

lemma resting_manager: "keeps (rested up True) m \<Longrightarrow> keeps (resting up g) (onManager m)"
  unfolding onManager_def by (rule keepsI, unfold wp_zoom) (auto simp: resting_def keeps_def elim!: wp_mono)

lemma resting_calms: "calms up m \<Longrightarrow> keeps (resting up g) (onManager m)"
  by (rule resting_manager) (rule calms_rested)

lemma resting_imports:
  assumes "keeps (importing up True True) m"
  shows "keeps (resting up g) (onImports m)"
  unfolding onImports_def
  by (rule keepsI, unfold wp_zoom, rule wp_mono [OF keepsD [OF assms]]) (simp_all add: resting_def importing_def)

lemma resting_kernel: "keeps (resting up g) (onKernel m)"
  unfolding onKernel_def by (rule resting_calms) (intro calms_onStore keeps_libraryValid_onWorld)

lemma keeps_answer [keeps_intros]: "keeps P m \<Longrightarrow> (\<And>x. keeps P (f x)) \<Longrightarrow> keeps P (answer failed m f)"
  unfolding answer_def by (intro keeps_intros)

lemma resting_covered:
  assumes "rested up True (wsManager s) \<Longrightarrow> covered up (wsManager s) \<Longrightarrow> wp m (\<lambda>_. rested up True) (wsManager s)"
    and "resting up g s" "covered up (wsManager s)"
  shows "wp (onManager m) (\<lambda>_. resting up g) s"
  unfolding onManager_def wp_zoom using assms by (auto simp: resting_def elim!: wp_mono)

section \<open>The handlers\<close>

lemma calms_views:
  assumes L: "lawfulBackends M up"
  shows "calms up (manager_Status M)" "calms up (Profiles M)" "calms up (manager_Profile M i)"
    "calms up (ProfileDetail M i)" "calms up manager_Preferences"
    "calms up (manager_SetPreferences M fs rs mode)" "calms up (manager_UpdateMetadata M i patch)"
proof -
  show status: "calms up (manager_Status M)"
    unfolding manager_Status_def Let_def by (intro calms_intros L)
  have each: "calms up (viewEach M m as ps)" for m as ps
    by (induction ps) (auto intro!: calms_intros)
  show "calms up (Profiles M)" unfolding Profiles_def by (intro calms_intros each L)
  show profile: "calms up (manager_Profile M i)" unfolding manager_Profile_def by (intro calms_intros L)
  show "calms up (ProfileDetail M i)" unfolding ProfileDetail_def by (intro calms_intros status profile)
  show "calms up manager_Preferences" unfolding manager_Preferences_def by (intro calms_intros)
  show "calms up (manager_SetPreferences M fs rs mode)" "calms up (manager_UpdateMetadata M i patch)"
    unfolding manager_SetPreferences_def manager_UpdateMetadata_def by (intro calms_intros L)+
qed

lemma calms_importedViews: "lawfulBackends M up \<Longrightarrow> calms up (importedViews M rs)"
  by (induction rs) (auto intro!: calms_intros calms_views)

lemma resting_stagedImport:
  fixes sv :: "('w, 'n) server"
  assumes "\<And>staged. keeps (resting up False) (handle staged)"
  shows "keeps (resting up True) (stagedImport E sv allowed c handle)"
proof (rule keepsI)
  fix s :: "('w, 'n) webState"
  assume s: "resting up True s"
  let ?body = "answer writeImportEnvelopeError
      (onKernel (stageImportMultipart E (svRuntimeDir sv) allowed c)) (\<lambda>staged.
         deferE (onKernel (Cleanup E staged)) (do {
           r \<leftarrow> (case applyOverrides E staged of
               Inl e \<Rightarrow> return (writeError 400 ''invalid_protocol_overrides'' ''Protocol overrides are invalid.'')
             | Inr staged \<Rightarrow> handle staged);
           return (about (''count:'' @ itoa (int (length (sgFiles staged)))) r)
         }))"
  have body: "keeps (resting up False) ?body"
    by (intro keeps_intros resting_kernel assms)
  have "resting up False (s\<lparr>wsImportGate := False\<rparr>)" using s by (simp add: resting_def)
  from keepsD [OF body this]
  have "wp ?body (\<lambda>r t. resting up True (t\<lparr>wsImportGate := True\<rparr>)) (s\<lparr>wsImportGate := False\<rparr>)"
    by (rule wp_mono) (simp add: resting_def)
  moreover have "wsImportGate s" using s by (simp add: resting_def)
  ultimately show "wp (stagedImport E sv allowed c handle) (\<lambda>_. resting up True) s"
    by (simp add: stagedImport_def acquireImport_def releaseImport_def wp_bind wp_gets wp_modify wp_return wp_if
        wp_deferE)
qed

lemma resting_import:
  assumes L: "lawfulBackends (svManager sv) up" and W: "wired sv"
  shows "keeps (resting up True) (inspectImport E sv c)" "keeps (resting up True) (commitImport E sv c)"
proof -
  have commit: "keeps (resting up g) (onImports (Commit I req))" if "svImports sv = Some I" for g I req
    using that W by (intro resting_imports Commit_importing) (simp add: wired_def)
  show "keeps (resting up True) (inspectImport E sv c)"
    unfolding inspectImport_def withImports_def
    by (intro resting_stagedImport keeps_intros resting_imports Inspect_importing)
  show "keeps (resting up True) (commitImport E sv c)"
    unfolding commitImport_def withImports_def
    by (intro resting_stagedImport keeps_intros commit resting_calms calms_importedViews [OF L])
qed

lemma resting_reads:
  assumes L: "lawfulBackends (svManager sv) up"
  shows "keeps (resting up g) (health sv)" "keeps (resting up g) (serveStatus sv)"
    "keeps (resting up g) (listProfiles sv)" "keeps (resting up g) (getProfile sv i)"
    "keeps (resting up g) getPreferences" "keeps (resting up g) (putPreferences E D sv c)"
    "keeps (resting up g) (servePatch E sv i c)"
  unfolding health_def serveStatus_def listProfiles_def getProfile_def getPreferences_def putPreferences_def
    servePatch_def Let_def
  by (intro keeps_intros resting_calms calms_views [OF L]; simp)+

lemma handler_rests:
  assumes L: "lawfulBackends (svManager sv) up" and W: "wired sv"
    and s: "resting up True s" and cov: "covered up (wsManager s)"
  shows "wp (handler E D sv route c) (\<lambda>_. resting up True) s"
proof (cases route)
  case PostConnect
  have "wp (onManager (Connect (svManager sv) p)) (\<lambda>_. resting up True) s" for p
    by (rule resting_covered [OF connect_rests [OF L] s cov])
  with s show ?thesis
    by (auto simp: PostConnect serveConnect_def wp_return wp_bind split: sum.split)
next
  case PostDisconnect
  have "wp (onManager (Disconnect (svManager sv))) (\<lambda>_. resting up True) s"
    by (rule resting_covered [OF disconnect_rests [OF L] s cov])
  with s show ?thesis by (simp add: PostDisconnect serveDisconnect_def wp_return wp_bind)
next
  case (DeleteProfile i)
  have "wp (onManager (manager_Remove (svManager sv) i)) (\<lambda>_. resting up True) s"
    by (rule resting_covered [OF remove_rests [OF L] s cov])
  with s show ?thesis by (simp add: DeleteProfile serveRemove_def wp_return wp_bind)
qed (use s in \<open>simp_all add: wp_return keepsD [OF resting_reads(1) [OF L]] keepsD [OF resting_reads(2) [OF L]]
  keepsD [OF resting_reads(3) [OF L]] keepsD [OF resting_reads(4) [OF L]] keepsD [OF resting_reads(5) [OF L]]
  keepsD [OF resting_reads(6) [OF L]] keepsD [OF resting_reads(7) [OF L]]
  keepsD [OF resting_import(1) [OF L W]] keepsD [OF resting_import(2) [OF L W]]\<close>)

lemma requestContext_wp:
  assumes "resting up True s" "covered up (wsManager s)"
  shows "wp (requestContext E) (\<lambda>_ t. resting up True t \<and> covered up (wsManager t)) s"
proof -
  have "keeps (\<lambda>t. covered up (wsManager t)) (onKernel m)" for m
    unfolding onKernel_def onManager_def Manager.onStore_def onWorld_def
    by (rule keepsI) (use assms(2) in \<open>auto simp: wp_zoom covered_def intro!: wp_runI\<close>)
  note clock = wp_conj [OF keepsD [OF resting_kernel assms(1)] keepsD [OF this assms(2)]]
  show ?thesis
    unfolding requestContext_def wp_bind wp_gets wp_modify wp_return
    by (rule wp_mono [OF clock]) (simp add: resting_def)
qed

lemma resting_log: "keeps (resting up g) (addLog line)"
  unfolding addLog_def by (rule keeps_modify) (simp add: resting_def)

lemma serve_rests:
  assumes L: "lawfulBackends (svManager sv) up" and W: "wired sv"
    and s: "resting up True s" and cov: "covered up (wsManager s)"
  shows "wp (serve E D sv route c) (\<lambda>_. resting up True) s"
proof -
  have log: "wp (do { addLog line; return r }) (\<lambda>_. resting up True) t" if "resting up True t" for line r t
    by (rule keepsD [where I = "resting up True"]) (intro keeps_intros resting_log, rule that)
  have gated: "wp (mutation E sv requestID operation c (handler E D sv route c)) (\<lambda>_. resting up True) t"
    if "resting up True t" "covered up (wsManager t)" for requestID operation t
    unfolding mutation_def wp_if wp_return wp_bind
    using that(1) by (auto intro: wp_mono [OF handler_rests [OF L W that]] keepsD [OF resting_log])
  have "wp (do {
        r \<leftarrow> (if svTrustedProxy sv \<and> \<not> trustedProxyRequest (svProxyToken sv) c
          then return (writeError 401 ''proxy_auth_required'' ''Authenticated HTTPS proxy access is required.'')
          else case mutationName route of
            None \<Rightarrow> handler E D sv route c
          | Some operation \<Rightarrow> mutation E sv requestID operation c (handler E D sv route c));
        addLog (RequestLine requestID (rqMethod c) (rqPath c) (rpStatus r));
        return (r\<lparr>rpHeaders := (''X-Request-ID'', requestID) # securityHeaders @ rpHeaders r\<rparr>)
      }) (\<lambda>_. resting up True) t"
    if "resting up True t \<and> covered up (wsManager t)" for requestID t
    unfolding wp_bind [of "if _ then _ else _"] wp_if wp_return wp_case_option
    using that by (auto intro: log wp_mono [OF handler_rests [OF L W]] wp_mono [OF gated] split: option.split)
  then show ?thesis
    unfolding serve_def wp_bind [of "requestContext E"]
    by (rule wp_mono [OF requestContext_wp [OF s cov]])
qed

end
