(* ===== verification/HttpProperties.thy ===== *)
theory HttpProperties
  imports HttpLaws SampleManager
begin

text \<open>
  The properties of the HTTP server.  \<open>webReachable\<close> are the states between two requests: a request runs from its
  first middleware to its last log line, and between requests the startup reconciliation, the handler of an exit and
  the machine itself may act.  In the program requests overlap; what they share is behind the gates, whose refusals
  are answers of the model too.
\<close>

section \<open>Requests that are refused\<close>

definition refused :: "'w httpEnv \<Rightarrow> ('w, 'n) server \<Rightarrow> route \<Rightarrow> request \<Rightarrow> bool" where
  "refused E sv route c \<longleftrightarrow>
     svTrustedProxy sv \<and> \<not> trustedProxyRequest (svProxyToken sv) c \<or>
     mutationName route \<noteq> None \<and>
       (svReadOnly sv \<or> \<not> svTrustedProxy sv \<or> \<not> validMutationOrigin (heTables E) (heCodec E) c True)"

text \<open>The state once the clock has been read for the identifier of the request.\<close>

definition clockRead :: "'w httpEnv \<Rightarrow> ('w, 'n) mstate \<Rightarrow> ('w, 'n) mstate" where
  "clockRead E g = g\<lparr>gStore := (gStore g)\<lparr>sWorld := snd (run_state (heNow E) (sWorld (gStore g)))\<rparr>\<rparr>"

lemma requestContext_run:
  "wp (requestContext E) (\<lambda>requestID t. wsManager t = clockRead E (wsManager s) \<and>
     wsImportGate t = wsImportGate s \<and> wsServiceGate t = wsServiceGate s \<and> wsLog t = wsLog s) s"
  unfolding requestContext_def onKernel_def onManager_def Manager.onStore_def onWorld_def
    wp_bind wp_zoom wp_modify wp_gets wp_return
  by (simp add: wp_def clockRead_def split: prod.split)


section \<open>Reachable states\<close>

inductive webReachable ::
    "'w httpEnv \<Rightarrow> webDecoders \<Rightarrow> ('w, 'n) server \<Rightarrow> ('n \<Rightarrow> string set) \<Rightarrow> ('w, 'n) webState \<Rightarrow> bool"
  for E D sv up where
  opened: "storeReachable (mgStore (svManager sv)) t \<Longrightarrow> up n \<subseteq> {j} \<Longrightarrow>
    webReachable E D sv up (openedWeb (initialState t n))"
| environment: "webReachable E D sv up s \<Longrightarrow> up n \<subseteq> up (gNet (wsManager s)) \<Longrightarrow>
    webReachable E D sv up
      (s\<lparr>wsManager := (wsManager s)\<lparr>gStore := (gStore (wsManager s))\<lparr>sWorld := w\<rparr>, gNet := n\<rparr>\<rparr>)"
| request: "webReachable E D sv up s \<Longrightarrow> covered up (wsManager s) \<Longrightarrow>
    run_state (serve E D sv route c) s = (r, s') \<Longrightarrow> webReachable E D sv up s'"
| startup: "webReachable E D sv up s \<Longrightarrow> covered up (wsManager s) \<Longrightarrow>
    run_state (onManager (ReconcileStartup (svManager sv))) s = (u, s') \<Longrightarrow> webReachable E D sv up s'"
| exit: "webReachable E D sv up s \<Longrightarrow> covered up (wsManager s) \<Longrightarrow>
    run_state (onManager (handleUnexpectedExit (svManager sv) event)) s = (u, s') \<Longrightarrow>
    webReachable E D sv up s'"

lemma reachable_rests:
  assumes "webReachable E D sv up s" and L: "lawfulBackends (svManager sv) up" and W: "wired sv"
  shows "resting up True s"
  using assms(1)
proof (induction rule: webReachable.induct)
  case (opened t n j)
  then show ?case
    using reachable_valid
    by (auto simp: resting_def rested_def openedWeb_def managerInv_def initialState_def)
next
  case (environment s n w)
  then show ?case by (auto simp: resting_def rested_def managerInv_def libraryValid_def)
next
  case (request s route c r s')
  from wp_runD [OF serve_rests [OF L W request.IH request.hyps(2)] request.hyps(3)] show ?case .
next
  case (startup s u s')
  from wp_runD [OF resting_covered [OF startup_rests [OF L] startup.IH startup.hyps(2)] startup.hyps(3)]
  show ?case .
next
  case (exit s event u s')
  from wp_runD [OF resting_covered [OF exit_rests [OF L] exit.IH exit.hyps(2)] exit.hyps(3)]
  show ?case .
qed

text \<open>C37: whatever requests the server has answered, in whatever order, with exits and the startup between them: at
  most one tunnel is up, the library is well-formed, no transition is left half-way, and the gates of the manager, of
  the import handlers and of the import service are free, so that no later request finds them taken for ever.\<close>
theorem server_rests_between_requests:
  assumes "lawfulBackends (svManager sv) up" and "wired sv" and "webReachable E D sv up s"
  shows "(\<exists>j. up (gNet (wsManager s)) \<subseteq> {j}) \<and> wellFormed (sManifest (gStore (wsManager s))) \<and>
     gLifecycle (wsManager s) \<notin> {''starting'', ''switching'', ''disconnecting'', ''restoring''} \<and>
     gGate (wsManager s) \<and> wsImportGate s \<and> wsServiceGate s"
  using reachable_rests [OF assms(3,1,2)]
  by (simp add: resting_def rested_def managerInv_def libraryValid_def transitionLifecycles_def)

section \<open>An empty file\<close>

text \<open>The errors of the import envelope have no case in the table of the answers: a request that is merely wrong, such
  as one with an empty file, is answered as a failure of the server.\<close>

lemma empty_file_is_internal_error:
  assumes "iGate s" "ifBytes f = []" "length files < MaxImportFiles"
  shows "wp (Inspect I (f # files)) (\<lambda>r _. \<exists>e. r = Inl e \<and> rpStatus (writeMappedError e) = 500) s"
  using assms
  by (simp add: Inspect_def withGate_def acquireService_def releaseService_def validateImportEnvelope_def wp_simps writeMappedError_def writeError_def
      reply_def)

section \<open>A server\<close>

definition sampleCodec :: httpCodec where
  "sampleCodec = \<lparr>hcMediaType = (\<lambda>t. Some (t, [])), hcParseURL = (\<lambda>_. None),
     hcTokens = (\<lambda>s. ([openObject, StringToken ''profile'', StringToken s, closeObject], None)),
     hcString = (\<lambda>s. Inr (s, [])), hcMetadataPatch = (\<lambda>_. Inl (ErrText ''''))\<rparr>"

definition sampleHttp :: "unit httpEnv" where
  "sampleHttp = \<lparr>heKernel = sKernel steadyStore, heUID = 0,
     heNow = return \<lparr>tSeconds = 1700000002, tNanos = 0, tUTC = False\<rparr>, heTables = sTables steadyStore,
     heCodec = sampleCodec, heMultipart = (\<lambda>b body. ([], None)), heOverrides = (\<lambda>_. Inr ([], [])),
     heRecords = (\<lambda>_. Inr ([], [])), heMetadata = (\<lambda>_. Inr ([], True))\<rparr>"

text \<open>The body of a connect request is the identifier of a profile behind a brace.\<close>

definition sampleDecoders :: webDecoders where
  "sampleDecoders = \<lparr>wdConnect = (\<lambda>s. Inr (tl s, [])), wdPreferences = (\<lambda>_. Inl (ErrText '''')),
     wdFiles = (\<lambda>_. Inr [])\<rparr>"

definition sampleToken :: string where
  "sampleToken = replicate 32 CHR ''k''"

definition sampleService :: "(unit, (unit, string list) mstate) importService" where
  "sampleService = \<lparr>isStore = steadyStore, isRandom = (\<lambda>n. return (Inr (replicate n CHR ''r''))),
     isNow = heNow sampleHttp, isChecker = (\<lambda>_. return None), isRuntimeNameAvailable = None,
     isCommitAdmission = Some libraryAdmission, isKey = replicate 32 CHR ''s''\<rparr>"

definition sampleServer :: "(unit, string list) server" where
  "sampleServer = \<lparr>svManager = sampleManager, svImports = Some sampleService, svRuntimeDir = ''/run/imports'',
     svTrustedProxy = True, svProxyToken = sampleToken, svReadOnly = False\<rparr>"

definition connectRequest :: "string \<Rightarrow> request" where
  "connectRequest token = \<lparr>rqMethod = ''POST'', rqPath = ''/api/connect'',
     rqHeaders = [(ProxyTokenHeader, token), (''X-Forwarded-Proto'', ''https''), (''X-Remote-User'', ''ada''),
       (''X-Forwarded-Host'', ''host''), (''Content-Type'', ''application/json'')],
     rqHost = ''localhost'', rqBody = (CHR ''{'' # pID sampleProfile, None)\<rparr>"


theorem server_rests_between_requests_witness:
  "\<exists>j. set (gNet (wsManager (snd (run_state
     (serve sampleHttp sampleDecoders sampleServer PostConnect (connectRequest sampleToken))
       (openedWeb (sampleState [])))))) \<subseteq> {j}"
proof -
  have opened: "webReachable sampleHttp sampleDecoders sampleServer set (openedWeb (sampleState []))"
    unfolding sampleState_def
    by (rule webReachable.opened) (simp_all add: sampleServer_def sampleManager_def steadyState_reachable)
  have "covered set (wsManager (openedWeb (sampleState [])))"
    by (simp add: openedWeb_def sampleState_valid)
  note step = webReachable.request [OF opened this prod.collapse [symmetric]]
  have "lawfulBackends (svManager sampleServer) set" "wired sampleServer"
    using sampleManager_lawful by (simp_all add: sampleServer_def wired_def sampleService_def sampleManager_def)
  from server_rests_between_requests [OF this step] show ?thesis by blast
qed

end
