(* ===== verification/CommandRunner.thy ===== *)
theory CommandRunner
  imports OpenVPNConfig Diagnostics WireGuard
begin

text \<open>
  The command runner, \<open>internal/tunnel/runner.go\<close>, and the compatibility check of an imported WireGuard
  profile, \<open>wireguard_compatibility.go\<close>.  The operating system is the record \<open>'o commandOS\<close>: what
  \<open>exec.LookPath\<close>, \<open>filepath.EvalSymlinks\<close>, \<open>os.Stat\<close> and \<open>os.Lstat\<close> answer, and a run of a command as the
  pieces of output it writes and the error it ends with.
\<close>

record 'o commandOS =
  coLookPath :: "string \<Rightarrow> ('o, goerr + string) state"
  coAbs :: "string \<Rightarrow> ('o, goerr + string) state"
  coEvalSymlinks :: "string \<Rightarrow> ('o, goerr + string) state"
  coStat :: "string \<Rightarrow> ('o, goerr + fstat) state"
  coLstat :: "string \<Rightarrow> ('o, goerr + fstat) state"
  coRun :: "string \<Rightarrow> string list \<Rightarrow> ('o, string list \<times> err) state"

record execRunner =
  erPaths :: "(string \<times> string) list"
  erOutputLimit :: int

section \<open>Resolving a command\<close>

definition execBits :: "32 word" where "execBits = 0x49"
definition foreignWrite :: "32 word" where "foreignWrite = 0x12"

definition secureCommandError :: "fstat \<Rightarrow> err" where
  "secureCommandError st =
     (if and (stMode st) S_IFMT \<noteq> S_IFREG \<or> and (stMode st) execBits = 0 \<or> and (stMode st) foreignWrite \<noteq> 0
      then Some (ErrText ''must be a regular executable not writable by group or world'')
      else if stUid st \<noteq> 0 then Some (ErrText ''must be owned by root'') else None)"

definition secureAncestor :: "fstat \<Rightarrow> bool" where
  "secureAncestor st \<longleftrightarrow>
     and (stMode st) S_IFMT = S_IFDIR \<and> stUid st = 0 \<and> and (stMode st) foreignWrite = 0"

text \<open>The walk over the directories of a path, up to the one that is its own directory.  \<open>LoadProxyToken\<close> of
  \<open>internal/httpapi/security.go\<close> walks in the same way, with messages of its own.\<close>

function walkAncestors ::
    "(string \<Rightarrow> ('o, goerr + fstat) state) \<Rightarrow> string \<Rightarrow> string \<Rightarrow> string \<Rightarrow> ('o, err) state" where
  "walkAncestors lstat unseen refused ancestor =
     openE (wrapE unseen (lstat ancestor)) (\<lambda>info.
       if \<not> secureAncestor info then return (Some (ErrText refused))
       else if ancestor = pathDir ancestor then return None
       else walkAncestors lstat unseen refused (pathDir ancestor))"
  by pat_completeness auto
termination
  by (relation "measure (\<lambda>(lstat, unseen, refused, ancestor). walkMeasure ancestor)") (auto intro: walk_decreases)

declare walkAncestors.simps [simp del]

definition secureAncestors :: "'o commandOS \<Rightarrow> string \<Rightarrow> ('o, err) state" where
  "secureAncestors Os path =
     walkAncestors (coLstat Os) ''inspect command ancestor''
       ''command ancestor must be a root-owned directory not writable by group or world'' (pathDir path)"

definition ResolveSecureCommand :: "'o commandOS \<Rightarrow> string \<Rightarrow> ('o, goerr + string) state" where
  "ResolveSecureCommand Os name =
     tryE (wrapE ''locate'' (coLookPath Os name)) (\<lambda>path.
     tryE (wrapE ''resolve path'' (coAbs Os path)) (\<lambda>path.
     tryE (wrapE ''resolve links'' (coEvalSymlinks Os path)) (\<lambda>path.
     tryE (wrapE ''inspect'' (coStat Os path)) (\<lambda>info.
       checkE (return (secureCommandError info))
         (checkE (secureAncestors Os path) (return (Inr path)))))))"

section \<open>Runners\<close>

fun resolveAll :: "'o commandOS \<Rightarrow> (string \<times> string) list \<Rightarrow> string list \<Rightarrow> ('o, goerr + (string \<times> string) list) state" where
  "resolveAll Os paths [] = return (Inr paths)"
| "resolveAll Os paths (name # names) =
     tryE (ResolveSecureCommand Os name) (\<lambda>path. resolveAll Os ((name, path) # paths) names)"

definition NewExecRunner :: "'o commandOS \<Rightarrow> string list \<Rightarrow> ('o, goerr + execRunner) state" where
  "NewExecRunner Os names =
     tryE (resolveAll Os [] names) (\<lambda>paths.
       return (Inr \<lparr>erPaths = paths, erOutputLimit = defaultOutputLimit\<rparr>))"

definition NewPinnedExecRunner :: "(string \<times> string) list \<Rightarrow> int \<Rightarrow> goerr + execRunner" where
  "NewPinnedExecRunner paths outputLimit =
     (if paths = [] then Inl (ErrText ''at least one command path is required'')
      else if list_ex (\<lambda>(name, path). name = [] \<or> path = [] \<or> \<not> isAbs path) paths
      then Inl (ErrText ''pinned command names and paths must be non-empty and absolute'')
      else Inr \<lparr>erPaths = paths,
        erOutputLimit = (if outputLimit \<le> 0 then defaultOutputLimit else outputLimit)\<rparr>)"

text \<open>The output of a run goes through the bounded buffer, write by write.\<close>

definition buffer_Bytes :: "boundedBuffer \<Rightarrow> string" where
  "buffer_Bytes b = bbData b"

definition buffer_Exceeded :: "boundedBuffer \<Rightarrow> bool" where
  "buffer_Exceeded b = bbExceeded b"

text \<open>The output comes back with an error, too.\<close>

definition runner_Run :: "'o commandOS \<Rightarrow> execRunner \<Rightarrow> string \<Rightarrow> string list \<Rightarrow> ('o, string \<times> err) state" where
  "runner_Run Os r name args =
     (case map_of (erPaths r) name of
        None \<Rightarrow> return ([], Some (ErrText ''command is not allowed''))
      | Some path \<Rightarrow> do {
          (writes, e) \<leftarrow> coRun Os path args;
          let output = foldl (\<lambda>b data. buffer_Write data b)
            \<lparr>bbData = [], bbLimit = erOutputLimit r, bbExceeded = False\<rparr> writes;
          return (if buffer_Exceeded output
                  then (buffer_Bytes output, errorsJoin [Some (Sentinel ErrOutputLimit), e])
                  else (buffer_Bytes output, e))
        })"

text \<open>The runner as the WireGuard backend uses it: it looks at the output only where there is no error.\<close>

definition asCommandRunner :: "'o commandOS \<Rightarrow> execRunner \<Rightarrow> 'o commandRunner" where
  "asCommandRunner Os r name args = do {
     (output, e) \<leftarrow> runner_Run Os r name args;
     return (case e of Some x \<Rightarrow> Inl x | None \<Rightarrow> Inr output)
   }"

section \<open>The compatibility check\<close>

record 'o compatOS =
  cpEnsurePrivateDir :: "string \<Rightarrow> ('o, err) state"
  cpMkdirTemp :: "string \<Rightarrow> string \<Rightarrow> ('o, goerr + string) state"
  cpRemoveAll :: "string \<Rightarrow> ('o, err) state"
  cpChmod :: "string \<Rightarrow> 32 word \<Rightarrow> ('o, err) state"
  cpWriteFile :: "string \<Rightarrow> string \<Rightarrow> 32 word \<Rightarrow> ('o, err) state"

record 'o compatibilityChecker =
  ccRunner :: "'o commandRunner option"
  ccRuntimeDir :: string
  ccTimeout :: int

definition replaceErr :: "string \<Rightarrow> ('o, err) state \<Rightarrow> ('o, err) state" where
  "replaceErr msg m = do { e \<leftarrow> m; return (case e of None \<Rightarrow> None | Some _ \<Rightarrow> Some (ErrText msg)) }"

definition checkStaged :: "'o compatOS \<Rightarrow> 'o commandRunner \<Rightarrow> string \<Rightarrow> string \<Rightarrow> ('o, err) state" where
  "checkStaged P run directory data =
     (let path = pathJoin [directory, ''profile.conf'']
      in runSteps [
           replaceErr ''secure compatibility directory'' (cpChmod P directory mode700),
           replaceErr ''stage compatibility profile'' (cpWriteFile P path data mode600),
           replaceErr ''wg-quick rejected the profile''
             (openE (run ''wg-quick'' [''strip'', path]) (\<lambda>_. return None))])"

definition CheckWireGuard :: "'o compatOS \<Rightarrow> 'o compatibilityChecker \<Rightarrow> string \<Rightarrow> ('o, err) state" where
  "CheckWireGuard P c data =
     (case ccRunner c of
        None \<Rightarrow> return (Some (ErrText ''WireGuard compatibility checker is not configured''))
      | Some run \<Rightarrow>
          if ccRuntimeDir c = [] then return (Some (ErrText ''WireGuard compatibility checker is not configured''))
          else thenE (replaceErr ''prepare compatibility directory'' (cpEnsurePrivateDir P (ccRuntimeDir c))) (do {
            r \<leftarrow> cpMkdirTemp P (ccRuntimeDir c) ''inspect-'';
            case r of
              Inl _ \<Rightarrow> return (Some (ErrText ''create compatibility directory''))
            | Inr directory \<Rightarrow> deferE (cpRemoveAll P directory) (checkStaged P run directory data)
          }))"

section \<open>A resolved command\<close>

text \<open>\<open>look\<close> is the file system, as it answers \<open>os.Stat\<close> and \<open>os.Lstat\<close> at any time.\<close>

definition answersLike :: "(string \<Rightarrow> ('o, goerr + fstat) state) \<Rightarrow> (string \<Rightarrow> fstat option) \<Rightarrow> bool" where
  "answersLike lstat look \<longleftrightarrow> (\<forall>p s. wp (lstat p) (\<lambda>r _. \<forall>st. r = Inr st \<longrightarrow> look p = Some st) s)"

definition rootOwnedAbove :: "(string \<Rightarrow> fstat option) \<Rightarrow> string \<Rightarrow> bool" where
  "rootOwnedAbove look path \<longleftrightarrow>
     (\<forall>n. \<exists>st. look ((pathDir ^^ n) (pathDir path)) = Some st \<and> secureAncestor st)"

lemma walkAncestors_wp:
  assumes "answersLike lstat look"
  shows "wp (walkAncestors lstat unseen refused p)
     (\<lambda>e _. e = None \<longrightarrow> (\<forall>n. \<exists>st. look ((pathDir ^^ n) p) = Some st \<and> secureAncestor st)) s"
proof (induction lstat\<equiv>lstat unseen\<equiv>unseen refused\<equiv>refused p arbitrary: s rule: walkAncestors.induct)
  case (1 p s)
  have look: "wp (lstat p) (\<lambda>r _. \<forall>st. r = Inr st \<longrightarrow> look p = Some st) s"
    using assms by (simp add: answersLike_def)
  show ?case
    unfolding walkAncestors.simps [of lstat unseen refused p] wp_openE wp_wrapE
  proof (rule wp_mono [OF look], goal_cases)
    case (1 r t)
    show ?case
    proof (cases r)
      case (Inr st)
      with 1 have p: "look p = Some st" by simp
      have stay: "\<exists>st. look ((pathDir ^^ n) p) = Some st \<and> secureAncestor st"
        if "secureAncestor st" "p = pathDir p" for n
      proof -
        have "(pathDir ^^ n) p = p" by (induction n) (use that(2) in simp_all)
        with p that(1) show ?thesis by simp
      qed
      have up: "\<exists>st. look ((pathDir ^^ n) p) = Some st \<and> secureAncestor st"
        if "secureAncestor st" "\<forall>n. \<exists>st. look ((pathDir ^^ n) (pathDir p)) = Some st \<and> secureAncestor st" for n
        using that p by (cases n) (simp_all add: funpow_swap1)
      have walk: "wp (walkAncestors lstat unseen refused (pathDir p))
          (\<lambda>e _. e = None \<longrightarrow> (\<forall>n. \<exists>st. look ((pathDir ^^ n) p) = Some st \<and> secureAncestor st)) t"
        if "secureAncestor st" "p \<noteq> pathDir p"
        by (rule wp_mono, rule "1.hyps") (use that up in auto)
      from Inr stay walk show ?thesis by (auto simp: wp_simps)
    qed simp
  qed
qed

text \<open>A call of whose result nothing is needed.\<close>

lemma map_sum_Inr [simp]: "map_sum f id r = Inr x \<longleftrightarrow> r = Inr x"
  by (cases r) auto

lemma wp_tryE_any: "(\<And>e t. Q (Inl e) t) \<Longrightarrow> (\<And>x t. wp (f x) Q t) \<Longrightarrow> wp (tryE m f) Q s"
  unfolding wp_tryE by (rule wp_any) (simp split: sum.split)


definition sampleLook :: "string \<Rightarrow> fstat option" where
  "sampleLook p = Some \<lparr>stMode = (if p = ''/usr/bin/wg'' then 0x81ED else 0x41ED), stUid = 0, stSize = 0\<rparr>"

definition sampleCommands :: "'o commandOS" where
  "sampleCommands = \<lparr>coLookPath = (\<lambda>name. return (Inr (''/usr/bin/'' @ name))),
     coAbs = (\<lambda>p. return (Inr p)), coEvalSymlinks = (\<lambda>p. return (Inr p)),
     coStat = (\<lambda>p. return (Inr (the (sampleLook p)))), coLstat = (\<lambda>p. return (Inr (the (sampleLook p)))),
     coRun = (\<lambda>path args. return ([], None))\<rparr>"

lemma sample_resolved: "run_state (ResolveSecureCommand (sampleCommands :: unit commandOS) ''wg'') () = (Inr ''/usr/bin/wg'', ())"
  by code_simp


end
