(* ===== verification/Launch.thy ===== *)
theory Launch
  imports HttpLaws CommandRunner OpenVPNProcess
begin

text \<open>
  Starting the program, \<open>cmd/tunnelfolio\<close>: the options of the command line (\<open>options.go\<close>), the token of the proxy
  (\<open>LoadProxyToken\<close> of \<open>internal/httpapi/security.go\<close>), and how \<open>run\<close> puts the store, the backends, the manager, the
  import service and the HTTP server together (\<open>main.go\<close>).  The package \<open>flag\<close> is written out for the two kinds of
  flag the program has.
\<close>

section \<open>Options\<close>

record launchOptions =
  loListenAddress :: string
  loStateDir :: string
  loTrustedProxy :: bool
  loProxyTokenFile :: string
  loReadOnly :: bool
  loShowVersion :: bool

definition defaultListenAddress :: string where "defaultListenAddress = ''127.0.0.1:50001''"
definition defaultStateDir :: string where "defaultStateDir = ''/var/lib/tunnelfolio''"
definition defaultRuntimeDir :: string where "defaultRuntimeDir = ''/run/tunnelfolio/imports''"

definition defaultOptions :: launchOptions where
  "defaultOptions = \<lparr>loListenAddress = defaultListenAddress, loStateDir = defaultStateDir, loTrustedProxy = False,
     loProxyTokenFile = [], loReadOnly = False, loShowVersion = False\<rparr>"

datatype flagValue =
    StringVar "string \<Rightarrow> launchOptions \<Rightarrow> launchOptions"
  | BoolVar "bool \<Rightarrow> launchOptions \<Rightarrow> launchOptions"

definition launchFlags :: "(string \<times> flagValue) list" where
  "launchFlags = [
     (''listen'', StringVar (\<lambda>v s. s\<lparr>loListenAddress := v\<rparr>)),
     (''state-dir'', StringVar (\<lambda>v s. s\<lparr>loStateDir := v\<rparr>)),
     (''trusted-proxy'', BoolVar (\<lambda>v s. s\<lparr>loTrustedProxy := v\<rparr>)),
     (''proxy-token-file'', StringVar (\<lambda>v s. s\<lparr>loProxyTokenFile := v\<rparr>)),
     (''read-only'', BoolVar (\<lambda>v s. s\<lparr>loReadOnly := v\<rparr>)),
     (''version'', BoolVar (\<lambda>v s. s\<lparr>loShowVersion := v\<rparr>))]"

text \<open>\<open>strconv.ParseBool\<close>\<close>

definition parseBool :: "string \<Rightarrow> bool option" where
  "parseBool s =
     (if s \<in> set [''1'', ''t'', ''T'', ''true'', ''TRUE'', ''True''] then Some True
      else if s \<in> set [''0'', ''f'', ''F'', ''false'', ''FALSE'', ''False''] then Some False else None)"

text \<open>A flag's text without its dashes: the name, and the value behind the first \<open>=\<close> that is not its first byte.\<close>

definition flagNameValue :: "string \<Rightarrow> string \<times> string option" where
  "flagNameValue s =
     (let name = hd s # takeWhile (\<lambda>c. c \<noteq> CHR ''='') (tl s)
      in (name, if length name < length s then Some (drop (length name + 1) s) else None))"

text \<open>\<open>FlagSet.Parse\<close>: the flags up to the first argument that is none, and the arguments that are left.\<close>

fun parseFlags :: "launchOptions \<Rightarrow> string list \<Rightarrow> goerr + launchOptions \<times> string list" where
  "parseFlags s [] = Inr (s, [])"
| "parseFlags s (a # rest) =
     (if length a < 2 \<or> hd a \<noteq> CHR ''-'' then Inr (s, a # rest)
      else if a = ''--'' then Inr (s, rest)
      else let text = (if a ! 1 = CHR ''-'' then drop 2 a else drop 1 a)
        in if text = [] \<or> hd text = CHR ''-'' \<or> hd text = CHR ''='' then Inl (ErrText ''bad flag syntax'')
        else case flagNameValue text of (name, given) \<Rightarrow>
          (case map_of launchFlags name of
             None \<Rightarrow> Inl (ErrText (if name = ''help'' \<or> name = ''h'' then ''flag: help requested''
               else ''flag provided but not defined''))
           | Some (BoolVar set_value) \<Rightarrow>
               (case given of
                  None \<Rightarrow> parseFlags (set_value True s) rest
                | Some v \<Rightarrow>
                    (case parseBool v of
                       None \<Rightarrow> Inl (ErrText ''invalid boolean value'')
                     | Some b \<Rightarrow> parseFlags (set_value b s) rest))
           | Some (StringVar set_value) \<Rightarrow>
               (case given of
                  Some v \<Rightarrow> parseFlags (set_value v s) rest
                | None \<Rightarrow>
                    (case rest of
                       [] \<Rightarrow> Inl (ErrText ''flag needs an argument'')
                     | v # rest \<Rightarrow> parseFlags (set_value v s) rest))))"

definition validateListenAddress :: "string \<Rightarrow> err" where
  "validateListenAddress address =
     (case splitHostPort address of
        None \<Rightarrow> Some (ErrText ''invalid listen address'')
      | Some (host, _) \<Rightarrow>
          if host = ''localhost'' \<or> (case parseIP host of None \<Rightarrow> False | Some ip \<Rightarrow> isLoopback ip) then None
          else Some (ErrText ''listen address must be loopback''))"

definition parseOptions :: "string list \<Rightarrow> goerr + launchOptions" where
  "parseOptions arguments =
     (case parseFlags defaultOptions arguments of
        Inl e \<Rightarrow> Inl e
      | Inr (result, rest) \<Rightarrow>
          if rest \<noteq> [] then Inl (ErrText ''unexpected arguments'')
          else if loShowVersion result then Inr result
          else case validateListenAddress (loListenAddress result) of
            Some e \<Rightarrow> Inl e
          | None \<Rightarrow>
              if loStateDir result = [] then Inl (ErrText ''--state-dir must not be empty'')
              else if loTrustedProxy result \<and> loProxyTokenFile result = []
              then Inl (ErrText ''--trusted-proxy requires --proxy-token-file'')
              else if \<not> loTrustedProxy result \<and> loProxyTokenFile result \<noteq> []
              then Inl (ErrText ''--proxy-token-file requires --trusted-proxy'')
              else if \<not> loTrustedProxy result \<and> \<not> loReadOnly result
              then Inl (ErrText ''mutable mode requires --trusted-proxy and --proxy-token-file'')
              else Inr result)"

section \<open>The token of the proxy\<close>

definition foreignAccess :: "32 word" where "foreignAccess = 0x3F"

definition tokenFileError :: "int \<Rightarrow> fstat \<Rightarrow> err" where
  "tokenFileError euid st =
     (if and (stMode st) S_IFMT \<noteq> S_IFREG \<or> and (stMode st) foreignAccess \<noteq> 0
      then Some (ErrText ''proxy token must be a private regular file'')
      else if euid = 0 \<and> stUid st \<noteq> 0 then Some (ErrText ''proxy token must be owned by root'')
      else None)"

definition tokenOf :: "string \<Rightarrow> goerr + string" where
  "tokenOf data =
     (let token = trimSpace data
      in if length token < 32 \<or> length token > 256
         then Inl (ErrText ''proxy token must contain 32 to 256 non-whitespace bytes'') else Inr token)"

definition LoadProxyToken ::
    "'w unix \<Rightarrow> int \<Rightarrow> (string \<Rightarrow> ('w, goerr + fstat) state) \<Rightarrow> string \<Rightarrow> ('w, goerr + string) state" where
  "LoadProxyToken K euid lstat path =
     (if path = [] then return (Inl (ErrText ''proxy token path is required''))
      else tryE (absPath K path) (\<lambda>absolute.
        checkE (if euid = 0
            then walkAncestors lstat ''inspect proxy token ancestor''
              ''proxy token ancestors must be root-owned directories not writable by group or world''
              (pathDir absolute)
            else return None)
          (tryE (uOpen K absolute readFlags) (\<lambda>fd.
             deferE (uClose K fd)
               (tryE (uFstat K fd) (\<lambda>info.
                  checkE (return (tokenFileError euid info))
                    (tryE (uReadAll K fd 257) (\<lambda>data. return (tokenOf data)))))))))"

section \<open>The backends\<close>

text \<open>The process: what the parts are built over.  The machine of the backends is the store's world with the OpenVPN
  state; \<open>leCommands\<close> are its commands, and \<open>leLibraryCommands\<close> the same ones for the import service, whose state is
  the store's world.\<close>

record ('w, 'o) launchEnv =
  leHttp :: "'w httpEnv"
  leStore :: "'w store"
  leRandom :: "nat \<Rightarrow> ('w, goerr + string) state"
  leLstat :: "string \<Rightarrow> ('w, goerr + fstat) state"
  leCompat :: "'w compatOS"
  leNow :: "('w \<times> 'o vpnState, goTime) state"
  leOrder :: "string list \<Rightarrow> string list"
  leTicks :: nat
  leCommands :: "('w \<times> 'o vpnState) commandOS"
  leLibraryCommands :: "'w commandOS"
  leOpenVPN :: "'o openVPNOptions"
  leListen :: "string \<Rightarrow> ('w, err) state"

definition leCrypto :: "('w, 'o) launchEnv \<Rightarrow> crypto" where
  "leCrypto E = sCrypto (leStore E)"

text \<open>The WireGuard backend, with the runner that observes and the one that may also bring interfaces up.\<close>

definition buildWireGuard ::
    "('w, 'o) launchEnv \<Rightarrow>
     ('w \<times> 'o vpnState, ('w \<times> 'o vpnState) backend option \<times> execRunner option \<times> execRunner option) state" where
  "buildWireGuard E = do {
     wg \<leftarrow> ResolveSecureCommand (leCommands E) ''wg'';
     case wg of
       Inl _ \<Rightarrow> return (None, None, None)
     | Inr wgPath \<Rightarrow> do {
         quick \<leftarrow> ResolveSecureCommand (leCommands E) ''wg-quick'';
         let paths = (case quick of Inl _ \<Rightarrow> [(''wg'', wgPath)]
               | Inr quickPath \<Rightarrow> [(''wg'', wgPath), (''wg-quick'', quickPath)]);
         let observer = (case NewPinnedExecRunner paths 0 of Inl _ \<Rightarrow> None | Inr r \<Rightarrow> Some r);
         let run = map_option (asCommandRunner (leCommands E)) observer;
         return (case quick of
             Inr _ \<Rightarrow> (Some (wireGuardBackend (NewWireGuardBackend (leCrypto E) (leTicks E) run 100000000)),
               observer, observer)
           | Inl _ \<Rightarrow> (Some (wireGuardBackend (NewWireGuardObservationBackend (leCrypto E) (leTicks E) run)),
               observer, None))
       }
   }"

definition buildOpenVPN ::
    "('w, 'o) launchEnv \<Rightarrow> ('w \<times> 'o vpnState, ('w \<times> 'o vpnState) backend option) state" where
  "buildOpenVPN E = do {
     command \<leftarrow> ResolveSecureCommand (leCommands E) ''openvpn'';
     case command of
       Inl _ \<Rightarrow> return None
     | Inr path \<Rightarrow> zoom snd (\<lambda>n (w, _). (w, n)) (do {
         r \<leftarrow> OpenVPNProcess.onOS (NewOpenVPNBackend
           ((leOpenVPN E)\<lparr>voCommand := path, voReadyTimeout := DefaultTimeout\<rparr>) None);
         case r of
           Inl _ \<Rightarrow> return None
         | Inr V \<Rightarrow> do {
             r \<leftarrow> NewOpenVPNAdapter (Some V);
             return (case r of Inl _ \<Rightarrow> None | Inr V \<Rightarrow> Some (openVPNAdapter V))
           }
       })
   }"

definition buildBackends ::
    "('w, 'o) launchEnv \<Rightarrow>
     ('w \<times> 'o vpnState, (string \<times> ('w \<times> 'o vpnState) backend option) list \<times> execRunner option \<times> execRunner option) state" where
  "buildBackends E = do {
     (wireGuard, observer, runner) \<leftarrow> buildWireGuard E;
     openVPN \<leftarrow> buildOpenVPN E;
     return ((case wireGuard of None \<Rightarrow> [] | Some b \<Rightarrow> [(ProtocolWireGuard, Some b)]) @
         (case openVPN of None \<Rightarrow> [] | Some b \<Rightarrow> [(ProtocolOpenVPN, Some b)]), observer, runner)
   }"

section \<open>The import service's collaborators\<close>

definition compatibilityCheck :: "('w, 'o) launchEnv \<Rightarrow> execRunner option \<Rightarrow> string \<Rightarrow> ('w, err) state" where
  "compatibilityCheck E runner data =
     (case runner of
        None \<Rightarrow> return (Some (Sentinel ErrUnavailable))
      | Some r \<Rightarrow> CheckWireGuard (leCompat E)
          \<lparr>ccRunner = Some (asCommandRunner (leLibraryCommands E) r), ccRuntimeDir = defaultRuntimeDir,
           ccTimeout = 10 * second\<rparr> data)"

definition runtimeNameAvailable ::
    "('w, 'o) launchEnv \<Rightarrow> execRunner \<Rightarrow> string \<Rightarrow> ('w, goerr + bool) state" where
  "runtimeNameAvailable E observer identifier = do {
     (output, e) \<leftarrow> runner_Run (leLibraryCommands E) observer ''wg'' [''show'', ''interfaces''];
     return (if e \<noteq> None then Inl (Sentinel ErrObservationFailed)
       else Inr (identifier \<notin> set (stringFields output)))
   }"

section \<open>Running\<close>

text \<open>The calls of \<open>run\<close> on the file system of the store.\<close>

definition onLibrary :: "('w, 'a) state \<Rightarrow> ('w \<times> 'n, 'a) state" where
  "onLibrary = zoom fst (\<lambda>w (_, n). (w, n))"

definition assemble ::
    "('w, 'o) launchEnv \<Rightarrow> launchOptions \<Rightarrow> 'w store \<Rightarrow>
     ('w \<times> 'o vpnState, goerr + ('w, 'o vpnState) server) state" where
  "assemble E options S = do {
     (backends, observer, runner) \<leftarrow> buildBackends E;
     tryE (return (manager_New (leNow E) (leOrder E)
         \<lparr>moStore = Some S, moBackends = backends, moReadOnly = loReadOnly options, moNow = None, moTimeout = 0\<rparr>))
       (\<lambda>M.
     tryE (onLibrary (NewImportService (Some S) (leRandom E) (heNow (leHttp E)) (Some (compatibilityCheck E runner))
         (map_option (runtimeNameAvailable E) observer) (Some libraryAdmission))) (\<lambda>imports.
     tryE (onLibrary (if loTrustedProxy options
         then wrapE ''load proxy token''
           (LoadProxyToken (heKernel (leHttp E)) (heUID (leHttp E)) (leLstat E) (loProxyTokenFile options))
         else return (Inr []))) (\<lambda>token.
     tryE (return (http_New \<lparr>woManager = Some M, woImports = Some imports, woRuntimeDir = defaultRuntimeDir,
         woTrustedProxy = loTrustedProxy options, woProxyToken = token, woReadOnly = loReadOnly options\<rparr>)) (\<lambda>sv.
     checkE (onLibrary (wrapErr ''bind Tunnelfolio listener'' (leListen E (loListenAddress options))))
       (return (Inr sv))))))
   }"

text \<open>\<open>run\<close> up to the listener: the server and its first state.  The deferred \<open>Close\<close> of the store comes with an
  early return here, and otherwise at the end of \<open>finish\<close>.\<close>

definition run ::
    "('w, 'o) launchEnv \<Rightarrow> launchOptions \<Rightarrow>
     ('w \<times> 'o vpnState, goerr + ('w, 'o vpnState) server \<times> fd \<times> manifest) state" where
  "run E options =
     (if \<not> loReadOnly options \<and> heUID (leHttp E) \<noteq> 0
      then return (Inl (ErrText ''mutable mode requires root privileges''))
      else tryE (onLibrary (OpenStore ((leStore E)\<lparr>sRoot := loStateDir options,
          sRequiredUID := heUID (leHttp E), sReadOnly := loReadOnly options\<rparr>))) (\<lambda>(S, lock, m). do {
        r \<leftarrow> assemble E options S;
        case r of
          Inl e \<Rightarrow> do { _ \<leftarrow> onLibrary (store_Close S lock); return (Inl e) }
        | Inr sv \<Rightarrow> return (Inr (sv, lock, m))
      }))"

definition launchedState :: "manifest \<Rightarrow> 'w \<times> 'o vpnState \<Rightarrow> ('w, 'o vpnState) webState" where
  "launchedState m x = openedWeb (initialState (openedState m (fst x)) (snd x))"

text \<open>The end of \<open>run\<close>: a signal, with the error of \<open>http.Server.Shutdown\<close>, or the error the server ended with.\<close>

datatype serverEnd = SignalReceived err | ServeReturned goerr

definition finish :: "('w, 'n) server \<Rightarrow> fd \<Rightarrow> serverEnd \<Rightarrow> (('w, 'n) webState, err) state" where
  "finish sv lock ending =
     deferE (onKernel (store_Close (mgStore (svManager sv)) lock))
       (case ending of
          SignalReceived e \<Rightarrow> do {
            f \<leftarrow> onManager (manager_Shutdown (svManager sv));
            return (errorsJoin [e, f])
          }
        | ServeReturned e \<Rightarrow>
            if errorsIs e HttpErrServerClosed then return None
            else do {
              f \<leftarrow> onManager (manager_Shutdown (svManager sv));
              return (errorsJoin [Some e, f])
            })"

section \<open>The program\<close>

text \<open>The machine from the moment the server listens to the end of \<open>run\<close>.  \<open>serving\<close> is what the server and the startup
  reconciliation do until a signal comes or the server ends; the requests among it are the ones of \<open>serve\<close>.\<close>

definition served ::
    "(('w, 'o vpnState) server \<Rightarrow> (('w, 'o vpnState) webState, serverEnd) state) \<Rightarrow>
     ('w, 'o vpnState) server \<Rightarrow> fd \<Rightarrow> manifest \<Rightarrow> ('w \<times> 'o vpnState, err) state" where
  "served serving sv lock m =
     State (\<lambda>x. case run_state (do { ending \<leftarrow> serving sv; finish sv lock ending }) (launchedState m x) of
       (e, s) \<Rightarrow> (e, machine (wsManager s)))"

datatype programEnd = LogFatal goerr | VersionPrinted | Returned

definition main ::
    "('w, 'o) launchEnv \<Rightarrow> (('w, 'o vpnState) server \<Rightarrow> (('w, 'o vpnState) webState, serverEnd) state) \<Rightarrow>
     string list \<Rightarrow> ('w \<times> 'o vpnState, programEnd) state" where
  "main E serving arguments =
     (case parseOptions arguments of
        Inl e \<Rightarrow> return (LogFatal e)
      | Inr options \<Rightarrow>
          if loShowVersion options then return VersionPrinted
          else do {
            r \<leftarrow> run E options;
            e \<leftarrow> (case r of Inl e \<Rightarrow> return (Some e) | Inr (sv, lock, m) \<Rightarrow> served serving sv lock m);
            return (case e of None \<Rightarrow> Returned | Some e \<Rightarrow> LogFatal e)
          })"

end
