(* ===== verification/LaunchProperties.thy ===== *)
theory LaunchProperties
  imports Launch SampleKernel OpenVPNContract
begin

text \<open>
  What a command line that is accepted leads to.  The server that \<open>run\<close> builds is \<open>wired\<close>, which is a hypothesis of
  the theorem on the reachable states of a server, and it takes mutations only behind the proxy.
\<close>

section \<open>The parts\<close>

lemma manager_New_Inr:
  "manager_New now order options = Inr M \<Longrightarrow> moStore options = Some (mgStore M) \<and> mgReadOnly M = moReadOnly options"
  by (auto simp: manager_New_def split: option.splits) (cases "registerBackends (moBackends options)", auto)+

lemma NewImportService_wp:
  "wp (NewImportService st random now checker available admission)
     (\<lambda>r _. \<forall>I. r = Inr I \<longrightarrow> Some (isStore I) = st \<and> isCommitAdmission I = admission) w"
  unfolding NewImportService_def by (auto simp: wp_simps split: option.splits sum.splits intro!: wp_any)

lemma tokenOf_Inr: "tokenOf data = Inr token \<Longrightarrow> 32 \<le> length token \<and> length token \<le> 256"
  by (auto simp: tokenOf_def Let_def split: if_splits)

lemma LoadProxyToken_wp:
  "wp (LoadProxyToken K euid lstat path) (\<lambda>r _. \<forall>token. r = Inr token \<longrightarrow> 32 \<le> length token) w"
  unfolding LoadProxyToken_def
  by (auto simp: wp_simps dest!: tokenOf_Inr split: sum.splits option.splits intro!: wp_any)

lemma parseOptions_Inr:
  assumes "parseOptions arguments = Inr options" "\<not> loShowVersion options"
  shows "validateListenAddress (loListenAddress options) = None"
    "loTrustedProxy options \<or> loReadOnly options"
  using assms by (auto simp: parseOptions_def split: sum.splits prod.splits if_splits option.splits)

lemma validateListenAddress_None:
  "validateListenAddress address = None \<longleftrightarrow> (\<exists>host port. splitHostPort address = Some (host, port) \<and>
     (host = ''localhost'' \<or> (\<exists>ip. parseIP host = Some ip \<and> isLoopback ip)))"
  by (auto simp: validateListenAddress_def split: option.splits if_splits)

definition built :: "launchOptions \<Rightarrow> ('w, 'n) server \<Rightarrow> bool" where
  "built options sv \<longleftrightarrow> wired sv \<and> svTrustedProxy sv = loTrustedProxy options \<and>
     svReadOnly sv = loReadOnly options \<and> mgReadOnly (svManager sv) = loReadOnly options \<and>
     (loTrustedProxy options \<longrightarrow> 32 \<le> length (svProxyToken sv))"

lemma http_New_built:
  assumes "http_New \<lparr>woManager = Some M, woImports = Some I, woRuntimeDir = dir,
      woTrustedProxy = loTrustedProxy options, woProxyToken = token, woReadOnly = loReadOnly options\<rparr> = Inr sv"
    and "isStore I = mgStore M" "isCommitAdmission I = Some libraryAdmission" "mgReadOnly M = loReadOnly options"
    and "loTrustedProxy options \<longrightarrow> 32 \<le> length token"
  shows "built options sv"
  using assms by (auto simp: http_New_def built_def wired_def split: if_splits)

lemma wp_onLibrary: "wp m (\<lambda>r _. Q r) (fst s) \<Longrightarrow> wp (onLibrary m) (\<lambda>r _. Q r) s"
  by (cases s) (simp add: onLibrary_def wp_zoom)

lemma assemble_wp: "wp (assemble E options S) (\<lambda>r _. \<forall>sv. r = Inr sv \<longrightarrow> built options sv) s"
proof -
  let ?Q = "\<lambda>r _. \<forall>sv. r = Inr sv \<longrightarrow> built options sv"
  let ?server = "\<lambda>M imports token. tryE (return (http_New \<lparr>woManager = Some M, woImports = Some imports,
      woRuntimeDir = defaultRuntimeDir, woTrustedProxy = loTrustedProxy options, woProxyToken = token,
      woReadOnly = loReadOnly options\<rparr>)) (\<lambda>sv.
    checkE (onLibrary (wrapErr ''bind Tunnelfolio listener'' (leListen E (loListenAddress options))))
      (return (Inr sv)))"
  let ?token = "onLibrary (if loTrustedProxy options then wrapE ''load proxy token''
        (LoadProxyToken (heKernel (leHttp E)) (heUID (leHttp E)) (leLstat E) (loProxyTokenFile options))
      else return (Inr []))"
  have token: "wp ?token (\<lambda>r _. \<forall>token. r = Inr token \<longrightarrow> loTrustedProxy options \<longrightarrow> 32 \<le> length token) t" for t
    by (rule wp_onLibrary) (auto simp: wp_wrapE wp_return intro!: wp_mono [OF LoadProxyToken_wp])
  have server: "wp (?server M I token) ?Q t"
    if "isStore I = mgStore M" "isCommitAdmission I = Some libraryAdmission" "mgReadOnly M = loReadOnly options"
      "loTrustedProxy options \<longrightarrow> 32 \<le> length token" for M I token t
    using http_New_built [OF _ that]
    by (auto simp: wp_tryE wp_return wp_checkE split: sum.split option.split intro!: wp_any)
  have rest: "wp (tryE ?token (?server M I)) ?Q t"
    if "isStore I = mgStore M" "isCommitAdmission I = Some libraryAdmission" "mgReadOnly M = loReadOnly options"
    for M I t
    unfolding wp_tryE [of ?token]
    by (rule wp_mono [OF token]) (auto intro!: server that split: sum.split)
  have service: "wp (tryE (onLibrary (NewImportService (Some S) (leRandom E) (heNow (leHttp E))
        (Some (compatibilityCheck E runner)) (map_option (runtimeNameAvailable E) observer) (Some libraryAdmission)))
      (\<lambda>I. tryE ?token (?server M I))) ?Q t"
    if "mgStore M = S" "mgReadOnly M = loReadOnly options" for M runner observer t
    unfolding wp_tryE [of "onLibrary (NewImportService _ _ _ _ _ _)"]
  proof (rule wp_mono [OF wp_onLibrary [OF NewImportService_wp]], goal_cases)
    case (1 r u)
    show ?case
    proof (cases r)
      case (Inr I)
      show ?thesis unfolding Inr sum.case by (rule rest) (use 1 that Inr in auto)
    qed simp
  qed
  show ?thesis
    unfolding assemble_def wp_bind [of "buildBackends E"]
  proof (rule wp_any, goal_cases)
    case (1 a t)
    obtain backends observer runner where a: "a = (backends, observer, runner)" by (cases a)
    let ?New = "manager_New (leNow E) (leOrder E) \<lparr>moStore = Some S, moBackends = backends,
      moReadOnly = loReadOnly options, moNow = None, moTimeout = 0\<rparr>"
    show ?case
    proof (cases ?New)
      case (Inr M)
      show ?thesis
        unfolding a prod.case Inr wp_tryE [of "return (Inr M)"] wp_return sum.case
        by (rule service) (use manager_New_Inr [OF Inr] in auto)
    qed (simp add: a wp_tryE wp_return)
  qed
qed

lemma body_built:
  "wp (do {
      r \<leftarrow> assemble E options S;
      case r of
        Inl e \<Rightarrow> do { _ \<leftarrow> onLibrary (store_Close S lock); return (Inl e) }
      | Inr sv \<Rightarrow> return (Inr (sv, lock, m)) })
     (\<lambda>r _. \<forall>sv lock m. r = Inr (sv, lock, m) \<longrightarrow> built options sv) t"
  unfolding wp_bind [of "assemble E options S"]
  by (rule wp_mono [OF assemble_wp]) (auto simp: wp_bind wp_return split: sum.split intro!: wp_any)

lemma run_built:
  "wp (run E options) (\<lambda>r _. \<forall>sv lock m. r = Inr (sv, lock, m) \<longrightarrow>
     built options sv \<and> (loReadOnly options \<or> heUID (leHttp E) = 0)) s"
  unfolding run_def wp_if wp_return
  by (auto intro!: wp_tryE_any wp_mono [OF body_built])

text \<open>C39: whatever the arguments and the machine, the server of an accepted command line listens on a loopback
  address, and either changes nothing, or runs as root behind the trusted proxy with a token of at least 32 bytes.
  Its import service works on the manager's store and asks the manager before it commits.\<close>
theorem launched_server_is_guarded:
  assumes "parseOptions arguments = Inr options" and "\<not> loShowVersion options"
  shows "wp (run E options) (\<lambda>r _. \<forall>sv lock m. r = Inr (sv, lock, m) \<longrightarrow>
     (\<exists>host port. splitHostPort (loListenAddress options) = Some (host, port) \<and>
        (host = ''localhost'' \<or> (\<exists>ip. parseIP host = Some ip \<and> isLoopback ip))) \<and>
     (svReadOnly sv \<and> mgReadOnly (svManager sv) \<or>
      svTrustedProxy sv \<and> 32 \<le> length (svProxyToken sv) \<and> heUID (leHttp E) = 0) \<and>
     wired sv) s"
proof -
  note opts = parseOptions_Inr [OF assms]
  show ?thesis
    by (rule wp_mono [OF run_built])
      (use opts validateListenAddress_None [of "loListenAddress options"] in \<open>auto simp: built_def\<close>)
qed

text \<open>No other server is ever served: what the program does with one that is not guarded makes no difference.\<close>

lemma main_serves_guarded:
  assumes "\<And>sv. svReadOnly sv \<or> svTrustedProxy sv \<and> 32 \<le> length (svProxyToken sv) \<Longrightarrow> serving sv = serving' sv"
  shows "main E serving arguments = main E serving' arguments"
proof (cases "parseOptions arguments")
  case (Inr options)
  show ?thesis
  proof (cases "loShowVersion options")
    case False
    show ?thesis
    proof (rule state_ext)
      fix s
      obtain r t where r: "run_state (run E options) s = (r, t)" by (cases "run_state (run E options) s")
      have "serving sv = serving' sv" if "r = Inr (sv, lock, m)" for sv lock m
        using wp_runD [OF run_built r] that parseOptions_Inr [OF Inr False] assms [of sv] by (auto simp: built_def)
      then show "run_state (main E serving arguments) s = run_state (main E serving' arguments) s"
        by (auto simp: main_def Inr False r served_def split: sum.split)
    qed
  qed (simp add: main_def Inr)
qed (simp add: main_def)

section \<open>A launch\<close>

definition sampleArguments :: "string list" where
  "sampleArguments = [''--trusted-proxy'', ''-proxy-token-file=/etc/tunnelfolio/token'', ''--listen'', ''[::1]:50001'']"

definition sampleOptions :: launchOptions where
  "sampleOptions = defaultOptions\<lparr>loListenAddress := ''[::1]:50001'', loTrustedProxy := True,
     loProxyTokenFile := ''/etc/tunnelfolio/token''\<rparr>"

text \<open>The token's file is open as descriptor 4 and holds 40 bytes and a line end.\<close>

definition tokenKernel :: "unit unix" where
  "tokenKernel = steadyKernel\<lparr>uOpen := (\<lambda>p flags. return (Inr 4)),
     uReadAll := (\<lambda>fd n. return (Inr (replicate 40 CHR ''k'' @ [CHR 0x0A])))\<rparr>"

definition launchCodec :: httpCodec where
  "launchCodec = \<lparr>hcMediaType = (\<lambda>t. Some (t, [])), hcParseURL = (\<lambda>_. None), hcTokens = (\<lambda>s. ([], None)),
     hcString = (\<lambda>s. Inr (s, [])), hcMetadataPatch = (\<lambda>_. Inl (ErrText []))\<rparr>"

definition launchHttp :: "unit httpEnv" where
  "launchHttp = \<lparr>heKernel = tokenKernel, heUID = 0,
     heNow = return \<lparr>tSeconds = 1700000002, tNanos = 0, tUTC = False\<rparr>, heTables = plainTables,
     heCodec = launchCodec, heMultipart = (\<lambda>b body. ([], None)), heOverrides = (\<lambda>_. Inr ([], [])),
     heRecords = (\<lambda>_. Inr ([], [])), heMetadata = (\<lambda>_. Inr ([], True))\<rparr>"

definition sampleLaunch :: "(unit, bool) launchEnv" where
  "sampleLaunch = \<lparr>leHttp = launchHttp, leStore = steadyStore, leRandom = (\<lambda>n. return (Inr (replicate n CHR ''r''))),
     leLstat = (\<lambda>p. return (Inr (the (sampleLook p)))),
     leCompat = \<lparr>cpEnsurePrivateDir = (\<lambda>_. return None), cpMkdirTemp = (\<lambda>d p. return (Inr (d @ ''/'' @ p))),
       cpRemoveAll = (\<lambda>_. return None), cpChmod = (\<lambda>_ _. return None), cpWriteFile = (\<lambda>_ _ _. return None)\<rparr>,
     leNow = return \<lparr>tSeconds = 1700000002, tNanos = 0, tUTC = False\<rparr>, leOrder = id, leTicks = 3,
     leCommands = sampleCommands, leLibraryCommands = sampleCommands, leOpenVPN = sampleVpn,
     leListen = (\<lambda>_. return None)\<rparr>"

definition idleVpn :: "bool vpnState" where
  "idleVpn = \<lparr>vOS = False, vProcs = [], vProc = None, vLastExitError = [], vUnexpectedExit = False, vLog = [],
     vExitHandler = False, vCurrent = noTunnelProfile, vHandler = False\<rparr>"

lemma sample_parsed: "parseOptions sampleArguments = Inr sampleOptions"
  by code_simp

lemma sample_launched:
  "case fst (run_state (run sampleLaunch sampleOptions) ((), idleVpn)) of
     Inl e \<Rightarrow> False | Inr (sv, lock, m) \<Rightarrow> lock = 4 \<and> \<not> svReadOnly sv"
  by code_simp

theorem launched_server_is_guarded_witness:
  "case fst (run_state (run sampleLaunch sampleOptions) ((), idleVpn)) of
     Inl e \<Rightarrow> False | Inr (sv, lock, m) \<Rightarrow> wired sv \<and> svTrustedProxy sv \<and> 32 \<le> length (svProxyToken sv)"
proof -
  have "\<not> loShowVersion sampleOptions" by (simp add: sampleOptions_def defaultOptions_def)
  moreover obtain r t where r: "run_state (run sampleLaunch sampleOptions) ((), idleVpn) = (r, t)"
    by (cases "run_state (run sampleLaunch sampleOptions) ((), idleVpn)")
  ultimately show ?thesis
    using wp_runD [OF launched_server_is_guarded [OF sample_parsed] r] sample_launched
    by (auto split: sum.splits)
qed

end
