(* ===== verification/Spec2Isabelle.thy ===== *)
theory Spec2Isabelle
  imports StoreProperties ManagerProperties WireGuardProperties ImportProperties DiagnosticsProperties
    OpenVPNConfigProperties OpenVPNSignals OpenVPNContract HttpProperties LaunchProperties
begin

text \<open>
  Tunnelfolio keeps a library of OpenVPN and WireGuard client profiles on one Linux host and runs at most
  one of them.  This development models the Go program and proves what makes it correct.

  \<^bold>\<open>The program.\<close>  A profile arrives as an uploaded file.  The import service
  (\<open>internal/profiles/import.go\<close>) inspects it against the import policies
  (\<open>openvpn_policy.go\<close>, \<open>wireguard_policy.go\<close>, \<open>policy.go\<close>), answers with a signed receipt, and on a later
  request with that receipt commits it.  The store (\<open>store.go\<close>) holds the manifest (\<open>model.go\<close>) and the profile
  objects, and changes them on disk through the private file operations (\<open>internal/securefs\<close>).  The manager
  (\<open>internal/manager\<close>) owns the lifecycle: it asks the backends of the two protocols (\<open>internal/tunnel\<close>) what is
  up, stops and starts tunnels, and records the outcome in the store.  The import service holds the
  manager's gate while it works, so that a library change and a transition exclude each other.  The HTTP server
  (\<open>internal/httpapi\<close>) is how anything reaches the manager and the import service: behind an authenticating proxy,
  or read-only.  The command (\<open>cmd/tunnelfolio\<close>) reads its options and puts the parts together.

  \<^bold>\<open>Conventions.\<close>  \<open>Prelude\<close> and \<open>Effects\<close>: a Go error is a value of \<open>goerr\<close>, \<open>nil\<close> is \<open>None\<close>, a function
  that returns a value and an error is a sum, stateful code is a computation of the state monad with a
  calculus of weakest preconditions (\<open>wp\<close>), and early returns and deferred calls are the combinators \<open>tryE\<close>,
  \<open>checkE\<close>, \<open>openE\<close>, \<open>thenE\<close> and \<open>deferE\<close>.  \<open>GoText\<close>, \<open>GoPath\<close>, \<open>GoNet\<close>, \<open>GoTime\<close> and \<open>Encoding\<close> model what the
  program uses of the standard library: UTF-8, runes and numbers, \<open>path/filepath\<close>, \<open>net/netip\<close>, RFC 3339 and the
  byte encodings.  A string is a list of bytes.

  \<^bold>\<open>Theories and code.\<close>
  \<^item> \<open>Model\<close>: \<open>model.go\<close>.  \<open>manifest_validation_decides\<close> says that validation accepts exactly the well-formed
    manifests; identifiers and the recents list have theorems of their own.
  \<^item> \<open>OpenVPNPolicy\<close>, \<open>WireGuardPolicy\<close>, \<open>Policy\<close>: the three policy files.  An accepted file holds permitted
    directives only, at every logical line outside its inline blocks.
  \<^item> \<open>SecureFs\<close>: \<open>securefs.go\<close> over a record \<open>'w unix\<close> of system calls.  What \<open>WriteJSONAtomic\<close> answers is settled:
    durable only if published, an error without a publication leaves nothing behind.
  \<^item> \<open>Store\<close>, \<open>StoreLaws\<close>, \<open>StoreSteps\<close>, \<open>StoreProperties\<close>: \<open>store.go\<close>.  Each operation is one step, since it
    holds \<open>s.mu\<close> throughout.  \<open>StoreLaws\<close> has the contract of each operation on any kernel, \<open>StoreSteps\<close> the
    state machine and its invariant, the manifest in memory is always well-formed.
  \<^item> \<open>Import\<close>, \<open>ReceiptLaws\<close>, \<open>ImportLaws\<close>, \<open>InspectLaws\<close>, \<open>ImportProperties\<close>: \<open>import.go\<close>.  A receipt binds
    everything that was inspected, an unchanged library honours it, a commit publishes exactly what it binds.
  \<^item> \<open>Tunnel\<close>: \<open>types.go\<close>, the interface of a backend as a record of computations.
  \<^item> \<open>Manager\<close>, \<open>ManagerViews\<close>: \<open>manager.go\<close>.  \<open>ManagerLaws\<close>, \<open>ConnectLaws\<close> and \<open>TransitionLaws\<close> give the outcome
    of each transition, \<open>ManagerSteps\<close> the state machine; \<open>ManagerProperties\<close> has the theorems, first of all
    that at most one tunnel is up in every reachable state.
  \<^item> \<open>WireGuard\<close>, \<open>WireGuardLaws\<close>, \<open>WireGuardProperties\<close>: \<open>wireguard.go\<close> over a command runner whose calls are
    logged; what is reported as up or down has been seen.
  \<^item> \<open>OpenVPNConfig\<close>, \<open>OpenVPNConfigProperties\<close>: \<open>openvpn_config.go\<close>, the inspection before a start; every secret
    file of a passed profile lies in private directories below the profile's own.
  \<^item> \<open>Diagnostics\<close>, \<open>DiagnosticsProperties\<close>: the reader of OpenVPN's output in \<open>openvpn.go\<close> and the bounded buffer
    of \<open>runner.go\<close>; only the stream matters, not how it is cut into reads.
  \<^item> \<open>OpenVPNProcess\<close>: \<open>openvpn.go\<close> and \<open>openvpn_adapter.go\<close> over a record of system calls.  \<open>OpenVPNSignals\<close>: every
    signal goes to a member of the session the process leads, whose identity was read again.  \<open>OpenVPNSession\<close> and
    \<open>OpenVPNContract\<close>: the adapter keeps the contract of a backend, so the manager's theorems hold of it.
  \<^item> \<open>CommandRunner\<close>: \<open>runner.go\<close> and \<open>wireguard_compatibility.go\<close>; a resolved command is root's alone.
  \<^item> \<open>HttpRequests\<close>, \<open>ImportStaging\<close>, \<open>HttpServer\<close>: \<open>security.go\<close>, \<open>json.go\<close>, \<open>metadata.go\<close>, \<open>multipart.go\<close>, \<open>server.go\<close>
    and \<open>internal/web/embed.go\<close>.  \<open>HttpLaws\<close> shows that every handler leaves the manager's invariant and all gates
    as they were, \<open>HttpProperties\<close> lifts that to the states between requests and shows that a refused request
    changes nothing.
  \<^item> \<open>Launch\<close>, \<open>LaunchProperties\<close>: \<open>options.go\<close>, \<open>main.go\<close> and \<open>LoadProxyToken\<close>.  The server that is launched satisfies
    the hypothesis \<open>wired\<close> of the theorem about the server's states.
  \<^item> \<open>SampleKernel\<close>, \<open>SampleManager\<close>: concrete instances that show the hypotheses of the theorems can hold.

  \<^bold>\<open>Hypotheses.\<close>  The kernel, the network, the commands, the clock, the entropy, SHA-256, X25519, HMAC, the JSON
  codec and the Unicode case tables are parameters.  Named hypotheses: \<open>backendLaws\<close>, the contract a backend owes
  the manager (an observation without an error misses no tunnel that is up, a stop without an error ends the
  tunnel, a start adds at most its own); \<open>plainErrors\<close>, a backend does not answer with the manager's own
  conflict error; \<open>covered\<close>, only tunnels of the library are up at the beginning; \<open>readsExactly\<close> and \<open>hashes\<close>, the
  entropy source returns as many bytes as it was asked for and SHA-256 has 32 bytes; \<open>fileLaws\<close>, a descriptor
  names the path it was opened with; \<open>systemLaws\<close>, the calls of the OpenVPN backend other than its spawn start no
  process (\<open>quietSystem\<close>), a listing of \<open>/proc\<close> shows the living members of a session (\<open>shownMembers\<close>), and a spawned
  process leads a session of its own (\<open>spawnLaws\<close>); \<open>answersLike\<close>, \<open>stat\<close> and \<open>lstat\<close> look at one file system; \<open>wired\<close>, the
  import service uses the manager's store and asks the manager before a commit, as \<open>run\<close> arranges it.

  \<^bold>\<open>Bounds.\<close>  Loops over data are structural or have a measure; no theorem is of the form "if it returns".  A poll
  that waits for a timer recurses on the number of timers that fire before its deadline (\<open>wgTicks\<close>), which is the
  environment's choice, so the theorems hold for every number; the same goes for the looks at a starting or stopping
  OpenVPN process (\<open>voReadyLooks\<close>, \<open>voStopLooks\<close>).  Each call of the JSON reader takes a token, so it is given two
  calls more than there are tokens, and \<open>duplicate_keys_decided\<close> shows that this is enough.  The generation of identifiers tries 128 times as
  the code does.  Removing a directory tree holds one descriptor per level, so its depth is bounded by the
  descriptor limit \<open>uMaxOpen\<close>; beyond it the kernel answers \<open>EMFILE\<close>.

  \<^bold>\<open>Auxiliary state.\<close>  \<open>trackedAdapter\<close> carries the identifier of the last profile handed to the adapter, which the
  code does not keep; it only names in the contract whose tunnel is up.

  \<^bold>\<open>Not modelled.\<close>  Goroutine scheduling inside a critical section, and requests that overlap in time: a request is
  one step, and what overlapping requests share are the gates, whose refusals are modelled.  Contexts and deadlines
  as values (running into one is an error the environment may return), the text of formatted values in messages,
  the routing of \<open>gin\<close> and the marshalling of answers, the timeouts of \<open>http.Server\<close>, the signal
  context of \<open>main\<close> (what is served until it ends is a parameter), the embedded browser interface (JavaScript), the installer and release scripts and the tests.
\<close>

end
